(* ===== verification/Prelude.thy ===== *)
theory Prelude
  imports Main "HOL-Library.Char_ord" "HOL-Library.Monad_Syntax" "HOL-Library.Multiset"
    "HOL-Library.Code_Target_Nat"
begin

unbundle bit_operations_syntax

text \<open>
  What the component theories share: the names of the model's basic types, the error monad of
  the crate (\<open>sdks/rust/src/error.rs\<close>), fixed-width integer conversions, the slice and string
  operations of the Rust standard library that the crate uses, and the collections of lemmas
  (\<open>accept\<close>, \<open>slice\<close>, \<open>order\<close>) that the proofs of the components name.

  A byte (\<open>u8\<close>) is Isabelle's \<open>char\<close>, which has exactly the 256 byte values; \<open>of_char\<close> reads it
  as a number and \<open>char_of\<close> on \<open>nat\<close> is the truncating cast \<open>as u8\<close>. Byte strings and Rust
  \<open>String\<close>s are lists of bytes; a \<open>String\<close> is one that \<open>utf8_valid\<close> accepts (theory Unicode).
\<close>

section \<open>Names and collections\<close>

type_synonym u8 = char
type_synonym bytes = "char list"

named_theorems accept \<open>when a checked step returns a value\<close>
named_theorems slice \<open>splitting, joining and searching byte slices\<close>
named_theorems order \<open>sorting by a comparison function\<close>

section \<open>The single error\<close>

text \<open>
  \<open>Result<T> = std::result::Result<T, Invalid>\<close> where \<open>Invalid\<close> is a unit struct: the error carries
  no value, so a result is an \<open>option\<close>, \<open>None\<close> being \<open>Err(Invalid)\<close>. The operator \<open>?\<close> is the bind of
  the option monad; \<open>if c { return Err(Invalid); }\<close> is \<open>reject_if c\<close>.
\<close>

type_synonym 'a result = "'a option"

abbreviation (input) Invalid :: "'a result" where "Invalid \<equiv> None"

definition reject_if :: "bool \<Rightarrow> unit result" where
  "reject_if c = (if c then None else Some ())"

lemma reject_if_simps [simp]:
  "reject_if True = None" "reject_if False = Some ()"
  by (simp_all add: reject_if_def)

lemma reject_if_Some [accept, simp]: "reject_if c = Some u \<longleftrightarrow> \<not> c"
  by (simp add: reject_if_def)

lemma reject_if_None [simp]: "reject_if c = None \<longleftrightarrow> c"
  by (simp add: reject_if_def)

lemma bind_reject [simp]: "(reject_if c \<bind> f) = (if c then None else f ())"
  by (simp add: reject_if_def)

lemma if_Some [accept]:
  "(if c then None else x) = Some y \<longleftrightarrow> \<not> c \<and> x = Some y"
  "(if c then x else None) = Some y \<longleftrightarrow> c \<and> x = Some y"
  by auto

lemmas bind_Some [accept] = Option.bind_eq_Some_conv

section \<open>Fixed-width integers\<close>

text \<open>
  \<open>u64\<close> and \<open>usize\<close> values are \<open>nat\<close> and \<open>i64\<close> values are \<open>int\<close>; where the code uses checked or
  truncating operations their width is written out here.
\<close>

definition i64_min :: int where "i64_min = - (2 ^ 63)"
definition i64_max :: int where "i64_max = 2 ^ 63 - 1"

definition is_i64 :: "int \<Rightarrow> bool" where
  "is_i64 n \<longleftrightarrow> i64_min \<le> n \<and> n \<le> i64_max"

definition checked_add_i64 :: "int \<Rightarrow> int \<Rightarrow> int option" where
  "checked_add_i64 a b = (if is_i64 (a + b) then Some (a + b) else None)"

definition checked_sub_i64 :: "int \<Rightarrow> int \<Rightarrow> int option" where
  "checked_sub_i64 a b = (if is_i64 (a - b) then Some (a - b) else None)"

definition unwrap_or :: "'a option \<Rightarrow> 'a \<Rightarrow> 'a" where
  "unwrap_or x d = (case x of None \<Rightarrow> d | Some y \<Rightarrow> y)"

text \<open>The cast \<open>as i64\<close> of a \<open>u64\<close> reads the 64 bits in two's complement.\<close>

definition u64_as_i64 :: "nat \<Rightarrow> int" where
  "u64_as_i64 n = (let k = int n mod 2 ^ 64 in if k < 2 ^ 63 then k else k - 2 ^ 64)"

text \<open>The cast \<open>as u64\<close> of an \<open>i64\<close> reads the 64 bits unsigned.\<close>

definition i64_as_u64 :: "int \<Rightarrow> nat" where
  "i64_as_u64 n = nat (n mod 2 ^ 64)"

definition unsigned_abs :: "int \<Rightarrow> nat" where
  "unsigned_abs n = nat \<bar>n\<bar>"

lemma u64_as_i64_small [simp]: "n < 2 ^ 63 \<Longrightarrow> u64_as_i64 n = int n"
  by (simp add: u64_as_i64_def Let_def)

lemma i64_as_u64_nonneg [simp]: "0 \<le> n \<Longrightarrow> n < 2 ^ 64 \<Longrightarrow> i64_as_u64 n = nat n"
  by (simp add: i64_as_u64_def)

lemma unwrap_or_simps [simp]: "unwrap_or None d = d" "unwrap_or (Some y) d = y"
  by (simp_all add: unwrap_or_def)

section \<open>Bytes\<close>

definition byte :: "u8 \<Rightarrow> nat" where "byte c = of_char c"

lemma byte_char_of [simp]: "byte (char_of n) = n mod 256"
  by (simp add: byte_def)

lemma byte_less [simp]: "byte c < 256"
  by (simp add: byte_def)

lemma char_of_byte [simp]: "char_of (byte c) = c"
  by (simp add: byte_def)

lemma byte_inject [simp]: "byte a = byte b \<longleftrightarrow> a = b"
  by (metis char_of_byte)

definition in_range :: "u8 \<Rightarrow> u8 \<Rightarrow> u8 \<Rightarrow> bool" where
  "in_range lo hi c \<longleftrightarrow> byte lo \<le> byte c \<and> byte c \<le> byte hi"

definition is_ascii_digit :: "u8 \<Rightarrow> bool" where
  "is_ascii_digit c \<longleftrightarrow> in_range CHR ''0'' CHR ''9'' c"

definition is_ascii_alphabetic :: "u8 \<Rightarrow> bool" where
  "is_ascii_alphabetic c \<longleftrightarrow> in_range CHR ''A'' CHR ''Z'' c \<or> in_range CHR ''a'' CHR ''z'' c"

definition is_ascii_alphanumeric :: "u8 \<Rightarrow> bool" where
  "is_ascii_alphanumeric c \<longleftrightarrow> is_ascii_alphabetic c \<or> is_ascii_digit c"

definition is_ascii_hexdigit :: "u8 \<Rightarrow> bool" where
  "is_ascii_hexdigit c \<longleftrightarrow>
     is_ascii_digit c \<or> in_range CHR ''a'' CHR ''f'' c \<or> in_range CHR ''A'' CHR ''F'' c"

definition to_ascii_lowercase :: "u8 \<Rightarrow> u8" where
  "to_ascii_lowercase c =
     (if in_range CHR ''A'' CHR ''Z'' c then char_of (byte c + 32) else c)"

definition to_ascii_uppercase :: "u8 \<Rightarrow> u8" where
  "to_ascii_uppercase c =
     (if in_range CHR ''a'' CHR ''z'' c then char_of (byte c - 32) else c)"

section \<open>Slices\<close>

text \<open>\<open>slice.split(|b| b == d)\<close>: the maximal runs between the separators, never the empty list.\<close>

fun split_on :: "'a \<Rightarrow> 'a list \<Rightarrow> 'a list list" where
  "split_on d [] = [[]]"
| "split_on d (c # cs) =
     (if c = d then [] # split_on d cs
      else case split_on d cs of [] \<Rightarrow> [[c]] | s # ss \<Rightarrow> (c # s) # ss)"

fun join_with :: "'a \<Rightarrow> 'a list list \<Rightarrow> 'a list" where
  "join_with d [] = []"
| "join_with d [s] = s"
| "join_with d (s # t # ss) = s @ d # join_with d (t # ss)"

text \<open>\<open>iter().position(p)\<close>: the index of the first element that satisfies \<open>p\<close>.\<close>

fun position :: "('a \<Rightarrow> bool) \<Rightarrow> 'a list \<Rightarrow> nat option" where
  "position p [] = None"
| "position p (x # xs) = (if p x then Some 0 else map_option Suc (position p xs))"

text \<open>\<open>iter().rposition(p)\<close>: the index of the last one.\<close>

fun rposition :: "('a \<Rightarrow> bool) \<Rightarrow> 'a list \<Rightarrow> nat option" where
  "rposition p [] = None"
| "rposition p (x # xs) =
     (case rposition p xs of Some i \<Rightarrow> Some (Suc i) | None \<Rightarrow> if p x then Some 0 else None)"

text \<open>\<open>starts_with\<close> and \<open>strip_prefix\<close>.\<close>

fun strip_prefix :: "'a list \<Rightarrow> 'a list \<Rightarrow> 'a list option" where
  "strip_prefix [] ys = Some ys"
| "strip_prefix (x # xs) [] = None"
| "strip_prefix (x # xs) (y # ys) = (if x = y then strip_prefix xs ys else None)"

definition starts_with :: "'a list \<Rightarrow> 'a list \<Rightarrow> bool" where
  "starts_with xs ys \<longleftrightarrow> take (length xs) ys = xs"

lemma split_on_ne [simp]: "split_on d xs \<noteq> []"
  by (cases xs) (auto split: list.splits)

lemma split_on_Cons_ex: "\<exists>s ss. split_on d xs = s # ss"
  using split_on_ne [of d xs] by (cases "split_on d xs") auto

lemma join_with_Cons: "ss \<noteq> [] \<Longrightarrow> join_with d (s # ss) = s @ d # join_with d ss"
  by (cases ss) auto

lemma join_split [slice]: "join_with d (split_on d xs) = xs"
proof (induction xs)
  case (Cons x xs)
  obtain s ss where eq: "split_on d xs = s # ss" using split_on_Cons_ex [of d xs] by blast
  show ?case using Cons eq by (cases ss) (auto simp: join_with_Cons)
qed simp

lemma split_on_notin [slice]: "d \<notin> set xs \<Longrightarrow> split_on d xs = [xs]"
  by (induction xs) auto

lemma split_on_append [slice]: "d \<notin> set xs \<Longrightarrow> split_on d (xs @ d # ys) = xs # split_on d ys"
  by (induction xs) auto

lemma split_on_no_sep: "s \<in> set (split_on d xs) \<Longrightarrow> d \<notin> set s"
proof (induction xs arbitrary: s)
  case (Cons x xs)
  obtain t ts where eq: "split_on d xs = t # ts" using split_on_Cons_ex [of d xs] by blast
  show ?case using Cons eq by (auto split: if_splits)
qed simp

lemma position_Some:
  "position p xs = Some i \<longleftrightarrow> i < length xs \<and> p (xs ! i) \<and> (\<forall>x \<in> set (take i xs). \<not> p x)"
proof (induction xs arbitrary: i)
  case (Cons x xs)
  then show ?case by (cases i) auto
qed simp

lemma position_None [simp]: "position p xs = None \<longleftrightarrow> (\<forall>x \<in> set xs. \<not> p x)"
  by (induction xs) auto

lemma position_append [slice]:
  "(\<forall>x \<in> set xs. \<not> p x) \<Longrightarrow> p y \<Longrightarrow> position p (xs @ y # ys) = Some (length xs)"
  by (induction xs) auto

lemma strip_prefix_Some [slice]: "strip_prefix p xs = Some r \<longleftrightarrow> xs = p @ r"
  by (induction p xs rule: strip_prefix.induct) auto

lemma strip_prefix_append [slice, simp]: "strip_prefix p (p @ r) = Some r"
  by (simp add: strip_prefix_Some)

lemma starts_with_append [slice]: "starts_with p xs \<longleftrightarrow> (\<exists>r. xs = p @ r)"
  unfolding starts_with_def by (metis append_eq_conv_conj append_take_drop_id)

section \<open>Codecs\<close>

text \<open>
  The interface of an encoder with a checking decoder: what is encoded decodes to itself, and the
  decoder accepts an encoding only if it is the one the encoder produces. The clients use that an
  accepted text determines its value and the value its text.
\<close>

locale codec =
  fixes enc :: "'a \<Rightarrow> bytes"
    and dec :: "bytes \<Rightarrow> 'a result"
  assumes dec_enc: "dec (enc x) = Some x"
    and enc_dec: "dec s = Some x \<Longrightarrow> enc x = s"
begin

lemma enc_inject: "enc x = enc y \<longleftrightarrow> x = y"
  by (metis dec_enc option.inject)

lemma dec_iff: "dec s = Some x \<longleftrightarrow> s = enc x"
  using dec_enc enc_dec by auto

lemma dec_inject: "dec s = Some x \<Longrightarrow> dec t = Some x \<Longrightarrow> s = t"
  by (simp add: dec_iff)

end

section \<open>Sorting by a comparison\<close>

text \<open>
  \<open>std::cmp::Ordering\<close>, and \<open>sort_unstable_by\<close> as an insertion sort: the standard library
  promises a permutation of the input that is ordered by the comparison, which fixes the result
  whenever no two elements compare equal.
\<close>

datatype ordering = Less | Equal | Greater

fun insert_by :: "('a \<Rightarrow> 'a \<Rightarrow> ordering) \<Rightarrow> 'a \<Rightarrow> 'a list \<Rightarrow> 'a list" where
  "insert_by cmp x [] = [x]"
| "insert_by cmp x (y # ys) = (if cmp x y = Greater then y # insert_by cmp x ys else x # y # ys)"

fun sort_by :: "('a \<Rightarrow> 'a \<Rightarrow> ordering) \<Rightarrow> 'a list \<Rightarrow> 'a list" where
  "sort_by cmp [] = []"
| "sort_by cmp (x # xs) = insert_by cmp x (sort_by cmp xs)"

lemma mset_insert_by [simp]: "mset (insert_by cmp x xs) = add_mset x (mset xs)"
  by (induction xs) auto

lemma mset_sort_by [order, simp]: "mset (sort_by cmp xs) = mset xs"
  by (induction xs) auto

lemma set_sort_by [order, simp]: "set (sort_by cmp xs) = set xs"
  by (metis mset_sort_by set_mset_mset)

lemma length_sort_by [order, simp]: "length (sort_by cmp xs) = length xs"
  by (metis mset_sort_by size_mset)

lemma distinct_sort_by [simp]:
  "distinct (map f (sort_by cmp xs)) = distinct (map f xs)"
  by (metis distinct_map mset_eq_imp_distinct_iff mset_sort_by set_sort_by)

lemma size_list_insert_by [simp]: "size_list f (insert_by cmp x xs) = Suc (f x) + size_list f xs"
  by (induction xs) auto

lemma size_list_sort_by [simp]: "size_list f (sort_by cmp xs) = size_list f xs"
  by (induction xs) auto

definition by_name :: "('k \<Rightarrow> 'k \<Rightarrow> ordering) \<Rightarrow> 'k \<times> 'v \<Rightarrow> 'k \<times> 'v \<Rightarrow> ordering" where
  "by_name cmp x y = cmp (fst x) (fst y)"

definition ascending :: "('k \<Rightarrow> 'k \<Rightarrow> ordering) \<Rightarrow> ('k \<times> 'v) list \<Rightarrow> bool" where
  "ascending cmp ms \<longleftrightarrow> sorted_wrt (\<lambda>x y. cmp (fst x) (fst y) = Less) ms"

text \<open>
  The interface between sorting and the comparison it is given: on the names of interest the
  comparison is a strict total order. A list of members with distinct such names then has exactly
  one sorted arrangement, so the sorted form does not depend on the order of the input.
\<close>

locale name_order =
  fixes cmp :: "'k \<Rightarrow> 'k \<Rightarrow> ordering"
    and dom :: "'k \<Rightarrow> bool"
  assumes cmp_Equal: "dom a \<Longrightarrow> dom b \<Longrightarrow> cmp a b = Equal \<longleftrightarrow> a = b"
    and cmp_swap: "cmp a b = Greater \<longleftrightarrow> cmp b a = Less"
    and cmp_trans: "cmp a b = Less \<Longrightarrow> cmp b c = Less \<Longrightarrow> cmp a c = Less"
begin

lemma cmp_cases:
  assumes "dom a" "dom b" "a \<noteq> b"
  shows "cmp a b = Less \<or> cmp b a = Less"
  using assms cmp_Equal [of a b] cmp_swap [of a b] by (cases "cmp a b") auto

lemma cmp_irrefl: "dom a \<Longrightarrow> cmp a a \<noteq> Less"
  using cmp_Equal [of a a] by auto

lemma ascending_insert:
  assumes "ascending cmp ms" "\<forall>m \<in> set (x # ms). dom (fst m)" "fst x \<notin> fst ` set ms"
  shows "ascending cmp (insert_by (by_name cmp) x ms)"
  using assms
proof (induction ms)
  case (Cons m ms)
  show ?case
  proof (cases "by_name cmp x m = Greater")
    case True
    then have "cmp (fst m) (fst x) = Less" by (simp add: by_name_def cmp_swap)
    moreover have "set (insert_by (by_name cmp) x ms) = insert x (set ms)"
      by (metis mset_insert_by set_mset_add_mset_insert set_mset_mset)
    ultimately show ?thesis using True Cons by (auto simp: ascending_def)
  next
    case False
    then have "cmp (fst x) (fst m) = Less"
      using Cons.prems cmp_cases [of "fst x" "fst m"] by (auto simp: by_name_def cmp_swap)
    then show ?thesis using False Cons.prems by (auto simp: ascending_def intro: cmp_trans)
  qed
qed (simp add: ascending_def)

lemma ascending_sort:
  assumes "distinct (map fst ms)" "\<forall>m \<in> set ms. dom (fst m)"
  shows "ascending cmp (sort_by (by_name cmp) ms)"
  using assms
proof (induction ms)
  case (Cons m ms)
  then show ?case by (auto intro!: ascending_insert)
qed (simp add: ascending_def)

lemma ascending_distinct:
  assumes "ascending cmp ms" "\<forall>m \<in> set ms. dom (fst m)" shows "distinct (map fst ms)"
  using assms
proof (induction ms)
  case (Cons m ms)
  then have "fst m \<noteq> fst x" if "x \<in> set ms" for x
    using that cmp_irrefl by (fastforce simp: ascending_def)
  with Cons show ?case by (auto simp: ascending_def)
qed simp

text \<open>Two ascending lists with the same members are the same list.\<close>

lemma ascending_unique:
  assumes "ascending cmp xs" "ascending cmp ys" "set xs = set ys" "\<forall>m \<in> set xs. dom (fst m)"
  shows "xs = ys"
  using assms
proof (induction xs arbitrary: ys)
  case (Cons x xs)
  then obtain y ys' where ys: "ys = y # ys'" by (cases ys) auto
  have less: "cmp (fst x) (fst z) = Less" if "z \<in> set xs" for z
    using Cons.prems(1) that by (simp add: ascending_def)
  have less': "cmp (fst y) (fst z) = Less" if "z \<in> set ys'" for z
    using Cons.prems(2) that by (simp add: ascending_def ys)
  have "y \<in> set ys" by (simp add: ys)
  then have "y \<in> set (x # xs)" by (simp only: Cons.prems(3))
  moreover have "x \<in> set (x # xs)" by simp
  ultimately have "dom (fst x)" "dom (fst y)" using Cons.prems(4) by blast+
  then have irrefl: "cmp (fst x) (fst x) \<noteq> Less" "cmp (fst y) (fst y) \<noteq> Less"
    using cmp_irrefl by blast+
  have xy: "x = y"
  proof (rule ccontr)
    assume "x \<noteq> y"
    then have "x \<in> set ys'" "y \<in> set xs" using Cons.prems(3) ys by auto
    then have "cmp (fst x) (fst x) = Less" using cmp_trans less less' by metis
    with irrefl show False by simp
  qed
  have nin: "x \<notin> set xs" using less irrefl(1) by metis
  have nin': "y \<notin> set ys'" using less' irrefl(2) by metis
  have "set xs = set ys'" using Cons.prems(3) ys xy nin nin'
    by (metis insert_ident list.simps(15))
  moreover have "ascending cmp xs" "ascending cmp ys'" using Cons.prems(1,2) ys
    by (simp_all add: ascending_def)
  ultimately have "xs = ys'" by (intro Cons.IH) (use Cons.prems(4) in simp_all)
  then show ?case using ys xy by simp
qed simp

lemma sort_unique:
  assumes "mset xs = mset ys" "distinct (map fst xs)" "\<forall>m \<in> set xs. dom (fst m)"
  shows "sort_by (by_name cmp) xs = sort_by (by_name cmp) ys"
proof (rule ascending_unique)
  have "distinct (map fst ys)" using assms(1,2)
    by (metis mset_eq_imp_distinct_iff mset_map)
  moreover have "set xs = set ys" using assms(1) by (metis set_mset_mset)
  ultimately show "ascending cmp (sort_by (by_name cmp) ys)" "set (sort_by (by_name cmp) xs) = set (sort_by (by_name cmp) ys)"
    using assms(3) by (auto intro: ascending_sort)
qed (use assms in \<open>auto intro: ascending_sort\<close>)

lemma sort_ascending:
  assumes "ascending cmp ms" "\<forall>m \<in> set ms. dom (fst m)" shows "sort_by (by_name cmp) ms = ms"
  using assms by (intro ascending_unique ascending_sort) (auto dest: ascending_distinct)

end

section \<open>Bits of natural numbers\<close>

lemma or_push_bit_nat: "n < 2 ^ k \<Longrightarrow> (push_bit k m OR n) = m * 2 ^ k + (n :: nat)"
proof -
  assume "n < 2 ^ k"
  then have n: "take_bit k n = n" by (simp add: take_bit_nat_eq_self_iff)
  have "push_bit k m AND n = 0"
    by (rule bit_eqI) (subst n [symmetric], auto simp: bit_simps)
  then have "push_bit k m + n = push_bit k m OR n"
    by (simp add: disjunctive_add_eq_or)
  then show ?thesis by (simp add: push_bit_eq_mult)
qed

lemma or_mult_nat: "n < 2 ^ k \<Longrightarrow> (m * 2 ^ k OR n) = m * 2 ^ k + (n :: nat)"
  using or_push_bit_nat [of n k m] by (simp add: push_bit_eq_mult)

lemma and_63_nat: "(n AND 63) = n mod (64 :: nat)"
  using take_bit_eq_mask [of 6 n] by (simp add: mask_eq_exp_minus_1 take_bit_eq_mod)

lemma and_15_nat: "(n AND 15) = n mod (16 :: nat)"
  using take_bit_eq_mask [of 4 n] by (simp add: mask_eq_exp_minus_1 take_bit_eq_mod)

lemma and_3_nat: "(n AND 3) = n mod (4 :: nat)"
  using take_bit_eq_mask [of 2 n] by (simp add: mask_eq_exp_minus_1 take_bit_eq_mod)

lemma and_127_nat: "(n AND 127) = n mod (128 :: nat)"
  using take_bit_eq_mask [of 7 n] by (simp add: mask_eq_exp_minus_1 take_bit_eq_mod)

text \<open>Numbers as sextets, most significant first.\<close>

lemma div_4096: "(n :: nat) div 4096 = n div 64 div 64"
  by (simp add: div_mult2_eq [symmetric])

lemma div_262144: "(n :: nat) div 262144 = n div 64 div 64 div 64"
  by (simp add: div_mult2_eq [symmetric])

lemma split64: "(n :: nat) div 64 * 64 + n mod 64 = n"
  by simp

lemma join_3: "(n :: nat) div 4096 * 4096 + n div 64 mod 64 * 64 + n mod 64 = n"
  using split64 [of n] split64 [of "n div 64"] unfolding div_4096 by linarith

lemma join_4:
  "(n :: nat) div 262144 * 262144 + n div 4096 mod 64 * 4096 + n div 64 mod 64 * 64 + n mod 64 = n"
  using split64 [of n] split64 [of "n div 64"] split64 [of "n div 64 div 64"]
  unfolding div_4096 div_262144 by linarith

lemma parts_64: "k < 64 \<Longrightarrow> (j * 64 + k) div 64 = j \<and> (j * 64 + k) mod 64 = (k :: nat)"
  by simp

lemma parts_3:
  assumes "cp = i * 4096 + j * 64 + k" "j < 64" "k < (64 :: nat)"
  shows "cp div 4096 = i" "cp div 64 mod 64 = j" "cp mod 64 = k"
proof -
  have eq: "cp = (i * 64 + j) * 64 + k" using assms by simp
  have "cp div 64 = i * 64 + j" "cp mod 64 = k"
    unfolding eq using parts_64 [OF assms(3), of "i * 64 + j"] by blast+
  then show "cp div 4096 = i" "cp div 64 mod 64 = j" "cp mod 64 = k"
    using assms(2) by (simp_all add: div_4096)
qed

lemma parts_4:
  assumes "cp = h * 262144 + i * 4096 + j * 64 + k" "i < 64" "j < 64" "k < (64 :: nat)"
  shows "cp div 262144 = h" "cp div 4096 mod 64 = i" "cp div 64 mod 64 = j" "cp mod 64 = k"
proof -
  have "cp = (h * 64 + i) * 4096 + j * 64 + k" using assms by simp
  note * = parts_3 [OF this assms(3,4)]
  then show "cp div 262144 = h" "cp div 4096 mod 64 = i" "cp div 64 mod 64 = j" "cp mod 64 = k"
    using assms(2) by (simp_all add: div_262144 div_4096)
qed

lemma char_of_eq: "char_of n = c \<longleftrightarrow> n mod 256 = (of_char c :: nat)"
  by (metis char_of_char of_char_of)

end
