(* ===== verification/Unicode.thy ===== *)
theory Unicode
  imports Prelude
begin

text \<open>
  UTF-8 and UTF-16 as the crate uses them. \<open>push_utf8\<close> is the encoder of \<open>json.rs\<close>; the decoder is
  the standard library's \<open>String::from_utf8\<close> (strict: no overlong form, no surrogate, nothing above
  U+10FFFF), whose scalar values are what \<open>str::chars\<close> yields; \<open>encode_utf16\<close> and \<open>utf16_compare\<close>
  give the member order of \<open>jcs.rs\<close>. The lemmas show that decoding and encoding are inverse to each
  other and that the UTF-16 order is a total order in which only equal names compare equal.
\<close>

section \<open>Encoding a scalar value\<close>

definition is_scalar :: "nat \<Rightarrow> bool" where
  "is_scalar cp \<longleftrightarrow> cp < 0xD800 \<or> 0xDFFF < cp \<and> cp \<le> 0x10FFFF"

definition push_utf8 :: "nat \<Rightarrow> bytes" where
  "push_utf8 cp =
     (if cp \<le> 0x7F then [char_of cp]
      else if cp \<le> 0x7FF then
        [char_of (0xC0 OR drop_bit 6 cp), char_of (0x80 OR (cp AND 0x3F))]
      else if cp \<le> 0xFFFF then
        [char_of (0xE0 OR drop_bit 12 cp), char_of (0x80 OR (drop_bit 6 cp AND 0x3F)),
         char_of (0x80 OR (cp AND 0x3F))]
      else
        [char_of (0xF0 OR drop_bit 18 cp), char_of (0x80 OR (drop_bit 12 cp AND 0x3F)),
         char_of (0x80 OR (drop_bit 6 cp AND 0x3F)), char_of (0x80 OR (cp AND 0x3F))])"

section \<open>Decoding\<close>

definition is_cont :: "u8 \<Rightarrow> bool" where
  "is_cont c \<longleftrightarrow> 0x80 \<le> byte c \<and> byte c < 0xC0"

definition cp2 :: "u8 \<Rightarrow> u8 \<Rightarrow> nat" where
  "cp2 a b = (byte a - 0xC0) * 64 + (byte b - 0x80)"

definition cp3 :: "u8 \<Rightarrow> u8 \<Rightarrow> u8 \<Rightarrow> nat" where
  "cp3 a b c = (byte a - 0xE0) * 4096 + (byte b - 0x80) * 64 + (byte c - 0x80)"

definition cp4 :: "u8 \<Rightarrow> u8 \<Rightarrow> u8 \<Rightarrow> u8 \<Rightarrow> nat" where
  "cp4 a b c d = (byte a - 0xF0) * 262144 + (byte b - 0x80) * 4096 + (byte c - 0x80) * 64
                 + (byte d - 0x80)"

text \<open>One scalar value off the front of a byte string, with what is left.\<close>

definition next_char :: "bytes \<Rightarrow> (nat \<times> bytes) option" where
  "next_char s = (case s of
     [] \<Rightarrow> None
   | a # r1 \<Rightarrow>
      (if byte a < 0x80 then Some (byte a, r1)
       else if 0xC0 \<le> byte a \<and> byte a < 0xE0 then
         (case r1 of
            b # r2 \<Rightarrow> if is_cont b \<and> 0x80 \<le> cp2 a b then Some (cp2 a b, r2) else None
          | _ \<Rightarrow> None)
       else if 0xE0 \<le> byte a \<and> byte a < 0xF0 then
         (case r1 of
            b # c # r3 \<Rightarrow>
              if is_cont b \<and> is_cont c \<and> 0x800 \<le> cp3 a b c \<and> is_scalar (cp3 a b c)
              then Some (cp3 a b c, r3) else None
          | _ \<Rightarrow> None)
       else if 0xF0 \<le> byte a \<and> byte a < 0xF8 then
         (case r1 of
            b # c # d # r4 \<Rightarrow>
              if is_cont b \<and> is_cont c \<and> is_cont d \<and> 0x10000 \<le> cp4 a b c d
                \<and> is_scalar (cp4 a b c d)
              then Some (cp4 a b c d, r4) else None
          | _ \<Rightarrow> None)
       else None))"

lemma next_char_shorter: "next_char s = Some (cp, r) \<Longrightarrow> length r < length s"
  unfolding next_char_def by (auto split: list.splits if_splits)

function utf8_decode :: "bytes \<Rightarrow> nat list option" where
  "utf8_decode s =
     (if s = [] then Some []
      else case next_char s of None \<Rightarrow> None
        | Some (cp, r) \<Rightarrow> map_option (Cons cp) (utf8_decode r))"
  by pat_completeness auto
termination
  by (relation "measure length") (auto dest: next_char_shorter)

declare utf8_decode.simps [simp del]

definition utf8_valid :: "bytes \<Rightarrow> bool" where
  "utf8_valid s \<longleftrightarrow> utf8_decode s \<noteq> None"

text \<open>\<open>String::from_utf8\<close>: the same bytes, if they are valid.\<close>

definition from_utf8 :: "bytes \<Rightarrow> bytes result" where
  "from_utf8 s = (if utf8_valid s then Some s else None)"

text \<open>\<open>str::chars\<close>: the scalar values of a \<open>String\<close> (which is valid by its type).\<close>

definition chars :: "bytes \<Rightarrow> nat list" where
  "chars s = (case utf8_decode s of Some cs \<Rightarrow> cs | None \<Rightarrow> [])"

section \<open>UTF-16 order\<close>

definition utf16_units :: "nat \<Rightarrow> nat list" where
  "utf16_units cp =
     (if cp < 0x10000 then [cp]
      else [0xD800 + (cp - 0x10000) div 1024, 0xDC00 + (cp - 0x10000) mod 1024])"

definition encode_utf16 :: "bytes \<Rightarrow> nat list" where
  "encode_utf16 s = concat (map utf16_units (chars s))"

definition u16_cmp :: "nat \<Rightarrow> nat \<Rightarrow> ordering" where
  "u16_cmp x y = (if x < y then Less else if x = y then Equal else Greater)"

fun compare_units :: "nat list \<Rightarrow> nat list \<Rightarrow> ordering" where
  "compare_units [] [] = Equal"
| "compare_units [] (y # ys) = Less"
| "compare_units (x # xs) [] = Greater"
| "compare_units (x # xs) (y # ys) =
     (case u16_cmp x y of Equal \<Rightarrow> compare_units xs ys | non_eq \<Rightarrow> non_eq)"

definition utf16_compare :: "bytes \<Rightarrow> bytes \<Rightarrow> ordering" where
  "utf16_compare a b = compare_units (encode_utf16 a) (encode_utf16 b)"

section \<open>Encoding and decoding are inverse\<close>

text \<open>The encoder with its disjoint bit patterns written as sums.\<close>

lemma or_80: "n < 64 \<Longrightarrow> (0x80 OR n) = 0x80 + (n :: nat)"
  using or_mult_nat [of n 6 2] by simp

lemma or_C0: "n < 32 \<Longrightarrow> (0xC0 OR n) = 0xC0 + (n :: nat)"
  using or_mult_nat [of n 5 6] by simp

lemma or_E0: "n < 16 \<Longrightarrow> (0xE0 OR n) = 0xE0 + (n :: nat)"
  using or_mult_nat [of n 4 14] by simp

lemma or_F0: "n < 8 \<Longrightarrow> (0xF0 OR n) = 0xF0 + (n :: nat)"
  using or_mult_nat [of n 3 30] by simp

lemma push_utf8_arith:
  assumes "cp \<le> 0x10FFFF"
  shows "push_utf8 cp =
     (if cp \<le> 0x7F then [char_of cp]
      else if cp \<le> 0x7FF then [char_of (0xC0 + cp div 64), char_of (0x80 + cp mod 64)]
      else if cp \<le> 0xFFFF then
        [char_of (0xE0 + cp div 4096), char_of (0x80 + cp div 64 mod 64), char_of (0x80 + cp mod 64)]
      else
        [char_of (0xF0 + cp div 262144), char_of (0x80 + cp div 4096 mod 64),
         char_of (0x80 + cp div 64 mod 64), char_of (0x80 + cp mod 64)])"
proof -
  have m: "n mod 64 < (64 :: nat)" for n by simp
  have 2: "cp div 64 < 32" if "cp \<le> 0x7FF"
    using that by (simp add: less_mult_imp_div_less)
  have 3: "cp div 4096 < 16" if "cp \<le> 0xFFFF"
    using that by (simp add: less_mult_imp_div_less)
  have 4: "cp div 262144 < 8" using assms by (simp add: less_mult_imp_div_less)
  show ?thesis unfolding push_utf8_def
    using or_C0 [OF 2] or_E0 [OF 3] or_F0 [OF 4] or_80 [OF m]
    by (auto simp: drop_bit_eq_div and_63_nat)
qed

lemma scalar_bound: "is_scalar cp \<Longrightarrow> cp \<le> 0x10FFFF"
  by (auto simp: is_scalar_def)

lemma next_char_push:
  assumes "is_scalar cp"
  shows "next_char (push_utf8 cp @ r) = Some (cp, r)"
proof -
  note b = scalar_bound [OF assms]
  have m: "n mod 64 < (64 :: nat)" for n by simp
  have 2: "cp div 64 < 32" if "cp \<le> 0x7FF"
    using that by (simp add: less_mult_imp_div_less)
  have 3: "cp div 4096 < 16" if "cp \<le> 0xFFFF"
    using that by (simp add: less_mult_imp_div_less)
  have 4: "cp div 262144 < 8" using b by (simp add: less_mult_imp_div_less)
  have c: "is_cont (char_of (0x80 + n mod 64))" "byte (char_of (0x80 + n mod 64)) = 0x80 + n mod 64" for n
    using m [of n] by (auto simp: is_cont_def)
  consider "cp \<le> 0x7F" | "0x7F < cp" "cp \<le> 0x7FF" | "0x7FF < cp" "cp \<le> 0xFFFF" | "0xFFFF < cp"
    by linarith
  then show ?thesis
  proof cases
    case 1
    then show ?thesis using b by (simp add: push_utf8_arith next_char_def)
  next
    case 2
    then show ?thesis using b \<open>cp \<le> 0x7FF \<Longrightarrow> _\<close> c
      by (simp add: push_utf8_arith next_char_def cp2_def)
  next
    case 3
    then show ?thesis using b \<open>cp \<le> 0xFFFF \<Longrightarrow> _\<close> c join_3 [of cp] assms
      by (simp add: push_utf8_arith next_char_def cp3_def)
  next
    case 4
    then show ?thesis using b \<open>cp div 262144 < 8\<close> c join_4 [of cp] assms
      by (simp add: push_utf8_arith next_char_def cp4_def)
  qed
qed

lemma cont_bounds:
  assumes "is_cont c" obtains k where "byte c = 0x80 + k" "k < 64" "c = char_of (0x80 + k)"
proof
  show "byte c = 0x80 + (byte c - 0x80)" "byte c - 0x80 < 64" using assms by (auto simp: is_cont_def)
  then show "c = char_of (0x80 + (byte c - 0x80))" by (metis char_of_byte)
qed

lemma lead_bounds:
  assumes "base \<le> byte a"
  obtains k where "byte a = base + k" "a = char_of (base + k)"
  using assms by (metis char_of_byte le_Suc_ex)

lemma next_char_Some:
  assumes "next_char s = Some (cp, r)"
  shows "is_scalar cp \<and> s = push_utf8 cp @ r"
proof -
  obtain a r1 where s: "s = a # r1" using assms by (cases s) (auto simp: next_char_def)
  consider (one) "byte a < 0x80" | (two) "0xC0 \<le> byte a" "byte a < 0xE0"
    | (three) "0xE0 \<le> byte a" "byte a < 0xF0" | (four) "0xF0 \<le> byte a" "byte a < 0xF8"
    using assms s by (auto simp: next_char_def split: if_splits)
  then show ?thesis
  proof cases
    case one
    then show ?thesis using assms s
      by (auto simp: next_char_def push_utf8_def is_scalar_def)
  next
    case two
    then obtain b where r1: "r1 = b # r" "is_cont b" "0x80 \<le> cp2 a b" "cp = cp2 a b"
      using assms s by (auto simp: next_char_def split: list.splits if_splits)
    obtain j where j: "byte a = 0xC0 + j" "a = char_of (0xC0 + j)" using lead_bounds two(1) by blast
    obtain k where k: "byte b = 0x80 + k" "k < 64" "b = char_of (0x80 + k)"
      using r1(2) by (rule cont_bounds)
    have cp: "cp = j * 64 + k" using j k r1 by (simp add: cp2_def)
    have "j < 32" using two j by simp
    then have "cp div 64 = j" "cp mod 64 = k" "cp \<le> 0x7FF" using k cp parts_64 by auto
    moreover have "0x80 \<le> cp" using r1 by simp
    ultimately show ?thesis using s r1 j k
      by (simp add: push_utf8_arith is_scalar_def)
  next
    case three
    then obtain b c where r1: "r1 = b # c # r" "is_cont b" "is_cont c" "0x800 \<le> cp3 a b c"
        "is_scalar (cp3 a b c)" "cp = cp3 a b c"
      using assms s by (auto simp: next_char_def split: list.splits if_splits)
    obtain i where i: "byte a = 0xE0 + i" "a = char_of (0xE0 + i)" using lead_bounds three(1) by blast
    obtain j where j: "byte b = 0x80 + j" "j < 64" "b = char_of (0x80 + j)"
      using r1(2) by (rule cont_bounds)
    obtain k where k: "byte c = 0x80 + k" "k < 64" "c = char_of (0x80 + k)"
      using r1(3) by (rule cont_bounds)
    have cp: "cp = i * 4096 + j * 64 + k" using i j k r1 by (simp add: cp3_def)
    have "i < 16" using three i by simp
    then have "cp \<le> 0xFFFF" using cp j k by linarith
    moreover note parts_3 [OF cp j(2) k(2)]
    moreover have "0x800 \<le> cp" "is_scalar cp" using r1 by simp_all
    ultimately show ?thesis using s r1 i j k
      by (simp add: push_utf8_arith)
  next
    case four
    then obtain b c d where r1: "r1 = b # c # d # r" "is_cont b" "is_cont c" "is_cont d"
        "0x10000 \<le> cp4 a b c d" "is_scalar (cp4 a b c d)" "cp = cp4 a b c d"
      using assms s by (auto simp: next_char_def split: list.splits if_splits)
    obtain h where h: "byte a = 0xF0 + h" "a = char_of (0xF0 + h)" using lead_bounds four(1) by blast
    obtain i where i: "byte b = 0x80 + i" "i < 64" "b = char_of (0x80 + i)"
      using r1(2) by (rule cont_bounds)
    obtain j where j: "byte c = 0x80 + j" "j < 64" "c = char_of (0x80 + j)"
      using r1(3) by (rule cont_bounds)
    obtain k where k: "byte d = 0x80 + k" "k < 64" "d = char_of (0x80 + k)"
      using r1(4) by (rule cont_bounds)
    have cp: "cp = h * 262144 + i * 4096 + j * 64 + k" using h i j k r1 by (simp add: cp4_def)
    note parts_4 [OF cp i(2) j(2) k(2)]
    moreover have "0x10000 \<le> cp" "is_scalar cp" using r1 by simp_all
    ultimately show ?thesis using s r1 h i j k scalar_bound [of cp]
      by (simp add: push_utf8_arith)
  qed
qed

lemma push_utf8_ne [simp]: "push_utf8 cp \<noteq> []"
  by (simp add: push_utf8_def)

abbreviation utf8 :: "nat list \<Rightarrow> bytes" where
  "utf8 cs \<equiv> concat (map push_utf8 cs)"

lemma utf8_decode_Nil [simp]: "utf8_decode [] = Some []"
  by (simp add: utf8_decode.simps)

lemma utf8_decode_push:
  "is_scalar cp \<Longrightarrow> utf8_decode (push_utf8 cp @ r) = map_option (Cons cp) (utf8_decode r)"
  by (subst utf8_decode.simps) (simp add: next_char_push)

lemma utf8_decode_encode:
  "list_all is_scalar cs \<Longrightarrow> utf8_decode (utf8 cs) = Some cs"
  by (induction cs) (auto simp: utf8_decode_push)

lemma utf8_decode_Some:
  "utf8_decode s = Some cs \<Longrightarrow> list_all is_scalar cs \<and> s = utf8 cs"
proof (induction s arbitrary: cs rule: utf8_decode.induct)
  case (1 s)
  show ?case
  proof (cases "s = []")
    case True
    then show ?thesis using "1.prems" by (simp add: utf8_decode.simps)
  next
    case False
    then obtain cp r cs' where c: "next_char s = Some (cp, r)" "utf8_decode r = Some cs'" "cs = cp # cs'"
      using "1.prems" by (subst (asm) utf8_decode.simps) (auto split: option.splits prod.splits)
    then show ?thesis using "1.IH" False next_char_Some [OF c(1)] by auto
  qed
qed

lemma utf8_valid_iff: "utf8_valid s \<longleftrightarrow> (\<exists>cs. list_all is_scalar cs \<and> s = utf8 cs)"
  using utf8_decode_Some utf8_decode_encode by (fastforce simp: utf8_valid_def)

lemma utf8_valid_chars:
  "utf8_valid s \<Longrightarrow> list_all is_scalar (chars s) \<and> utf8 (chars s) = s"
  using utf8_decode_Some by (fastforce simp: utf8_valid_def chars_def)

lemma chars_utf8 [simp]: "list_all is_scalar cs \<Longrightarrow> chars (utf8 cs) = cs"
  by (simp add: chars_def utf8_decode_encode)

lemma utf8_valid_append [intro]: "utf8_valid a \<Longrightarrow> utf8_valid b \<Longrightarrow> utf8_valid (a @ b)"
  unfolding utf8_valid_iff by (metis concat_append list_all_append map_append)

lemma utf8_valid_Nil [simp, intro]: "utf8_valid []"
  by (simp add: utf8_valid_def)

definition is_ascii :: "bytes \<Rightarrow> bool" where
  "is_ascii s \<longleftrightarrow> list_all (\<lambda>c. byte c < 0x80) s"

lemma ascii_utf8: "is_ascii s \<Longrightarrow> utf8 (map byte s) = s \<and> list_all is_scalar (map byte s)"
  by (induction s) (auto simp: is_ascii_def push_utf8_def is_scalar_def)

lemma ascii_valid [intro]: "is_ascii s \<Longrightarrow> utf8_valid s"
  using ascii_utf8 utf8_valid_iff by metis

lemma ascii_chars: "is_ascii s \<Longrightarrow> chars s = map byte s"
  using ascii_utf8 chars_utf8 by metis

lemma from_utf8_Some [accept, simp]: "from_utf8 s = Some t \<longleftrightarrow> utf8_valid s \<and> t = s"
  by (auto simp: from_utf8_def)

lemma push_utf8_bytes:
  assumes "is_scalar cp" "c \<in> set (push_utf8 cp)"
  shows "if cp < 0x80 then byte c = cp else 0x80 \<le> byte c"
proof -
  note b = scalar_bound [OF assms(1)]
  have "cp div 64 < 32" if "cp \<le> 0x7FF" using that by (simp add: less_mult_imp_div_less)
  moreover have "cp div 4096 < 16" if "cp \<le> 0xFFFF" using that by (simp add: less_mult_imp_div_less)
  moreover have "cp div 262144 < 8" using b by (simp add: less_mult_imp_div_less)
  moreover have "n mod 64 < (64 :: nat)" for n by simp
  ultimately show ?thesis using assms(2) b
    by (auto simp: push_utf8_arith split: if_splits)
qed

section \<open>The UTF-16 order is total\<close>

lemma compare_units_Equal [simp]: "compare_units xs ys = Equal \<longleftrightarrow> xs = ys"
  by (induction xs ys rule: compare_units.induct) (auto simp: u16_cmp_def)

lemma compare_units_swap: "compare_units xs ys = Greater \<longleftrightarrow> compare_units ys xs = Less"
  by (induction xs ys rule: compare_units.induct) (auto simp: u16_cmp_def)

lemma compare_units_trans:
  "compare_units xs ys = Less \<Longrightarrow> compare_units ys zs = Less \<Longrightarrow> compare_units xs zs = Less"
proof (induction xs zs arbitrary: ys rule: compare_units.induct)
  case (4 x xs z zs)
  then show ?case by (cases ys) (auto simp: u16_cmp_def split: if_splits)
next
  case 1 then show ?case by (cases ys) auto
next
  case 3 then show ?case by (cases ys) auto
qed auto

lemma utf16_units_inj:
  assumes "is_scalar a" "is_scalar b" "utf16_units a @ xs = utf16_units b @ ys"
  shows "a = b \<and> xs = ys"
proof -
  have d: "(n :: nat) = n div 1024 * 1024 + n mod 1024" for n by simp
  have lead: "0xD800 + (c - 0x10000) div 1024 \<le> 0xDFFF" if "is_scalar c" for c
    using that by (auto simp: is_scalar_def less_mult_imp_div_less intro: div_le_mono [THEN order_trans])
  have inj: "a = b" if "(a - 0x10000) div 1024 = (b - 0x10000) div 1024"
      "(a - 0x10000) mod 1024 = (b - 0x10000) mod 1024" "0x10000 \<le> a" "0x10000 \<le> b"
    using that d [of "a - 0x10000"] d [of "b - 0x10000"] by linarith
  show ?thesis
    using assms inj lead [OF assms(1)] lead [OF assms(2)]
    by (auto simp: utf16_units_def is_scalar_def split: if_splits)
qed

lemma encode_utf16_inj:
  assumes "utf8_valid a" "utf8_valid b" "encode_utf16 a = encode_utf16 b"
  shows "a = b"
proof -
  have "cs = ds" if "list_all is_scalar cs" "list_all is_scalar ds"
      "concat (map utf16_units cs) = concat (map utf16_units ds)" for cs ds
    using that
  proof (induction cs arbitrary: ds)
    case Nil
    then show ?case by (cases ds) (auto simp: utf16_units_def split: if_splits)
  next
    case (Cons c cs)
    then obtain d ds' where "ds = d # ds'"
      by (cases ds) (auto simp: utf16_units_def split: if_splits)
    with Cons utf16_units_inj [of c d] show ?case by auto
  qed
  then have "chars a = chars b"
    using assms utf8_valid_chars by (auto simp: encode_utf16_def)
  then show ?thesis using assms utf8_valid_chars by metis
qed

lemma utf16_compare_Equal:
  "utf8_valid a \<Longrightarrow> utf8_valid b \<Longrightarrow> utf16_compare a b = Equal \<longleftrightarrow> a = b"
  using encode_utf16_inj by (auto simp: utf16_compare_def)

lemma utf16_compare_swap: "utf16_compare a b = Greater \<longleftrightarrow> utf16_compare b a = Less"
  by (simp add: utf16_compare_def compare_units_swap)

lemma utf16_compare_trans:
  "utf16_compare a b = Less \<Longrightarrow> utf16_compare b c = Less \<Longrightarrow> utf16_compare a c = Less"
  unfolding utf16_compare_def by (rule compare_units_trans)

text \<open>\<open>utf16_compare\<close> provides the order that sorting by member name relies on.\<close>

interpretation utf16: name_order utf16_compare utf8_valid
  by unfold_locales (auto simp: utf16_compare_Equal utf16_compare_swap intro: utf16_compare_trans)

end
