(* ===== verification/Json_Value.thy ===== *)
theory Json_Value
  imports Prelude
begin

text \<open>
  The tagged JSON algebra \<open>JsonValue\<close> of \<open>sdks/rust/src/json.rs\<close> and the binary64 numbers its
  \<open>Float\<close> carries.

  An \<open>f64\<close> is modelled by its value: a finite number is a sign and a magnitude counted in units of
  the least positive double, \<open>2 ^ -1074\<close>, so both zeros are kept apart and every finite double is an
  exact natural number of units. The crate uses of \<open>f64\<close> only parsing (\<open>str::parse\<close>, correctly
  rounded, ties to even), the conversion from \<open>u64\<close>, \<open>is_finite\<close>, \<open>abs\<close> and the comparisons, all
  defined here; formatting is the third-party crate \<open>ryu_js\<close> and a parameter of the model (theory
  Backend).
\<close>

section \<open>Binary64\<close>

datatype f64 = Finite bool nat | Infinite bool | NaN

fun bit_length :: "nat \<Rightarrow> nat" where
  "bit_length n = (if n = 0 then 0 else Suc (bit_length (n div 2)))"

declare bit_length.simps [simp del]

definition round_half_even :: "nat \<Rightarrow> nat \<Rightarrow> nat" where
  "round_half_even n d =
     (let q = n div d; r = n mod d
      in if 2 * r < d then q else if d < 2 * r then q + 1 else q + q mod 2)"

text \<open>The double nearest to \<open>n / d\<close> units: 53 significant bits, overflow to infinity.\<close>

definition f64_round :: "bool \<Rightarrow> nat \<Rightarrow> nat \<Rightarrow> f64" where
  "f64_round neg n d =
     (let q = n div d
      in if q < 2 ^ 53 then Finite neg (round_half_even n d)
         else let k = bit_length q - 53; u = round_half_even n (d * 2 ^ k) * 2 ^ k
              in if 2 ^ 2098 \<le> u then Infinite neg else Finite neg u)"

text \<open>\<open>str::parse::<f64>\<close> of a decimal with digits \<open>m\<close> and exponent \<open>e\<close>: the value \<open>m * 10 ^ e\<close>.\<close>

definition f64_from_decimal :: "bool \<Rightarrow> nat \<Rightarrow> int \<Rightarrow> f64" where
  "f64_from_decimal neg m e =
     (if 0 \<le> e then f64_round neg (m * 10 ^ nat e * 2 ^ 1074) 1
      else f64_round neg (m * 2 ^ 1074) (10 ^ nat (- e)))"

definition f64_of_u64 :: "nat \<Rightarrow> f64" where
  "f64_of_u64 n = f64_round False (n * 2 ^ 1074) 1"

fun f64_is_finite :: "f64 \<Rightarrow> bool" where
  "f64_is_finite (Finite s m) = True"
| "f64_is_finite _ = False"

fun f64_abs :: "f64 \<Rightarrow> f64" where
  "f64_abs (Finite s m) = Finite False m"
| "f64_abs (Infinite s) = Infinite False"
| "f64_abs NaN = NaN"

fun f64_signed :: "bool \<Rightarrow> nat \<Rightarrow> int" where
  "f64_signed s m = (if s then - int m else int m)"

text \<open>The comparisons \<open>==\<close> and \<open><=\<close>: false as soon as one side is not a number.\<close>

fun f64_eq :: "f64 \<Rightarrow> f64 \<Rightarrow> bool" where
  "f64_eq (Finite s m) (Finite t n) = (f64_signed s m = f64_signed t n)"
| "f64_eq (Infinite s) (Infinite t) = (s = t)"
| "f64_eq _ _ = False"

fun f64_le :: "f64 \<Rightarrow> f64 \<Rightarrow> bool" where
  "f64_le (Finite s m) (Finite t n) = (f64_signed s m \<le> f64_signed t n)"
| "f64_le (Infinite s) (Infinite t) = (s \<or> \<not> t)"
| "f64_le (Infinite s) (Finite t n) = s"
| "f64_le (Finite s m) (Infinite t) = (\<not> t)"
| "f64_le _ _ = False"

definition f64_gt :: "f64 \<Rightarrow> f64 \<Rightarrow> bool" where
  "f64_gt x y \<longleftrightarrow> f64_le y x \<and> \<not> f64_eq y x"

lemma f64_eq_refl: "f64_eq x x \<longleftrightarrow> x \<noteq> NaN"
  by (cases x) auto

lemma f64_eq_sym: "f64_eq x y = f64_eq y x"
  by (cases x; cases y) auto

lemma f64_eq_trans: "f64_eq x y \<Longrightarrow> f64_eq y z \<Longrightarrow> f64_eq x z"
  by (cases x; cases y; cases z) auto

lemma f64_le_antisym: "f64_le x y \<and> f64_le y x \<longleftrightarrow> f64_eq x y"
  by (cases x; cases y) auto

lemma f64_le_trans: "f64_le x y \<Longrightarrow> f64_le y z \<Longrightarrow> f64_le x z"
  by (cases x; cases y; cases z) (auto split: if_splits)

section \<open>Rounding is exact on representable values\<close>

lemma bit_length_bounds: "n \<noteq> 0 \<Longrightarrow> 2 ^ (bit_length n - 1) \<le> n \<and> n < 2 ^ bit_length n"
proof (induction n rule: bit_length.induct)
  case (1 n)
  show ?case
  proof (cases "n div 2 = 0")
    case True
    then have "n = 1" using "1.prems" by linarith
    then show ?thesis by (simp add: bit_length.simps [of "Suc 0"] bit_length.simps [of 0])
  next
    case False
    then have IH: "2 ^ (bit_length (n div 2) - 1) \<le> n div 2" "n div 2 < 2 ^ bit_length (n div 2)"
      using 1 by simp_all
    have l: "bit_length n = Suc (bit_length (n div 2))" using "1.prems" by (simp add: bit_length.simps)
    have "bit_length (n div 2) \<noteq> 0" using False by (subst bit_length.simps) simp
    then have "2 * 2 ^ (bit_length (n div 2) - 1) = (2 :: nat) ^ bit_length (n div 2)"
      by (simp add: power_eq_if)
    then have "2 ^ bit_length (n div 2) \<le> 2 * (n div 2)" using IH(1) by linarith
    moreover have "2 * (n div 2) \<le> n" "n < 2 * (n div 2) + 2" by simp_all
    moreover have "2 * (n div 2) + 2 \<le> 2 * 2 ^ bit_length (n div 2)" using IH(2) by linarith
    ultimately show ?thesis unfolding l by (simp del: mult_Suc)
  qed
qed

lemma round_half_even_exact: "0 < d \<Longrightarrow> round_half_even (u * d) d = u"
  by (simp add: round_half_even_def Let_def)

lemma f64_round_exact:
  assumes "u = m * 2 ^ j" "m < 2 ^ 53" "u < 2 ^ 2098" "0 < d"
  shows "f64_round s (u * d) d = Finite s u"
proof (cases "u < 2 ^ 53")
  case True
  then show ?thesis using assms(4) by (simp add: f64_round_def round_half_even_exact)
next
  case False
  define k where "k = bit_length u - 53"
  have u0: "u \<noteq> 0" using False by (cases "u = 0") auto
  have "u < 2 ^ (53 + j)" using assms(1,2) by (simp add: power_add mult.commute)
  moreover have "2 ^ (bit_length u - 1) \<le> u" using bit_length_bounds [OF u0] by simp
  ultimately have "2 ^ (bit_length u - 1) < (2 :: nat) ^ (53 + j)" by (rule le_less_trans [rotated])
  then have "bit_length u - 1 < 53 + j" by (rule power_less_imp_less_exp [rotated]) simp
  then have "k \<le> j" by (simp add: k_def)
  then have "u = (m * 2 ^ (j - k)) * 2 ^ k" using assms(1) by (simp add: power_add [symmetric])
  then obtain v where v: "u = v * 2 ^ k" by blast
  have "round_half_even (u * d) (d * 2 ^ k) = round_half_even (v * (d * 2 ^ k)) (d * 2 ^ k)"
    by (simp add: v mult_ac)
  also have "\<dots> = v" using assms(4) by (intro round_half_even_exact) simp
  finally have "round_half_even (u * d) (d * 2 ^ k) * 2 ^ k = u" using v by simp
  moreover have "\<not> 2 ^ 2098 \<le> u" using assms(3) by (simp only: not_le)
  moreover have "u * d div d = u" using assms(4) by simp
  ultimately show ?thesis using False
    by (simp only: f64_round_def Let_def k_def [symmetric] if_False)
qed

lemma f64_of_u64_exact: "n < 2 ^ 53 \<Longrightarrow> f64_of_u64 n = Finite False (n * 2 ^ 1074)"
proof -
  assume n: "n < 2 ^ 53"
  have "n * 2 ^ 1074 < 2 ^ 53 * 2 ^ 1074" using n by (intro mult_strict_right_mono) simp_all
  also have "\<dots> \<le> (2 :: nat) ^ 2098" unfolding power_add [symmetric]
    by (intro power_increasing) simp_all
  finally show ?thesis using f64_round_exact [of "n * 2 ^ 1074" n 1074 1 False] n
    by (simp add: f64_of_u64_def)
qed

section \<open>JSON values\<close>

text \<open>
  \<open>Int(i64)\<close> (here \<open>Integer\<close>, as \<open>Int\<close> is taken) and \<open>Float(f64)\<close> are distinct tags; an object keeps its members in source order.
\<close>

datatype json =
    Null
  | Bool bool
  | Integer int
  | Float f64
  | String bytes
  | Array "json list"
  | Object "(bytes \<times> json) list"

end
