(* ===== verification/Bounds.thy ===== *)
theory Bounds
  imports Prelude Json_Value
begin

text \<open>
  The resource ceilings of \<open>sdks/rust/src/bounds.rs\<close>: the record of the 36 limits, the immutable
  profile maxima, and the override parser, which may only tighten. Every field is a \<open>u64\<close>; the
  accessors of the source are the selectors of the record.
\<close>

section \<open>The record and the profile maxima\<close>

record bounds =
  compact_bytes :: nat
  encoded_segment_bytes :: nat
  decoded_segment_bytes :: nat
  json_bytes :: nat
  depth :: nat
  object_members :: nat
  array_items :: nat
  total_nodes :: nat
  string_bytes :: nat
  key_bytes :: nat
  number_lexeme_bytes :: nat
  integer_magnitude :: nat
  float_magnitude :: nat
  kid_bytes :: nat
  jcs_bytes :: nat
  uri_bytes :: nat
  identifier_bytes :: nat
  nonce_bytes :: nat
  method_bytes :: nat
  operation_bytes :: nat
  audiences :: nat
  operations :: nat
  selectors :: nat
  path_segments :: nat
  one_of_values :: nat
  clock_skew :: nat
  proof_max_age :: nat
  chain_row_bytes :: nat
  chain_rows :: nat
  anchor_bytes :: nat
  archive_header_bytes :: nat
  key_transitions :: nat
  archive_chunks :: nat
  archive_bytes :: nat
  object_version_bytes :: nat
  content_bytes :: nat

definition maximum :: bounds where
  "maximum = \<lparr>
     compact_bytes = 65536,
     encoded_segment_bytes = 32768,
     decoded_segment_bytes = 24576,
     json_bytes = 65536,
     depth = 32,
     object_members = 64,
     array_items = 256,
     total_nodes = 4096,
     string_bytes = 8192,
     key_bytes = 128,
     number_lexeme_bytes = 64,
     integer_magnitude = 9007199254740991,
     float_magnitude = 9007199254740991,
     kid_bytes = 128,
     jcs_bytes = 65536,
     uri_bytes = 8192,
     identifier_bytes = 512,
     nonce_bytes = 512,
     method_bytes = 32,
     operation_bytes = 128,
     audiences = 64,
     operations = 64,
     selectors = 64,
     path_segments = 32,
     one_of_values = 256,
     clock_skew = 60,
     proof_max_age = 300,
     chain_row_bytes = 4096,
     chain_rows = 65536,
     anchor_bytes = 8192,
     archive_header_bytes = 8192,
     key_transitions = 256,
     archive_chunks = 65796,
     archive_bytes = 270820384,
     object_version_bytes = 512,
     content_bytes = 65536\<rparr>"

text \<open>
  The arms of \<open>apply_override\<close> that tighten a field: its name, the field, its update and its profile
  maximum (the constant \<open>MAX_...\<close>, which is the field of \<open>maximum\<close>), in the order of the source.
\<close>

type_synonym arm = "bytes \<times> (bounds \<Rightarrow> nat) \<times> ((nat \<Rightarrow> nat) \<Rightarrow> bounds \<Rightarrow> bounds) \<times> nat"

definition tightening_arms :: "arm list" where
  "tightening_arms = [
     (''compact_bytes'', compact_bytes, compact_bytes_update, compact_bytes maximum),
     (''encoded_segment_bytes'', encoded_segment_bytes, encoded_segment_bytes_update, encoded_segment_bytes maximum),
     (''decoded_segment_bytes'', decoded_segment_bytes, decoded_segment_bytes_update, decoded_segment_bytes maximum),
     (''json_bytes'', json_bytes, json_bytes_update, json_bytes maximum),
     (''depth'', depth, depth_update, depth maximum),
     (''object_members'', object_members, object_members_update, object_members maximum),
     (''array_items'', array_items, array_items_update, array_items maximum),
     (''total_nodes'', total_nodes, total_nodes_update, total_nodes maximum),
     (''string_bytes'', string_bytes, string_bytes_update, string_bytes maximum),
     (''key_bytes'', key_bytes, key_bytes_update, key_bytes maximum),
     (''number_lexeme_bytes'', number_lexeme_bytes, number_lexeme_bytes_update, number_lexeme_bytes maximum),
     (''integer_magnitude'', integer_magnitude, integer_magnitude_update, integer_magnitude maximum),
     (''float_magnitude'', float_magnitude, float_magnitude_update, float_magnitude maximum),
     (''kid_bytes'', kid_bytes, kid_bytes_update, kid_bytes maximum),
     (''jcs_bytes'', jcs_bytes, jcs_bytes_update, jcs_bytes maximum),
     (''uri_bytes'', uri_bytes, uri_bytes_update, uri_bytes maximum),
     (''identifier_bytes'', identifier_bytes, identifier_bytes_update, identifier_bytes maximum),
     (''nonce_bytes'', nonce_bytes, nonce_bytes_update, nonce_bytes maximum),
     (''method_bytes'', method_bytes, method_bytes_update, method_bytes maximum),
     (''operation_bytes'', operation_bytes, operation_bytes_update, operation_bytes maximum),
     (''audiences'', audiences, audiences_update, audiences maximum),
     (''operations'', operations, operations_update, operations maximum),
     (''selectors'', selectors, selectors_update, selectors maximum),
     (''path_segments'', path_segments, path_segments_update, path_segments maximum),
     (''one_of_values'', one_of_values, one_of_values_update, one_of_values maximum),
     (''clock_skew'', clock_skew, clock_skew_update, clock_skew maximum),
     (''proof_max_age'', proof_max_age, proof_max_age_update, proof_max_age maximum),
     (''chain_row_bytes'', chain_row_bytes, chain_row_bytes_update, chain_row_bytes maximum),
     (''chain_rows'', chain_rows, chain_rows_update, chain_rows maximum),
     (''anchor_bytes'', anchor_bytes, anchor_bytes_update, anchor_bytes maximum),
     (''archive_header_bytes'', archive_header_bytes, archive_header_bytes_update, archive_header_bytes maximum),
     (''key_transitions'', key_transitions, key_transitions_update, key_transitions maximum),
     (''archive_chunks'', archive_chunks, archive_chunks_update, archive_chunks maximum),
     (''archive_bytes'', archive_bytes, archive_bytes_update, archive_bytes maximum),
     (''object_version_bytes'', object_version_bytes, object_version_bytes_update, object_version_bytes maximum),
     (''content_bytes'', content_bytes, content_bytes_update, content_bytes maximum)]"

text \<open>The arms that name a fixed cryptographic width, which an override may only repeat.\<close>

definition fixed_widths :: "(bytes \<times> nat) list" where
  "fixed_widths = [(''digest_bytes'', 32), (''public_key_bytes'', 32), (''signature_bytes'', 64)]"

section \<open>Overrides\<close>

definition tighten :: "((nat \<Rightarrow> nat) \<Rightarrow> bounds \<Rightarrow> bounds) \<Rightarrow> nat \<Rightarrow> nat \<Rightarrow> bounds \<Rightarrow> bounds result" where
  "tighten upd mx v b = (if 0 < v \<and> v \<le> mx then Some (upd (\<lambda>_. v) b) else None)"

definition fixed :: "nat \<Rightarrow> nat \<Rightarrow> unit result" where
  "fixed width v = (if v = width then Some () else None)"

definition apply_override :: "bytes \<Rightarrow> nat \<Rightarrow> bounds \<Rightarrow> bounds result" where
  "apply_override key v b =
     (case map_of tightening_arms key of
        Some (_, upd, mx) \<Rightarrow> tighten upd mx v b
      | None \<Rightarrow>
          (case map_of fixed_widths key of
             Some width \<Rightarrow> do { fixed width v; Some b }
           | None \<Rightarrow> None))"

text \<open>The loop of \<open>Bounds::new\<close> over the members of the overrides object, in source order.\<close>

fun apply_overrides :: "(bytes \<times> json) list \<Rightarrow> bounds \<Rightarrow> bounds result" where
  "apply_overrides [] b = Some b"
| "apply_overrides ((key, v) # ms) b =
     (case v of
        Integer n \<Rightarrow>
          do {
            reject_if (n \<le> 0);
            b' \<leftarrow> apply_override key (i64_as_u64 n) b;
            apply_overrides ms b'
          }
      | _ \<Rightarrow> None)"

definition bounds_new :: "json option \<Rightarrow> bounds result" where
  "bounds_new overrides =
     (case overrides of
        None \<Rightarrow> Some maximum
      | Some (Object ms) \<Rightarrow> apply_overrides ms maximum
      | Some _ \<Rightarrow> None)"

section \<open>Tightening only\<close>

text \<open>The invariant of the record: every ceiling is positive and within its profile maximum.\<close>

definition tightened :: "bounds \<Rightarrow> bool" where
  "tightened b \<longleftrightarrow> (\<forall>(_, get, _, mx) \<in> set tightening_arms. 0 < get b \<and> get b \<le> mx)"

lemma tightening_arms_distinct: "distinct (map fst tightening_arms)"
  unfolding tightening_arms_def list.map fst_conv by code_simp

lemma tightened_maximum: "tightened maximum"
  by (simp add: tightened_def tightening_arms_def maximum_def)


text \<open>Each arm writes its own field and no other.\<close>

definition writes_own :: "arm \<Rightarrow> bool" where
  "writes_own r \<longleftrightarrow> (case r of (_, get, upd, _) \<Rightarrow> \<forall>b v. get (upd (\<lambda>_. v) b) = v)"

definition keeps_other :: "arm \<Rightarrow> arm \<Rightarrow> bool" where
  "keeps_other r s \<longleftrightarrow>
     (case (r, s) of ((_, get, upd, _), (_, get', upd', _)) \<Rightarrow>
        \<forall>b v. get (upd' (\<lambda>_. v) b) = get b \<and> get' (upd (\<lambda>_. v) b) = get' b)"

lemma arms_write_own: "\<forall>r \<in> set tightening_arms. writes_own r"
  by (simp add: tightening_arms_def writes_own_def)

lemma arms_keep_other: "sorted_wrt keeps_other tightening_arms"
  by (simp add: tightening_arms_def keeps_other_def)


lemma keeps_other_sym: "keeps_other r s \<Longrightarrow> keeps_other s r"
  by (auto simp: keeps_other_def)

lemma sorted_wrt_any:
  "sorted_wrt P xs \<Longrightarrow> (\<And>x y. P x y \<Longrightarrow> P y x) \<Longrightarrow> x \<in> set xs \<Longrightarrow> y \<in> set xs \<Longrightarrow> x \<noteq> y \<Longrightarrow> P x y"
  by (induction xs) auto

lemma arm_keys_determine:
  assumes "(k, x) \<in> set tightening_arms" shows "map_of tightening_arms k = Some x"
  using assms tightening_arms_distinct by (simp add: map_of_eq_Some_iff)

lemma arm_write:
  assumes r: "(k, get, upd, mx) \<in> set tightening_arms"
    and s: "(l, get', upd', mx') \<in> set tightening_arms"
  shows "get (upd' (\<lambda>_. v) b) = (if k = l then v else get b)"
proof (cases "k = l")
  case True
  then have "get' = get" "upd' = upd"
    using arm_keys_determine [OF r] arm_keys_determine [OF s] by simp_all
  then show ?thesis using True arms_write_own r by (auto simp: writes_own_def)
next
  case False
  then have "keeps_other (k, get, upd, mx) (l, get', upd', mx')"
    by (intro sorted_wrt_any [OF arms_keep_other keeps_other_sym r s]) auto
  then show ?thesis using False by (simp add: keeps_other_def)
qed

section \<open>What an accepted override map does\<close>

definition acceptable_override :: "bytes \<times> json \<Rightarrow> bool" where
  "acceptable_override m =
     (case m of
        (k, Integer n) \<Rightarrow>
          0 < n \<and>
          (case map_of tightening_arms k of
             Some (_, _, mx) \<Rightarrow> 0 < i64_as_u64 n \<and> i64_as_u64 n \<le> mx
           | None \<Rightarrow> map_of fixed_widths k = Some (i64_as_u64 n))
      | _ \<Rightarrow> False)"

text \<open>The value that the last override of a name gives it.\<close>

fun effective :: "(bytes \<times> json) list \<Rightarrow> bytes \<Rightarrow> nat \<Rightarrow> nat" where
  "effective [] k n = n"
| "effective ((l, v) # ms) k n =
     effective ms k (case v of Integer i \<Rightarrow> if k = l then i64_as_u64 i else n | _ \<Rightarrow> n)"

lemma apply_overrides_accepts:
  "apply_overrides ms b \<noteq> None \<longleftrightarrow> list_all acceptable_override ms"
proof (induction ms arbitrary: b)
  case (Cons m ms)
  obtain k v where m: "m = (k, v)" by (cases m)
  show ?case using Cons m
    by (auto simp: acceptable_override_def apply_override_def tighten_def fixed_def
        split: json.splits option.splits if_splits)
qed simp

lemma apply_override_write:
  assumes "apply_override l v b = Some b'" "(k, get, upd, mx) \<in> set tightening_arms"
  shows "get b' = (if k = l then v else get b)"
proof (cases "map_of tightening_arms l")
  case (Some x)
  obtain get' upd' mx' where x: "x = (get', upd', mx')" by (cases x)
  then have "(l, get', upd', mx') \<in> set tightening_arms" using Some by (auto dest: map_of_SomeD)
  from arm_write [OF assms(2) this] show ?thesis using assms(1) Some x
    by (auto simp: apply_override_def tighten_def split: if_splits)
next
  case None
  then have "k \<noteq> l" using arm_keys_determine [OF assms(2)] by auto
  then show ?thesis using assms(1) None
    by (auto simp: apply_override_def fixed_def split: option.splits if_splits)
qed

lemma apply_overrides_value:
  assumes "apply_overrides ms b = Some b'" "(k, get, upd, mx) \<in> set tightening_arms"
  shows "get b' = effective ms k (get b)"
  using assms(1)
proof (induction ms arbitrary: b)
  case (Cons m ms)
  then obtain l n b1 where m: "m = (l, Integer n)" "apply_override l (i64_as_u64 n) b = Some b1"
      "apply_overrides ms b1 = Some b'"
    by (cases m) (auto simp: bind_Some split: json.splits if_splits)
  have "get b1 = (if k = l then i64_as_u64 n else get b)"
    by (rule apply_override_write [OF m(2) assms(2)])
  moreover have "get b' = effective ms k (get b1)" by (rule Cons.IH [OF m(3)])
  ultimately show ?case using m(1) by simp
qed simp

lemma arm_maximum:
  assumes "(k, get, upd, mx) \<in> set tightening_arms" shows "get maximum = mx"
proof -
  have "\<forall>(_, get, _, mx) \<in> set tightening_arms. get maximum = mx"
    by (simp add: tightening_arms_def)
  from bspec [OF this assms] show ?thesis by simp
qed


lemma effective_bounds:
  assumes "list_all acceptable_override ms" "(k, get, upd, mx) \<in> set tightening_arms"
    and "0 < n" "n \<le> mx"
  shows "0 < effective ms k n \<and> effective ms k n \<le> mx"
  using assms(1,3,4)
proof (induction ms arbitrary: n)
  case (Cons m ms)
  obtain l v where m: "m = (l, v)" by (cases m)
  have "0 < (case v of Integer i \<Rightarrow> if k = l then i64_as_u64 i else n | _ \<Rightarrow> n) \<and>
      (case v of Integer i \<Rightarrow> if k = l then i64_as_u64 i else n | _ \<Rightarrow> n) \<le> mx"
    using Cons.prems arm_keys_determine [OF assms(2)] m
    by (auto simp: acceptable_override_def split: json.splits)
  then show ?case unfolding m effective.simps using Cons.prems(1) by (intro Cons.IH) auto
qed simp

text \<open>C28: An override map can only tighten. When \<open>Bounds::new\<close> accepts an object of overrides, every
  ceiling of the result is the last override given for its name, or else the profile maximum, and it
  is positive and never above the profile maximum.\<close>

theorem overrides_only_tighten:
  assumes "bounds_new (Some (Object ms)) = Some b" "(k, get, upd, mx) \<in> set tightening_arms"
  shows "get b = effective ms k mx \<and> 0 < get b \<and> get b \<le> get maximum"
proof -
  have b: "apply_overrides ms maximum = Some b" using assms(1) by (simp add: bounds_new_def)
  then have "list_all acceptable_override ms"
    using apply_overrides_accepts [of ms maximum] by simp
  moreover have mx: "get maximum = mx" "0 < mx"
    using arm_maximum [OF assms(2)] tightened_maximum assms(2) by (auto simp: tightened_def)
  ultimately have "0 < effective ms k mx \<and> effective ms k mx \<le> mx"
    using effective_bounds [OF _ assms(2)] by simp
  then show ?thesis using apply_overrides_value [OF b assms(2)] mx by simp
qed

theorem overrides_only_tighten_witness:
  "\<exists>b. bounds_new (Some (Object [(''depth'', Integer 9), (''depth'', Integer 4)])) = Some b
     \<and> depth b = 4 \<and> depth b \<le> depth maximum"
proof -
  let ?ms = "[(''depth'', Integer 9), (''depth'', Integer 4)]"
  have arm: "(''depth'', depth, depth_update, depth maximum) \<in> set tightening_arms"
    by (simp add: tightening_arms_def)
  have "list_all acceptable_override ?ms"
    by (simp add: acceptable_override_def arm_keys_determine [OF arm] maximum_def)
  then obtain b where b: "bounds_new (Some (Object ?ms)) = Some b"
    using apply_overrides_accepts [of ?ms maximum] by (auto simp: bounds_new_def)
  from overrides_only_tighten [OF b arm] b show ?thesis by (simp add: i64_as_u64_def)
qed

text \<open>The override parser rejects exactly the maps of its reject list: it accepts an object if and
  only if every member is a positive integer that names a known limit and stays within its profile
  maximum, or repeats a fixed cryptographic width unchanged.\<close>

theorem overrides_accepted:
  "bounds_new (Some (Object ms)) \<noteq> None \<longleftrightarrow> list_all acceptable_override ms"
  by (simp only: bounds_new_def option.case json.case apply_overrides_accepts)

end
