(* ===== verification/Decimal.thy ===== *)
theory Decimal
  imports Prelude
begin

text \<open>
  Decimal text of numbers: \<open>to_string\<close> of an unsigned and of a signed integer, the value of a run of
  digits, and the byte-wise comparison of strings, with the facts that relate the length and the
  lexicographic order of digit runs to their values. The JSON number checks, the JCS integer form,
  the typed digest projection and the port parser rest on them.
\<close>

section \<open>Text and value\<close>

definition digit_char :: "nat \<Rightarrow> u8" where
  "digit_char n = char_of (48 + n)"

definition digit_value :: "u8 \<Rightarrow> nat" where
  "digit_value c = byte c - 48"

function decimal :: "nat \<Rightarrow> bytes" where
  "decimal n = (if n < 10 then [digit_char n] else decimal (n div 10) @ [digit_char (n mod 10)])"
  by pat_completeness auto
termination
  by (relation "measure id") auto

declare decimal.simps [simp del]

definition decimal_int :: "int \<Rightarrow> bytes" where
  "decimal_int n = (if n < 0 then CHR ''-'' # decimal (nat (- n)) else decimal (nat n))"

definition digits_value :: "bytes \<Rightarrow> nat" where
  "digits_value ds = foldl (\<lambda>a d. a * 10 + digit_value d) 0 ds"

text \<open>The comparison \<open><=\<close> of \<open>str\<close>: lexicographic by bytes.\<close>

fun str_le :: "bytes \<Rightarrow> bytes \<Rightarrow> bool" where
  "str_le [] ys = True"
| "str_le (x # xs) [] = False"
| "str_le (x # xs) (y # ys) = (byte x < byte y \<or> x = y \<and> str_le xs ys)"

section \<open>Digits\<close>

lemma digit_iff: "is_ascii_digit c \<longleftrightarrow> 48 \<le> byte c \<and> byte c \<le> 57"
  by (simp add: is_ascii_digit_def in_range_def byte_def)

lemma is_digit_char [simp]: "n < 10 \<Longrightarrow> is_ascii_digit (digit_char n)"
  by (simp add: digit_iff digit_char_def)

lemma digit_value_char [simp]: "n < 10 \<Longrightarrow> digit_value (digit_char n) = n"
  by (simp add: digit_value_def digit_char_def)

lemma digit_value_less: "is_ascii_digit c \<Longrightarrow> digit_value c < 10"
  by (auto simp: digit_iff digit_value_def)

lemma digit_char_value: "is_ascii_digit c \<Longrightarrow> digit_char (digit_value c) = c"
  by (simp add: digit_iff digit_value_def digit_char_def)

lemma digit_char_zero [simp]: "n < 10 \<Longrightarrow> digit_char n = CHR ''0'' \<longleftrightarrow> n = 0"
proof -
  assume "n < 10"
  moreover have "digit_char 0 = CHR ''0''" by (simp add: digit_char_def char_of_eq)
  ultimately show ?thesis using digit_value_char by (metis zero_less_numeral)
qed

lemma digits_value_Nil [simp]: "digits_value [] = 0"
  by (simp add: digits_value_def)

lemma digits_value_snoc [simp]: "digits_value (ds @ [d]) = digits_value ds * 10 + digit_value d"
  by (simp add: digits_value_def)

lemma digits_value_append: "digits_value (xs @ ys) = digits_value xs * 10 ^ length ys + digits_value ys"
proof (induction ys rule: rev_induct)
  case (snoc y ys)
  then show ?case by (simp flip: append_assoc add: algebra_simps)
qed simp

lemma digits_value_Cons: "digits_value (d # ds) = digit_value d * 10 ^ length ds + digits_value ds"
  using digits_value_append [of "[d]" ds] digits_value_snoc [of "[]" d] by simp

lemma digits_value_bound: "list_all is_ascii_digit ds \<Longrightarrow> digits_value ds < 10 ^ length ds"
proof (induction ds rule: rev_induct)
  case (snoc d ds)
  then have "digits_value ds + 1 \<le> 10 ^ length ds" "digit_value d < 10"
    by (simp_all add: digit_value_less)
  then show ?case by simp
qed simp

lemma digits_value_zeros [simp]: "digits_value (replicate k CHR ''0'') = 0"
  by (induction k) (simp_all add: digits_value_Cons digit_value_def byte_def)

lemma digits_value_lower:
  assumes "list_all is_ascii_digit (d # ds)" "d \<noteq> CHR ''0''"
  shows "10 ^ length ds \<le> digits_value (d # ds)"
proof -
  have "digit_value d \<noteq> 0"
  proof
    assume "digit_value d = 0"
    then have "digit_char 0 = d" using assms(1) digit_char_value [of d] by simp
    with assms(2) show False using digit_char_zero [of 0] by simp
  qed
  then have "1 * 10 ^ length ds \<le> digit_value d * 10 ^ length ds" by (intro mult_right_mono) auto
  also have "\<dots> \<le> digits_value (d # ds)" by (simp add: digits_value_Cons)
  finally show ?thesis by simp
qed

text \<open>Runs of the same length compare as their values.\<close>

lemma str_le_value:
  assumes "length xs = length ys" "list_all is_ascii_digit xs" "list_all is_ascii_digit ys"
  shows "str_le xs ys \<longleftrightarrow> digits_value xs \<le> digits_value ys"
  using assms
proof (induction xs ys rule: str_le.induct)
  case (3 x xs y ys)
  let ?p = "(10 :: nat) ^ length ys"
  have b: "digits_value xs < ?p" "digits_value ys < ?p"
    using 3 digits_value_bound [of xs] digits_value_bound [of ys] by simp_all
  have xy: "byte x = 48 + digit_value x" "byte y = 48 + digit_value y"
    using "3.prems" by (auto simp: digit_iff digit_value_def)
  consider "digit_value x < digit_value y" | "digit_value y < digit_value x"
    | "digit_value x = digit_value y" by linarith
  then show ?case
  proof cases
    case 1
    then have "(digit_value x + 1) * ?p \<le> digit_value y * ?p" by (intro mult_right_mono) auto
    then show ?thesis using 1 b 3 xy by (simp add: digits_value_Cons algebra_simps)
  next
    case 2
    then have "(digit_value y + 1) * ?p \<le> digit_value x * ?p" by (intro mult_right_mono) auto
    moreover have "x \<noteq> y" using 2 by auto
    ultimately show ?thesis using 2 b 3 xy by (simp add: digits_value_Cons algebra_simps)
  next
    case 3
    then have "x = y" using xy by (metis byte_inject)
    then show ?thesis using "3.IH" "3.prems" by (simp add: digits_value_Cons)
  qed
qed auto

section \<open>The decimal text of a number\<close>

lemma decimal_digits [simp]: "list_all is_ascii_digit (decimal n)"
  by (induction n rule: decimal.induct) (subst decimal.simps, simp)

lemma decimal_value [simp]: "digits_value (decimal n) = n"
proof (induction n rule: decimal.induct)
  case (1 n)
  then show ?case
    using digits_value_snoc [of "[]" "digit_char n"] by (subst decimal.simps) simp
qed

lemma decimal_ne [simp]: "decimal n \<noteq> []"
  by (subst decimal.simps) simp

lemma decimal_no_leading_zero: "0 < n \<Longrightarrow> hd (decimal n) \<noteq> CHR ''0''"
proof (induction n rule: decimal.induct)
  case (1 n)
  then show ?case by (subst decimal.simps) (simp add: hd_append)
qed

lemma decimal_zero [simp]: "decimal 0 = [CHR ''0'']"
  by (subst decimal.simps) (simp add: digit_char_def char_of_eq)

lemma decimal_length_bounds:
  "0 < n \<Longrightarrow> 10 ^ (length (decimal n) - 1) \<le> n \<and> n < 10 ^ length (decimal n)"
proof -
  assume n: "0 < n"
  obtain d ds where ds: "decimal n = d # ds" by (cases "decimal n") auto
  then show ?thesis
    using digits_value_bound [of "decimal n"] digits_value_lower [of d ds]
      decimal_no_leading_zero [OF n] decimal_digits [of n] decimal_value [of n] by simp
qed

text \<open>The text of a number is the only run of digits with its value and no leading zero.\<close>

lemma ten_parts:
  assumes "m * 10 + a = n * 10 + b" "a < 10" "b < (10 :: nat)" shows "m = n" "a = b"
  using assms by presburger+

lemma digits_unique:
  assumes "list_all is_ascii_digit xs" "list_all is_ascii_digit ys" "length xs = length ys"
    and "digits_value xs = digits_value ys"
  shows "xs = ys"
  using assms
proof (induction xs arbitrary: ys rule: rev_induct)
  case (snoc x xs)
  obtain y zs where ys: "ys = zs @ [y]" using snoc.prems(3) by (cases ys rule: rev_cases) auto
  have d: "is_ascii_digit x" "is_ascii_digit y" "list_all is_ascii_digit xs" "list_all is_ascii_digit zs"
    using snoc.prems(1,2) ys by simp_all
  have "digits_value xs * 10 + digit_value x = digits_value zs * 10 + digit_value y"
    using snoc.prems(4) unfolding ys digits_value_snoc .
  note * = ten_parts [OF this digit_value_less [OF d(1)] digit_value_less [OF d(2)]]
  have "xs = zs" using d(3,4) *(1) snoc.prems(3) ys by (intro snoc.IH) simp_all
  moreover have "x = y" using *(2) d(1,2) digit_char_value by metis
  ultimately show ?case using ys by simp
qed simp

lemma decimal_inject [simp]: "decimal m = decimal n \<longleftrightarrow> m = n"
  by (metis decimal_value)

lemma decimal_no_minus: "CHR ''-'' \<notin> set (decimal n)"
proof
  assume "CHR ''-'' \<in> set (decimal n)"
  then have "is_ascii_digit (CHR ''-'')" using decimal_digits [of n] by (metis list_all_iff)
  then show False by (simp add: digit_iff byte_def)
qed

lemma decimal_int_inject [simp]: "decimal_int m = decimal_int n \<longleftrightarrow> m = n"
proof
  assume eq: "decimal_int m = decimal_int n"
  have "decimal a \<noteq> CHR ''-'' # s" for a s using decimal_no_minus [of a] by auto
  then show "m = n" using eq by (auto simp: decimal_int_def eq_commute [of "CHR ''-'' # _"] split: if_splits)
qed simp

end
