(* ===== verification/Json.thy ===== *)
theory Json
  imports Unicode Json_Value Bounds Decimal
begin

text \<open>
  The JSON decoder of \<open>sdks/rust/src/json.rs\<close>. The \<open>Decoder\<close> keeps an input slice, a position and a
  node counter. The position is modelled by the suffix \<open>s = input[pos..]\<close>, so that \<open>peek\<close> is the head
  of \<open>s\<close> and \<open>pos += 1\<close> its tail (past the end both stay empty, as \<open>get\<close> then returns \<open>None\<close>); a
  parsing step returns its value, the new suffix and the new count.
\<close>

section \<open>Lexical steps\<close>

definition is_ws :: "u8 \<Rightarrow> bool" where
  "is_ws c \<longleftrightarrow> c \<in> {CHR '' '', CHR 0x09, CHR 0x0A, CHR 0x0D}"

definition skip_ws :: "bytes \<Rightarrow> bytes" where
  "skip_ws s = dropWhile is_ws s"

definition expect_literal :: "bytes \<Rightarrow> bytes \<Rightarrow> bytes result" where
  "expect_literal lit s = (if starts_with lit s then Some (drop (length lit) s) else None)"

definition hex_digit :: "u8 \<Rightarrow> nat result" where
  "hex_digit c =
     (if is_ascii_digit c then Some (byte c - 48)
      else if in_range CHR ''a'' CHR ''f'' c then Some (byte c - 97 + 10)
      else if in_range CHR ''A'' CHR ''F'' c then Some (byte c - 65 + 10)
      else None)"

fun hex_loop :: "nat \<Rightarrow> nat \<Rightarrow> bytes \<Rightarrow> (nat \<times> bytes) result" where
  "hex_loop 0 v s = Some (v, s)"
| "hex_loop (Suc k) v s =
     (case s of
        [] \<Rightarrow> None
      | c # r \<Rightarrow> do { d \<leftarrow> hex_digit c; hex_loop k (v * 16 + d) r })"

definition parse_hex4 :: "bytes \<Rightarrow> (nat \<times> bytes) result" where
  "parse_hex4 s = hex_loop 4 0 s"

definition encode_codepoint :: "bytes \<Rightarrow> nat \<Rightarrow> bytes \<Rightarrow> (bytes \<times> bytes) result" where
  "encode_codepoint buf cp s =
     (if 0xD800 \<le> cp \<and> cp \<le> 0xDBFF then
        (case s of
           c1 # c2 # r \<Rightarrow>
             if c1 \<noteq> CHR 0x5C \<or> c2 \<noteq> CHR ''u'' then None
             else do {
               (lo, r') \<leftarrow> parse_hex4 r;
               reject_if (\<not> (0xDC00 \<le> lo \<and> lo \<le> 0xDFFF));
               Some (buf @ push_utf8 (0x10000 + push_bit 10 (cp - 0xD800) + (lo - 0xDC00)), r')
             }
         | _ \<Rightarrow> None)
      else if 0xDC00 \<le> cp \<and> cp \<le> 0xDFFF then None
      else Some (buf @ push_utf8 cp, s))"

text \<open>The simple escapes of \<open>parse_string\<close>.\<close>

definition simple_escape :: "u8 \<Rightarrow> u8 option" where
  "simple_escape c = map_of
     [(CHR 0x22, CHR 0x22), (CHR 0x5C, CHR 0x5C), (CHR ''/'', CHR ''/''), (CHR ''b'', CHR 0x08),
      (CHR ''f'', CHR 0x0C), (CHR ''n'', CHR 0x0A), (CHR ''r'', CHR 0x0D), (CHR ''t'', CHR 0x09)] c"

lemma hex_loop_shorter: "hex_loop k v s = Some (w, r) \<Longrightarrow> length r \<le> length s"
proof (induction k v s rule: hex_loop.induct)
  case (2 k v s)
  then show ?case by (cases s) (fastforce simp: bind_Some)+
qed simp

lemma encode_codepoint_shorter:
  "encode_codepoint buf cp s = Some (b, r) \<Longrightarrow> length r \<le> length s"
  unfolding encode_codepoint_def parse_hex4_def
  by (auto simp: bind_Some dest!: hex_loop_shorter split: if_splits list.splits)

text \<open>The loop of \<open>parse_string\<close>, after the opening quote.\<close>

function parse_chars :: "bytes \<Rightarrow> bytes \<Rightarrow> (bytes \<times> bytes) result" where
  "parse_chars buf s =
     (case s of
        [] \<Rightarrow> None
      | c # r \<Rightarrow>
          if c = CHR 0x22 then Some (buf, r)
          else if c = CHR 0x5C then
            (case r of
               [] \<Rightarrow> None
             | esc # r1 \<Rightarrow>
                 (case simple_escape esc of
                    Some e \<Rightarrow> parse_chars (buf @ [e]) r1
                  | None \<Rightarrow>
                      if esc = CHR ''u'' then
                        (case parse_hex4 r1 of
                           None \<Rightarrow> None
                         | Some (cp, r2) \<Rightarrow>
                             (case encode_codepoint buf cp r2 of
                                None \<Rightarrow> None
                              | Some (buf', r3) \<Rightarrow> parse_chars buf' r3))
                      else None))
          else if byte c < 0x20 then None
          else parse_chars (buf @ [c]) r)"
  by pat_completeness auto
termination
  by (relation "measure (\<lambda>(_, s). length s)")
    (auto simp: parse_hex4_def dest!: hex_loop_shorter encode_codepoint_shorter)

declare parse_chars.simps [simp del]

text \<open>
  \<open>parse_string\<close> steps over one byte as the opening quote without looking at it: the value parser
  has seen the quote, the object parser has not.
\<close>

definition parse_string :: "nat \<Rightarrow> bytes \<Rightarrow> (bytes \<times> bytes) result" where
  "parse_string byte_limit s =
     do {
       (buf, r) \<leftarrow> parse_chars [] (tl s);
       reject_if (length buf > byte_limit);
       str \<leftarrow> from_utf8 buf;
       Some (str, r)
     }"

section \<open>Number lexemes\<close>

definition peek_digit :: "bytes \<Rightarrow> bool" where
  "peek_digit s = (case s of c # _ \<Rightarrow> is_ascii_digit c | [] \<Rightarrow> False)"

definition peek_is :: "u8 \<Rightarrow> bytes \<Rightarrow> bool" where
  "peek_is c s = (case s of d # _ \<Rightarrow> d = c | [] \<Rightarrow> False)"

text \<open>\<open>scan_number_lexeme\<close> returns the suffix after the lexeme.\<close>

definition scan_int :: "bytes \<Rightarrow> bytes result" where
  "scan_int s =
     (case s of
        [] \<Rightarrow> None
      | c # r \<Rightarrow>
          if c = CHR ''0'' then Some r
          else if in_range CHR ''1'' CHR ''9'' c then Some (dropWhile is_ascii_digit r)
          else None)"

definition scan_frac :: "bytes \<Rightarrow> bytes result" where
  "scan_frac s =
     (if peek_is CHR ''.'' s then
        (if peek_digit (tl s) then Some (dropWhile is_ascii_digit (tl s)) else None)
      else Some s)"

definition scan_exp :: "bytes \<Rightarrow> bytes result" where
  "scan_exp s =
     (if peek_is CHR ''e'' s \<or> peek_is CHR ''E'' s then
        (let s1 = tl s;
             s2 = (if peek_is CHR ''+'' s1 \<or> peek_is CHR ''-'' s1 then tl s1 else s1)
         in if peek_digit s2 then Some (dropWhile is_ascii_digit s2) else None)
      else Some s)"

definition scan_number_lexeme :: "bytes \<Rightarrow> bytes result" where
  "scan_number_lexeme s =
     do {
       s1 \<leftarrow> scan_int (if peek_is CHR ''-'' s then tl s else s);
       s2 \<leftarrow> scan_frac s1;
       scan_exp s2
     }"

text \<open>The exponent accumulator \<open>ev\<close> is an \<open>i64\<close>; in a release build its arithmetic wraps.\<close>

definition wrap_i64 :: "int \<Rightarrow> int" where
  "wrap_i64 k = u64_as_i64 (nat (k mod 2 ^ 64))"

definition exp_value :: "bytes \<Rightarrow> int" where
  "exp_value ds = foldl (\<lambda>ev d. wrap_i64 (wrap_i64 (ev * 10) + int (digit_value d))) 0 ds"

text \<open>The same loop with the overflow checks of a debug build, where \<open>None\<close> is the panic.\<close>

fun exp_value_checked :: "int \<Rightarrow> bytes \<Rightarrow> int option" where
  "exp_value_checked ev [] = Some ev"
| "exp_value_checked ev (d # ds) =
     (if is_i64 (ev * 10) \<and> is_i64 (ev * 10 + int (digit_value d))
      then exp_value_checked (ev * 10 + int (digit_value d)) ds else None)"

definition decompose_exponent :: "bytes \<Rightarrow> int" where
  "decompose_exponent s =
     (if peek_is CHR ''e'' s \<or> peek_is CHR ''E'' s then
        (let s1 = tl s;
             esign = (if peek_is CHR ''-'' s1 then -1 else 1 :: int);
             s2 = (if peek_is CHR ''+'' s1 \<or> peek_is CHR ''-'' s1 then tl s1 else s1);
             ds = takeWhile is_ascii_digit s2;
             ev = exp_value ds
         in esign * (if length ds > 3 \<or> ev > 999 then 1000 else ev))
      else 0)"

definition decompose_number :: "bytes \<Rightarrow> bytes \<times> nat \<times> int" where
  "decompose_number lexeme =
     (let s = (if peek_is CHR ''-'' lexeme then tl lexeme else lexeme);
          int_digits = takeWhile is_ascii_digit s;
          s1 = dropWhile is_ascii_digit s;
          frac_digits = (if peek_is CHR ''.'' s1 then takeWhile is_ascii_digit (tl s1) else []);
          s2 = (if peek_is CHR ''.'' s1 then dropWhile is_ascii_digit (tl s1) else s1)
      in (int_digits @ frac_digits, length frac_digits, decompose_exponent s2))"

definition strip_leading_zeros :: "bytes \<Rightarrow> bytes" where
  "strip_leading_zeros s =
     (let t = dropWhile (\<lambda>c. c = CHR ''0'') s in if t = [] then ''0'' else t)"

definition magnitude_ok :: "bytes \<Rightarrow> int \<Rightarrow> nat \<Rightarrow> bool" where
  "magnitude_ok digits scale bound =
     (if digits = ''0'' then True
      else
        let bound_str = decimal bound; blen = int (length bound_str); dlen = int (length digits) in
        if scale \<ge> 0 then
          (let eff_len = dlen + scale in
           if eff_len > blen then False
           else if eff_len < blen then True
           else str_le (digits @ replicate (nat scale) CHR ''0'') bound_str)
        else
          (let k = - scale; thresh_len = blen + k in
           if dlen > thresh_len then False
           else if dlen < thresh_len then True
           else str_le digits (bound_str @ replicate (nat k) CHR ''0'')))"

text \<open>
  \<open>str::parse\<close> of a scanned lexeme: exact for \<open>i64\<close> (an error out of range), correctly rounded for
  \<open>f64\<close>. The exact decimal value is \<open>lexeme_value\<close>; its exponent is not saturated.
\<close>

definition lexeme_negative :: "bytes \<Rightarrow> bool" where
  "lexeme_negative lexeme = peek_is CHR ''-'' lexeme"

definition exact_exponent :: "bytes \<Rightarrow> int" where
  "exact_exponent s =
     (if peek_is CHR ''e'' s \<or> peek_is CHR ''E'' s then
        (let s1 = tl s;
             s2 = (if peek_is CHR ''+'' s1 \<or> peek_is CHR ''-'' s1 then tl s1 else s1);
             e = int (digits_value (takeWhile is_ascii_digit s2))
         in if peek_is CHR ''-'' s1 then - e else e)
      else 0)"

definition lexeme_exponent_part :: "bytes \<Rightarrow> bytes" where
  "lexeme_exponent_part lexeme =
     (let s1 = dropWhile is_ascii_digit (if peek_is CHR ''-'' lexeme then tl lexeme else lexeme)
      in if peek_is CHR ''.'' s1 then dropWhile is_ascii_digit (tl s1) else s1)"

definition parse_i64 :: "bytes \<Rightarrow> int result" where
  "parse_i64 lexeme =
     (let m = int (digits_value (takeWhile is_ascii_digit
                (if lexeme_negative lexeme then tl lexeme else lexeme)));
          n = (if lexeme_negative lexeme then - m else m)
      in if is_i64 n then Some n else None)"

definition parse_f64 :: "bytes \<Rightarrow> f64" where
  "parse_f64 lexeme =
     (case decompose_number lexeme of (digits, frac_count, _) \<Rightarrow>
        f64_from_decimal (lexeme_negative lexeme) (digits_value digits)
          (exact_exponent (lexeme_exponent_part lexeme) - int frac_count))"

definition is_float_lexeme :: "bytes \<Rightarrow> bool" where
  "is_float_lexeme lexeme \<longleftrightarrow> list_ex (\<lambda>c. c \<in> {CHR ''.'', CHR ''e'', CHR ''E''}) lexeme"

definition parse_number :: "bounds \<Rightarrow> bytes \<Rightarrow> (json \<times> bytes) result" where
  "parse_number b s =
     do {
       r \<leftarrow> scan_number_lexeme s;
       let lexeme = take (length s - length r) s;
       let is_float = is_float_lexeme lexeme;
       reject_if (length lexeme > number_lexeme_bytes b);
       let (digits, frac_count, exp) = decompose_number lexeme;
       let scale = exp - int frac_count;
       let stripped = strip_leading_zeros digits;
       let bound = (if is_float then float_magnitude b else integer_magnitude b);
       reject_if (\<not> magnitude_ok stripped scale bound);
       if is_float then do {
         str \<leftarrow> from_utf8 lexeme;
         let f = parse_f64 str;
         reject_if (\<not> f64_is_finite f);
         Some (Float f, r)
       } else do {
         str \<leftarrow> from_utf8 lexeme;
         n \<leftarrow> parse_i64 str;
         Some (Integer n, r)
       }
     }"

section \<open>Values\<close>

text \<open>The container budget at a depth, scaled so that each call of the cycle takes one from it.\<close>

definition level :: "bounds \<Rightarrow> nat \<Rightarrow> nat" where
  "level b d = 3 * (depth b + 1 - d)"

definition loop_level :: "bounds \<Rightarrow> nat \<Rightarrow> nat" where
  "loop_level b d = (if d \<le> depth b then level b d else 3)"

text \<open>
  The recursive descent. \<open>parse_elements\<close> and \<open>parse_members\<close> are the loops of \<open>parse_array\<close> and
  \<open>parse_object\<close>, with the vector built so far as an argument. The recursion ends because of the
  code's own limits: nesting stops at \<open>depth\<close> and the loops at \<open>array_items\<close> and \<open>object_members\<close>.
\<close>

function (sequential)
  parse_value :: "bounds \<Rightarrow> nat \<Rightarrow> bytes \<Rightarrow> nat \<Rightarrow> (json \<times> bytes \<times> nat) result"
and parse_array :: "bounds \<Rightarrow> nat \<Rightarrow> bytes \<Rightarrow> nat \<Rightarrow> (json \<times> bytes \<times> nat) result"
and parse_elements :: "bounds \<Rightarrow> nat \<Rightarrow> json list \<Rightarrow> bytes \<Rightarrow> nat \<Rightarrow> (json \<times> bytes \<times> nat) result"
and parse_object :: "bounds \<Rightarrow> nat \<Rightarrow> bytes \<Rightarrow> nat \<Rightarrow> (json \<times> bytes \<times> nat) result"
and parse_members ::
      "bounds \<Rightarrow> nat \<Rightarrow> (bytes \<times> json) list \<Rightarrow> bytes \<Rightarrow> nat \<Rightarrow> (json \<times> bytes \<times> nat) result"
where
  "parse_value b d s nodes =
     (if nodes + 1 > total_nodes b then None
      else case s of
        [] \<Rightarrow> None
      | c # _ \<Rightarrow>
          if c = CHR ''{'' then parse_object b d s (nodes + 1)
          else if c = CHR ''['' then parse_array b d s (nodes + 1)
          else if c = CHR 0x22 then do {
            (str, r) \<leftarrow> parse_string (string_bytes b) s;
            Some (String str, r, nodes + 1)
          }
          else if c = CHR ''t'' then do { r \<leftarrow> expect_literal ''true'' s; Some (Bool True, r, nodes + 1) }
          else if c = CHR ''f'' then do { r \<leftarrow> expect_literal ''false'' s; Some (Bool False, r, nodes + 1) }
          else if c = CHR ''n'' then do { r \<leftarrow> expect_literal ''null'' s; Some (Null, r, nodes + 1) }
          else if c = CHR ''-'' \<or> is_ascii_digit c then do {
            (v, r) \<leftarrow> parse_number b s;
            Some (v, r, nodes + 1)
          }
          else None)"
| "parse_array b d s nodes =
     (if d > depth b then None
      else
        let s1 = skip_ws (tl s) in
        if peek_is CHR '']'' s1 then Some (Array [], tl s1, nodes)
        else parse_elements b d [] s1 nodes)"
| "parse_elements b d items s nodes =
     (if length items \<ge> array_items b then None
      else case parse_value b (d + 1) s nodes of
        None \<Rightarrow> None
      | Some (v, s1, n1) \<Rightarrow>
          (case skip_ws s1 of
             [] \<Rightarrow> None
           | c # s2 \<Rightarrow>
               if c = CHR '','' then parse_elements b d (items @ [v]) (skip_ws s2) n1
               else if c = CHR '']'' then Some (Array (items @ [v]), s2, n1)
               else None))"
| "parse_object b d s nodes =
     (if d > depth b then None
      else
        let s1 = skip_ws (tl s) in
        if peek_is CHR ''}'' s1 then Some (Object [], tl s1, nodes)
        else parse_members b d [] s1 nodes)"
| "parse_members b d members s nodes =
     (if length members \<ge> object_members b then None
      else case parse_string (key_bytes b) s of
        None \<Rightarrow> None
      | Some (name, s1) \<Rightarrow>
          let s2 = skip_ws s1 in
          if \<not> peek_is CHR '':'' s2 then None
          else
            (case parse_value b (d + 1) (skip_ws (tl s2)) nodes of
               None \<Rightarrow> None
             | Some (v, s3, n1) \<Rightarrow>
                 if list_ex (\<lambda>(k, _). k = name) members then None
                 else
                   (case skip_ws s3 of
                      [] \<Rightarrow> None
                    | c # s4 \<Rightarrow>
                        if c = CHR '','' then parse_members b d (members @ [(name, v)]) (skip_ws s4) n1
                        else if c = CHR ''}'' then Some (Object (members @ [(name, v)]), s4, n1)
                        else None)))"
  by pat_completeness auto

termination
proof (relation "inv_image (less_than <*lex*> less_than)
    (\<lambda>x. case x of
        Inl (Inl (b, d, s, n)) \<Rightarrow> (level b d + 2, 0)
      | Inl (Inr (b, d, s, n)) \<Rightarrow> (level b d + 1, 0)
      | Inr (Inl (b, d, items, s, n)) \<Rightarrow> (loop_level b d, array_items b - length items)
      | Inr (Inr (Inl (b, d, s, n))) \<Rightarrow> (level b d + 1, 0)
      | Inr (Inr (Inr (b, d, ms, s, n))) \<Rightarrow> (loop_level b d, object_members b - length ms))")
qed (auto simp: level_def loop_level_def)


declare parse_value.simps [simp del] parse_array.simps [simp del] parse_elements.simps [simp del]
  parse_object.simps [simp del] parse_members.simps [simp del]

definition json_decode :: "bounds \<Rightarrow> bytes \<Rightarrow> json result" where
  "json_decode b text =
     do {
       reject_if (length text > json_bytes b);
       (v, s, _) \<leftarrow> parse_value b 1 (skip_ws text) 0;
       reject_if (skip_ws s \<noteq> []);
       Some v
     }"

section \<open>What a decoded value satisfies\<close>

fun json_ok :: "bounds \<Rightarrow> nat \<Rightarrow> json \<Rightarrow> bool" where
  "json_ok b d Null = True"
| "json_ok b d (Bool v) = True"
| "json_ok b d (Integer n) = (\<bar>n\<bar> \<le> int (integer_magnitude b))"
| "json_ok b d (Float f) = f64_is_finite f"
| "json_ok b d (String s) = (utf8_valid s \<and> length s \<le> string_bytes b)"
| "json_ok b d (Array xs) =
     (d \<le> depth b \<and> length xs \<le> array_items b \<and> (\<forall>x \<in> set xs. json_ok b (d + 1) x))"
| "json_ok b d (Object ms) =
     (d \<le> depth b \<and> length ms \<le> object_members b \<and> distinct (map fst ms) \<and>
      (\<forall>m \<in> set ms. utf8_valid (fst m) \<and> length (fst m) \<le> key_bytes b \<and> json_ok b (d + 1) (snd m)))"

fun node_count :: "json \<Rightarrow> nat" where
  "node_count (Array xs) = 1 + sum_list (map node_count xs)"
| "node_count (Object ms) = 1 + sum_list (map (node_count \<circ> snd) ms)"
| "node_count _ = 1"

end
