(* ===== verification/Backend.thy ===== *)
theory Backend
  imports Prelude Json_Value
begin

text \<open>
  The third-party crates the library calls are not under \<open>src/\<close>: \<open>sha2\<close>, \<open>ed25519-dalek\<close>, \<open>p256\<close> and
  \<open>ryu-js\<close>. They are the fields of a record that the definitions take as an argument; what the code
  relies on is stated as a named predicate on the record and appears as a hypothesis where it is used.

  \<open>sha256\<close> is the digest of a byte string; \<open>ed_point k\<close> says that \<open>VerifyingKey::from_bytes\<close> accepts
  the key and \<open>ed_torsion_free k\<close> that the decompressed point is free of torsion; \<open>ed_verify k m s\<close> is
  the cofactorless \<open>verify\<close> of a parsed key; \<open>p256_point\<close> parses a SEC1 point and \<open>p256_verify k m s\<close> checks an
  ES256 signature; \<open>ryu_format\<close> is \<open>ryu_js::Buffer::format_finite\<close>.
\<close>

record backend =
  sha256 :: "bytes \<Rightarrow> bytes"
  ed_point :: "bytes \<Rightarrow> bool"
  ed_torsion_free :: "bytes \<Rightarrow> bool"
  ed_verify :: "bytes \<Rightarrow> bytes \<Rightarrow> bytes \<Rightarrow> bool"
  p256_point :: "bytes \<Rightarrow> bool"
  p256_verify :: "bytes \<Rightarrow> bytes \<Rightarrow> bytes \<Rightarrow> bool"
  ryu_format :: "f64 \<Rightarrow> bytes"

text \<open>SHA-256 returns 32 bytes.\<close>

definition sha256_width :: "backend \<Rightarrow> bool" where
  "sha256_width B \<longleftrightarrow> (\<forall>m. length (sha256 B m) = 32)"

text \<open>Two byte strings are not a collision of the digest.\<close>

definition collision_free :: "backend \<Rightarrow> bytes \<Rightarrow> bytes \<Rightarrow> bool" where
  "collision_free B x y \<longleftrightarrow> sha256 B x \<noteq> sha256 B y \<or> x = y"

text \<open>The formatter writes plain ASCII text.\<close>

definition ryu_ascii :: "backend \<Rightarrow> bool" where
  "ryu_ascii B \<longleftrightarrow> (\<forall>f. list_all (\<lambda>c. byte c < 0x80) (ryu_format B f))"

text \<open>
  A concrete record for evaluation: a checksum in place of the digest, and checks that accept.
\<close>

definition checksum :: "bytes \<Rightarrow> bytes" where
  "checksum m = map (\<lambda>i. char_of (sum_list (map byte m) + i)) [0..<32]"

definition sample_backend :: backend where
  "sample_backend = \<lparr>
     sha256 = checksum,
     ed_point = (\<lambda>k. length k = 32),
     ed_torsion_free = (\<lambda>k. True),
     ed_verify = (\<lambda>k m s. length s = 64),
     p256_point = (\<lambda>k. length k = 65),
     p256_verify = (\<lambda>k m s. length s = 64),
     ryu_format = (\<lambda>f. ''0'')\<rparr>"

lemma sample_width: "sha256_width sample_backend"
  by (simp add: sha256_width_def sample_backend_def checksum_def)

lemma sample_ascii: "ryu_ascii sample_backend"
  by (simp add: ryu_ascii_def sample_backend_def byte_def)

end
