(* ===== verification/Jcs.thy ===== *)
theory Jcs
  imports Unicode Json Backend
begin

text \<open>
  The canonical JSON encoder of \<open>sdks/rust/src/jcs.rs\<close>. The two \<open>&mut\<close> arguments of \<open>encode_value\<close>,
  the output buffer and the node counter, are threaded as a pair.
\<close>

section \<open>Scalars\<close>

definition hex_nibble :: "nat \<Rightarrow> u8" where
  "hex_nibble n = (if n \<le> 9 then char_of (48 + n) else char_of (97 + (n - 10)))"

definition escape_char :: "nat \<Rightarrow> bytes" where
  "escape_char cp =
     (if cp \<le> 0x1F then
        (if cp = 0x08 then [CHR 0x5C, CHR ''b'']
         else if cp = 0x09 then [CHR 0x5C, CHR ''t'']
         else if cp = 0x0A then [CHR 0x5C, CHR ''n'']
         else if cp = 0x0C then [CHR 0x5C, CHR ''f'']
         else if cp = 0x0D then [CHR 0x5C, CHR ''r'']
         else [CHR 0x5C, CHR ''u'', CHR ''0'', CHR ''0'', hex_nibble (drop_bit 4 cp), hex_nibble (cp AND 0x0F)])
      else if cp = 0x5C then [CHR 0x5C, CHR 0x5C]
      else if cp = 0x22 then [CHR 0x5C, CHR 0x22]
      else push_utf8 cp)"

definition encode_string :: "bytes \<Rightarrow> bytes \<Rightarrow> bytes" where
  "encode_string s out = out @ [CHR 0x22] @ concat (map escape_char (chars s)) @ [CHR 0x22]"

definition encode_int :: "int \<Rightarrow> bytes \<Rightarrow> bytes" where
  "encode_int n out = out @ decimal_int n"

definition encode_float :: "backend \<Rightarrow> f64 \<Rightarrow> bytes \<Rightarrow> bytes result" where
  "encode_float B f out =
     do { reject_if (\<not> f64_is_finite f); Some (out @ ryu_format B f) }"

section \<open>Values\<close>

text \<open>The loop over the members that bounds the keys and inserts them into the \<open>seen\<close> set.\<close>

fun check_members :: "bounds \<Rightarrow> bytes set \<Rightarrow> (bytes \<times> json) list \<Rightarrow> unit result" where
  "check_members b seen [] = Some ()"
| "check_members b seen ((k, v) # ms) =
     (if length k > key_bytes b \<or> k \<in> seen then None else check_members b (insert k seen) ms)"

function (sequential)
  encode_value :: "backend \<Rightarrow> bounds \<Rightarrow> json \<Rightarrow> nat \<Rightarrow> bytes \<times> nat \<Rightarrow> (bytes \<times> nat) result"
and encode_items :: "backend \<Rightarrow> bounds \<Rightarrow> json list \<Rightarrow> nat \<Rightarrow> bool \<Rightarrow> bytes \<times> nat \<Rightarrow> (bytes \<times> nat) result"
and encode_members ::
  "backend \<Rightarrow> bounds \<Rightarrow> (bytes \<times> json) list \<Rightarrow> nat \<Rightarrow> bool \<Rightarrow> bytes \<times> nat \<Rightarrow> (bytes \<times> nat) result"
where
  "encode_value B b v d (out, nodes) =
     (if nodes + 1 > total_nodes b then None
      else
        case (case v of
                Null \<Rightarrow> Some (out @ ''null'', nodes + 1)
              | Bool True \<Rightarrow> Some (out @ ''true'', nodes + 1)
              | Bool False \<Rightarrow> Some (out @ ''false'', nodes + 1)
              | Integer n \<Rightarrow>
                  (let mag = u64_as_i64 (integer_magnitude b) in
                   if n < - mag \<or> n > mag then None else Some (encode_int n out, nodes + 1))
              | Float f \<Rightarrow>
                  (let mag = f64_of_u64 (float_magnitude b) in
                   if \<not> f64_is_finite f \<or> f64_gt (f64_abs f) mag then None
                   else map_option (\<lambda>out'. (out', nodes + 1)) (encode_float B f out))
              | String s \<Rightarrow>
                  if length s > string_bytes b then None else Some (encode_string s out, nodes + 1)
              | Array items \<Rightarrow>
                  if d > depth b then None
                  else if length items > array_items b then None
                  else (case encode_items B b items (d + 1) True (out @ ''['', nodes + 1) of
                          None \<Rightarrow> None
                        | Some (out', nodes') \<Rightarrow> Some (out' @ '']'', nodes'))
              | Object ms \<Rightarrow>
                  if d > depth b then None
                  else if length ms > object_members b then None
                  else if check_members b {} ms = None then None
                  else (case encode_members B b (sort_by (by_name utf16_compare) ms) (d + 1) True
                               (out @ ''{'', nodes + 1) of
                          None \<Rightarrow> None
                        | Some (out', nodes') \<Rightarrow> Some (out' @ ''}'', nodes')))
        of None \<Rightarrow> None
         | Some (out', nodes') \<Rightarrow> if length out' > jcs_bytes b then None else Some (out', nodes'))"
| "encode_items B b [] d first st = Some st"
| "encode_items B b (v # vs) d first (out, nodes) =
     (case encode_value B b v d (if first then out else out @ '','', nodes) of
        None \<Rightarrow> None
      | Some st \<Rightarrow> encode_items B b vs d False st)"
| "encode_members B b [] d first st = Some st"
| "encode_members B b ((k, v) # ms) d first (out, nodes) =
     (case encode_value B b v d
             (encode_string k (if first then out else out @ '','') @ '':'', nodes) of
        None \<Rightarrow> None
      | Some st \<Rightarrow> encode_members B b ms d False st)"
  by pat_completeness auto

termination
proof (relation "measure (\<lambda>x. case x of
        Inl (B, b, v, d, st) \<Rightarrow> 2 * size v
      | Inr (Inl (B, b, vs, d, first, st)) \<Rightarrow> 2 * size_list size vs + 1
      | Inr (Inr (B, b, ms, d, first, st)) \<Rightarrow> 2 * size_list (\<lambda>m. size (snd m)) ms + 1)")
qed (auto simp: size_prod_simp less_Suc_eq_le intro!: size_list_pointwise)

declare encode_value.simps [simp del]

definition jcs_encode :: "backend \<Rightarrow> bounds \<Rightarrow> json \<Rightarrow> bytes result" where
  "jcs_encode B b v =
     do {
       (out, _) \<leftarrow> encode_value B b v 1 ([], 0);
       reject_if (length out > jcs_bytes b);
       Some out
     }"

end
