(* ===== verification/Json_Facts.thy ===== *)
theory Json_Facts
  imports Json
begin

text \<open>
  What the JSON decoder guarantees: the exactness of the decimal magnitude check, the limits that
  every decoded value obeys, and three inputs on which the decoder departs from its documentation.
\<close>

section \<open>The decimal magnitude check\<close>

definition no_leading_zero :: "bytes \<Rightarrow> bool" where
  "no_leading_zero ds \<longleftrightarrow> ds \<noteq> [] \<and> hd ds \<noteq> CHR ''0'' \<and> list_all is_ascii_digit ds"

definition digits_le :: "bytes \<Rightarrow> bytes \<Rightarrow> bool" where
  "digits_le xs ys =
     (if length xs > length ys then False else if length xs < length ys then True else str_le xs ys)"

lemma digits_shorter:
  assumes "no_leading_zero ys" "list_all is_ascii_digit xs" "length xs < length ys"
  shows "digits_value xs < digits_value ys"
proof -
  obtain y zs where ys: "ys = y # zs" using assms(3) by (cases ys) auto
  have "digits_value xs < 10 ^ length xs" using assms(2) by (rule digits_value_bound)
  also have "\<dots> \<le> 10 ^ length zs" using assms(3) ys by (intro power_increasing) auto
  also have "\<dots> \<le> digits_value ys"
    unfolding ys using assms(1) ys by (intro digits_value_lower) (auto simp: no_leading_zero_def)
  finally show ?thesis .
qed

lemma digits_le_value:
  assumes "no_leading_zero xs" "no_leading_zero ys"
  shows "digits_le xs ys \<longleftrightarrow> digits_value xs \<le> digits_value ys"
proof -
  have d: "list_all is_ascii_digit xs" "list_all is_ascii_digit ys"
    using assms by (simp_all add: no_leading_zero_def)
  consider "length xs > length ys" | "length xs < length ys" | "length xs = length ys" by linarith
  then show ?thesis
  proof cases
    case 1
    then show ?thesis using digits_shorter [OF assms(1) d(2)] by (simp add: digits_le_def)
  next
    case 2
    then show ?thesis using digits_shorter [OF assms(2) d(1)] by (simp add: digits_le_def)
  next
    case 3
    then show ?thesis using str_le_value [OF _ d] by (simp add: digits_le_def)
  qed
qed

lemma no_leading_zero_decimal: "0 < n \<Longrightarrow> no_leading_zero (decimal n)"
  by (simp add: no_leading_zero_def decimal_no_leading_zero)

lemma zeros_digits [simp]: "list_all is_ascii_digit (replicate k CHR ''0'')"
  by (simp add: list_all_iff digit_iff byte_def)

lemma no_leading_zero_append:
  "no_leading_zero xs \<Longrightarrow> no_leading_zero (xs @ replicate k CHR ''0'')"
  by (auto simp: no_leading_zero_def)

lemma digits_value_scale [simp]:
  "digits_value (xs @ replicate k CHR ''0'') = digits_value xs * 10 ^ k"
  by (simp add: digits_value_append)

lemma magnitude_ok_digits:
  assumes "ds \<noteq> ''0''"
  shows "magnitude_ok ds scale bound =
     (if 0 \<le> scale then digits_le (ds @ replicate (nat scale) CHR ''0'') (decimal bound)
      else digits_le ds (decimal bound @ replicate (nat (- scale)) CHR ''0''))"
  using assms by (auto simp: magnitude_ok_def digits_le_def Let_def)

lemma zero_digit [simp]: "digits_value ''0'' = 0"
  by (simp only: digits_value_Cons digits_value_Nil) (simp add: digit_value_def byte_def)

lemma drop_zeros_value: "digits_value (dropWhile (\<lambda>c. c = CHR ''0'') ds) = digits_value ds"
  by (induction ds) (auto simp: digits_value_Cons digit_value_def byte_def)

lemma strip_value: "digits_value (strip_leading_zeros ds) = digits_value ds"
proof (cases "dropWhile (\<lambda>c. c = CHR ''0'') ds = []")
  case True
  then have "digits_value ds = 0" using drop_zeros_value [of ds] by (simp only: digits_value_Nil)
  then show ?thesis using True by (simp only: strip_leading_zeros_def Let_def if_True zero_digit simp_thms)
next
  case False
  then show ?thesis by (simp only: strip_leading_zeros_def Let_def if_False drop_zeros_value)
qed

lemma strip_no_leading_zero:
  assumes "list_all is_ascii_digit ds" "strip_leading_zeros ds \<noteq> ''0''"
  shows "no_leading_zero (strip_leading_zeros ds)"
proof -
  let ?t = "dropWhile (\<lambda>c. c = CHR ''0'') ds"
  have t: "?t \<noteq> []" "strip_leading_zeros ds = ?t"
    using assms(2) by (auto simp: strip_leading_zeros_def Let_def split: if_splits)
  moreover have "hd ?t \<noteq> CHR ''0''" using hd_dropWhile [OF t(1)] .
  moreover have "list_all is_ascii_digit ?t"
    using assms(1) by (auto simp: list_all_iff dest: set_dropWhileD)
  ultimately show ?thesis by (simp add: no_leading_zero_def)
qed

lemma magnitude_ok_value:
  assumes "list_all is_ascii_digit ds" "0 < bound"
  shows "magnitude_ok (strip_leading_zeros ds) scale bound \<longleftrightarrow>
    (if 0 \<le> scale then digits_value ds * 10 ^ nat scale \<le> bound
     else digits_value ds \<le> bound * 10 ^ nat (- scale))"
proof (cases "strip_leading_zeros ds = ''0''")
  case True
  then have "digits_value ds = 0"
    using strip_value [of ds] by (simp only: zero_digit)
  then show ?thesis using True by (simp add: magnitude_ok_def)
next
  case False
  note n = strip_no_leading_zero [OF assms(1) False] no_leading_zero_decimal [OF assms(2)]
  show ?thesis
    unfolding magnitude_ok_digits [OF False]
    by (simp add: digits_le_value n no_leading_zero_append strip_value)
qed


section \<open>Numbers\<close>

lemma list_all_takeWhile [simp]: "list_all P (takeWhile P xs)"
  by (induction xs) auto

lemma peek_is_set: "peek_is c s \<Longrightarrow> c \<in> set s"
  by (cases s) (auto simp: peek_is_def)

lemma not_float_no_frac:
  assumes "\<not> is_float_lexeme lexeme" "set s \<subseteq> set lexeme"
  shows "\<not> peek_is CHR ''.'' s" "\<not> peek_is CHR ''e'' s" "\<not> peek_is CHR ''E'' s"
proof -
  have no: "\<not> (c \<in> {CHR ''.'', CHR ''e'', CHR ''E''})" if "c \<in> set s" for c
    using assms that unfolding is_float_lexeme_def list_ex_iff bex_simps by (metis subsetD)
  show "\<not> peek_is CHR ''.'' s" by (rule notI, drule peek_is_set, drule no, erule notE, rule insertI1)
  show "\<not> peek_is CHR ''e'' s"
    by (rule notI, drule peek_is_set, drule no, erule notE, rule insertI2, rule insertI1)
  show "\<not> peek_is CHR ''E'' s"
    by (rule notI, drule peek_is_set, drule no, erule notE, rule insertI2, rule insertI2, rule insertI1)
qed

lemma decompose_int_lexeme:
  assumes "\<not> is_float_lexeme lexeme"
  shows "decompose_number lexeme =
    (takeWhile is_ascii_digit (if lexeme_negative lexeme then tl lexeme else lexeme), 0, 0)"
proof -
  let ?s = "if peek_is CHR ''-'' lexeme then tl lexeme else lexeme"
  let ?r = "dropWhile is_ascii_digit ?s"
  have "set ?s \<subseteq> set lexeme" by (cases lexeme) auto
  then have "set ?r \<subseteq> set lexeme" using set_dropWhileD by fastforce
  note no = not_float_no_frac [OF assms this]
  show ?thesis by (simp add: decompose_number_def Let_def no decompose_exponent_def lexeme_negative_def)
qed

lemma parse_number_ok:
  assumes "parse_number b s = Some (v, r)" "0 < integer_magnitude b"
  shows "json_ok b d v \<and> node_count v = 1"
proof -
  define lexeme where "lexeme = take (length s - length r) s"
  obtain r' where r': "scan_number_lexeme s = Some r'"
    using assms(1) by (auto simp: parse_number_def bind_Some)
  show ?thesis
  proof (cases "is_float_lexeme (take (length s - length r') s)")
    case True
    then show ?thesis using assms(1) r'
      by (auto simp: parse_number_def bind_Some Let_def split: prod.splits if_splits)
  next
    case False
    then have r: "r' = r" using assms(1) r'
      by (auto simp: parse_number_def bind_Some Let_def split: prod.splits if_splits)
    then have int: "\<not> is_float_lexeme lexeme" using False by (simp add: lexeme_def)
    define ds where "ds = takeWhile is_ascii_digit (if lexeme_negative lexeme then tl lexeme else lexeme)"
    have dec: "decompose_number lexeme = (ds, 0, 0)"
      unfolding ds_def by (rule decompose_int_lexeme [OF int])
    obtain n where n: "v = Integer n" "parse_i64 lexeme = Some n"
        and m: "magnitude_ok (strip_leading_zeros ds) 0 (integer_magnitude b)"
      using assms(1) r' int dec r
      by (auto simp: parse_number_def bind_Some Let_def lexeme_def [symmetric] split: if_splits)
    have "list_all is_ascii_digit ds" by (simp add: ds_def)
    then have "digits_value ds \<le> integer_magnitude b"
      using m magnitude_ok_value [of ds "integer_magnitude b" 0] assms(2) by simp
    moreover have "\<bar>n\<bar> = int (digits_value ds)"
      using n(2) by (auto simp: parse_i64_def Let_def ds_def split: if_splits)
    ultimately show ?thesis using n by simp
  qed
qed


section \<open>Every decoded value is within the limits\<close>

lemma parse_string_ok:
  "parse_string k s = Some (str, r) \<Longrightarrow> utf8_valid str \<and> length str \<le> k"
  by (auto simp: parse_string_def bind_Some split: if_splits)

definition items_ok :: "bounds \<Rightarrow> nat \<Rightarrow> json list \<Rightarrow> bool" where
  "items_ok b d items \<longleftrightarrow> (\<forall>x \<in> set items. json_ok b (d + 1) x)"

definition members_ok :: "bounds \<Rightarrow> nat \<Rightarrow> (bytes \<times> json) list \<Rightarrow> bool" where
  "members_ok b d ms \<longleftrightarrow> distinct (map fst ms) \<and>
     (\<forall>m \<in> set ms. utf8_valid (fst m) \<and> length (fst m) \<le> key_bytes b \<and> json_ok b (d + 1) (snd m))"

lemma members_ok_snoc:
  assumes "members_ok b d ms" "\<not> list_ex (\<lambda>(k, _). k = name) ms"
    and "utf8_valid name \<and> length name \<le> key_bytes b" "json_ok b (d + 1) v"
  shows "members_ok b d (ms @ [(name, v)])"
  using assms by (auto simp: members_ok_def list_ex_iff)

lemma parse_value_leaf:
  assumes "parse_value b d s n = Some (v, r, m)" "s = c # cs" "c \<noteq> CHR ''{''" "c \<noteq> CHR ''[''"
    and "0 < integer_magnitude b"
  shows "json_ok b d v \<and> m = n + node_count v \<and> m \<le> total_nodes b"
proof -
  have n: "n + 1 \<le> total_nodes b"
    using assms(1) by (auto simp: parse_value.simps split: if_splits)
  have leaf: "json_ok b d v \<and> node_count v = 1 \<and> m = n + 1"
  proof (cases "c = CHR 0x22")
    case True
    then obtain str where "parse_string (string_bytes b) s = Some (str, r)" "v = String str" "m = n + 1"
      using assms(1-4) n by (auto simp: parse_value.simps bind_Some)
    then show ?thesis by (auto dest: parse_string_ok)
  next
    case False
    note eq = assms(1) [unfolded parse_value.simps [of b d s n]]
    show ?thesis
    proof (cases "c = CHR ''t'' \<or> c = CHR ''f'' \<or> c = CHR ''n''")
      case True
      then show ?thesis using eq assms(2-4) False n by (auto simp: bind_Some split: if_splits)
    next
      case no: False
      then obtain r' where "parse_number b s = Some (v, r')" "m = n + 1"
        using eq assms(2-4) False n by (auto simp: bind_Some split: if_splits)
      then show ?thesis using parse_number_ok [OF _ assms(5)] by blast
    qed
  qed
  with n show ?thesis by simp
qed

lemma parse_values_ok:
  shows "parse_value b d s n = Some (v, r, m) \<Longrightarrow> 0 < integer_magnitude b \<Longrightarrow>
           json_ok b d v \<and> m = n + node_count v \<and> m \<le> total_nodes b"
    and "parse_array b d s n = Some (v, r, m) \<Longrightarrow> 0 < integer_magnitude b \<Longrightarrow> n \<le> total_nodes b \<Longrightarrow>
           json_ok b d v \<and> m + 1 = n + node_count v \<and> m \<le> total_nodes b"
    and "parse_elements b d items s n = Some (v, r, m) \<Longrightarrow> 0 < integer_magnitude b \<Longrightarrow> n \<le> total_nodes b \<Longrightarrow>
           d \<le> depth b \<Longrightarrow> items_ok b d items \<Longrightarrow>
           json_ok b d v \<and> m + 1 + sum_list (map node_count items) = n + node_count v \<and> m \<le> total_nodes b"
    and "parse_object b d s n = Some (v, r, m) \<Longrightarrow> 0 < integer_magnitude b \<Longrightarrow> n \<le> total_nodes b \<Longrightarrow>
           json_ok b d v \<and> m + 1 = n + node_count v \<and> m \<le> total_nodes b"
    and "parse_members b d ms s n = Some (v, r, m) \<Longrightarrow> 0 < integer_magnitude b \<Longrightarrow> n \<le> total_nodes b \<Longrightarrow>
           d \<le> depth b \<Longrightarrow> members_ok b d ms \<Longrightarrow>
           json_ok b d v \<and> m + 1 + sum_list (map (node_count \<circ> snd) ms) = n + node_count v \<and> m \<le> total_nodes b"
proof (induction b d s n and b d s n and b d items s n and b d s n and b d ms s n
    arbitrary: v r m and v r m and v r m and v r m and v r m
    rule: parse_value_parse_array_parse_elements_parse_object_parse_members.induct)
  case (1 b d s n)
  obtain c cs where s: "s = c # cs" and n: "n + 1 \<le> total_nodes b"
    using "1.prems"(1) by (auto simp: parse_value.simps split: if_splits list.splits)
  note eq = "1.prems"(1) [unfolded parse_value.simps [of b d s n], unfolded s list.case, folded s]
  note n' = linorder_not_less [THEN iffD2, OF n]
  show ?case
  proof (cases "c = CHR ''{''")
    case True
    then show ?thesis using "1.IH"(1) [OF n' s True] eq n "1.prems"(2) by simp
  next
    case no1: False
    show ?thesis
    proof (cases "c = CHR ''[''")
      case True
      then show ?thesis using "1.IH"(2) [OF n' s no1 True] eq n "1.prems"(2) by simp
    next
      case no2: False
      show ?thesis by (rule parse_value_leaf [OF "1.prems"(1) s no1 no2 "1.prems"(2)])
    qed
  qed
next
  case (2 b d s n)
  then show ?case
    by (auto simp: parse_array.simps items_ok_def Let_def split: if_splits)
next
  case (3 b d items s n)
  note eq = "3.prems"(1) [unfolded parse_elements.simps [of b d items s n]]
  have l: "length items < array_items b" using eq by (auto split: if_splits)
  obtain x s1 n1 where x: "parse_value b (d + 1) s n = Some (x, s1, n1)"
    using eq l by (auto split: option.splits)
  then have IH: "json_ok b (d + 1) x \<and> n1 = n + node_count x \<and> n1 \<le> total_nodes b"
    using "3.IH"(1) l "3.prems"(2) by simp
  then have ok: "items_ok b d (items @ [x])" using "3.prems"(5) by (simp add: items_ok_def)
  obtain c s2 where c: "skip_ws s1 = c # s2"
    using eq l x by (cases "skip_ws s1") auto
  show ?case
  proof (cases "c = CHR '',''")
    case True
    then have rec: "parse_elements b d (items @ [x]) (skip_ws s2) n1 = Some (v, r, m)"
      using eq l x c by simp
    from "3.IH"(2) [OF _ x _ _ c True rec] show ?thesis using l IH ok "3.prems"(2,4) by simp
  next
    case False
    then have "v = Array (items @ [x])" "m = n1" "c = CHR '']''"
      using eq l x c by (simp_all split: if_splits)
    then show ?thesis using IH ok l "3.prems"(4) by (auto simp: items_ok_def)
  qed
next
  case (4 b d s n)
  then show ?case
    by (auto simp: parse_object.simps members_ok_def Let_def split: if_splits)
next
  case (5 b d ms s n)
  note eq = "5.prems"(1) [unfolded parse_members.simps [of b d ms s n]]
  have l: "length ms < object_members b" using eq by (auto split: if_splits)
  obtain k s1 where k: "parse_string (key_bytes b) s = Some (k, s1)"
    using eq l by (auto split: option.splits)
  define s2 where "s2 = skip_ws s1"
  have colon: "peek_is CHR '':'' s2"
    using eq l k by (auto simp: s2_def Let_def split: if_splits)
  obtain x s3 n1 where x: "parse_value b (d + 1) (skip_ws (tl s2)) n = Some (x, s3, n1)"
    using eq l k colon by (auto simp: s2_def Let_def split: option.splits if_splits)
  have new: "\<not> list_ex (\<lambda>(k', _). k' = k) ms"
    using eq l k colon x by (auto simp: s2_def Let_def split: if_splits)
  have IH: "json_ok b (d + 1) x \<and> n1 = n + node_count x \<and> n1 \<le> total_nodes b"
    using "5.IH"(1) [OF _ k _ s2_def _ x] l colon "5.prems"(2) by simp
  have ok: "members_ok b d (ms @ [(k, x)])"
    using members_ok_snoc [OF "5.prems"(5) new parse_string_ok [OF k]] IH by simp
  obtain c s4 where c: "skip_ws s3 = c # s4"
    using eq l k colon x new by (cases "skip_ws s3") (auto simp: s2_def Let_def)
  show ?case
  proof (cases "c = CHR '',''")
    case True
    then have rec: "parse_members b d (ms @ [(k, x)]) (skip_ws s4) n1 = Some (v, r, m)"
      using eq l k colon x new c by (simp add: s2_def Let_def)
    show ?thesis
      using "5.IH"(2) [OF _ k _ s2_def _ x _ _ new c True rec] l colon IH ok "5.prems"(2,4) by simp
  next
    case False
    then have "v = Object (ms @ [(k, x)])" "m = n1"
      using eq l k colon x new c by (auto simp: s2_def Let_def split: if_splits)
    then show ?thesis using IH ok l "5.prems"(4) by (auto simp: members_ok_def comp_def)
  qed
qed


lemma maximum_limits:
  "total_nodes maximum = 4096" "json_bytes maximum = 65536" "number_lexeme_bytes maximum = 64"
  "float_magnitude maximum = 9007199254740991" "integer_magnitude maximum = 9007199254740991"
  "depth maximum = 32" "object_members maximum = 64" "array_items maximum = 256"
  "string_bytes maximum = 8192" "key_bytes maximum = 128"
  by (simp_all add: maximum_def)

text \<open>The equations that run the decoder on a literal text.\<close>

lemmas json_eval = json_decode_def parse_value.simps parse_array.simps parse_elements.simps
  parse_object.simps parse_members.simps maximum_limits skip_ws_def is_ws_def peek_is_def
  parse_string_def from_utf8_def parse_chars.simps Let_def expect_literal_def starts_with_def utf8_valid_def
  utf8_decode.simps next_char_def byte_def

lemma json_decode_ok:
  assumes "json_decode b text = Some v" "0 < integer_magnitude b"
  shows "json_ok b 1 v \<and> node_count v \<le> total_nodes b \<and> length text \<le> json_bytes b"
proof -
  obtain r m where "parse_value b 1 (skip_ws text) 0 = Some (v, r, m)" "length text \<le> json_bytes b"
    using assms(1) by (auto simp: json_decode_def accept)
  then show ?thesis using parse_values_ok(1) [OF _ assms(2)] by fastforce
qed

text \<open>C22: Whatever bytes the decoder is given, a value it returns obeys every structural limit of the
  caller's bounds: container depth, members and items per container, key and string sizes in bytes,
  valid UTF-8, no duplicate member name at any depth, integers within the integer magnitude, finite
  floats, and a node total (containers and scalars) within \<open>total_nodes\<close>.\<close>

theorem json_decode_within_limits:
  assumes "json_decode b text = Some v" "0 < integer_magnitude b"
  shows "json_ok b 1 v \<and> node_count v \<le> total_nodes b \<and> length text \<le> json_bytes b"
  using assms by (rule json_decode_ok)

theorem json_decode_within_limits_witness:
  "json_ok maximum 1 (Object [(''a'', Array [Null, Bool True])])"
proof -
  have "json_decode maximum ''{\"a\":[null, true]}'' = Some (Object [(''a'', Array [Null, Bool True])])"
    by (simp add: json_eval)
  from json_decode_within_limits [OF this] show ?thesis by (simp add: maximum_def)
qed

text \<open>C29: The raw-lexeme magnitude check is exact decimal arithmetic: for a digit run and a scale it
  accepts if and only if the number they denote is within the bound, without rounding, whichever of
  the length comparison and the string comparison decides.\<close>

theorem magnitude_ok_exact:
  assumes "list_all is_ascii_digit ds" "0 < bound"
  shows "magnitude_ok (strip_leading_zeros ds) scale bound \<longleftrightarrow>
    (if 0 \<le> scale then digits_value ds * 10 ^ nat scale \<le> bound
     else digits_value ds \<le> bound * 10 ^ nat (- scale))"
  using assms by (rule magnitude_ok_value)

theorem magnitude_ok_exact_witness:
  "magnitude_ok (strip_leading_zeros ''0090071992547409910'') (-1) 9007199254740991
   \<and> \<not> magnitude_ok (strip_leading_zeros ''0090071992547409911'') (-1) 9007199254740991"
proof -
  have *: "list_all is_ascii_digit ''0090071992547409910''" "list_all is_ascii_digit ''0090071992547409911''"
    "digits_value ''0090071992547409910'' = 90071992547409910"
    "digits_value ''0090071992547409911'' = 90071992547409911" by code_simp+
  show ?thesis
    using magnitude_ok_exact [OF *(1), of 9007199254740991 "-1"]
      magnitude_ok_exact [OF *(2), of 9007199254740991 "-1"] *(3,4) by simp
qed

section \<open>Departures from the documentation\<close>



lemma decode_number_text:
  assumes "s = CHR ''1'' # t" "length s \<le> 65536"
  shows "json_decode maximum s =
    do { (v, r) \<leftarrow> parse_number maximum s; reject_if (skip_ws r \<noteq> []); Some v }"
proof -
  have "skip_ws s = s" "is_ascii_digit CHR ''1''"
    by (simp_all add: assms(1) skip_ws_def is_ws_def digit_iff byte_def)
  then show ?thesis using assms
    by (cases "parse_number maximum s")
      (simp_all add: json_decode_def parse_value.simps [of _ _ "CHR ''1'' # t"] maximum_limits
        case_prod_unfold)
qed

definition padded_lexeme :: bytes where
  "padded_lexeme = ''100000000000000000000e-0004''"

lemma padded_lexeme_steps:
  "scan_number_lexeme padded_lexeme = Some []" "is_float_lexeme padded_lexeme"
  "length padded_lexeme = 27" "decompose_number padded_lexeme = (''100000000000000000000'', 0, -1000)"
  "magnitude_ok (strip_leading_zeros ''100000000000000000000'') (-1000) 9007199254740991"
  "from_utf8 padded_lexeme = Some padded_lexeme"
  by code_simp+

lemma padded_lexeme_value: "parse_f64 padded_lexeme = Finite False (10 ^ 16 * 2 ^ 1074)"
proof -
  let ?u = "10 ^ 16 * 2 ^ 1074 :: nat"
  have "digits_value ''100000000000000000000'' = 10 ^ 20" "\<not> lexeme_negative padded_lexeme"
    "exact_exponent (lexeme_exponent_part padded_lexeme) = -4" by code_simp+
  then have "parse_f64 padded_lexeme = f64_round False (10 ^ 20 * 2 ^ 1074) (10 ^ 4)"
    by (simp add: parse_f64_def padded_lexeme_steps f64_from_decimal_def)
  moreover have "(10 :: nat) ^ 20 * 2 ^ 1074 = ?u * 10 ^ 4" by simp
  moreover have "f64_round False (?u * 10 ^ 4) (10 ^ 4) = Finite False ?u"
    by (rule f64_round_exact [of _ "5 ^ 16" 1090]) simp_all
  ultimately show ?thesis by (simp only:)
qed

lemma padded_lexeme_decodes:
  assumes "parse_f64 padded_lexeme = Finite False u"
  shows "json_decode maximum padded_lexeme = Some (Float (Finite False u))"
proof -
  have "parse_number maximum padded_lexeme = Some (Float (Finite False u), [])"
    by (simp add: parse_number_def padded_lexeme_steps assms maximum_limits)
  moreover have "padded_lexeme = CHR ''1'' # tl padded_lexeme" by code_simp
  ultimately show ?thesis
    using decode_number_text [of padded_lexeme "tl padded_lexeme"] by (simp add: padded_lexeme_steps skip_ws_def)
qed

text \<open>A lexeme \<open>1e...\<close> with more than three exponent digits is always rejected.\<close>

lemma takeWhile_digits: "list_all is_ascii_digit ds \<Longrightarrow> takeWhile is_ascii_digit ds = ds"
  by (simp add: takeWhile_eq_all_conv list_all_iff)

lemma dropWhile_digits: "list_all is_ascii_digit ds \<Longrightarrow> dropWhile is_ascii_digit ds = []"
  by (simp add: dropWhile_eq_Nil_conv list_all_iff)

lemma long_exponent:
  assumes "list_all is_ascii_digit ds" "3 < length ds"
  shows "decompose_exponent (CHR ''e'' # ds) = 1000"
proof -
  obtain c s where ds: "ds = c # s" using assms(2) by (cases ds) auto
  have "c \<noteq> CHR ''+''" "c \<noteq> CHR ''-''" using assms(1) ds by (auto simp: digit_iff byte_def)
  then have "\<not> peek_is CHR ''+'' ds" "\<not> peek_is CHR ''-'' ds" by (simp_all add: ds peek_is_def)
  then show ?thesis using assms
    by (simp add: decompose_exponent_def Let_def takeWhile_digits) (simp add: peek_is_def)
qed

lemma letters_no_digits:
  "\<not> is_ascii_digit CHR ''e''" "is_ascii_digit CHR ''1''" "in_range CHR ''1'' CHR ''9'' CHR ''1''"
  by (simp_all add: digit_iff in_range_def byte_def)

lemma long_exponent_rejected:
  assumes "list_all is_ascii_digit ds" "3 < length ds" "length ds \<le> 62"
  shows "json_decode maximum (''1e'' @ ds) = None"
proof -
  let ?s = "''1e'' @ ds"
  obtain c s where ds: "ds = c # s" using assms(2) by (cases ds) auto
  have sign: "\<not> peek_is CHR ''+'' ds" "\<not> peek_is CHR ''-'' ds" "peek_digit ds"
    using assms(1) ds by (auto simp: peek_is_def peek_digit_def digit_iff byte_def)
  have "scan_exp (CHR ''e'' # ds) = Some []"
    using assms(1) sign by (simp add: scan_exp_def dropWhile_digits) (simp add: peek_is_def)
  then have scan: "scan_number_lexeme ?s = Some []"
    by (simp add: scan_number_lexeme_def scan_int_def scan_frac_def peek_is_def letters_no_digits)
  have "is_float_lexeme ?s" by (simp add: is_float_lexeme_def)
  moreover have "decompose_number ?s = (''1'', 0, 1000)"
    by (simp add: decompose_number_def Let_def peek_is_def letters_no_digits
        long_exponent [OF assms(1,2)])
  moreover have "\<not> magnitude_ok (strip_leading_zeros ''1'') 1000 9007199254740991" by code_simp
  ultimately have "parse_number maximum ?s = None"
    using scan assms(3) by (simp add: parse_number_def maximum_limits)
  then show ?thesis using decode_number_text [of ?s "CHR ''e'' # ds"] assms(3) by simp
qed

text \<open>C30: An exponent written with more than three digits is taken as 1000 whatever its value, which is
  not exact when it has leading zeros: \<open>1e0005\<close>, which is 100000, is rejected, and
  \<open>100000000000000000000e-0004\<close>, which is 10 to the 16th, passes the magnitude check and decodes to a
  float above the ceiling of the profile.\<close>

theorem exponent_saturation_inexact:
  "json_decode maximum ''1e0005'' = None \<and>
   json_decode maximum ''100000000000000000000e-0004'' = Some (Float (Finite False (10 ^ 16 * 2 ^ 1074))) \<and>
   float_magnitude maximum < 10 ^ 16"
proof (intro conjI)
  show "json_decode maximum ''1e0005'' = None"
    using long_exponent_rejected [of "''0005''"] by (simp add: digit_iff byte_def)
  show "float_magnitude maximum < 10 ^ 16" by (simp add: maximum_limits)
  show "json_decode maximum ''100000000000000000000e-0004'' = Some (Float (Finite False (10 ^ 16 * 2 ^ 1074)))"
    using padded_lexeme_decodes [OF padded_lexeme_value] unfolding padded_lexeme_def .
qed

section \<open>The exponent accumulator\<close>

lemma wrap_i64_id: "is_i64 k \<Longrightarrow> wrap_i64 k = k"
proof -
  assume "is_i64 k"
  then have k: "- (2 ^ 63) \<le> k" "k < 2 ^ 63" by (simp_all add: is_i64_def i64_min_def i64_max_def)
  show ?thesis
  proof (cases "0 \<le> k")
    case True
    then have "k mod 2 ^ 64 = k" using k by simp
    then show ?thesis using k True by (simp add: wrap_i64_def)
  next
    case False
    have "k mod 2 ^ 64 = (k + 2 ^ 64) mod 2 ^ 64" by simp
    also have "\<dots> = k + 2 ^ 64" using k False by (intro mod_pos_pos_trivial) simp_all
    finally show ?thesis using k False by (simp add: wrap_i64_def u64_as_i64_def Let_def)
  qed
qed

lemma digit_le_9: "is_ascii_digit c \<Longrightarrow> int (digit_value c) \<le> 9"
  using digit_value_less [of c] by simp

lemma exp_step_i64:
  assumes "0 \<le> ev" "ev < 10 ^ k" "k \<le> 17" "is_ascii_digit d"
  shows "is_i64 (ev * 10)" "is_i64 (ev * 10 + int (digit_value d))"
    "ev * 10 + int (digit_value d) < 10 ^ Suc k"
proof -
  have "(10 :: int) ^ Suc k \<le> 10 ^ 18" using assms(3) by (intro power_increasing) auto
  moreover have "ev * 10 + int (digit_value d) < 10 ^ Suc k"
    using assms(2) digit_le_9 [OF assms(4)] by simp
  ultimately show "is_i64 (ev * 10)" "is_i64 (ev * 10 + int (digit_value d))"
      "ev * 10 + int (digit_value d) < 10 ^ Suc k"
    using assms(1) by (simp_all add: is_i64_def i64_min_def i64_max_def)
qed

lemma exp_values_agree:
  assumes "list_all is_ascii_digit ds" "0 \<le> ev" "ev < 10 ^ k" "k + length ds \<le> 18"
  shows "exp_value_checked ev ds = Some (ev * 10 ^ length ds + int (digits_value ds)) \<and>
    foldl (\<lambda>ev d. wrap_i64 (wrap_i64 (ev * 10) + int (digit_value d))) ev ds =
      ev * 10 ^ length ds + int (digits_value ds)"
  using assms
proof (induction ds arbitrary: ev k)
  case (Cons d ds)
  have d: "is_ascii_digit d" using Cons.prems by simp
  have "k \<le> 17" using Cons.prems(4) by simp
  note step = exp_step_i64 [OF Cons.prems(2,3) this d]
  have "list_all is_ascii_digit ds" "0 \<le> ev * 10 + int (digit_value d)" "Suc k + length ds \<le> 18"
    using Cons.prems by simp_all
  note IH = Cons.IH [OF this(1,2) step(3) this(3)]
  show ?case using IH step by (simp add: wrap_i64_id digits_value_Cons algebra_simps)
qed simp

text \<open>The exponent accumulator is an \<open>i64\<close> that the loop may overflow. Up to 18 digits it holds the
  exact value in every build; on twenty nines, which a lexeme within the 64-byte ceiling may carry, the
  checked arithmetic of a debug build panics, while a release build still rejects the number.\<close>

theorem exponent_accumulator:
  "(list_all is_ascii_digit ds \<and> length ds \<le> 18 \<longrightarrow>
      exp_value_checked 0 ds = Some (int (digits_value ds)) \<and> exp_value ds = int (digits_value ds)) \<and>
   exp_value_checked 0 ''99999999999999999999'' = None \<and>
   json_decode maximum ''1e99999999999999999999'' = None"
proof (intro conjI impI)
  assume ds: "list_all is_ascii_digit ds \<and> length ds \<le> 18"
  then show "exp_value_checked 0 ds = Some (int (digits_value ds))" "exp_value ds = int (digits_value ds)"
    using exp_values_agree [of ds 0 0] by (simp_all add: exp_value_def)
next
  show "exp_value_checked 0 ''99999999999999999999'' = None" by code_simp
  show "json_decode maximum ''1e99999999999999999999'' = None"
    using long_exponent_rejected [of "''99999999999999999999''"] by (simp add: digit_iff byte_def)
qed

theorem exponent_accumulator_witness: "exp_value ''0308'' = 308"
proof -
  have "list_all is_ascii_digit ''0308'' \<and> length ''0308'' \<le> 18" "digits_value ''0308'' = 308"
    by code_simp+
  with conjunct1 [OF exponent_accumulator [of "''0308''"]] show ?thesis by simp
qed

end
