(* ===== verification/Jcs_Facts.thy ===== *)
theory Jcs_Facts
  imports Jcs Json_Facts
begin

text \<open>
  The canonical text as a pure function, and the refinement that the encoder, with its threaded
  buffer, its budgets and its early exits, produces exactly that text on exactly the values that
  meet its checks. Independence of member order follows from the interpretation of \<open>name_order\<close>.
\<close>

section \<open>The canonical form and its text\<close>

primrec canon :: "json \<Rightarrow> json" where
  "canon Null = Null"
| "canon (Bool v) = Bool v"
| "canon (Integer n) = Integer n"
| "canon (Float f) = Float f"
| "canon (String s) = String s"
| "canon (Array xs) = Array (map canon xs)"
| "canon (Object ms) = Object (sort_by (by_name utf16_compare) (map (map_prod (\<lambda>k. k) canon) ms))"

definition string_text :: "bytes \<Rightarrow> bytes" where
  "string_text s = CHR 0x22 # concat (map escape_char (chars s)) @ [CHR 0x22]"

definition member_text :: "bytes \<times> bytes \<Rightarrow> bytes" where
  "member_text m = string_text (fst m) @ CHR '':'' # snd m"

primrec plain_text :: "backend \<Rightarrow> json \<Rightarrow> bytes" where
  "plain_text B Null = ''null''"
| "plain_text B (Bool v) = (if v then ''true'' else ''false'')"
| "plain_text B (Integer n) = decimal_int n"
| "plain_text B (Float f) = ryu_format B f"
| "plain_text B (String s) = string_text s"
| "plain_text B (Array xs) = CHR ''['' # join_with CHR '','' (map (plain_text B) xs) @ '']''"
| "plain_text B (Object ms) =
     CHR ''{'' # join_with CHR '','' (map member_text (map (map_prod (\<lambda>k. k) (plain_text B)) ms)) @ ''}''"

definition jcs_text :: "backend \<Rightarrow> json \<Rightarrow> bytes" where
  "jcs_text B v = plain_text B (canon v)"

text \<open>What the encoder checks of a value; strings are valid UTF-8 by their type.\<close>

fun encodable :: "bounds \<Rightarrow> nat \<Rightarrow> json \<Rightarrow> bool" where
  "encodable b d Null = True"
| "encodable b d (Bool v) = True"
| "encodable b d (Integer n) =
     (- u64_as_i64 (integer_magnitude b) \<le> n \<and> n \<le> u64_as_i64 (integer_magnitude b))"
| "encodable b d (Float f) =
     (f64_is_finite f \<and> \<not> f64_gt (f64_abs f) (f64_of_u64 (float_magnitude b)))"
| "encodable b d (String s) = (length s \<le> string_bytes b)"
| "encodable b d (Array xs) =
     (d \<le> depth b \<and> length xs \<le> array_items b \<and> (\<forall>x \<in> set xs. encodable b (d + 1) x))"
| "encodable b d (Object ms) =
     (d \<le> depth b \<and> length ms \<le> object_members b \<and> distinct (map fst ms) \<and>
      (\<forall>m \<in> set ms. length (fst m) \<le> key_bytes b \<and> encodable b (d + 1) (snd m)))"

section \<open>Sorting and joining\<close>

lemma insert_by_map:
  "insert_by (by_name cmp) (map_prod (\<lambda>k. k) f x) (map (map_prod (\<lambda>k. k) f) xs) =
   map (map_prod (\<lambda>k. k) f) (insert_by (by_name cmp) x xs)"
  by (induction xs) (auto simp: by_name_def)

lemma sort_by_map:
  "sort_by (by_name cmp) (map (map_prod (\<lambda>k. k) f) xs) =
   map (map_prod (\<lambda>k. k) f) (sort_by (by_name cmp) xs)"
  by (induction xs) (simp_all add: insert_by_map)

definition join_from :: "bool \<Rightarrow> bytes list \<Rightarrow> bytes" where
  "join_from first ts = (if first then join_with CHR '','' ts else concat (map (Cons CHR '','') ts))"

lemma join_with_concat: "join_with d (t # ts) = t @ concat (map (Cons d) ts)"
  by (induction ts arbitrary: t) auto

lemma join_from_Nil [simp]: "join_from first [] = []"
  by (simp add: join_from_def)

lemma join_from_Cons: "join_from first (t # ts) = (if first then [] else '','') @ t @ join_from False ts"
  unfolding join_from_def join_with_concat by auto

lemma check_members_iff:
  "check_members b seen ms = Some () \<longleftrightarrow>
     distinct (map fst ms) \<and> (\<forall>m \<in> set ms. length (fst m) \<le> key_bytes b \<and> fst m \<notin> seen)"
proof (induction ms arbitrary: seen)
  case (Cons m ms)
  obtain k v where m: "m = (k, v)" by (cases m)
  have "check_members b seen (m # ms) = Some () \<longleftrightarrow>
      length k \<le> key_bytes b \<and> k \<notin> seen \<and> check_members b (insert k seen) ms = Some ()"
    by (simp add: m accept not_less)
  then show ?case unfolding Cons.IH m by auto
qed simp

lemma check_members_None:
  "check_members b {} ms = None \<longleftrightarrow>
     \<not> (distinct (map fst ms) \<and> (\<forall>m \<in> set ms. length (fst m) \<le> key_bytes b))"
  using check_members_iff [of b "{}" ms] by (cases "check_members b {} ms") auto

section \<open>The encoder writes the canonical text\<close>

abbreviation items_count :: "json list \<Rightarrow> nat" where
  "items_count vs \<equiv> sum_list (map node_count vs)"

abbreviation members_count :: "(bytes \<times> json) list \<Rightarrow> nat" where
  "members_count ms \<equiv> sum_list (map (node_count \<circ> snd) ms)"

definition member_texts :: "backend \<Rightarrow> (bytes \<times> json) list \<Rightarrow> bytes list" where
  "member_texts B ms = map (\<lambda>m. member_text (fst m, jcs_text B (snd m))) ms"

lemma jcs_text_Array:
  "jcs_text B (Array xs) = CHR ''['' # join_from True (map (jcs_text B) xs) @ '']''"
  by (simp add: jcs_text_def [abs_def] join_from_def comp_def)

lemma jcs_text_Object:
  "jcs_text B (Object ms) =
     CHR ''{'' # join_from True (member_texts B (sort_by (by_name utf16_compare) ms)) @ ''}''"
proof -
  have "member_text \<circ> map_prod (\<lambda>k. k) (plain_text B) \<circ> map_prod (\<lambda>k. k) canon =
      (\<lambda>m. member_text (fst m, jcs_text B (snd m)))"
    by (auto simp: fun_eq_iff jcs_text_def)
  then show ?thesis
    by (simp add: jcs_text_def [of B "Object ms"] join_from_def sort_by_map member_texts_def comp_assoc
        del: comp_apply)
qed

lemma jcs_text_scalar:
  "jcs_text B Null = ''null''" "jcs_text B (Bool v) = (if v then ''true'' else ''false'')"
  "jcs_text B (Integer n) = decimal_int n" "jcs_text B (Float f) = ryu_format B f"
  "jcs_text B (String s) = string_text s"
  by (simp_all add: jcs_text_def)

lemma members_count_sort:
  "members_count (sort_by cmp ms) = members_count ms"
  by (metis mset_map mset_sort_by sum_mset_sum_list)


definition fits :: "bounds \<Rightarrow> bytes \<Rightarrow> nat \<Rightarrow> bool" where
  "fits b out nodes \<longleftrightarrow> nodes \<le> total_nodes b \<and> length out \<le> jcs_bytes b"

lemma fits_mono: "fits b (out @ t) (n + k) \<Longrightarrow> fits b out n"
  by (simp add: fits_def)

lemma encode_value_eq:
  "encode_value B b v d (out, n) =
     (if encodable b d v \<and> fits b (out @ jcs_text B v) (n + node_count v)
      then Some (out @ jcs_text B v, n + node_count v) else None)"
  and encode_items_eq:
  "encode_items B b vs d first (out, n) =
     (if vs = [] \<or> (\<forall>v \<in> set vs. encodable b d v) \<and>
          fits b (out @ join_from first (map (jcs_text B) vs)) (n + items_count vs)
      then Some (out @ join_from first (map (jcs_text B) vs), n + items_count vs) else None)"
  and encode_members_eq:
  "encode_members B b ms d first (out, n) =
     (if ms = [] \<or> (\<forall>m \<in> set ms. encodable b d (snd m)) \<and>
          fits b (out @ join_from first (member_texts B ms)) (n + members_count ms)
      then Some (out @ join_from first (member_texts B ms), n + members_count ms) else None)"
proof (induction B b v d "(out, n)" and B b vs d first "(out, n)" and B b ms d first "(out, n)"
    arbitrary: out n and out n and out n
    rule: encode_value_encode_items_encode_members.induct)
  case (1 B b v d out n)
  show ?case
  proof (cases v)
    case Null
    then show ?thesis by (simp add: encode_value.simps [of B b Null] jcs_text_scalar fits_def)
  next
    case (Bool x)
    then show ?thesis
      by (cases x) (simp_all add: encode_value.simps [of B b "Bool _"] jcs_text_scalar fits_def)
  next
    case (Integer x)
    then show ?thesis
      by (auto simp: encode_value.simps [of B b "Integer x"] jcs_text_scalar fits_def Let_def encode_int_def)
  next
    case (Float x)
    then show ?thesis
      by (auto simp: encode_value.simps [of B b "Float x"] jcs_text_scalar fits_def Let_def encode_float_def)
  next
    case (String x)
    then show ?thesis
      by (auto simp: encode_value.simps [of B b "String x"] jcs_text_scalar fits_def encode_string_def
          string_text_def)
  next
    case (Array xs)
    show ?thesis
    proof (cases "n + 1 \<le> total_nodes b \<and> d \<le> depth b \<and> length xs \<le> array_items b")
      case True
      then have "encode_items B b xs (d + 1) True (out @ ''['', n + 1) =
         (if xs = [] \<or> (\<forall>v \<in> set xs. encodable b (d + 1) v) \<and>
          fits b ((out @ ''['') @ join_from True (map (jcs_text B) xs)) ((n + 1) + items_count xs)
      then Some ((out @ ''['') @ join_from True (map (jcs_text B) xs), (n + 1) + items_count xs) else None)"
        by (intro "1.hyps"(1)) (auto simp: Array)
      then show ?thesis using True
        by (auto simp: Array encode_value.simps [of B b "Array xs"] jcs_text_Array fits_def)
    next
      case False
      then show ?thesis by (auto simp: Array encode_value.simps [of B b "Array xs"] fits_def)
    qed
  next
    case (Object ms)
    let ?s = "sort_by (by_name utf16_compare) ms"
    show ?thesis
    proof (cases "n + 1 \<le> total_nodes b \<and> d \<le> depth b \<and> length ms \<le> object_members b \<and>
        check_members b {} ms \<noteq> None")
      case True
      then have "encode_members B b ?s (d + 1) True (out @ ''{'', n + 1) =
         (if ?s = [] \<or> (\<forall>m \<in> set ?s. encodable b (d + 1) (snd m)) \<and>
          fits b ((out @ ''{'') @ join_from True (member_texts B ?s)) ((n + 1) + members_count ?s)
      then Some ((out @ ''{'') @ join_from True (member_texts B ?s), (n + 1) + members_count ?s) else None)"
        by (intro "1.hyps"(2)) (auto simp: Object)
      moreover have "?s = [] \<longleftrightarrow> ms = []" by (metis length_0_conv length_sort_by)
      ultimately show ?thesis using True
        by (auto simp: Object encode_value.simps [of B b "Object ms"] jcs_text_Object fits_def
            check_members_None members_count_sort member_texts_def)
    next
      case False
      then show ?thesis
        by (auto simp: Object encode_value.simps [of B b "Object ms"] fits_def check_members_None)
    qed
  qed
next
  case (2 B b d first out n)
  then show ?case by simp
next
  case (3 B b v vs d first out n)
  show ?case
    by (auto simp: 3 join_from_Cons fits_def)
next
  case (4 B b d first out n)
  then show ?case by (simp add: member_texts_def)
next
  case (5 B b k v ms d first out n)
  define out1 where "out1 = encode_string k (if first then out else out @ '','') @ '':''"
  have out1: "out1 = out @ (if first then [] else '','') @ string_text k @ '':''"
    by (simp add: out1_def encode_string_def string_text_def)
  have joined: "out @ join_from first (member_texts B ((k, v) # ms)) =
      (out1 @ jcs_text B v) @ join_from False (member_texts B ms)"
    by (simp add: out1 member_texts_def member_text_def join_from_Cons)
  note IH = "5.hyps" [folded out1_def]
  show ?case
    unfolding joined encode_members.simps out1_def [symmetric]
    by (auto simp: IH fits_def) (simp add: member_texts_def)
qed


lemma jcs_encode_Some:
  "jcs_encode B b v = Some out \<longleftrightarrow>
     encodable b 1 v \<and> node_count v \<le> total_nodes b \<and> length out \<le> jcs_bytes b \<and> out = jcs_text B v"
  by (auto simp: jcs_encode_def encode_value_eq fits_def accept)

section \<open>Properties\<close>

text \<open>C24: The encoder, with its threaded buffer, budgets and early exits, refines the canonical text:
  it succeeds exactly on the values that meet its per-node checks and whose text fits the output
  ceiling, and then returns that text and nothing else.\<close>

theorem jcs_encode_refines:
  "jcs_encode B b v = Some out \<longleftrightarrow>
     encodable b 1 v \<and> node_count v \<le> total_nodes b \<and> length out \<le> jcs_bytes b \<and> out = jcs_text B v"
  by (rule jcs_encode_Some)

lemma canon_permuted:
  assumes "mset ms = mset ms'" "distinct (map fst ms)" "\<forall>m \<in> set ms. utf8_valid (fst m)"
  shows "canon (Object ms) = canon (Object ms')"
proof -
  let ?f = "map_prod (\<lambda>k. k) canon"
  have "mset (map ?f ms) = mset (map ?f ms')" using assms(1) by simp
  moreover have "map fst (map ?f ms) = map fst ms" by simp
  ultimately have "sort_by (by_name utf16_compare) (map ?f ms) = sort_by (by_name utf16_compare) (map ?f ms')"
    using assms(2,3) by (intro utf16.sort_unique) (auto simp: comp_def)
  then show ?thesis by simp
qed

lemma encodable_permuted:
  assumes "mset ms = mset ms'"
  shows "encodable b d (Object ms) \<longleftrightarrow> encodable b d (Object ms')"
    and "node_count (Object ms) = node_count (Object ms')"
proof -
  have eq: "set ms = set ms'" "length ms = length ms'" "distinct (map fst ms) = distinct (map fst ms')"
    using assms by (metis set_mset_mset, metis size_mset, metis mset_eq_imp_distinct_iff mset_map)
  then show "encodable b d (Object ms) \<longleftrightarrow> encodable b d (Object ms')" by simp
  have "mset (map (node_count \<circ> snd) ms) = mset (map (node_count \<circ> snd) ms')" using assms by simp
  then show "node_count (Object ms) = node_count (Object ms')" by (metis node_count.simps(2) sum_mset_sum_list)
qed

text \<open>C25: Canonicalisation removes the order of members: two objects with the same members, in whatever
  order, have the same encoding, or neither has one.\<close>

theorem jcs_encode_member_order:
  assumes "mset ms = mset ms'" "\<forall>m \<in> set ms. utf8_valid (fst m)"
  shows "jcs_encode B b (Object ms) = jcs_encode B b (Object ms')"
proof (cases "distinct (map fst ms)")
  case True
  then have "jcs_text B (Object ms) = jcs_text B (Object ms')"
    unfolding jcs_text_def using canon_permuted [OF assms(1) True assms(2)] by simp
  then have "jcs_encode B b (Object ms) = Some out \<longleftrightarrow> jcs_encode B b (Object ms') = Some out" for out
    using encodable_permuted [OF assms(1)] by (simp add: jcs_encode_Some del: encodable.simps)
  then show ?thesis by (metis not_Some_eq)
next
  case False
  then have "jcs_encode B b (Object ms) \<noteq> Some out" "jcs_encode B b (Object ms') \<noteq> Some out" for out
    using encodable_permuted(1) [OF assms(1), of b 1] by (auto simp: jcs_encode_Some)
  then show ?thesis by (metis not_Some_eq)
qed

theorem jcs_encode_member_order_witness:
  "jcs_encode sample_backend maximum (Object [(''b'', Null), (''a'', Bool True)]) =
   jcs_encode sample_backend maximum (Object [(''a'', Bool True), (''b'', Null)])"
proof -
  have "\<forall>m \<in> set [(''b'', Null), (''a'', Bool True)]. utf8_valid (fst m)"
    by (simp add: ascii_valid is_ascii_def byte_def)
  from jcs_encode_member_order [OF _ this, of "[(''a'', Bool True), (''b'', Null)]"]
  show ?thesis by simp
qed

end
