(* ===== verification/Json_Roundtrip.thy ===== *)
theory Json_Roundtrip
  imports Jcs_Facts
begin

text \<open>
  The decoder and the canonical encoder fit together: decoding the canonical text of a value without
  floats gives its canonical form back. Hence the canonical text determines the canonical form, which
  is what the signatures and digests over it rely on.
\<close>

section \<open>Strings\<close>

definition plain_byte :: "u8 \<Rightarrow> bool" where
  "plain_byte c \<longleftrightarrow> c \<noteq> CHR 0x22 \<and> c \<noteq> CHR 0x5C \<and> 0x20 \<le> byte c"

lemma parse_plain:
  "list_all plain_byte cs \<Longrightarrow> parse_chars buf (cs @ r) = parse_chars (buf @ cs) r"
proof (induction cs arbitrary: buf)
  case (Cons c cs)
  then show ?case by (subst parse_chars.simps) (simp add: plain_byte_def)
qed simp

lemma parse_quote: "parse_chars buf (CHR 0x22 # r) = Some (buf, r)"
  by (subst parse_chars.simps) simp

lemma hex_nibble_digit: "n < 16 \<Longrightarrow> hex_digit (hex_nibble n) = Some n"
proof -
  have "list_all (\<lambda>n. hex_digit (hex_nibble n) = Some n) [0..<16]" by code_simp
  then show "n < 16 \<Longrightarrow> hex_digit (hex_nibble n) = Some n" by (simp add: list_all_iff)
qed

lemma parse_hex4_loop: "parse_hex4 s = hex_loop (Suc (Suc (Suc (Suc 0)))) 0 s"
  by (simp add: parse_hex4_def eval_nat_numeral)

lemma parse_u_escape:
  assumes "cp < 0x20"
  shows "parse_chars buf ([CHR 0x5C, CHR ''u'', CHR ''0'', CHR ''0'',
      hex_nibble (drop_bit 4 cp), hex_nibble (cp AND 0x0F)] @ r) = parse_chars (buf @ push_utf8 cp) r"
proof -
  have hi: "drop_bit 4 cp = cp div 16" "cp div 16 < 16" "cp AND 15 = cp mod 16"
    using assms by (auto simp: drop_bit_eq_div and_15_nat)
  have zero: "hex_digit CHR ''0'' = Some 0" by code_simp
  have "parse_hex4 ([CHR ''0'', CHR ''0'', hex_nibble (cp div 16), hex_nibble (cp mod 16)] @ r) = Some (cp, r)"
    using hex_nibble_digit [OF hi(2)] hex_nibble_digit [of "cp mod 16"] assms
    by (simp add: parse_hex4_loop zero)
  moreover have "encode_codepoint buf cp r = Some (buf @ push_utf8 cp, r)"
    using assms by (simp add: encode_codepoint_def)
  moreover have "simple_escape CHR ''u'' = None" by code_simp
  ultimately show ?thesis using hi by (subst parse_chars.simps) simp
qed

lemma push_small: "cp < 0x80 \<Longrightarrow> push_utf8 cp = [char_of cp]"
  by (simp add: push_utf8_def)

lemma parse_escape:
  assumes "simple_escape e = Some c"
  shows "parse_chars buf (CHR 0x5C # e # r) = parse_chars (buf @ [c]) r"
  by (subst parse_chars.simps) (simp add: assms)

lemma simple_escapes:
  "simple_escape CHR ''b'' = Some (char_of (0x08 :: nat))" "simple_escape CHR ''t'' = Some (char_of (0x09 :: nat))"
  "simple_escape CHR ''n'' = Some (char_of (0x0A :: nat))" "simple_escape CHR ''f'' = Some (char_of (0x0C :: nat))"
  "simple_escape CHR ''r'' = Some (char_of (0x0D :: nat))" "simple_escape CHR 0x5C = Some (char_of (0x5C :: nat))"
  "simple_escape CHR 0x22 = Some (char_of (0x22 :: nat))"
  by code_simp+

lemma push_plain:
  assumes "is_scalar cp" "0x20 \<le> cp" "cp \<noteq> 0x5C" "cp \<noteq> 0x22"
  shows "list_all plain_byte (push_utf8 cp)"
proof -
  have "plain_byte c" if "c \<in> set (push_utf8 cp)" for c
  proof -
    have "0x20 \<le> byte c \<and> byte c \<noteq> 0x5C \<and> byte c \<noteq> 0x22"
      using push_utf8_bytes [OF assms(1) that] assms(2-4) by (auto split: if_splits)
    then show ?thesis by (auto simp: plain_byte_def byte_def)
  qed
  then show ?thesis by (simp add: list_all_iff)
qed

lemma parse_escape_char:
  assumes "is_scalar cp"
  shows "parse_chars buf (escape_char cp @ r) = parse_chars (buf @ push_utf8 cp) r"
proof (cases "cp \<le> 0x1F")
  case True
  consider "cp = 0x08" | "cp = 0x09" | "cp = 0x0A" | "cp = 0x0C" | "cp = 0x0D"
    | "cp \<notin> {0x08, 0x09, 0x0A, 0x0C, 0x0D}" by blast
  then show ?thesis
  proof cases
    case 6
    then show ?thesis using True parse_u_escape [of cp buf r] by (simp add: escape_char_def)
  qed (simp_all add: escape_char_def parse_escape [OF simple_escapes(1)] parse_escape [OF simple_escapes(2)]
      parse_escape [OF simple_escapes(3)] parse_escape [OF simple_escapes(4)]
      parse_escape [OF simple_escapes(5)] push_small)
next
  case False
  then show ?thesis
    using parse_plain [OF push_plain [OF assms]]
    by (auto simp: escape_char_def parse_escape [OF simple_escapes(6)] parse_escape [OF simple_escapes(7)]
        push_small)
qed

lemma parse_escaped:
  "list_all is_scalar cs \<Longrightarrow>
     parse_chars buf (concat (map escape_char cs) @ CHR 0x22 # r) = Some (buf @ utf8 cs, r)"
proof (induction cs arbitrary: buf)
  case (Cons cp cs)
  then show ?case using parse_escape_char [of cp buf "concat (map escape_char cs) @ CHR 0x22 # r"] by simp
qed (simp add: parse_quote)

lemma parse_string_text:
  assumes "utf8_valid s" "length s \<le> k"
  shows "parse_string k (string_text s @ r) = Some (s, r)"
  using assms utf8_valid_chars [OF assms(1)] parse_escaped [of "chars s" "[]" r]
  by (simp add: parse_string_def string_text_def from_utf8_def)


text \<open>ASCII text without quotes, backslashes and control bytes is written as it is.\<close>

lemma escape_plain:
  "byte c < 0x80 \<Longrightarrow> plain_byte c \<Longrightarrow> escape_char (byte c) = [c]"
proof -
  assume c: "byte c < 0x80" "plain_byte c"
  have "byte (CHR 0x22) = 0x22" "byte (CHR 0x5C) = 0x5C" by (simp_all add: byte_def)
  then have "byte c \<noteq> 0x22" "byte c \<noteq> 0x5C" using c(2) byte_inject unfolding plain_byte_def by metis+
  then show "escape_char (byte c) = [c]" using c by (simp add: escape_char_def plain_byte_def push_small)
qed

lemma string_text_plain:
  assumes "is_ascii s" "list_all plain_byte s"
  shows "string_text s = CHR 0x22 # s @ [CHR 0x22]"
proof -
  have "concat (map escape_char (map byte s)) = s"
    using assms by (induction s) (simp_all add: escape_plain is_ascii_def)
  then show ?thesis using assms(1) by (simp add: string_text_def ascii_chars)
qed

section \<open>Integers\<close>

text \<open>What may follow a value: the end of the text, a separator or a closing bracket.\<close>

definition delim :: "bytes \<Rightarrow> bool" where
  "delim r \<longleftrightarrow> r = [] \<or> hd r = CHR '','' \<or> hd r = CHR '']'' \<or> hd r = CHR ''}''"

lemma delim_simps [simp]:
  "delim []" "delim (CHR '','' # r)" "delim (CHR '']'' # r)" "delim (CHR ''}'' # r)"
  by (simp_all add: delim_def)

lemma delim_stops:
  assumes "delim r"
  shows "\<not> peek_is CHR ''.'' r" "\<not> peek_is CHR ''e'' r" "\<not> peek_is CHR ''E'' r"
    "dropWhile is_ascii_digit r = r" "skip_ws r = r"
  using assms by (cases r; auto simp: delim_def peek_is_def digit_iff byte_def skip_ws_def is_ws_def)+

lemma scan_int_decimal:
  assumes "delim r"
  shows "scan_int (decimal m @ r) = Some r"
proof (cases "m = 0")
  case True
  then show ?thesis by (simp add: scan_int_def)
next
  case False
  obtain d ds where ds: "decimal m = d # ds" by (cases "decimal m") auto
  have digits: "is_ascii_digit d" "list_all is_ascii_digit ds" using decimal_digits [of m] ds by simp_all
  have "d \<noteq> CHR ''0''" using decimal_no_leading_zero [of m] False ds by simp
  moreover from this have "in_range CHR ''1'' CHR ''9'' d"
  proof -
    have "byte d \<noteq> 48" using calculation by (metis byte_inject byte_char_of char_of_byte
      mod_less byte_less digit_char_zero digit_char_def add_0_right zero_less_numeral)
    then show ?thesis using digits(1) by (auto simp: digit_iff in_range_def byte_def)
  qed
  moreover have "dropWhile is_ascii_digit (ds @ r) = r"
    using digits(2) delim_stops(4) [OF assms] by (simp add: list_all_iff)
  ultimately show ?thesis by (simp add: scan_int_def ds)
qed

lemma decimal_int_minus: "peek_is CHR ''-'' (decimal_int n @ r) \<longleftrightarrow> n < 0"
proof (cases "n < 0")
  case False
  obtain d ds where ds: "decimal (nat n) = d # ds" by (cases "decimal (nat n)") auto
  then have "d \<noteq> CHR ''-''" using decimal_no_minus [of "nat n"] by auto
  then show ?thesis using False ds by (simp add: decimal_int_def peek_is_def)
qed (simp add: decimal_int_def peek_is_def)

lemma decimal_int_body:
  "(if peek_is CHR ''-'' (decimal_int n @ r) then tl (decimal_int n @ r) else decimal_int n @ r) =
   decimal (nat \<bar>n\<bar>) @ r"
  unfolding decimal_int_minus by (simp add: decimal_int_def)

lemma scan_decimal_int:
  assumes "delim r" shows "scan_number_lexeme (decimal_int n @ r) = Some r"
  unfolding scan_number_lexeme_def decimal_int_body scan_int_decimal [OF assms]
  using delim_stops [OF assms] by (simp add: scan_frac_def scan_exp_def)

lemma decimal_int_no_float: "\<not> is_float_lexeme (decimal_int n)"
proof -
  have dig: "\<not> is_ascii_digit c" if "c \<in> {CHR ''.'', CHR ''e'', CHR ''E''}" for c
    using that by (auto simp: digit_iff byte_def)
  have "c \<notin> {CHR ''.'', CHR ''e'', CHR ''E''}" if "c \<in> set (decimal m)" for c m
    using that dig decimal_digits [of m] unfolding list_all_iff by blast
  then show ?thesis
    unfolding is_float_lexeme_def decimal_int_def list_ex_iff by (simp split: if_splits) 
qed

lemma decimal_length_16:
  assumes "m \<le> 9007199254740991" shows "length (decimal m) \<le> 16"
proof (cases "m = 0")
  case False
  then have "10 ^ (length (decimal m) - 1) \<le> m" using decimal_length_bounds [of m] by simp
  also have "\<dots> < 10 ^ 16" using assms by simp
  finally have "length (decimal m) - 1 < 16" by (rule power_less_imp_less_exp [rotated]) simp
  then show ?thesis by simp
qed simp

text \<open>The limits under which the encoder's numbers are lexemes the decoder takes.\<close>

definition integers_fit :: "bounds \<Rightarrow> bool" where
  "integers_fit b \<longleftrightarrow> 17 \<le> number_lexeme_bytes b \<and> 0 < integer_magnitude b \<and>
     integer_magnitude b \<le> 9007199254740991"

lemma parse_decimal_int:
  assumes "delim r" "\<bar>n\<bar> \<le> int (integer_magnitude b)" "integers_fit b"
  shows "parse_number b (decimal_int n @ r) = Some (Integer n, r)"
proof -
  let ?m = "nat \<bar>n\<bar>"
  have m: "?m \<le> integer_magnitude b" "?m \<le> 9007199254740991"
    using assms(2,3) by (auto simp: integers_fit_def)
  have neg: "lexeme_negative (decimal_int n) \<longleftrightarrow> n < 0"
    using decimal_int_minus [of n "[]"] by (simp add: lexeme_negative_def)
  have body: "takeWhile is_ascii_digit
      (if lexeme_negative (decimal_int n) then tl (decimal_int n) else decimal_int n) = decimal ?m"
    using decimal_int_body [of n "[]"] unfolding append_Nil2 lexeme_negative_def
    by (simp only: takeWhile_digits decimal_digits)
  have len: "length (decimal_int n) \<le> number_lexeme_bytes b"
    using decimal_length_16 [OF m(2)] assms(3)
    by (auto simp: decimal_int_def integers_fit_def split: if_splits)
  have "magnitude_ok (strip_leading_zeros (decimal ?m)) 0 (integer_magnitude b)"
    using m(1) assms(3) by (subst magnitude_ok_value) (simp_all add: integers_fit_def)
  moreover have "parse_i64 (decimal_int n) = Some n"
    unfolding parse_i64_def body decimal_value unfolding neg Let_def
    using m(2) by (auto simp: is_i64_def i64_min_def i64_max_def)
  moreover have "from_utf8 (decimal_int n) = Some (decimal_int n)"
  proof -
    have "is_ascii (decimal k)" for k
      using decimal_digits [of k] by (auto simp: is_ascii_def list_all_iff digit_iff)
    then have "is_ascii (decimal_int n)" by (simp add: decimal_int_def is_ascii_def byte_def)
    then show ?thesis by (simp add: from_utf8_def ascii_valid)
  qed
  ultimately show ?thesis
    using len by (simp add: parse_number_def scan_decimal_int [OF assms(1)] decimal_int_no_float
        decompose_int_lexeme [OF decimal_int_no_float] body from_utf8_def)
qed


section \<open>Values\<close>

text \<open>Values the round trip covers: no floats, and every string valid UTF-8, as Rust's type ensures.\<close>

fun portable :: "json \<Rightarrow> bool" where
  "portable (Float f) = False"
| "portable (String s) = utf8_valid s"
| "portable (Array xs) = (\<forall>x \<in> set xs. portable x)"
| "portable (Object ms) = (\<forall>m \<in> set ms. utf8_valid (fst m) \<and> portable (snd m))"
| "portable _ = True"

definition starts_value :: "bytes \<Rightarrow> bool" where
  "starts_value t \<longleftrightarrow> t \<noteq> [] \<and> \<not> is_ws (hd t) \<and> hd t \<noteq> CHR '']'' \<and> hd t \<noteq> CHR ''}''"

lemma starts_value_skip: "starts_value t \<Longrightarrow> skip_ws (t @ r) = t @ r"
  by (cases t) (simp_all add: starts_value_def skip_ws_def)

lemma starts_value_peek:
  "starts_value t \<Longrightarrow> \<not> peek_is CHR '']'' (t @ r) \<and> \<not> peek_is CHR ''}'' (t @ r)"
  by (cases t) (simp_all add: starts_value_def peek_is_def)

lemma digit_starts: "is_ascii_digit c \<Longrightarrow> starts_value (c # t)"
  by (auto simp: starts_value_def is_ws_def digit_iff byte_def)

lemma decimal_int_starts: "starts_value (decimal_int n)"
proof -
  obtain d ds where ds: "decimal (nat n) = d # ds" by (cases "decimal (nat n)") auto
  then have "is_ascii_digit d" using decimal_digits [of "nat n"] by simp
  then have "starts_value (decimal (nat n))" using ds by (simp add: digit_starts)
  moreover have "starts_value (CHR ''-'' # t)" for t by (simp add: starts_value_def is_ws_def)
  ultimately show ?thesis by (simp add: decimal_int_def)
qed

lemma string_text_starts: "starts_value (string_text s)"
  by (simp add: string_text_def starts_value_def is_ws_def)

lemma plain_text_starts: "portable v \<Longrightarrow> starts_value (plain_text B v)"
  by (cases v) (simp_all add: decimal_int_starts string_text_starts,
    simp_all add: starts_value_def is_ws_def)

text \<open>The digit that starts an integer leads the value parser to the number parser.\<close>

lemma parse_value_int:
  assumes "delim r" "\<bar>k\<bar> \<le> int (integer_magnitude b)" "integers_fit b" "n + 1 \<le> total_nodes b"
  shows "parse_value b d (decimal_int k @ r) n = Some (Integer k, r, n + 1)"
proof -
  obtain c cs where c: "decimal_int k @ r = c # cs"
    by (cases "decimal_int k @ r") (auto simp: decimal_int_def split: if_splits)
  have "c = CHR ''-'' \<or> is_ascii_digit c"
  proof (cases "k < 0")
    case False
    then have "c \<in> set (decimal (nat k))" using c
      by (cases "decimal (nat k)") (auto simp: decimal_int_def)
    then show ?thesis using decimal_digits [of "nat k"] by (metis list_all_iff)
  qed (use c in \<open>simp add: decimal_int_def\<close>)
  moreover have "c \<notin> {CHR ''{'', CHR ''['', CHR 0x22, CHR ''t'', CHR ''f'', CHR ''n''}"
    using calculation by (auto simp: digit_iff byte_def)
  ultimately show ?thesis
    using parse_decimal_int [OF assms(1-3)] assms(4)
    by (simp add: parse_value.simps c)
qed

lemma expect_literal_append: "expect_literal lit (lit @ r) = Some r"
  by (simp add: expect_literal_def starts_with_append)

lemma parse_value_word:
  assumes "n + 1 \<le> total_nodes b"
  shows "parse_value b d (''null'' @ r) n = Some (Null, r, n + 1)"
    "parse_value b d (''true'' @ r) n = Some (Bool True, r, n + 1)"
    "parse_value b d (''false'' @ r) n = Some (Bool False, r, n + 1)"
  using assms expect_literal_append [of "''null''" r] expect_literal_append [of "''true''" r]
    expect_literal_append [of "''false''" r]
  by (simp_all add: parse_value.simps)

lemma parse_value_string:
  assumes "n + 1 \<le> total_nodes b" "utf8_valid s" "length s \<le> string_bytes b"
  shows "parse_value b d (string_text s @ r) n = Some (String s, r, n + 1)"
  using assms parse_string_text [OF assms(2,3), of r]
  by (simp add: parse_value.simps string_text_def)


lemma parse_elements_text:
  assumes "\<And>x n r. x \<in> set xs \<Longrightarrow> n + node_count x \<le> total_nodes b \<Longrightarrow> delim r \<Longrightarrow>
      parse_value b (d + 1) (plain_text B x @ r) n = Some (x, r, n + node_count x)"
    and "\<forall>x \<in> set xs. portable x" "xs \<noteq> []" "length items + length xs \<le> array_items b"
    and "n + items_count xs \<le> total_nodes b"
  shows "parse_elements b d items (join_with CHR '','' (map (plain_text B) xs) @ CHR '']'' # r) n =
    Some (Array (items @ xs), r, n + items_count xs)"
  using assms
proof (induction xs arbitrary: items n)
  case (Cons x xs)
  show ?case
  proof (cases xs)
    case Nil
    have "parse_value b (d + 1) (plain_text B x @ CHR '']'' # r) n = Some (x, CHR '']'' # r, n + node_count x)"
      using Cons.prems Nil by (intro Cons.prems(1)) simp_all
    then show ?thesis using Cons.prems(4) Nil
      by (subst parse_elements.simps) (simp add: skip_ws_def is_ws_def)
  next
    case (Cons y ys)
    let ?rest = "join_with CHR '','' (map (plain_text B) xs) @ CHR '']'' # r"
    have head: "parse_value b (d + 1) (plain_text B x @ CHR '','' # ?rest) n =
        Some (x, CHR '','' # ?rest, n + node_count x)"
      using Cons.prems by (intro Cons.prems(1)) simp_all
    have "\<exists>t. ?rest = plain_text B y @ t" using Cons by (cases ys) auto
    then have "skip_ws ?rest = ?rest"
      using starts_value_skip [OF plain_text_starts [of y B]] Cons.prems(2) Cons by auto
    moreover have "parse_elements b d (items @ [x]) ?rest (n + node_count x) =
        Some (Array ((items @ [x]) @ xs), r, (n + node_count x) + items_count xs)"
      using Cons.prems Cons by (intro Cons.IH) simp_all
    moreover have "join_with CHR '','' (map (plain_text B) (x # xs)) @ CHR '']'' # r =
        plain_text B x @ CHR '','' # ?rest" using Cons by simp
    moreover have "skip_ws (CHR '','' # ?rest) = CHR '','' # ?rest" by (simp add: skip_ws_def is_ws_def)
    ultimately show ?thesis using head Cons.prems(4)
      by (subst parse_elements.simps) simp
  qed
qed simp

lemma parse_members_text:
  assumes "\<And>m n r. m \<in> set ms \<Longrightarrow> n + node_count (snd m) \<le> total_nodes b \<Longrightarrow> delim r \<Longrightarrow>
      parse_value b (d + 1) (plain_text B (snd m) @ r) n = Some (snd m, r, n + node_count (snd m))"
    and "\<forall>m \<in> set ms. portable (snd m) \<and> utf8_valid (fst m) \<and> length (fst m) \<le> key_bytes b"
    and "ms \<noteq> []" "length done + length ms \<le> object_members b" "distinct (map fst (done @ ms))"
    and "n + members_count ms \<le> total_nodes b"
  shows "parse_members b d done
      (join_with CHR '','' (map (\<lambda>m. member_text (fst m, plain_text B (snd m))) ms) @ CHR ''}'' # r) n =
    Some (Object (done @ ms), r, n + members_count ms)"
  using assms
proof (induction ms arbitrary: "done" n)
  case (Cons m ms)
  let ?t = "\<lambda>m. member_text (fst m, plain_text B (snd m))"
  obtain k v where m: "m = (k, v)" by (cases m)
  have name: "parse_string (key_bytes b) (string_text k @ s) = Some (k, s)" for s
    using Cons.prems(2) m by (intro parse_string_text) simp_all
  have new: "\<not> list_ex (\<lambda>(k', _). k' = k) done"
    using Cons.prems(5) m by (force simp: list_ex_iff)
  have colon: "skip_ws (CHR '':'' # s) = CHR '':'' # s" for s by (simp add: skip_ws_def is_ws_def)
  have val: "skip_ws (plain_text B v @ s) = plain_text B v @ s" for s
    using Cons.prems(2) m by (intro starts_value_skip plain_text_starts) simp
  have len: "\<not> object_members b \<le> length done" using Cons.prems(4) by simp
  show ?case
  proof (cases ms)
    case Nil
    have "parse_value b (d + 1) (plain_text B v @ CHR ''}'' # r) n = Some (v, CHR ''}'' # r, n + node_count v)"
      using Cons.prems(1) [of m] Cons.prems(6) m Nil by simp
    then show ?thesis using m Nil name new colon val len
      by (subst parse_members.simps) (simp add: member_text_def peek_is_def skip_ws_def is_ws_def)
  next
    case (Cons m' ms')
    let ?rest = "join_with CHR '','' (map ?t ms) @ CHR ''}'' # r"
    have head: "parse_value b (d + 1) (plain_text B v @ CHR '','' # ?rest) n =
        Some (v, CHR '','' # ?rest, n + node_count v)"
      using Cons.prems(1) [of m n "CHR '','' # ?rest"] Cons.prems(6) m by simp
    have "\<exists>s. ?rest = string_text (fst m') @ s" using Cons by (cases ms') (auto simp: member_text_def)
    then have skip: "skip_ws ?rest = ?rest" using starts_value_skip [OF string_text_starts] by auto
    have tail: "parse_members b d (done @ [m]) ?rest (n + node_count v) =
        Some (Object ((done @ [m]) @ ms), r, (n + node_count v) + members_count ms)"
      using Cons.prems Cons m by (intro Cons.IH) simp_all
    have joined: "join_with CHR '','' (map ?t (m # ms)) @ CHR ''}'' # r =
        string_text k @ CHR '':'' # plain_text B v @ CHR '','' # ?rest"
      using Cons m by (simp add: member_text_def)
    have comma: "skip_ws (CHR '','' # ?rest) = CHR '','' # ?rest" by (simp add: skip_ws_def is_ws_def)
    show ?thesis unfolding joined
      by (subst parse_members.simps)
        (use head skip tail comma name new colon val len m in \<open>simp add: peek_is_def\<close>)
  qed
qed simp


lemma parse_array_text:
  assumes "d \<le> depth b" "\<not> peek_is CHR '']'' t" "skip_ws t = t" "n + 1 \<le> total_nodes b"
    and "parse_elements b d [] t (n + 1) = Some (v, r, m)"
  shows "parse_value b d (CHR ''['' # t) n = Some (v, r, m)"
  using assms by (simp add: parse_value.simps parse_array.simps)

lemma parse_object_text:
  assumes "d \<le> depth b" "\<not> peek_is CHR ''}'' t" "skip_ws t = t" "n + 1 \<le> total_nodes b"
    and "parse_members b d [] t (n + 1) = Some (v, r, m)"
  shows "parse_value b d (CHR ''{'' # t) n = Some (v, r, m)"
  using assms by (simp add: parse_value.simps parse_object.simps)

lemma join_head:
  "xs \<noteq> [] \<Longrightarrow> \<exists>s. join_with c (map f xs) @ t = f (hd xs) @ s"
  by (cases xs; cases "tl xs") auto

lemma plain_text_Object:
  "plain_text B (Object ms) =
     CHR ''{'' # join_with CHR '','' (map (\<lambda>m. member_text (fst m, plain_text B (snd m))) ms) @ ''}''"
  by (simp add: comp_def map_prod_def case_prod_unfold)

lemma parse_plain_text:
  assumes "integers_fit b"
  shows "json_ok b d v \<Longrightarrow> portable v \<Longrightarrow> n + node_count v \<le> total_nodes b \<Longrightarrow> delim r \<Longrightarrow>
    parse_value b d (plain_text B v @ r) n = Some (v, r, n + node_count v)"
proof (induction v arbitrary: d n r)
  case Null
  then show ?case using parse_value_word(1) [of n b] by simp
next
  case (Bool x)
  then show ?case using parse_value_word [of n b] by (cases x) simp_all
next
  case (Integer k)
  then show ?case using parse_value_int [OF _ _ assms] by simp
next
  case (Array xs)
  show ?case
  proof (cases "xs = []")
    case True
    then show ?thesis using Array.prems
      by (simp add: parse_value.simps parse_array.simps skip_ws_def is_ws_def peek_is_def)
  next
    case False
    let ?t = "join_with CHR '','' (map (plain_text B) xs) @ CHR '']'' # r"
    obtain s where s: "?t = plain_text B (hd xs) @ s"
      using join_head [OF False, of "CHR '',''" "plain_text B" "CHR '']'' # r"] by blast
    have st: "starts_value (plain_text B (hd xs))"
      using Array.prems(2) False by (intro plain_text_starts) simp
    have "parse_elements b d [] ?t (n + 1) = Some (Array ([] @ xs), r, (n + 1) + items_count xs)"
      using Array.prems False by (intro parse_elements_text) (auto intro!: Array.IH)
    then have "parse_value b d (CHR ''['' # ?t) n = Some (Array xs, r, (n + 1) + items_count xs)"
      using Array.prems starts_value_skip [OF st] starts_value_peek [OF st] unfolding s
      by (intro parse_array_text) simp_all
    then show ?thesis by simp
  qed
next
  case (Object ms)
  show ?case
  proof (cases "ms = []")
    case True
    then show ?thesis using Object.prems
      by (simp add: parse_value.simps parse_object.simps skip_ws_def is_ws_def peek_is_def)
  next
    case False
    let ?f = "\<lambda>m. member_text (fst m, plain_text B (snd m))"
    let ?t = "join_with CHR '','' (map ?f ms) @ CHR ''}'' # r"
    obtain s where "?t = ?f (hd ms) @ s"
      using join_head [OF False, of "CHR '',''" ?f "CHR ''}'' # r"] by blast
    then obtain s' where s: "?t = string_text (fst (hd ms)) @ s'" by (simp add: member_text_def)
    have IH: "parse_value b (d + 1) (plain_text B (snd m) @ r) n = Some (snd m, r, n + node_count (snd m))"
      if "m \<in> set ms" "n + node_count (snd m) \<le> total_nodes b" "delim r" for m n r
      using Object.prems that by (intro Object.IH [of m]) (auto simp: snds.simps)
    have "parse_members b d [] ?t (n + 1) = Some (Object ([] @ ms), r, (n + 1) + members_count ms)"
      by (rule parse_members_text [OF IH]) (use Object.prems False in auto)
    then have "parse_value b d (CHR ''{'' # ?t) n = Some (Object ms, r, (n + 1) + members_count ms)"
      using Object.prems starts_value_skip [OF string_text_starts] starts_value_peek [OF string_text_starts]
      unfolding s by (intro parse_object_text) simp_all
    then show ?thesis unfolding plain_text_Object by simp
  qed
qed (simp_all add: parse_value_string)

section \<open>The canonical form of an encodable value\<close>

lemma node_count_canon: "node_count (canon v) = node_count v"
proof (induction v)
  case (Array xs)
  then show ?case by (simp add: comp_def cong: map_cong)
next
  case (Object ms)
  have "map (node_count \<circ> snd) (map (map_prod (\<lambda>k. k) canon) ms) = map (node_count \<circ> snd) ms"
    using Object by (auto simp: snds.simps)
  then show ?case by (simp only: canon.simps node_count.simps members_count_sort)
qed simp_all

lemma portable_canon: "portable v \<Longrightarrow> portable (canon v)"
  by (induction v) (auto simp: snds.simps)

lemma encodable_ok:
  assumes "integers_fit b"
  shows "encodable b d v \<Longrightarrow> portable v \<Longrightarrow> json_ok b d (canon v)"
proof (induction v arbitrary: d)
  case (Integer k)
  have "u64_as_i64 (integer_magnitude b) = int (integer_magnitude b)"
    using assms by (intro u64_as_i64_small) (simp add: integers_fit_def)
  then show ?case using Integer by auto
next
  case (Object ms)
  let ?f = "map_prod (\<lambda>k. k) canon"
  have "map fst (map ?f ms) = map fst ms" by simp
  then have "distinct (map fst (sort_by (by_name utf16_compare) (map ?f ms)))"
    using Object.prems by (simp add: comp_def)
  moreover have "json_ok b (d + 1) (canon (snd m))" if "m \<in> set ms" for m
    using Object.prems that by (intro Object.IH [of m]) (auto simp: snds.simps)
  ultimately show ?case using Object.prems by auto
qed auto

lemma decode_encode_canon:
  assumes "jcs_encode B b v = Some text" "portable v" "integers_fit b" "length text \<le> json_bytes b"
  shows "json_decode b text = Some (canon v)"
proof -
  have e: "encodable b 1 v" "node_count v \<le> total_nodes b" "text = plain_text B (canon v)"
    using assms(1) by (simp_all add: jcs_encode_Some jcs_text_def)
  have p: "portable (canon v)" using assms(2) by (rule portable_canon)
  have "parse_value b 1 (plain_text B (canon v) @ []) 0 = Some (canon v, [], 0 + node_count (canon v))"
    using e p encodable_ok [OF assms(3) e(1) assms(2)]
    by (intro parse_plain_text [OF assms(3)]) (simp_all add: node_count_canon)
  moreover have "skip_ws (plain_text B (canon v)) = plain_text B (canon v)"
    using starts_value_skip [OF plain_text_starts [OF p], of B "[]"] by simp
  moreover have "skip_ws [] = []" by (simp add: skip_ws_def)
  ultimately show ?thesis using assms(4) e(3) by (simp add: json_decode_def)
qed


lemma jcs_text_determines:
  assumes "jcs_encode B b v = Some t" "jcs_encode B b w = Some t" "portable v" "portable w"
    and "integers_fit b" "jcs_bytes b \<le> json_bytes b"
  shows "canon v = canon w"
proof -
  have "length t \<le> json_bytes b"
    using assms(1,6) unfolding jcs_encode_Some by linarith
  then show ?thesis using decode_encode_canon [OF assms(1,3,5)] decode_encode_canon [OF assms(2,4,5)]
    by simp
qed

section \<open>Properties\<close>

text \<open>C23: Decoding inverts canonical encoding: for a value without floats, the decoder takes the encoder's
  text and returns the canonical form of the value, members sorted at every depth. Numbers, escapes,
  nesting and every limit of the decoder are passed on the way.\<close>

theorem json_decode_jcs_encode:
  assumes "jcs_encode B b v = Some t" "portable v" "integers_fit b" "length t \<le> json_bytes b"
  shows "json_decode b t = Some (canon v)"
  using assms by (rule decode_encode_canon)

lemma maximum_fits: "integers_fit maximum" "jcs_bytes maximum = json_bytes maximum"
  by (simp_all add: integers_fit_def maximum_def)

definition sample_json :: json where
  "sample_json = Object [(''b'', Array [Null]), (''a'', Bool True)]"

lemma sample_json_encodes:
  "jcs_encode B maximum sample_json = Some (jcs_text B sample_json)" "portable sample_json"
proof -
  have texts: "utf8_valid ''a''" "utf8_valid ''b''" by code_simp+
  then show "portable sample_json" by (simp add: sample_json_def)
  have "string_text ''a'' = [CHR 0x22, CHR ''a'', CHR 0x22]" "string_text ''b'' = [CHR 0x22, CHR ''b'', CHR 0x22]"
    "sort_by (by_name utf16_compare) [(''b'', Array [Null]), (''a'', Bool True)] =
     [(''a'', Bool True), (''b'', Array [Null])]" by code_simp+
  then show "jcs_encode B maximum sample_json = Some (jcs_text B sample_json)"
    by (simp add: jcs_encode_Some sample_json_def maximum_def jcs_text_Object jcs_text_Array
        jcs_text_scalar member_texts_def member_text_def join_from_def)
qed

theorem json_decode_jcs_encode_witness:
  "json_decode maximum (jcs_text sample_backend sample_json) = Some (canon sample_json)"
proof (rule json_decode_jcs_encode [OF sample_json_encodes(1) sample_json_encodes(2) maximum_fits(1)])
  show "length (jcs_text sample_backend sample_json) \<le> json_bytes maximum"
    using sample_json_encodes(1) [of sample_backend] unfolding jcs_encode_Some maximum_fits(2) by blast
qed

text \<open>Canonical texts do not collide: two values without floats that have the same canonical text
  have the same canonical form, so a signature or digest over the text commits to the value.\<close>

theorem jcs_encode_injective:
  assumes "jcs_encode B b v = Some t" "jcs_encode B b w = Some t" "portable v" "portable w"
    and "integers_fit b" "jcs_bytes b \<le> json_bytes b"
  shows "canon v = canon w"
  using assms by (rule jcs_text_determines)

theorem jcs_encode_injective_witness: "canon sample_json = canon sample_json"
  using jcs_encode_injective [OF sample_json_encodes(1) sample_json_encodes(1)
      sample_json_encodes(2) sample_json_encodes(2) maximum_fits(1)] maximum_fits(2) by simp

end
