(* ===== verification/Base64url.thy ===== *)
theory Base64url
  imports Prelude
begin

text \<open>
  \<open>sdks/rust/src/base64url.rs\<close>: unpadded canonical base64url (RFC 4648 section 5). The \<open>u32\<close> and
  \<open>u8\<close> values of the code stay below \<open>2 ^ 24\<close> and are natural numbers here, with the code's shifts,
  masks and truncating casts. The main facts are the two laws of the \<open>codec\<close> interface, which the
  theory interprets as \<open>b64\<close>.
\<close>

section \<open>Encoding\<close>

definition encode_alphabet :: bytes where
  "encode_alphabet = ''ABCDEFGHIJKLMNOPQRSTUVWXYZabcdefghijklmnopqrstuvwxyz0123456789-_''"

definition chunk_value :: "nat \<Rightarrow> nat \<Rightarrow> nat \<Rightarrow> nat" where
  "chunk_value b0 b1 b2 = (push_bit 16 b0 OR push_bit 8 b1 OR b2)"

definition sextet :: "nat \<Rightarrow> nat \<Rightarrow> u8" where
  "sextet k n = encode_alphabet ! (drop_bit k n AND 0x3F)"

text \<open>One iteration per \<open>chunk\<close> of \<open>input.chunks(3)\<close>; missing bytes of the last chunk read as 0.\<close>

fun base64url_encode :: "bytes \<Rightarrow> bytes" where
  "base64url_encode [] = []"
| "base64url_encode [a] =
     (let n = chunk_value (byte a) 0 0 in [sextet 18 n, sextet 12 n])"
| "base64url_encode [a, b] =
     (let n = chunk_value (byte a) (byte b) 0 in [sextet 18 n, sextet 12 n, sextet 6 n])"
| "base64url_encode (a # b # c # rest) =
     (let n = chunk_value (byte a) (byte b) (byte c)
      in [sextet 18 n, sextet 12 n, sextet 6 n, sextet 0 n] @ base64url_encode rest)"

section \<open>Decoding\<close>

definition decode_char :: "u8 \<Rightarrow> nat option" where
  "decode_char c =
     (if in_range CHR ''A'' CHR ''Z'' c then Some (byte c - byte CHR ''A'')
      else if in_range CHR ''a'' CHR ''z'' c then Some (byte c - byte CHR ''a'' + 26)
      else if in_range CHR ''0'' CHR ''9'' c then Some (byte c - byte CHR ''0'' + 52)
      else if c = CHR ''-'' then Some 62
      else if c = CHR ''_'' then Some 63
      else None)"

definition out0 :: "nat \<Rightarrow> nat \<Rightarrow> u8" where
  "out0 c0 c1 = char_of (push_bit 2 c0 OR drop_bit 4 c1)"

definition out1 :: "nat \<Rightarrow> nat \<Rightarrow> u8" where
  "out1 c1 c2 = char_of (push_bit 4 (c1 AND 0x0F) OR drop_bit 2 c2)"

definition out2 :: "nat \<Rightarrow> nat \<Rightarrow> u8" where
  "out2 c2 c3 = char_of (push_bit 6 (c2 AND 0x03) OR c3)"

text \<open>
  The \<open>while\<close> loop over groups of four characters. A group of one character cannot occur: the
  length check of \<open>base64url_decode\<close> comes first.
\<close>

fun decode_groups :: "bytes \<Rightarrow> bytes result" where
  "decode_groups [] = Some []"
| "decode_groups [x0] = None"
| "decode_groups [x0, x1] = do {
     c0 \<leftarrow> decode_char x0; c1 \<leftarrow> decode_char x1;
     Some [out0 c0 c1] }"
| "decode_groups [x0, x1, x2] = do {
     c0 \<leftarrow> decode_char x0; c1 \<leftarrow> decode_char x1; c2 \<leftarrow> decode_char x2;
     Some [out0 c0 c1, out1 c1 c2] }"
| "decode_groups (x0 # x1 # x2 # x3 # rest) = do {
     c0 \<leftarrow> decode_char x0; c1 \<leftarrow> decode_char x1; c2 \<leftarrow> decode_char x2; c3 \<leftarrow> decode_char x3;
     out \<leftarrow> decode_groups rest;
     Some ([out0 c0 c1, out1 c1 c2, out2 c2 c3] @ out) }"

definition base64url_decode :: "bytes \<Rightarrow> bytes result" where
  "base64url_decode input = do {
     reject_if (length input mod 4 = 1);
     out \<leftarrow> decode_groups input;
     reject_if (base64url_encode out \<noteq> input);
     Some out }"

section \<open>The alphabet\<close>

lemma alphabet_decode: "i < 64 \<Longrightarrow> decode_char (encode_alphabet ! i) = Some i"
proof -
  have "list_all (\<lambda>i. decode_char (encode_alphabet ! i) = Some i) [0..<64]" by code_simp
  then show "i < 64 \<Longrightarrow> ?thesis" by (simp add: list_all_iff)
qed

lemma length_alphabet: "length encode_alphabet = 64"
  by (simp add: encode_alphabet_def)

definition b64_char :: "u8 \<Rightarrow> bool" where
  "b64_char c \<longleftrightarrow> c \<in> set encode_alphabet"

lemma sextet_in: "b64_char (sextet k n)"
  by (simp add: sextet_def b64_char_def and_63_nat length_alphabet)

lemma b64_char_plain:
  "b64_char c \<Longrightarrow> byte c < 0x80 \<and> byte c \<ge> 0x20 \<and> c \<noteq> CHR ''.'' \<and> c \<noteq> CHR 0x22 \<and> c \<noteq> CHR 0x5C"
proof -
  have "list_all (\<lambda>c. byte c < 0x80 \<and> byte c \<ge> 0x20 \<and> c \<noteq> CHR ''.'' \<and> c \<noteq> CHR 0x22 \<and> c \<noteq> CHR 0x5C)
          encode_alphabet"
    by code_simp
  then show "b64_char c \<Longrightarrow> ?thesis" by (simp add: list_all_iff b64_char_def)
qed

lemma encode_chars: "list_all b64_char (base64url_encode x)"
  by (induction x rule: base64url_encode.induct) (auto simp: Let_def sextet_in)

section \<open>Round trip\<close>

lemma chunk_value_arith:
  "b1 < 256 \<Longrightarrow> b2 < 256 \<Longrightarrow> chunk_value b0 b1 b2 = b0 * 65536 + b1 * 256 + b2"
proof -
  assume b: "b1 < 256" "b2 < 256"
  have "(push_bit 8 b1 OR b2) = b1 * 256 + b2" using or_push_bit_nat [of b2 8 b1] b by simp
  moreover have "b1 * 256 + b2 < 2 ^ 16" using b by simp
  ultimately show ?thesis
    using or_push_bit_nat [of "b1 * 256 + b2" 16 b0] by (simp add: chunk_value_def)
qed

lemma chunk_sextets:
  fixes b0 b1 b2 :: nat
  assumes "b0 < 256" "b1 < 256" "b2 < 256"
  defines "n \<equiv> chunk_value b0 b1 b2"
  shows "(drop_bit 18 n AND 0x3F) = b0 div 4"
    and "(drop_bit 12 n AND 0x3F) = b0 mod 4 * 16 + b1 div 16"
    and "(drop_bit 6 n AND 0x3F) = b1 mod 16 * 4 + b2 div 64"
    and "(drop_bit 0 n AND 0x3F) = b2 mod 64"
proof -
  define i j k where "i = b0 mod 4 * 16 + b1 div 16" and "j = b1 mod 16 * 4 + b2 div 64"
    and "k = b2 mod 64"
  have "x = q * 4 + r \<Longrightarrow> x * 65536 = q * 262144 + r * 65536" for x q r :: nat by simp
  note d0 = this [OF div_mult_mod_eq [of b0 4, symmetric]]
  have "x = q * 16 + r \<Longrightarrow> x * 256 = q * 4096 + r * 256" for x q r :: nat by simp
  note d1 = this [OF div_mult_mod_eq [of b1 16, symmetric]]
  have "n = b0 * 65536 + b1 * 256 + b2" using assms chunk_value_arith by simp
  then have n: "n = b0 div 4 * 262144 + i * 4096 + j * 64 + k"
    unfolding i_def j_def k_def using d0 d1 by simp
  have "b0 mod 4 \<le> 3" "b1 div 16 < 16" "b1 mod 16 \<le> 15" "b2 div 64 < 4" "b0 div 4 < 64"
    using assms by (simp_all add: less_mult_imp_div_less less_Suc_eq_le [symmetric])
  then have "i < 64" "j < 64" "k < 64" "b0 div 4 < 64" by (auto simp: i_def j_def k_def)
  note parts_4 [OF n this(1-3)] this
  then show "(drop_bit 18 n AND 0x3F) = b0 div 4"
    "(drop_bit 12 n AND 0x3F) = b0 mod 4 * 16 + b1 div 16"
    "(drop_bit 6 n AND 0x3F) = b1 mod 16 * 4 + b2 div 64"
    "(drop_bit 0 n AND 0x3F) = b2 mod 64"
    by (simp_all add: drop_bit_eq_div and_63_nat i_def j_def k_def)
qed

lemma out0_arith: "c1 < 64 \<Longrightarrow> out0 c0 c1 = char_of (c0 * 4 + c1 div 16)"
  using or_push_bit_nat [of "c1 div 16" 2 c0]
  by (simp add: out0_def drop_bit_eq_div less_mult_imp_div_less)

lemma out1_arith: "c2 < 64 \<Longrightarrow> out1 c1 c2 = char_of (c1 mod 16 * 16 + c2 div 4)"
  using or_push_bit_nat [of "c2 div 4" 4 "c1 mod 16"]
  by (simp add: out1_def drop_bit_eq_div and_15_nat less_mult_imp_div_less)

lemma out2_arith: "c3 < 64 \<Longrightarrow> out2 c2 c3 = char_of (c2 mod 4 * 64 + c3)"
  using or_push_bit_nat [of c3 6 "c2 mod 4"] by (simp add: out2_def and_3_nat)

lemma sextet_decode:
  fixes a b c :: u8
  defines "n \<equiv> chunk_value (byte a) (byte b) (byte c)"
  shows "decode_char (sextet 18 n) = Some (byte a div 4)"
    and "decode_char (sextet 12 n) = Some (byte a mod 4 * 16 + byte b div 16)"
    and "decode_char (sextet 6 n) = Some (byte b mod 16 * 4 + byte c div 64)"
    and "decode_char (sextet 0 n) = Some (byte c mod 64)"
proof -
  have *: "decode_char (sextet k m) = Some (drop_bit k m AND 0x3F)" for k m
    by (simp add: sextet_def alphabet_decode and_63_nat)
  show "decode_char (sextet 18 n) = Some (byte a div 4)"
    "decode_char (sextet 12 n) = Some (byte a mod 4 * 16 + byte b div 16)"
    "decode_char (sextet 6 n) = Some (byte b mod 16 * 4 + byte c div 64)"
    "decode_char (sextet 0 n) = Some (byte c mod 64)"
    unfolding * n_def using chunk_sextets [of "byte a" "byte b" "byte c"] by (simp_all only: byte_less)
qed

lemma group_bytes:
  fixes a b c :: u8
  shows "out0 (byte a div 4) (byte a mod 4 * 16 + byte b div 16) = a"
    and "out1 (byte a mod 4 * 16 + byte b div 16) (byte b mod 16 * 4 + byte c div 64) = b"
    and "out2 (byte b mod 16 * 4 + byte c div 64) (byte c mod 64) = c"
proof -
  have q: "byte b div 16 < 16" "byte c div 64 < 4" by (simp_all add: less_mult_imp_div_less)
  have m: "byte a mod 4 \<le> 3" "byte b mod 16 \<le> 15" by (simp_all add: less_Suc_eq_le [symmetric])
  have l: "byte a mod 4 * 16 + byte b div 16 < 64" "byte b mod 16 * 4 + byte c div 64 < 64"
    using q m by linarith+
  have "byte a div 4 * 4 + (byte a mod 4 * 16 + byte b div 16) div 16 = byte a"
    using q by simp
  then show "out0 (byte a div 4) (byte a mod 4 * 16 + byte b div 16) = a"
    by (simp add: out0_arith [OF l(1)])
  have "(byte a mod 4 * 16 + byte b div 16) mod 16 * 16 + (byte b mod 16 * 4 + byte c div 64) div 4
      = byte b" using q by simp
  then show "out1 (byte a mod 4 * 16 + byte b div 16) (byte b mod 16 * 4 + byte c div 64) = b"
    by (simp add: out1_arith [OF l(2)])
  have "(byte b mod 16 * 4 + byte c div 64) mod 4 * 64 + byte c mod 64 = byte c" using q by simp
  then show "out2 (byte b mod 16 * 4 + byte c div 64) (byte c mod 64) = c"
    by (simp add: out2_arith)
qed

lemma byte_NUL [simp]: "byte (CHR 0x00) = 0"
  by (simp add: byte_def)

lemma decode_groups_encode: "decode_groups (base64url_encode x) = Some x"
proof (induction x rule: base64url_encode.induct)
  case (2 a)
  show ?case using sextet_decode [of a "CHR 0x00" "CHR 0x00"] group_bytes(1) [of a "CHR 0x00"]
    by (simp add: Let_def)
next
  case (3 a b)
  show ?case using sextet_decode [of a b "CHR 0x00"] group_bytes(1) [of a b] group_bytes(2) [of a b "CHR 0x00"]
    by (simp add: Let_def)
next
  case (4 a b c rest)
  then show ?case using sextet_decode [of a b c] group_bytes(1) [of a b] group_bytes(2) [of a b c] group_bytes(3) [of b c] by (simp add: Let_def)
qed simp

lemma length_encode: "length (base64url_encode x) = (4 * length x + 2) div 3"
proof (induction x rule: base64url_encode.induct)
  case (4 a b c rest)
  have "(4 * (length rest + 3) + 2) div 3 = 4 + (4 * length rest + 2) div 3" by presburger
  then show ?case using 4 by (simp add: Let_def)
qed (simp_all add: Let_def)

lemma length_encode_mod: "length (base64url_encode x) mod 4 \<noteq> 1"
proof (induction x rule: base64url_encode.induct)
  case (4 a b c rest)
  have "length (base64url_encode (a # b # c # rest)) mod 4 = length (base64url_encode rest) mod 4"
    by (simp add: Let_def)
  then show ?case using 4 by simp
qed (simp_all add: Let_def)

lemma decode_encode: "base64url_decode (base64url_encode x) = Some x"
  by (simp add: base64url_decode_def decode_groups_encode length_encode_mod del: One_nat_def)

lemma encode_decode: "base64url_decode s = Some x \<Longrightarrow> base64url_encode x = s"
  by (auto simp: base64url_decode_def accept split: if_splits)

interpretation b64: codec base64url_encode base64url_decode
  by unfold_locales (rule decode_encode, rule encode_decode)

lemma decode_length: "base64url_decode s = Some x \<Longrightarrow> length s = (4 * length x + 2) div 3"
  by (auto simp: b64.dec_iff length_encode)

lemma decode_chars: "base64url_decode s = Some x \<Longrightarrow> list_all b64_char s"
  by (auto simp: b64.dec_iff encode_chars)

end
