(* ===== verification/Types.thy ===== *)
theory Types
  imports Json Bounds
begin

text \<open>
  The public input and result types of \<open>sdks/rust/src/types.rs\<close> and \<open>facts.rs\<close> that the version 1
  profile uses, one record per struct. Isabelle records share one name space for their fields, so each
  field of the source carries a prefix of its struct. A fixed-width array \<open>[u8; 32]\<close> or \<open>[u8; 64]\<close> is
  a byte list; the predicates \<open>is_b32\<close> and \<open>is_b64\<close> state the width that Rust's type gives, and a
  \<open>String\<close> is a byte list that \<open>utf8_valid\<close> accepts.
\<close>

definition is_b32 :: "bytes \<Rightarrow> bool" where "is_b32 s \<longleftrightarrow> length s = 32"
definition is_b64 :: "bytes \<Rightarrow> bool" where "is_b64 s \<longleftrightarrow> length s = 64"

section \<open>Signing inputs\<close>

datatype signing_kind =
    GrantKind | ProofKind | LocalLoopbackHttpProofKind | RoleAttestationKind | ContentAssertionKind
  | ChainAnchorKind | KeyTransitionKind

definition signing_kind_decode :: "bytes \<Rightarrow> signing_kind result" where
  "signing_kind_decode s = map_of
     [(''grant'', GrantKind), (''proof'', ProofKind),
      (''local_loopback_http_proof'', LocalLoopbackHttpProofKind),
      (''role_attestation'', RoleAttestationKind), (''content_assertion'', ContentAssertionKind),
      (''chain_anchor'', ChainAnchorKind), (''key_transition'', KeyTransitionKind)] s"

record signing_input =
  si_kind :: signing_kind
  protected_segment :: bytes
  payload_segment :: bytes

record produced_signing_input =
  psi_protected_segment :: bytes
  psi_payload_segment :: bytes
  psi_message :: bytes

section \<open>Expected contexts\<close>

record trusted_issuer =
  ti_key_id :: bytes
  ti_public_key :: bytes

record expected_grant =
  eg_issuer :: bytes
  eg_audience :: bytes
  eg_evaluation_time :: int
  eg_skew :: nat
  eg_bounds :: bounds

datatype nonce_mode = NotRequired | Required bytes

record expected_request =
  er_issuer :: bytes
  er_audience :: bytes
  er_evaluation_time :: int
  er_skew :: nat
  er_bounds :: bounds
  er_method :: bytes
  er_target_uri :: bytes
  er_invocation_id :: bytes
  er_operation :: bytes
  er_cast_arguments :: json
  er_proof_max_age :: nat
  er_nonce_mode :: nonce_mode
  er_trusted_issuer :: trusted_issuer

record credentials =
  cr_grant :: bytes
  cr_proof :: bytes

section \<open>Decode results\<close>

datatype not_evaluated = NotEvaluated

record key_locator =
  kl_key_id :: bytes
  kl_trust :: not_evaluated

record grant_decoded =
  gd_key_id :: bytes
  gd_version :: int
  gd_issuer :: bytes
  gd_grant_id :: bytes
  gd_audiences :: "bytes list"
  gd_holder_thumbprint :: bytes
  gd_issued_at :: int
  gd_not_before :: int
  gd_expires_at :: int
  gd_verification :: not_evaluated

record proof_decoded =
  pd_key_id :: bytes
  pd_proof_id :: bytes
  pd_method :: bytes
  pd_target_uri :: bytes
  pd_invocation_id :: bytes
  pd_operation :: bytes
  pd_grant_hash :: bytes
  pd_request_hash :: bytes
  pd_issued_at :: int
  pd_holder_thumbprint :: bytes
  pd_nonce :: "bytes option"
  pd_verification :: not_evaluated

section \<open>Consumption chain\<close>

record chain_input =
  ci_rows :: "bytes list"

record expected_chain =
  ec_chain_id :: bytes
  ec_first_sequence :: int
  ec_last_sequence :: int
  ec_row_count :: int
  ec_previous_hash :: bytes
  ec_head_hash :: bytes
  ec_bounds :: "bounds option"

record consumption_entry =
  ce_chain_id :: bytes
  ce_commitment :: bytes
  ce_previous_hash :: bytes
  ce_sequence :: int

section \<open>Historical keys, anchors and transitions\<close>

datatype validity_upper_bound = Bounded int | Unbounded

record historical_public_key =
  hk_key_id :: bytes
  hk_public_key :: bytes
  hk_valid_from :: int
  hk_valid_before :: validity_upper_bound

record historical_key_chain =
  hkc_keys :: "historical_public_key list"

record boundary_anchor =
  ba_anchor_id :: bytes
  ba_anchored_at :: int
  ba_chain_hash :: bytes
  ba_chain_id :: bytes
  ba_key_id :: bytes
  ba_public_key :: bytes
  ba_sequence :: int

record key_transition =
  kt_chain_id :: bytes
  kt_current_key_id :: bytes
  kt_current_public_key :: bytes
  kt_effective_at :: int
  kt_next_key_id :: bytes
  kt_next_public_key :: bytes
  kt_transition_id :: bytes

record expected_anchor =
  ea_anchor_id :: bytes
  ea_anchored_at :: int
  ea_chain_hash :: bytes
  ea_chain_id :: bytes
  ea_key_fingerprint :: bytes
  ea_key_id :: bytes
  ea_sequence :: int
  ea_bounds :: "bounds option"

record expected_key_transition =
  ekt_chain_id :: bytes
  ekt_current_key_fingerprint :: bytes
  ekt_current_key_id :: bytes
  ekt_effective_at :: int
  ekt_next_key_fingerprint :: bytes
  ekt_next_key_id :: bytes
  ekt_transition_id :: bytes
  ekt_bounds :: "bounds option"

section \<open>Anchored export\<close>

record archived_object =
  ao_chunks :: "bytes list"
  ao_version :: bytes

record anchored_export_input =
  aei_start_anchor :: bytes
  aei_end_anchor :: bytes
  aei_transitions :: "bytes list"
  aei_rows :: "bytes list"

record expected_export =
  ee_chain :: expected_chain
  ee_digest :: bytes
  ee_start_anchor :: expected_anchor
  ee_end_anchor :: expected_anchor
  ee_transitions :: "expected_key_transition list"
  ee_object_version :: bytes
  ee_bounds :: "bounds option"

record expected_anchored_export =
  eae_chain :: expected_chain
  eae_digest :: bytes
  eae_start_anchor :: expected_anchor
  eae_end_anchor :: expected_anchor
  eae_transitions :: "expected_key_transition list"
  eae_object_version :: bytes
  eae_bounds :: "bounds option"

record anchored_export_encoded =
  axe_bytes :: bytes
  axe_byte_count :: nat
  axe_digest :: bytes

section \<open>Producer inputs\<close>

record grant_operation =
  go_name :: bytes
  go_selectors :: "json list"

record grant_input =
  gi_issuer :: bytes
  gi_grant_id :: bytes
  gi_key_id :: bytes
  gi_holder_thumbprint :: bytes
  gi_issued_at :: int
  gi_not_before :: int
  gi_expires_at :: int
  gi_audiences :: "bytes list"
  gi_operations :: "grant_operation list"

record proof_input =
  pi_proof_id :: bytes
  pi_method :: bytes
  pi_target_uri :: bytes
  pi_invocation_id :: bytes
  pi_operation :: bytes
  pi_cast_arguments :: json
  pi_grant_compact :: bytes
  pi_holder_public_key :: bytes
  pi_issued_at :: int

record local_loopback_http_proof_input =
  lpi_proof_id :: bytes
  lpi_method :: bytes
  lpi_target_uri :: bytes
  lpi_invocation_id :: bytes
  lpi_operation :: bytes
  lpi_cast_arguments :: json
  lpi_grant_compact :: bytes
  lpi_holder_public_key :: bytes
  lpi_issued_at :: int
  lpi_nonce :: bytes

section \<open>Facts\<close>

record grant_facts =
  gf_version :: int
  gf_issuer :: bytes
  gf_grant_id :: bytes
  gf_issuer_key_fingerprint :: bytes
  gf_holder_thumbprint :: bytes
  gf_matched_audience :: bytes
  gf_iat :: int
  gf_nbf :: int
  gf_exp :: int
  gf_authorization :: not_evaluated

record envelope_facts =
  ef_grant :: grant_facts
  ef_proof_id :: bytes
  ef_invocation_id :: bytes
  ef_operation :: bytes
  ef_normalized_uri :: bytes
  ef_grant_hash :: bytes
  ef_request_hash :: bytes
  ef_proof_iat :: int
  ef_authorization :: not_evaluated

record chain_facts =
  cf_chain_id :: bytes
  cf_row_count :: int
  cf_first_sequence :: int
  cf_last_sequence :: int
  cf_previous_hash :: bytes
  cf_head_hash :: bytes
  cf_trust :: not_evaluated

record anchor_facts =
  af_anchor_id :: bytes
  af_anchored_at :: int
  af_chain_id :: bytes
  af_sequence :: int
  af_chain_hash :: bytes
  af_key_fingerprint :: bytes
  af_key_id :: bytes
  af_trust :: not_evaluated

record key_transition_facts =
  tf_transition_id :: bytes
  tf_chain_id :: bytes
  tf_effective_at :: int
  tf_current_key_fingerprint :: bytes
  tf_current_key_id :: bytes
  tf_next_key_fingerprint :: bytes
  tf_next_key_id :: bytes
  tf_trust :: not_evaluated

record anchored_export_facts =
  xf_chain_id :: bytes
  xf_first_sequence :: int
  xf_last_sequence :: int
  xf_row_count :: int
  xf_transition_count :: int
  xf_previous_hash :: bytes
  xf_head_hash :: bytes
  xf_digest :: bytes
  xf_object_version :: bytes
  xf_trust :: not_evaluated
  xf_authorization :: not_evaluated

end
