(* ===== verification/Compact.thy ===== *)
theory Compact
  imports Base64url Unicode Types
begin

text \<open>
  The three-segment compact serialization of \<open>sdks/rust/src/compact.rs\<close>: the composer, the parser and
  their inverse laws. The properties of the
  base64url codec, which the segments rest on, close the theory.
\<close>

section \<open>Parsing and composing\<close>

definition validate_segment :: "bytes \<Rightarrow> unit result" where
  "validate_segment seg =
     do { reject_if (seg = []); base64url_decode seg; Some () }"

text \<open>\<open>parse_compact\<close> walks the iterator of \<open>split\<close>: the first item always exists.\<close>

definition parse_compact :: "bytes \<Rightarrow> (bytes \<times> bytes \<times> bytes) result" where
  "parse_compact text =
     (case split_on CHR ''.'' text of
        [seg0, seg1, seg2] \<Rightarrow>
          do {
            validate_segment seg0;
            validate_segment seg1;
            validate_segment seg2;
            Some (seg0, seg1, seg2)
          }
      | _ \<Rightarrow> None)"

definition compose_compact :: "signing_input \<Rightarrow> bytes \<Rightarrow> bytes result" where
  "compose_compact si signature =
     (let out = protected_segment si @ ''.'' @ payload_segment si @ ''.'' @ base64url_encode signature
      in do { parse_compact out; Some out })"

section \<open>Segments\<close>

lemma validate_segment_Some:
  "validate_segment seg = Some u \<longleftrightarrow> seg \<noteq> [] \<and> (\<exists>x. seg = base64url_encode x)"
  by (auto simp: validate_segment_def bind_Some b64.dec_iff)

lemma encode_no_dot: "CHR ''.'' \<notin> set (base64url_encode x)"
proof
  assume "CHR ''.'' \<in> set (base64url_encode x)"
  then have "b64_char CHR ''.''" using encode_chars [of x] by (metis list_all_iff)
  moreover have "\<not> b64_char CHR ''.''" by code_simp
  ultimately show False by simp
qed

lemma segment_no_dot: "validate_segment seg = Some u \<Longrightarrow> CHR ''.'' \<notin> set seg"
  using encode_no_dot by (auto simp: validate_segment_Some)

lemma split_three:
  assumes "CHR ''.'' \<notin> set a" "CHR ''.'' \<notin> set b" "CHR ''.'' \<notin> set c"
  shows "split_on CHR ''.'' (a @ ''.'' @ b @ ''.'' @ c) = [a, b, c]"
  using split_on_append [OF assms(1), of "b @ ''.'' @ c"] split_on_append [OF assms(2), of c]
    split_on_notin [OF assms(3)] by simp

lemma parse_compact_Some:
  "parse_compact text = Some (a, b, c) \<longleftrightarrow>
     text = a @ ''.'' @ b @ ''.'' @ c \<and>
     validate_segment a = Some () \<and> validate_segment b = Some () \<and> validate_segment c = Some ()"
proof
  assume eq: "parse_compact text = Some (a, b, c)"
  then have s: "split_on CHR ''.'' text = [a, b, c]"
    by (auto simp: parse_compact_def bind_Some split: list.splits)
  then have "text = a @ ''.'' @ b @ ''.'' @ c" using join_split [of "CHR ''.''" "text"] by simp
  then show "text = a @ ''.'' @ b @ ''.'' @ c \<and>
      validate_segment a = Some () \<and> validate_segment b = Some () \<and> validate_segment c = Some ()"
    using eq s by (auto simp: parse_compact_def bind_Some)
next
  assume r: "text = a @ ''.'' @ b @ ''.'' @ c \<and>
      validate_segment a = Some () \<and> validate_segment b = Some () \<and> validate_segment c = Some ()"
  then have "split_on CHR ''.'' text = [a, b, c]"
    using split_three segment_no_dot by blast
  then show "parse_compact text = Some (a, b, c)" using r by (simp add: parse_compact_def)
qed

lemma encode_ne: "base64url_encode x = [] \<longleftrightarrow> x = []"
  by (cases x rule: base64url_encode.cases) (simp_all add: Let_def)

lemma length_split_on: "length (split_on d xs) = Suc (count_list xs d)"
proof (induction xs)
  case (Cons x xs)
  obtain s ss where "split_on d xs = s # ss" using split_on_Cons_ex [of d xs] by blast
  then show ?case using Cons by simp
qed simp

lemma compose_parses:
  assumes "compose_compact si signature = Some out"
  shows "parse_compact out = Some (protected_segment si, payload_segment si, base64url_encode signature)"
proof -
  let ?e = "base64url_encode signature"
  have out: "out = protected_segment si @ ''.'' @ payload_segment si @ ''.'' @ ?e"
    and "parse_compact out \<noteq> None"
    using assms by (auto simp: compose_compact_def Let_def bind_Some)
  then obtain x y z where xyz: "parse_compact out = Some (x, y, z)" by auto
  then have "split_on CHR ''.'' out = [x, y, z]"
    by (auto simp: parse_compact_def bind_Some split: list.splits)
  then have "count_list out CHR ''.'' = 2" using length_split_on [of "CHR ''.''" out] by simp
  then have "CHR ''.'' \<notin> set (protected_segment si)" "CHR ''.'' \<notin> set (payload_segment si)"
    by (simp_all add: out count_list_0_iff [symmetric])
  then have "split_on CHR ''.'' out = [protected_segment si, payload_segment si, ?e]"
    unfolding out using encode_no_dot by (intro split_three)
  with \<open>split_on CHR ''.'' out = [x, y, z]\<close> xyz show ?thesis by simp
qed

section \<open>Properties\<close>

text \<open>C26: The base64url codec is a bijection between byte strings and canonical texts: decoding inverts
  encoding, and a text is accepted only if it is the encoding of the bytes it decodes to, so padding,
  foreign characters, impossible lengths and non-zero unused bits are all rejected.\<close>

theorem base64url_canonical:
  "base64url_decode (base64url_encode x) = Some x \<and>
   (base64url_decode s = Some x \<longleftrightarrow> s = base64url_encode x)"
  by (simp add: b64.dec_iff)

text \<open>C27: Parsing a compact text succeeds exactly on three non-empty canonical segments joined by dots,
  and returns them; composing the parsed segments gives back the text, byte for byte.\<close>

theorem parse_compact_exact:
  "parse_compact text = Some (a, b, c) \<longleftrightarrow>
     text = join_with CHR ''.'' [a, b, c] \<and> a \<noteq> [] \<and> b \<noteq> [] \<and> c \<noteq> [] \<and>
     (\<exists>x y z. a = base64url_encode x \<and> b = base64url_encode y \<and> c = base64url_encode z)"
  unfolding parse_compact_Some validate_segment_Some by auto

text \<open>A composed credential parses back into the producer's own two segments, verbatim, and the
  encoding of the raw signature.\<close>

theorem compose_compact_parses:
  "compose_compact si signature = Some out \<Longrightarrow>
     parse_compact out = Some (protected_segment si, payload_segment si, base64url_encode signature)"
  by (rule compose_parses)

theorem compose_compact_parses_witness:
  "parse_compact ''QQ.Qg.AAA'' = Some (''QQ'', ''Qg'', ''AAA'')"
proof -
  have "compose_compact \<lparr>si_kind = GrantKind, protected_segment = ''QQ'', payload_segment = ''Qg''\<rparr> [CHR 0x00, CHR 0x00] =
      Some ''QQ.Qg.AAA''" "base64url_encode [CHR 0x00, CHR 0x00] = ''AAA''" by code_simp+
  then show ?thesis using compose_compact_parses by fastforce
qed

end
