(* ===== verification/Uri.thy ===== *)
theory Uri
  imports Unicode Bounds Decimal
begin

text \<open>
  The URI normalizers of \<open>sdks/rust/src/uri.rs\<close>: the HTTPS one and the literal-loopback HTTP one, with
  the authority, host and path grammars they share. Index loops over a slice are recursion on its
  suffix, and \<open>get(i)\<close> past the end is the empty suffix.
\<close>

section \<open>Character classes\<close>

definition is_unreserved :: "u8 \<Rightarrow> bool" where
  "is_unreserved c \<longleftrightarrow> is_ascii_alphanumeric c \<or> c \<in> set ''-._~''"

definition is_sub_delim :: "u8 \<Rightarrow> bool" where
  "is_sub_delim c \<longleftrightarrow> c \<in> set (CHR 0x27 # ''!$&()*+,;='')"

definition hex_val :: "u8 \<Rightarrow> nat" where
  "hex_val c =
     (if is_ascii_digit c then byte c - 48
      else if in_range CHR ''a'' CHR ''f'' c then byte c - 97 + 10
      else if in_range CHR ''A'' CHR ''F'' c then byte c - 65 + 10
      else 0)"

section \<open>Ports and IP literals\<close>

fun port_value :: "nat \<Rightarrow> bytes \<Rightarrow> nat result" where
  "port_value v [] = Some v"
| "port_value v (c # cs) =
     (if v * 10 + digit_value c < 2 ^ 64 then port_value (v * 10 + digit_value c) cs else None)"

definition parse_port :: "bytes \<Rightarrow> bytes option result" where
  "parse_port digits =
     do {
       reject_if (digits = []);
       reject_if (\<not> list_all is_ascii_digit digits);
       val \<leftarrow> port_value 0 digits;
       reject_if (val = 0 \<or> val > 65535);
       let stripped = dropWhile (\<lambda>c. c = CHR ''0'') digits;
       let stripped = (if stripped = [] then ''0'' else stripped);
       if stripped = ''443'' then Some None else Some (Some stripped)
     }"

definition parse_port_after_literal :: "bytes \<Rightarrow> bytes option result" where
  "parse_port_after_literal after =
     (case after of
        [] \<Rightarrow> Some None
      | c # r \<Rightarrow> if c = CHR '':'' then parse_port r else None)"

definition is_ipvfuture_shape :: "bytes \<Rightarrow> bool" where
  "is_ipvfuture_shape s =
     (if length s < 3 \<or> hd s \<noteq> CHR ''v'' then False
      else
        let hex = takeWhile is_ascii_hexdigit (tl s);
            r = dropWhile is_ascii_hexdigit (tl s)
        in length hex \<ge> 1 \<and> r \<noteq> [] \<and> hd r = CHR ''.'')"

definition validate_ipvfuture :: "bytes \<Rightarrow> bool" where
  "validate_ipvfuture s =
     (let tail = tl (dropWhile is_ascii_hexdigit (tl s))
      in list_all (\<lambda>c. is_unreserved c \<or> is_sub_delim c \<or> c = CHR '':'') tail \<and> length tail \<ge> 1)"

definition is_h16 :: "bytes \<Rightarrow> bool" where
  "is_h16 s \<longleftrightarrow> 1 \<le> length s \<and> length s \<le> 4 \<and> list_all is_ascii_hexdigit s"

text \<open>The scan for the elision: \<open>None\<close> is the early return, otherwise its index if there is one.\<close>

fun find_elision :: "nat \<Rightarrow> nat option \<Rightarrow> bytes \<Rightarrow> nat option option" where
  "find_elision i elision (a # b # r) =
     (if a = CHR '':'' \<and> b = CHR '':'' then
        (if elision \<noteq> None then None
         else if r \<noteq> [] \<and> hd r = CHR '':'' then None
         else find_elision (i + 2) (Some i) r)
      else find_elision (i + 1) elision (b # r))"
| "find_elision i elision _ = Some elision"

definition hextets :: "bytes \<Rightarrow> bytes list" where
  "hextets s = (if s = [] then [] else split_on CHR '':'' s)"

definition validate_ipv6 :: "bytes \<Rightarrow> unit option" where
  "validate_ipv6 s =
     (if s = [] then None
      else
        case find_elision 0 None s of
          None \<Rightarrow> None
        | Some elision \<Rightarrow>
            (let left_parts = hextets (case elision of None \<Rightarrow> s | Some p \<Rightarrow> take p s);
                 right_parts = (case elision of None \<Rightarrow> [] | Some p \<Rightarrow> hextets (drop (p + 2) s));
                 total = length left_parts + length right_parts
             in if list_ex (\<lambda>h. h = [] \<or> \<not> is_h16 h) (left_parts @ right_parts) then None
                else case elision of
                  None \<Rightarrow> (if total = 8 then Some () else None)
                | Some _ \<Rightarrow> (if total \<le> 7 then Some () else None)))"

definition validate_ip_literal :: "bytes \<Rightarrow> bytes result" where
  "validate_ip_literal content =
     do {
       reject_if (content = []);
       let lower = map to_ascii_lowercase content;
       if is_ipvfuture_shape lower then
         (if validate_ipvfuture lower then Some lower else None)
       else do { validate_ipv6 lower; Some lower }
     }"

section \<open>Hosts\<close>

definition is_ipv4_candidate :: "bytes \<Rightarrow> bool" where
  "is_ipv4_candidate s =
     (if s = [] then False
      else
        let parts = split_on CHR ''.'' s
        in length parts = 4 \<and> list_all (\<lambda>p. p \<noteq> [] \<and> list_all is_ascii_digit p) parts)"

definition is_dec_octet :: "bytes \<Rightarrow> bool" where
  "is_dec_octet s =
     (case s of
        [a] \<Rightarrow> is_ascii_digit a
      | [a, b] \<Rightarrow> in_range CHR ''1'' CHR ''9'' a \<and> is_ascii_digit b
      | [a, b, c] \<Rightarrow>
          a \<noteq> CHR ''0'' \<and>
          (let n = (byte a - 48) * 100 + (byte b - 48) * 10 + (byte c - 48) in 100 \<le> n \<and> n \<le> 255)
      | _ \<Rightarrow> False)"

text \<open>A percent escape: the two hex digits after the \<open>%\<close> and the rest.\<close>

definition take_escape :: "bytes \<Rightarrow> (u8 \<times> u8 \<times> bytes) result" where
  "take_escape s =
     (case s of
        h1 # h2 # r \<Rightarrow>
          if \<not> is_ascii_hexdigit h1 \<or> \<not> is_ascii_hexdigit h2 then None else Some (h1, h2, r)
      | _ \<Rightarrow> None)"

lemma take_escape_shorter: "take_escape s = Some (h1, h2, r) \<Longrightarrow> length r < length s"
  by (auto simp: take_escape_def split: list.splits if_splits)

function normalize_reg_name :: "bytes \<Rightarrow> bytes result" where
  "normalize_reg_name s =
     (case s of
        [] \<Rightarrow> Some []
      | c # r \<Rightarrow>
          if is_unreserved c \<or> is_sub_delim c then
            map_option (Cons (to_ascii_lowercase c)) (normalize_reg_name r)
          else if c = CHR ''%'' then
            (case take_escape r of
               None \<Rightarrow> None
             | Some (h1, h2, r') \<Rightarrow>
                 (let decoded = char_of (hex_val h1 * 16 + hex_val h2);
                      out = (if is_unreserved decoded then [to_ascii_lowercase decoded]
                             else [CHR ''%'', to_ascii_uppercase h1, to_ascii_uppercase h2])
                  in map_option (append out) (normalize_reg_name r')))
          else None)"
  by pat_completeness auto
termination
  by (relation "measure length") (auto dest: take_escape_shorter)

declare normalize_reg_name.simps [simp del]

text \<open>
  \<open>auth.iter().position(p)\<close> splits at an index; the slices are \<open>takeWhile\<close> and \<open>dropWhile\<close> of the
  negation.
\<close>

definition parse_authority :: "bytes \<Rightarrow> (bytes \<times> bytes option) result" where
  "parse_authority auth =
     do {
       reject_if (auth = []);
       reject_if (CHR ''@'' \<in> set auth);
       if hd auth = CHR ''['' then do {
         close \<leftarrow> position (\<lambda>c. c = CHR '']'') auth;
         let content = drop 1 (take close auth);
         normalized_content \<leftarrow> validate_ip_literal content;
         port \<leftarrow> parse_port_after_literal (drop (close + 1) auth);
         Some (''['' @ normalized_content @ '']'', port)
       } else do {
         (host_str, port) \<leftarrow>
           (case position (\<lambda>c. c = CHR '':'') auth of
              None \<Rightarrow> Some (auth, None)
            | Some idx \<Rightarrow> do { port \<leftarrow> parse_port (drop (idx + 1) auth); Some (take idx auth, port) });
         reject_if (host_str = []);
         host \<leftarrow>
           (if is_ipv4_candidate host_str then
              (if list_all is_dec_octet (split_on CHR ''.'' host_str) then Some host_str else None)
            else normalize_reg_name host_str);
         Some (host, port)
       }
     }"

section \<open>Paths\<close>

definition is_path_char :: "u8 \<Rightarrow> bool" where
  "is_path_char c \<longleftrightarrow> is_unreserved c \<or> is_sub_delim c \<or> c = CHR '':'' \<or> c = CHR ''@'' \<or> c = CHR ''/''"

function normalize_escapes :: "bytes \<Rightarrow> bytes result" where
  "normalize_escapes s =
     (case s of
        [] \<Rightarrow> Some []
      | c # r \<Rightarrow>
          if is_path_char c then map_option (Cons c) (normalize_escapes r)
          else if c = CHR ''%'' then
            (case take_escape r of
               None \<Rightarrow> None
             | Some (h1, h2, r') \<Rightarrow>
                 (let decoded = char_of (hex_val h1 * 16 + hex_val h2);
                      out = (if is_unreserved decoded then [decoded]
                             else [CHR ''%'', to_ascii_uppercase h1, to_ascii_uppercase h2])
                  in map_option (append out) (normalize_escapes r')))
          else None)"
  by pat_completeness auto
termination
  by (relation "measure length") (auto dest: take_escape_shorter)

declare normalize_escapes.simps [simp del]

definition pop_last_segment :: "bytes \<Rightarrow> bytes" where
  "pop_last_segment output =
     (case rposition (\<lambda>c. c = CHR ''/'') output of Some idx \<Rightarrow> take idx output | None \<Rightarrow> [])"

text \<open>The \<open>while\<close> loop, one iteration per call; the branches are in the order of the source.\<close>

definition first_segment :: "bytes \<Rightarrow> bytes" where
  "first_segment s =
     (if hd s = CHR ''/'' then CHR ''/'' # takeWhile (\<lambda>c. c \<noteq> CHR ''/'') (tl s)
      else takeWhile (\<lambda>c. c \<noteq> CHR ''/'') s)"

lemma first_segment_ne: "s \<noteq> [] \<Longrightarrow> first_segment s \<noteq> []"
  by (cases s) (auto simp: first_segment_def)

function dot_loop :: "bytes \<Rightarrow> bytes \<Rightarrow> bytes" where
  "dot_loop s output =
     (if s = [] then output
      else if starts_with ''../'' s then dot_loop (drop 3 s) output
      else if starts_with ''./'' s then dot_loop (drop 2 s) output
      else if starts_with ''/./'' s then dot_loop (CHR ''/'' # drop 3 s) output
      else if s = ''/.'' then dot_loop ''/'' output
      else if starts_with ''/../'' s then dot_loop (CHR ''/'' # drop 4 s) (pop_last_segment output)
      else if s = ''/..'' then dot_loop ''/'' (pop_last_segment output)
      else if s = ''.'' \<or> s = ''..'' then dot_loop [] output
      else dot_loop (drop (length (first_segment s)) s) (output @ first_segment s))"
  by pat_completeness auto
termination
  by (relation "measure (\<lambda>(s, _). length s)") (auto simp: starts_with_append first_segment_ne)

declare dot_loop.simps [simp del]

definition remove_dot_segments :: "bytes \<Rightarrow> bytes" where
  "remove_dot_segments path = dot_loop path []"

definition normalize_path :: "bytes \<Rightarrow> bytes result" where
  "normalize_path path =
     do {
       normalized \<leftarrow> normalize_escapes path;
       let cleaned = remove_dot_segments normalized;
       Some (if cleaned = [] then ''/'' else cleaned)
     }"

section \<open>The normalizers\<close>

definition split_authority :: "bytes \<Rightarrow> bytes \<times> bytes" where
  "split_authority rest =
     (case position (\<lambda>c. c = CHR ''/'') rest of
        None \<Rightarrow> (rest, [])
      | Some idx \<Rightarrow> (take idx rest, drop idx rest))"

definition uri_normalize :: "bounds \<Rightarrow> bytes \<Rightarrow> bytes result" where
  "uri_normalize b s =
     do {
       reject_if (length s > uri_bytes b);
       reject_if (list_ex (\<lambda>c. c = CHR ''?'' \<or> c = CHR 0x23 \<or> byte c < 0x20 \<or> byte c = 0x7F \<or> byte c \<ge> 0x80) s);
       reject_if (length s < 8 \<or> s ! 5 \<noteq> CHR '':'' \<or> s ! 6 \<noteq> CHR ''/'' \<or> s ! 7 \<noteq> CHR ''/'' \<or>
         map to_ascii_lowercase (take 5 s) \<noteq> ''https'');
       let (authority_bytes, path_bytes) = split_authority (drop 8 s);
       (host, port) \<leftarrow> parse_authority authority_bytes;
       path \<leftarrow> normalize_path path_bytes;
       let out = ''https://'' @ host @ (case port of None \<Rightarrow> [] | Some p \<Rightarrow> '':'' @ p) @ path;
       normalized \<leftarrow> from_utf8 out;
       reject_if (length normalized > uri_bytes b);
       Some normalized
     }"

text \<open>\<open>windows(3).position(|w| w == b"://")\<close>.\<close>

fun find_scheme_end :: "bytes \<Rightarrow> nat option" where
  "find_scheme_end [] = None"
| "find_scheme_end (c # s) =
     (if starts_with ''://'' (c # s) then Some 0 else map_option Suc (find_scheme_end s))"

text \<open>\<open>str::parse::<u32>\<close> of a nonempty digit run: an error when it overflows.\<close>

definition parse_u32 :: "bytes \<Rightarrow> nat result" where
  "parse_u32 ds = (if digits_value ds < 2 ^ 32 then Some (digits_value ds) else None)"

definition loopback_port :: "bytes option \<Rightarrow> nat option result" where
  "loopback_port raw_port =
     (case raw_port of
        None \<Rightarrow> Some None
      | Some ds \<Rightarrow>
          do {
            reject_if (ds = [] \<or> \<not> list_all is_ascii_digit ds);
            val \<leftarrow> parse_u32 ds;
            reject_if (\<not> (1 \<le> val \<and> val \<le> 65535));
            Some (if val \<noteq> 80 then Some val else None)
          })"

definition local_loopback_http_uri_normalize :: "bounds \<Rightarrow> bytes \<Rightarrow> bytes result" where
  "local_loopback_http_uri_normalize b s =
     do {
       reject_if (length s > uri_bytes b);
       reject_if (list_ex (\<lambda>c. \<not> (0x21 \<le> byte c \<and> byte c \<le> 0x7E) \<or> c = CHR ''?'' \<or> c = CHR 0x23) s);
       scheme_end \<leftarrow> find_scheme_end s;
       reject_if (map to_ascii_lowercase (take scheme_end s) \<noteq> ''http'');
       let (authority, raw_path) = split_authority (drop (scheme_end + 3) s);
       (host, raw_port) \<leftarrow>
         (if authority = ''127.0.0.1'' \<or> authority = ''[::1]'' then Some (authority, None)
          else case strip_prefix ''127.0.0.1:'' authority of
            Some port \<Rightarrow> Some (''127.0.0.1'', Some port)
          | None \<Rightarrow>
              (case strip_prefix ''[::1]:'' authority of
                 Some port \<Rightarrow> Some (''[::1]'', Some port)
               | None \<Rightarrow> None));
       port \<leftarrow> loopback_port raw_port;
       path \<leftarrow> normalize_path raw_path;
       let out = ''http://'' @ host @ (case port of None \<Rightarrow> [] | Some p \<Rightarrow> '':'' @ decimal p) @ path;
       normalized \<leftarrow> from_utf8 out;
       reject_if (length normalized > uri_bytes b);
       Some normalized
     }"

end
