(* ===== verification/Uri_Facts.thy ===== *)
theory Uri_Facts
  imports Uri
begin

text \<open>
  The path normalizer as a stack of segments: dot segments are resolved as RFC 3986 section 5.2.4
  prescribes, on segments whose percent escapes are already normal, and the result is a fixed point.
\<close>

section \<open>Paths as lists of segments\<close>

definition slashed :: "bytes list \<Rightarrow> bytes" where
  "slashed segs = concat (map (Cons CHR ''/'') segs)"

definition plain_segment :: "bytes \<Rightarrow> bool" where
  "plain_segment s \<longleftrightarrow> CHR ''/'' \<notin> set s"

lemma slashed_simps [simp]: "slashed [] = []" "slashed (s # ss) = CHR ''/'' # s @ slashed ss"
  "slashed (xs @ ys) = slashed xs @ slashed ys"
  by (simp_all add: slashed_def)

lemma slashed_split:
  assumes "hd p = CHR ''/''" "p \<noteq> []"
  shows "slashed (tl (split_on CHR ''/'' p)) = p" "split_on CHR ''/'' p = [] # tl (split_on CHR ''/'' p)"
    "tl (split_on CHR ''/'' p) \<noteq> []"
proof -
  obtain q where p: "p = CHR ''/'' # q" using assms by (cases p) auto
  have s: "slashed segs = CHR ''/'' # join_with CHR ''/'' segs" if "segs \<noteq> []" for segs
    using that
  proof (induction segs)
    case (Cons a segs)
    then show ?case by (cases segs) simp_all
  qed simp
  show "split_on CHR ''/'' p = [] # tl (split_on CHR ''/'' p)" by (simp add: p)
  show "tl (split_on CHR ''/'' p) \<noteq> []" by (simp add: p)
  show "slashed (tl (split_on CHR ''/'' p)) = p" by (simp add: p s join_split)
qed

text \<open>The stack machine: \<open>.\<close> is dropped, \<open>..\<close> pops, anything else is pushed.\<close>

fun resolve :: "bytes list \<Rightarrow> bytes list \<Rightarrow> bytes list" where
  "resolve out [] = out"
| "resolve out (s # segs) =
     (if s = ''.'' then (if segs = [] then out @ [[]] else resolve out segs)
      else if s = ''..'' then (if segs = [] then butlast out @ [[]] else resolve (butlast out) segs)
      else resolve (out @ [s]) segs)"

lemma pop_slashed:
  assumes "list_all plain_segment out" shows "pop_last_segment (slashed out) = slashed (butlast out)"
proof (cases out rule: rev_cases)
  case Nil
  then show ?thesis by (simp add: pop_last_segment_def)
next
  case (snoc ys s)
  have r: "rposition (\<lambda>c. c = CHR ''/'') (xs @ CHR ''/'' # t) = Some (length xs)" if "CHR ''/'' \<notin> set t" for xs t
  proof (induction xs)
    case Nil
    have "rposition (\<lambda>c. c = CHR ''/'') t = None" using that by (induction t) auto
    then show ?case by simp
  qed simp
  have "CHR ''/'' \<notin> set s" using assms snoc by (simp add: plain_segment_def)
  then show ?thesis using r [of s "slashed ys"] by (simp add: snoc pop_last_segment_def)
qed

lemma slashed_head: "slashed segs = [] \<or> (\<exists>t. slashed segs = CHR ''/'' # t)"
  by (cases segs) auto

lemma slashed_eq_Nil [simp]: "slashed segs = [] \<longleftrightarrow> segs = []"
  by (cases segs) auto

lemma takeWhile_segment:
  assumes "plain_segment s"
  shows "takeWhile (\<lambda>c. c \<noteq> CHR ''/'') (s @ slashed segs) = s"
proof -
  have "takeWhile (\<lambda>c. c \<noteq> CHR ''/'') (s @ slashed segs) = s @ takeWhile (\<lambda>c. c \<noteq> CHR ''/'') (slashed segs)"
    using assms by (intro takeWhile_append2) (auto simp: plain_segment_def)
  then show ?thesis using slashed_head [of segs] by auto
qed

text \<open>The branch the loop takes depends on the first segment alone.\<close>

lemma starts_segment:
  assumes "plain_segment s" "plain_segment w"
  shows "starts_with (CHR ''/'' # w @ ''/'') (CHR ''/'' # s @ slashed segs) \<longleftrightarrow> s = w \<and> segs \<noteq> []"
    and "CHR ''/'' # s @ slashed segs = CHR ''/'' # w \<longleftrightarrow> s = w \<and> segs = []"
proof -
  have tw: "takeWhile (\<lambda>c. c \<noteq> CHR ''/'') (w @ CHR ''/'' # r) = w" for r
    using assms(2) by (subst takeWhile_append2) (auto simp: plain_segment_def)
  have "s = w \<and> segs \<noteq> []" if "s @ slashed segs = w @ CHR ''/'' # r" for r
  proof -
    have "s = w" using tw [of r] takeWhile_segment [OF assms(1), of segs] that by metis
    then show ?thesis using that by auto
  qed
  moreover have "\<exists>r. s @ slashed segs = w @ CHR ''/'' # r" if "s = w \<and> segs \<noteq> []"
    using that by (cases segs) auto
  ultimately show "starts_with (CHR ''/'' # w @ ''/'') (CHR ''/'' # s @ slashed segs) \<longleftrightarrow> s = w \<and> segs \<noteq> []"
    unfolding starts_with_append by auto
  have "s = w \<and> segs = []" if "s @ slashed segs = w"
  proof -
    have "takeWhile (\<lambda>c. c \<noteq> CHR ''/'') w = w" using assms(2) by (auto simp: plain_segment_def takeWhile_eq_all_conv)
    then have "s = w" using takeWhile_segment [OF assms(1), of segs] that by metis
    then show ?thesis using that by simp
  qed
  then show "CHR ''/'' # s @ slashed segs = CHR ''/'' # w \<longleftrightarrow> s = w \<and> segs = []" by auto
qed

lemma dot_segments [simp]: "plain_segment ''.''" "plain_segment ''..''" "plain_segment []"
  by (simp_all add: plain_segment_def)

lemma dot_loop_step:
  assumes "plain_segment s"
  shows "dot_loop (slashed (s # segs)) output =
    (if s = ''.'' then dot_loop (if segs = [] then ''/'' else slashed segs) output
     else if s = ''..'' then dot_loop (if segs = [] then ''/'' else slashed segs) (pop_last_segment output)
     else dot_loop (slashed segs) (output @ CHR ''/'' # s))"
proof -
  let ?i = "CHR ''/'' # s @ slashed segs"
  have not_rel: "\<not> starts_with ''../'' ?i" "\<not> starts_with ''./'' ?i" "?i \<noteq> ''.''" "?i \<noteq> ''..''"
    by (simp_all add: starts_with_append)
  note dot = starts_segment [OF assms dot_segments(1), of segs, simplified]
  note dotdot = starts_segment [OF assms dot_segments(2), of segs, simplified]
  have first: "first_segment ?i = CHR ''/'' # s"
    using takeWhile_segment [OF assms, of segs] by (simp add: first_segment_def)
  have tail: "segs \<noteq> [] \<Longrightarrow> CHR ''/'' # tl (slashed segs) = slashed segs" by (cases segs) auto
  consider "s = ''.''" "segs \<noteq> []" | "s = ''.''" "segs = []" | "s = ''..''" "segs \<noteq> []" | "s = ''..''" "segs = []"
    | "s \<noteq> ''.''" "s \<noteq> ''..''" by blast
  then show ?thesis
  proof cases
    case 1
    then show ?thesis using not_rel dot dotdot tail
      by (subst slashed_simps, subst dot_loop.simps) (auto simp: drop_Suc)
  next
    case 2
    then show ?thesis using not_rel dot dotdot by (subst slashed_simps, subst dot_loop.simps) auto
  next
    case 3
    then show ?thesis using not_rel dot dotdot tail
      by (subst slashed_simps, subst dot_loop.simps) (auto simp: drop_Suc numeral_eq_Suc)
  next
    case 4
    then show ?thesis using not_rel dot dotdot by (subst slashed_simps, subst dot_loop.simps) auto
  next
    case 5
    then show ?thesis using not_rel dot dotdot first
      by (subst slashed_simps, subst dot_loop.simps) simp
  qed
qed

lemma dot_loop_Nil [simp]: "dot_loop [] output = output"
  by (subst dot_loop.simps) simp

lemma dot_loop_slash: "dot_loop ''/'' output = output @ ''/''"
  using dot_loop_step [of "[]" "[]" "output"] by simp

lemma slashed_end: "slashed (segs @ [[]]) = slashed segs @ ''/''"
  by simp

lemma dot_loop_resolve:
  "list_all plain_segment segs \<Longrightarrow> list_all plain_segment out \<Longrightarrow>
   dot_loop (slashed segs) (slashed out) = slashed (resolve out segs)"
proof (induction out segs rule: resolve.induct)
  case (2 out s segs)
  have s: "plain_segment s" "list_all plain_segment segs" using "2.prems"(1) by simp_all
  have b: "list_all plain_segment (butlast out)" using "2.prems"(2)
    by (auto simp: list_all_iff dest: in_set_butlastD)
  have push: "slashed out @ CHR ''/'' # s = slashed (out @ [s])" by simp
  show ?case
    unfolding dot_loop_step [OF s(1)] pop_slashed [OF "2.prems"(2)] push
    using "2.IH" s b "2.prems"(2) by (auto simp: dot_loop_slash slashed_end simp del: slashed_simps(2,3))
qed simp

section \<open>The result has no dot segments\<close>

definition settled :: "bytes list \<Rightarrow> bool" where
  "settled segs \<longleftrightarrow> ''.'' \<notin> set segs \<and> ''..'' \<notin> set segs"

lemma resolve_settled: "settled out \<Longrightarrow> settled (resolve out segs)"
proof (induction out segs rule: resolve.induct)
  case (2 out s segs)
  have "settled (butlast out)" using "2.prems" by (auto simp: settled_def dest: in_set_butlastD)
  then show ?case using 2 by (auto simp: settled_def)
qed simp

lemma resolve_fixed: "settled segs \<Longrightarrow> resolve out segs = out @ segs"
  by (induction segs arbitrary: out) (auto simp: settled_def)

lemma resolve_plain:
  "list_all plain_segment segs \<Longrightarrow> list_all plain_segment out \<Longrightarrow> list_all plain_segment (resolve out segs)"
proof (induction out segs rule: resolve.induct)
  case (2 out s segs)
  have "list_all plain_segment (butlast out)" using "2.prems" by (auto simp: list_all_iff dest: in_set_butlastD)
  then show ?case using 2 by auto
qed simp

section \<open>Percent escapes\<close>

definition escape_out :: "u8 \<Rightarrow> u8 \<Rightarrow> bytes" where
  "escape_out h1 h2 =
     (let decoded = char_of (hex_val h1 * 16 + hex_val h2)
      in if is_unreserved decoded then [decoded]
         else [CHR ''%'', to_ascii_uppercase h1, to_ascii_uppercase h2])"

lemma normalize_escapes_Cons:
  "normalize_escapes [] = Some []"
  "normalize_escapes (c # r) =
     (if is_path_char c then map_option (Cons c) (normalize_escapes r)
      else if c = CHR ''%'' then
        (case take_escape r of
           None \<Rightarrow> None
         | Some (h1, h2, r') \<Rightarrow> map_option (append (escape_out h1 h2)) (normalize_escapes r'))
      else None)"
  by (simp_all add: normalize_escapes.simps [of "[]"] normalize_escapes.simps [of "c # r"] escape_out_def Let_def
      split: option.split)

lemma char_facts:
  "is_path_char CHR ''/''" "\<not> is_ascii_hexdigit CHR ''/''" "\<not> is_path_char CHR ''%''" "\<not> is_unreserved CHR ''/''"
  by code_simp+

lemma take_escape_slash:
  "take_escape (r @ CHR ''/'' # t) =
     (case take_escape r of None \<Rightarrow> None | Some (h1, h2, r') \<Rightarrow> Some (h1, h2, r' @ CHR ''/'' # t))"
  using char_facts(2) by (cases r; cases "tl r") (auto simp: take_escape_def split: list.splits)

lemma normalize_escapes_slash:
  "normalize_escapes (s @ CHR ''/'' # t) =
     do { a \<leftarrow> normalize_escapes s; c \<leftarrow> normalize_escapes t; Some (a @ CHR ''/'' # c) }"
proof (induction "length s" arbitrary: s rule: less_induct)
  case less
  show ?case
  proof (cases s)
    case Nil
    then show ?thesis using char_facts(1) by (simp add: normalize_escapes_Cons map_option_case split: option.split)
  next
    case (Cons c r)
    have IH: "normalize_escapes (u @ CHR ''/'' # t) =
        do { a \<leftarrow> normalize_escapes u; c \<leftarrow> normalize_escapes t; Some (a @ CHR ''/'' # c) }"
      if "length u \<le> length r" for u
      using that Cons by (intro less) simp
    have r: "take_escape r = Some (h1, h2, r') \<Longrightarrow> length r' \<le> length r" for h1 h2 r'
      using take_escape_shorter by fastforce
    show ?thesis unfolding Cons append_Cons normalize_escapes_Cons take_escape_slash
      using IH [of r] IH [OF r]
      by (cases "normalize_escapes t") (auto split: option.split simp: map_option_case)
  qed
qed

lemma normalize_escapes_slashed_aux:
  "normalize_escapes (s @ slashed segs) =
     do { a \<leftarrow> normalize_escapes s; cs \<leftarrow> those (map normalize_escapes segs); Some (a @ slashed cs) }"
proof (induction segs arbitrary: s)
  case Nil
  then show ?case by (cases "normalize_escapes s") simp_all
next
  case (Cons u segs)
  show ?case unfolding slashed_simps normalize_escapes_slash Cons.IH
    by (cases "normalize_escapes s"; cases "normalize_escapes u"; cases "those (map normalize_escapes segs)") simp_all
qed

lemma normalize_escapes_slashed:
  "normalize_escapes (slashed segs) = map_option slashed (those (map normalize_escapes segs))"
  using normalize_escapes_slashed_aux [of "[]" segs]
  by (simp add: normalize_escapes_Cons map_option_case split: option.split)

lemma hex_upper:
  assumes "is_ascii_hexdigit h"
  shows "hex_val (to_ascii_uppercase h) = hex_val h" "is_ascii_hexdigit (to_ascii_uppercase h)"
    "to_ascii_uppercase (to_ascii_uppercase h) = to_ascii_uppercase h" "to_ascii_uppercase h \<noteq> CHR ''/''"
proof -
  have codes: "byte CHR ''0'' = 48" "byte CHR ''9'' = 57" "byte CHR ''a'' = 97" "byte CHR ''f'' = 102"
    "byte CHR ''A'' = 65" "byte CHR ''F'' = 70" "byte CHR ''z'' = 122" "byte CHR ''/'' = 47"
    by (simp_all add: byte_def)
  note classes = is_ascii_hexdigit_def is_ascii_digit_def in_range_def codes
  consider "48 \<le> byte h" "byte h \<le> 57" | "65 \<le> byte h" "byte h \<le> 70" | "97 \<le> byte h" "byte h \<le> 102"
    using assms by (auto simp: classes)
  note ranges = this
  have up: "byte (to_ascii_uppercase h) = (if 97 \<le> byte h then byte h - 32 else byte h)"
    by (rule ranges) (simp_all add: to_ascii_uppercase_def classes)
  show "hex_val (to_ascii_uppercase h) = hex_val h"
    by (rule ranges) (auto simp: hex_val_def classes up)
  show "is_ascii_hexdigit (to_ascii_uppercase h)"
    unfolding classes up by (rule ranges) presburger+
  show "to_ascii_uppercase (to_ascii_uppercase h) = to_ascii_uppercase h"
    by (rule ranges) (auto simp: to_ascii_uppercase_def [of "to_ascii_uppercase h"] classes up)
  show "to_ascii_uppercase h \<noteq> CHR ''/''"
    by (rule ranges) (use up codes(8) in auto)
qed

lemma escape_out_again:
  assumes "is_ascii_hexdigit h1" "is_ascii_hexdigit h2"
  shows "normalize_escapes (escape_out h1 h2 @ r) = map_option (append (escape_out h1 h2)) (normalize_escapes r)"
    and "CHR ''/'' \<notin> set (escape_out h1 h2)"
proof -
  define d where "d = (char_of (hex_val h1 * 16 + hex_val h2) :: u8)"
  have up: "hex_val (to_ascii_uppercase h1) = hex_val h1" "hex_val (to_ascii_uppercase h2) = hex_val h2"
    using assms by (simp_all add: hex_upper)
  show "normalize_escapes (escape_out h1 h2 @ r) = map_option (append (escape_out h1 h2)) (normalize_escapes r)"
  proof (cases "is_unreserved d")
    case True
    then have o: "escape_out h1 h2 = [d]" by (simp add: escape_out_def d_def)
    have "is_path_char d" using True by (simp add: is_path_char_def)
    then show ?thesis unfolding o by (simp add: normalize_escapes_Cons map_option_case split: option.split)
  next
    case False
    then have o: "escape_out h1 h2 = [CHR ''%'', to_ascii_uppercase h1, to_ascii_uppercase h2]"
      by (simp add: escape_out_def d_def)
    have "escape_out (to_ascii_uppercase h1) (to_ascii_uppercase h2) = escape_out h1 h2"
      unfolding escape_out_def up hex_upper(3) [OF assms(1)] hex_upper(3) [OF assms(2)] ..
    then show ?thesis unfolding o
      using assms char_facts(3) by (simp add: normalize_escapes_Cons take_escape_def hex_upper)
  qed
  show "CHR ''/'' \<notin> set (escape_out h1 h2)"
    using assms char_facts(4) hex_upper(4) [OF assms(1)] hex_upper(4) [OF assms(2)]
    by (auto simp: escape_out_def Let_def)
qed

lemma take_escape_hex:
  "take_escape s = Some (h1, h2, r) \<Longrightarrow> is_ascii_hexdigit h1 \<and> is_ascii_hexdigit h2 \<and> s = h1 # h2 # r"
  by (auto simp: take_escape_def split: list.splits if_splits)

lemma normalize_escapes_again:
  "normalize_escapes s = Some t \<Longrightarrow>
     normalize_escapes t = Some t \<and> (plain_segment s \<longrightarrow> plain_segment t)"
proof (induction "length s" arbitrary: s t rule: less_induct)
  case less
  show ?case
  proof (cases s)
    case Nil
    then show ?thesis using less.prems by (simp add: normalize_escapes_Cons)
  next
    case (Cons c r)
    show ?thesis
    proof (cases "is_path_char c")
      case True
      then obtain t' where t: "normalize_escapes r = Some t'" "t = c # t'"
        using less.prems Cons by (auto simp: normalize_escapes_Cons)
      then show ?thesis using less.hyps [of r t'] True Cons
        by (simp add: normalize_escapes_Cons plain_segment_def)
    next
      case False
      then obtain h1 h2 r' t' where t: "take_escape r = Some (h1, h2, r')" "normalize_escapes r' = Some t'"
        "t = escape_out h1 h2 @ t'"
        using less.prems Cons by (auto simp: normalize_escapes_Cons split: if_splits option.splits)
      note hex = take_escape_hex [OF t(1)]
      have "normalize_escapes t' = Some t' \<and> (plain_segment r' \<longrightarrow> plain_segment t')"
        using t(2) hex Cons by (intro less.hyps) simp_all
      then show ?thesis using hex escape_out_again [of h1 h2] Cons t(3)
        by (auto simp: plain_segment_def)
    qed
  qed
qed

section \<open>The path normalizer\<close>

text \<open>Escapes are normalised segment by segment, then the segments are resolved.\<close>

definition resolved_path :: "bytes list \<Rightarrow> bytes result" where
  "resolved_path segs =
     map_option (\<lambda>normal. let r = resolve [] normal in if r = [] then ''/'' else slashed r)
       (those (map normalize_escapes segs))"

lemma those_list_all2: "those xs = Some ys \<longleftrightarrow> list_all2 (\<lambda>x y. x = Some y) xs ys"
  by (induction xs arbitrary: ys) (auto simp: list_all2_Cons1 split: option.splits)

lemma those_plain:
  assumes "list_all plain_segment segs" "those (map normalize_escapes segs) = Some normal"
  shows "list_all plain_segment normal" "those (map normalize_escapes normal) = Some normal"
proof -
  have "normalize_escapes (segs ! i) = Some (normal ! i)" "length segs = length normal"
    if "i < length normal" for i
    using assms(2) that by (auto simp: those_list_all2 list_all2_conv_all_nth)
  then have "normalize_escapes (normal ! i) = Some (normal ! i) \<and> plain_segment (normal ! i)"
    if "i < length normal" for i
    using that assms(1) normalize_escapes_again [of "segs ! i" "normal ! i"]
    by (auto simp: list_all_length)
  then show "list_all plain_segment normal" "those (map normalize_escapes normal) = Some normal"
    by (simp_all add: list_all_length those_list_all2 list_all2_conv_all_nth)
qed

lemma normalize_path_segments:
  assumes "list_all plain_segment segs"
  shows "normalize_path (slashed segs) = resolved_path segs"
proof (cases "those (map normalize_escapes segs)")
  case None
  then show ?thesis by (simp add: normalize_path_def normalize_escapes_slashed resolved_path_def)
next
  case (Some normal)
  then have "dot_loop (slashed normal) (slashed []) = slashed (resolve [] normal)"
    using those_plain [OF assms] by (intro dot_loop_resolve) simp_all
  then show ?thesis using Some
    by (simp add: normalize_path_def normalize_escapes_slashed resolved_path_def remove_dot_segments_def Let_def)
qed

definition absolute_or_empty :: "bytes \<Rightarrow> bool" where
  "absolute_or_empty p \<longleftrightarrow> p = [] \<or> hd p = CHR ''/''"

definition segments :: "bytes \<Rightarrow> bytes list" where
  "segments p = (if p = [] then [] else tl (split_on CHR ''/'' p))"

lemma segments_facts:
  assumes "absolute_or_empty p"
  shows "slashed (segments p) = p" "list_all plain_segment (segments p)"
proof -
  show "slashed (segments p) = p" using slashed_split [of p] assms
    by (auto simp: segments_def absolute_or_empty_def)
  have "plain_segment s" if "s \<in> set (segments p)" for s
  proof -
    have "s \<in> set (split_on CHR ''/'' p)" using that
      by (auto simp: segments_def dest: list.set_sel(2) [OF split_on_ne] split: if_splits)
    then show ?thesis by (simp add: plain_segment_def split_on_no_sep)
  qed
  then show "list_all plain_segment (segments p)" by (simp add: list_all_iff)
qed

lemma segments_slashed:
  assumes "list_all plain_segment segs" shows "segments (slashed segs) = segs"
proof -
  have "split_on CHR ''/'' (s @ slashed segs) = s # segs" if "plain_segment s" for s
    using assms that
  proof (induction segs arbitrary: s)
    case Nil
    then show ?case by (simp add: plain_segment_def split_on_notin)
  next
    case (Cons u segs)
    then show ?case using split_on_append [of "CHR ''/''" s "u @ slashed segs"] by (simp add: plain_segment_def)
  qed
  from this [of "[]"] show ?thesis by (simp add: segments_def)
qed

lemma normalize_path_eq:
  assumes "absolute_or_empty p" shows "normalize_path p = resolved_path (segments p)"
  using normalize_path_segments [OF segments_facts(2) [OF assms]] segments_facts(1) [OF assms] by simp

lemma normalize_path_settled:
  assumes "absolute_or_empty p" "normalize_path p = Some q"
  shows "absolute_or_empty q \<and> q \<noteq> [] \<and> settled (segments q) \<and> normalize_path q = Some q"
proof -
  obtain normal where n: "those (map normalize_escapes (segments p)) = Some normal"
    and q: "q = (if resolve [] normal = [] then ''/'' else slashed (resolve [] normal))"
    using assms by (auto simp: normalize_path_eq resolved_path_def Let_def)
  note plain = those_plain [OF segments_facts(2) [OF assms(1)] n]
  define r where "r = (if resolve [] normal = [] then [[]] else resolve [] normal)"
  have q': "q = slashed r" by (simp add: q r_def)
  have r: "settled r" "list_all plain_segment r" "r \<noteq> []"
    using resolve_settled [of "[]" normal] resolve_plain [OF plain(1), of "[]"] by (simp_all add: r_def settled_def)
  have "set r \<subseteq> insert [] (set normal)"
  proof -
    have "set (resolve out ss) \<subseteq> insert [] (set out \<union> set ss)" for out ss
    proof (induction out ss rule: resolve.induct)
      case (2 out s segs)
      then show ?case using in_set_butlastD [of _ out] by (auto split: if_splits)
    qed auto
    from this [of "[]" normal] show ?thesis by (auto simp: r_def)
  qed
  moreover have "normalize_escapes s = Some s" if "s \<in> set normal" for s
    using plain(2) that by (auto simp: those_list_all2 list_all2_conv_all_nth in_set_conv_nth)
  ultimately have "normalize_escapes s = Some s" if "s \<in> set r" for s
    using that normalize_escapes_Cons(1) by blast
  then have "those (map normalize_escapes r) = Some r"
    by (auto simp: those_list_all2 list_all2_conv_all_nth)
  then have "normalize_path q = Some q"
    using r resolve_fixed [OF r(1), of "[]"]
    by (simp add: q' normalize_path_segments resolved_path_def)
  moreover have "absolute_or_empty q" "q \<noteq> []" using r(3) by (cases r; simp add: q' absolute_or_empty_def)+
  ultimately show ?thesis using r segments_slashed [OF r(2)] by (simp add: q')
qed

section \<open>Properties\<close>

text \<open>C32: The path normalizer refines the segment machine of RFC 3986: the escapes of each segment are
  normalised on their own, so an escaped slash stays data and an escaped dot segment still counts, and
  the segments are then resolved on a stack.\<close>

theorem normalize_path_refines:
  assumes "absolute_or_empty p" shows "normalize_path p = resolved_path (segments p)"
  using assms by (rule normalize_path_eq)

theorem normalize_path_refines_witness:
  "normalize_path ''/a/%2e%2E/b/./c%2f/..'' = resolved_path (segments ''/a/%2e%2E/b/./c%2f/..'') \<and>
   resolved_path (segments ''/a/%2e%2E/b/./c%2f/..'') = Some ''/b/''"
  using normalize_path_refines [of "''/a/%2e%2E/b/./c%2f/..''"] by (simp add: absolute_or_empty_def) code_simp

text \<open>A normalised path has no dot segment left and is a fixed point of the normalizer.\<close>

theorem normalize_path_idempotent:
  assumes "absolute_or_empty p" "normalize_path p = Some q"
  shows "absolute_or_empty q \<and> q \<noteq> [] \<and> settled (segments q) \<and> normalize_path q = Some q"
  using assms by (rule normalize_path_settled)

theorem normalize_path_idempotent_witness: "settled (segments ''/b/'')"
proof -
  have "normalize_path ''/a/../b/.'' = Some ''/b/''" by code_simp
  from normalize_path_idempotent [OF _ this] show ?thesis by (simp add: absolute_or_empty_def)
qed


end
