(* ===== verification/Ed25519.thy ===== *)
theory Ed25519
  imports Backend Types
begin

text \<open>
  The strict Ed25519 rule S1 of \<open>sdks/rust/src/ed25519.rs\<close>: the byte-level gate on keys and
  signatures around the \<open>ed25519-dalek\<close> backend, which is a parameter (theory Backend). The
  constants are written as in the source, as hexadecimal text.
\<close>

section \<open>Constants\<close>

definition hex_byte_nibble :: "u8 \<Rightarrow> nat" where
  "hex_byte_nibble c =
     (if in_range CHR ''0'' CHR ''9'' c then byte c - 48
      else if in_range CHR ''a'' CHR ''f'' c then byte c - 97 + 10
      else 0)"

fun hex32 :: "bytes \<Rightarrow> bytes" where
  "hex32 (a # b # s) = char_of (push_bit 4 (hex_byte_nibble a) OR hex_byte_nibble b) # hex32 s"
| "hex32 _ = []"

definition SMALL_ORDER :: "bytes list" where
  "SMALL_ORDER = map hex32 [
     ''0100000000000000000000000000000000000000000000000000000000000000'',
     ''ecffffffffffffffffffffffffffffffffffffffffffffffffffffffffffff7f'',
     ''0000000000000000000000000000000000000000000000000000000000000000'',
     ''0000000000000000000000000000000000000000000000000000000000000080'',
     ''26e8958fc2b227b045c3f489f2ef98f0d5dfac05d3c63339b13802886d53fc05'',
     ''26e8958fc2b227b045c3f489f2ef98f0d5dfac05d3c63339b13802886d53fc85'',
     ''c7176a703d4dd84fba3c0b760d10670f2a2053fa2c39ccc64ec7fd7792ac037a'',
     ''c7176a703d4dd84fba3c0b760d10670f2a2053fa2c39ccc64ec7fd7792ac03fa'']"

definition GROUP_ORDER_LE :: bytes where
  "GROUP_ORDER_LE = hex32 ''edd3f55c1a631258d69cf7a2def9de1400000000000000000000000000000010''"

section \<open>The gate\<close>

definition is_small_order :: "bytes \<Rightarrow> bool" where
  "is_small_order encoding \<longleftrightarrow> list_ex (\<lambda>entry. entry = encoding) SMALL_ORDER"

text \<open>\<open>b[1..31].iter().all(|x| *x == v)\<close>\<close>

definition middle_all :: "bytes \<Rightarrow> nat \<Rightarrow> bool" where
  "middle_all b v \<longleftrightarrow> list_all (\<lambda>x. byte x = v) (drop 1 (take 31 b))"

definition canonical :: "bytes \<Rightarrow> bool" where
  "canonical b =
     (let b0 = byte (b ! 0); b31 = byte (b ! 31) in
      if b31 AND 0x7F = 0x7F \<and> middle_all b 0xFF \<and> b0 \<ge> 0xED then False
      else if b31 AND 0x80 \<noteq> 0 then
        (if b0 = 0x01 \<and> middle_all b 0x00 \<and> b31 = 0x80 then False
         else if b0 = 0xEC \<and> middle_all b 0xFF \<and> b31 = 0xFF then False
         else True)
      else True)"

text \<open>The loop \<open>for i in (0..32).rev()\<close>, on the indices below \<open>i\<close>.\<close>

fun below_group_order :: "nat \<Rightarrow> bytes \<Rightarrow> bool" where
  "below_group_order 0 s = False"
| "below_group_order (Suc i) s =
     (if s ! i \<noteq> GROUP_ORDER_LE ! i then byte (s ! i) < byte (GROUP_ORDER_LE ! i)
      else below_group_order i s)"

definition scalar_below_group_order :: "bytes \<Rightarrow> bool" where
  "scalar_below_group_order s = below_group_order 32 s"

definition signature_gate :: "bytes \<Rightarrow> bool" where
  "signature_gate signature =
     (let r = take 32 signature
      in canonical r \<and> \<not> is_small_order r \<and> scalar_below_group_order (drop 32 signature))"

definition strict_gate :: "bytes \<Rightarrow> bytes \<Rightarrow> bool" where
  "strict_gate signature public_key \<longleftrightarrow>
     canonical public_key \<and> \<not> is_small_order public_key \<and> signature_gate signature"

section \<open>Verification and key acceptance\<close>

definition ed25519_verify :: "backend \<Rightarrow> bytes \<Rightarrow> bytes \<Rightarrow> bytes \<Rightarrow> unit result" where
  "ed25519_verify B public_key message signature =
     do {
       reject_if (\<not> strict_gate signature public_key);
       reject_if (\<not> ed_point B public_key);
       reject_if (\<not> ed_verify B public_key message signature);
       Some ()
     }"

definition verify_strict :: "backend \<Rightarrow> bytes \<Rightarrow> bytes \<Rightarrow> bytes \<Rightarrow> bool" where
  "verify_strict B message signature public_key =
     (if length signature = 64 \<and> length public_key = 32
      then ed25519_verify B public_key message signature \<noteq> None else False)"

definition acceptable_public_key :: "backend \<Rightarrow> bytes \<Rightarrow> bool" where
  "acceptable_public_key B public_key =
     (if length public_key \<noteq> 32 then False
      else canonical public_key \<and> \<not> is_small_order public_key \<and> ed_point B public_key)"

definition torsion_free :: "backend \<Rightarrow> bytes \<Rightarrow> bool" where
  "torsion_free B public_key =
     (if \<not> acceptable_public_key B public_key then False
      else if length public_key \<noteq> 32 then False
      else if ed_point B public_key then ed_torsion_free B public_key else False)"

section \<open>The bytes as numbers\<close>

text \<open>A byte string as a little-endian number.\<close>

fun le_value :: "bytes \<Rightarrow> nat" where
  "le_value [] = 0"
| "le_value (c # s) = byte c + 256 * le_value s"

definition group_order :: nat where
  "group_order = 2 ^ 252 + 27742317777372353535851937790883648493"

definition field_prime :: nat where
  "field_prime = 2 ^ 255 - 19"

lemma le_value_append: "le_value (xs @ ys) = le_value xs + 256 ^ length xs * le_value ys"
  by (induction xs) (simp_all add: algebra_simps)

lemma le_value_bound: "le_value s < 256 ^ length s"
proof (induction s)
  case (Cons c s)
  have "byte c + 256 * le_value s < 256 + 256 * le_value s" by simp
  also have "\<dots> \<le> 256 * 256 ^ length s" using Cons by simp
  finally show ?case by simp
qed simp

lemma GROUP_ORDER_LE_value: "le_value GROUP_ORDER_LE = group_order" "length GROUP_ORDER_LE = 32"
  by code_simp+

lemma take_Suc_value:
  "i < length s \<Longrightarrow> le_value (take (Suc i) s) = le_value (take i s) + 256 ^ i * byte (s ! i)"
  by (simp add: take_Suc_conv_app_nth le_value_append)

lemma below_group_order_value:
  assumes "i \<le> 32" "length s = 32"
  shows "below_group_order i s \<longleftrightarrow> le_value (take i s) < le_value (take i GROUP_ORDER_LE)"
  using assms(1)
proof (induction i)
  case (Suc i)
  let ?x = "le_value (take i s)" and ?y = "le_value (take i GROUP_ORDER_LE)"
  let ?a = "byte (s ! i)" and ?b = "byte (GROUP_ORDER_LE ! i)"
  have b: "?x < 256 ^ i" "?y < 256 ^ i"
    using le_value_bound [of "take i s"] le_value_bound [of "take i GROUP_ORDER_LE"] Suc.prems assms(2)
    by (simp_all add: GROUP_ORDER_LE_value)
  have e: "le_value (take (Suc i) s) = ?x + 256 ^ i * ?a"
      "le_value (take (Suc i) GROUP_ORDER_LE) = ?y + 256 ^ i * ?b"
    using Suc.prems assms(2) by (simp_all add: take_Suc_value GROUP_ORDER_LE_value)
  consider "?a < ?b" | "?b < ?a" | "?a = ?b" by linarith
  then show ?case
  proof cases
    case 1
    then have "256 ^ i * (?a + 1) \<le> 256 ^ i * ?b" by (intro mult_left_mono) auto
    then have "?x + 256 ^ i * ?a < ?y + 256 ^ i * ?b" using b by (simp add: algebra_simps)
    then show ?thesis using 1 unfolding e by auto
  next
    case 2
    then have "256 ^ i * (?b + 1) \<le> 256 ^ i * ?a" by (intro mult_left_mono) auto
    then have "\<not> ?x + 256 ^ i * ?a < ?y + 256 ^ i * ?b" using b by (simp add: algebra_simps)
    then show ?thesis using 2 unfolding e by auto
  next
    case 3
    then have "s ! i = GROUP_ORDER_LE ! i" by simp
    then show ?thesis using Suc unfolding e by simp
  qed
qed simp

lemma scalar_below_value:
  "length s = 32 \<Longrightarrow> scalar_below_group_order s \<longleftrightarrow> le_value s < group_order"
  using below_group_order_value [of 32 s]
  by (simp add: scalar_below_group_order_def GROUP_ORDER_LE_value)


lemma top_byte:
  fixes c v p :: nat
  assumes "c < 256" "v < p"
  shows "c + 256 * v + 1 = 256 * p \<longleftrightarrow> c = 255 \<and> v + 1 = p"
proof
  assume eq: "c + 256 * v + 1 = 256 * p"
  then have "p < v + 2" using assms(1) by linarith
  then have "v + 1 = p" using assms(2) by simp
  then show "c = 255 \<and> v + 1 = p" using eq by auto
qed auto

lemma le_value_all:
  "list_all (\<lambda>x. byte x = 0) s \<longleftrightarrow> le_value s = 0"
  "list_all (\<lambda>x. byte x = 255) s \<longleftrightarrow> le_value s + 1 = 256 ^ length s"
proof -
  show "list_all (\<lambda>x. byte x = 0) s \<longleftrightarrow> le_value s = 0" by (induction s) auto
  show "list_all (\<lambda>x. byte x = 255) s \<longleftrightarrow> le_value s + 1 = 256 ^ length s"
  proof (induction s)
    case (Cons c s)
    let ?v = "le_value s" and ?p = "256 ^ length s :: nat"
    have v: "?v < ?p" by (rule le_value_bound)
    have "byte c + 256 * ?v + 1 = 256 * ?p \<longleftrightarrow> byte c = 255 \<and> ?v + 1 = ?p"
      by (rule top_byte) (use v in simp_all)
    then show ?case using Cons by simp
  qed simp
qed

text \<open>The fields of an encoding: the low 255 bits \<open>y\<close> and the sign bit.\<close>

definition y_coordinate :: "bytes \<Rightarrow> nat" where
  "y_coordinate b = le_value b mod 2 ^ 255"

definition sign_bit :: "bytes \<Rightarrow> bool" where
  "sign_bit b \<longleftrightarrow> 2 ^ 255 \<le> le_value b"

lemma split_32:
  assumes "length b = 32"
  shows "b = b ! 0 # drop 1 (take 31 b) @ [b ! 31]"
proof -
  have "b = take 31 b @ [b ! 31]"
    using take_Suc_conv_app_nth [of 31 b] assms by simp
  also have "take 31 b = b ! 0 # drop 1 (take 31 b)"
    using assms by (cases b) auto
  finally show ?thesis by simp
qed

lemma and_128_nat: "n < 256 \<Longrightarrow> (n AND 0x80) \<noteq> 0 \<longleftrightarrow> (128 :: nat) \<le> n"
proof -
  have "list_all (\<lambda>n. ((n AND 0x80) \<noteq> 0) = (128 \<le> n)) [0..<(256 :: nat)]" by code_simp
  then show "n < 256 \<Longrightarrow> ?thesis" by (simp add: list_all_iff)
qed

lemma high_byte: "(n :: nat) < 256 \<Longrightarrow> n = n mod 128 + (if 128 \<le> n then 128 else 0)"
  by (cases "128 \<le> n") (simp_all add: le_mod_geq)

lemma step_below:
  fixes q k n :: nat
  assumes "k < n" shows "256 * q * k + 256 * q \<le> 256 * q * n"
proof -
  have "256 * q * (k + 1) \<le> 256 * q * n" using assms by (intro mult_left_mono) auto
  moreover have "256 * q * (k + 1) = 256 * q * k + 256 * q" by simp
  ultimately show ?thesis by linarith
qed

lemma same_high:
  fixes lo m q d :: nat
  assumes "lo < 256" "m < q" "d < 256"
  shows "lo + 256 * m = d + 256 * (q - 1) \<longleftrightarrow> lo = d \<and> m = q - 1"
    and "d + 256 * (q - 1) \<le> lo + 256 * m \<longleftrightarrow> d \<le> lo \<and> m = q - 1"
proof -
  have less: "lo + 256 * m < d + 256 * (q - 1)" if "m \<noteq> q - 1"
    using assms that by linarith
  show "lo + 256 * m = d + 256 * (q - 1) \<longleftrightarrow> lo = d \<and> m = q - 1"
    by (cases "m = q - 1") (use less in auto)
  show "d + 256 * (q - 1) \<le> lo + 256 * m \<longleftrightarrow> d \<le> lo \<and> m = q - 1"
    by (cases "m = q - 1") (use less in auto)
qed

lemma y_compare:
  fixes lo m q k :: nat
  assumes "lo < 256" "m < q" "k < 128"
  shows "237 + 256 * (q - 1) + 256 * q * 127 \<le> lo + 256 * m + 256 * q * k \<longleftrightarrow>
      k = 127 \<and> m = q - 1 \<and> 237 \<le> lo"
    and "lo + 256 * m + 256 * q * k = 1 \<longleftrightarrow> lo = 1 \<and> m = 0 \<and> k = 0"
    and "lo + 256 * m + 256 * q * k = 236 + 256 * (q - 1) + 256 * q * 127 \<longleftrightarrow>
      lo = 236 \<and> m = q - 1 \<and> k = 127"
proof -
  have low: "lo + 256 * m < 256 * q" using assms(1,2) by linarith
  have below: "lo + 256 * m + 256 * q * k < 256 * q * 127" if "k \<noteq> 127"
    using step_below [of k 127 q] low that assms(3) by linarith
  show "237 + 256 * (q - 1) + 256 * q * 127 \<le> lo + 256 * m + 256 * q * k \<longleftrightarrow>
      k = 127 \<and> m = q - 1 \<and> 237 \<le> lo"
  proof (cases "k = 127")
    case True
    then show ?thesis using same_high(2) [OF assms(1,2), of 237] by auto
  qed (use below in linarith)
  show "lo + 256 * m + 256 * q * k = 236 + 256 * (q - 1) + 256 * q * 127 \<longleftrightarrow>
      lo = 236 \<and> m = q - 1 \<and> k = 127"
  proof (cases "k = 127")
    case True
    then show ?thesis using same_high(1) [OF assms(1,2), of 236] by auto
  qed (use below in linarith)
  show "lo + 256 * m + 256 * q * k = 1 \<longleftrightarrow> lo = 1 \<and> m = 0 \<and> k = 0"
  proof (cases "k = 0")
    case True
    then show ?thesis by (cases "m = 0") auto
  next
    case False
    then have "256 * q \<le> 256 * q * k" by simp
    then show ?thesis using assms(2) False by linarith
  qed
qed

lemma canonical_value:
  assumes "length b = 32"
  shows "canonical b \<longleftrightarrow> y_coordinate b < field_prime \<and>
    \<not> (sign_bit b \<and> (y_coordinate b = 1 \<or> y_coordinate b = field_prime - 1))"
proof -
  define lo where "lo = byte (b ! 0)"
  define hi where "hi = byte (b ! 31)"
  define m where "m = le_value (drop 1 (take 31 b))"
  define q where "q = (256 :: nat) ^ 30"
  define k where "k = hi mod 128"
  have len: "length (drop 1 (take 31 b)) = 30" using assms by simp
  have m: "m < q" using le_value_bound [of "drop 1 (take 31 b)"] len by (simp add: m_def q_def)
  have bytes: "lo < 256" "hi < 256" by (simp_all add: lo_def hi_def)
  have k: "k < 128" by (simp add: k_def)
  have "le_value b = le_value (b ! 0 # drop 1 (take 31 b) @ [b ! 31])"
    using split_32 [OF assms] by simp
  also have "\<dots> = lo + 256 * m + 256 * q * hi"
    using len by (simp add: le_value_append lo_def m_def hi_def q_def)
  finally have val: "le_value b = lo + 256 * m + 256 * q * hi" .
  have low: "lo + 256 * m < 256 * q" using bytes(1) m by linarith
  have p255: "(2 :: nat) ^ 255 = 256 * q * 128" by (simp add: q_def)
  have hik: "hi = k + (if 128 \<le> hi then 128 else 0)" using high_byte [OF bytes(2)] by (simp add: k_def)
  define y where "y = lo + 256 * m + 256 * q * k"
  have yb: "y < 256 * q * 128"
  proof -
    have "256 * q * (k + 1) \<le> 256 * q * 128" using k by (intro mult_left_mono) auto
    moreover have "256 * q * (k + 1) = 256 * q * k + 256 * q" by (simp add: algebra_simps)
    ultimately show ?thesis using low unfolding y_def by linarith
  qed
  have split: "le_value b = y + (if 128 \<le> hi then 256 * q * 128 else 0)"
    unfolding val y_def by (subst hik) (simp add: algebra_simps)
  have ycoord: "y_coordinate b = y"
    unfolding y_coordinate_def split p255 using yb by (cases "128 \<le> hi") simp_all
  have sign: "sign_bit b \<longleftrightarrow> 128 \<le> hi"
    unfolding sign_bit_def split p255 using yb by (cases "128 \<le> hi") simp_all
  have prime: "field_prime = 237 + 256 * (q - 1) + 256 * q * 127"
    by (simp add: field_prime_def q_def)
  have q: "1 \<le> q" by (simp add: q_def)
  have max: "middle_all b 255 \<longleftrightarrow> m = q - 1"
    unfolding middle_all_def le_value_all(2) len m_def [symmetric] q_def [symmetric] using q by linarith
  have zero: "middle_all b 0 \<longleftrightarrow> m = 0"
    unfolding middle_all_def le_value_all(1) m_def [symmetric] ..
  note cmp = y_compare [OF bytes(1) m k, folded y_def]
  have prime': "field_prime - 1 = 236 + 256 * (q - 1) + 256 * q * 127" unfolding prime by linarith
  have hi: "hi = 128 \<longleftrightarrow> 128 \<le> hi \<and> k = 0" "hi = 255 \<longleftrightarrow> 128 \<le> hi \<and> k = 127"
    using hik k by (auto split: if_splits)
  have "canonical b \<longleftrightarrow> \<not> (k = 127 \<and> m = q - 1 \<and> 237 \<le> lo) \<and>
      (128 \<le> hi \<longrightarrow> \<not> (lo = 1 \<and> m = 0 \<and> hi = 128) \<and> \<not> (lo = 236 \<and> m = q - 1 \<and> hi = 255))"
    unfolding canonical_def Let_def lo_def [symmetric] hi_def [symmetric] max zero and_127_nat
      k_def [symmetric] and_128_nat [OF bytes(2)] by auto
  then show ?thesis unfolding ycoord sign prime' unfolding prime cmp(2,3) hi not_le [symmetric] cmp(1) by blast
qed

section \<open>The small-order table as numbers\<close>

text \<open>
  The \<open>y\<close> coordinate of the points of order eight. Doubling a point of the curve gives \<open>y = 0\<close>, a point of
  order four, when \<open>x ^ 2 = - y ^ 2\<close>; with \<open>d = - 121665 / 121666\<close> the curve equation is then the congruence
  of \<open>order_8_equation\<close>.
\<close>

definition order_8_y :: nat where
  "order_8_y = le_value (hex32 ''26e8958fc2b227b045c3f489f2ef98f0d5dfac05d3c63339b13802886d53fc05'')"

definition small_y :: "nat list" where
  "small_y = [0, 1, field_prime - 1, order_8_y, field_prime - order_8_y]"

lemma order_8_y_value: "order_8_y =
    2707385501144840649318225287225658788936804267575313519463743609750303402022"
  by code_simp

lemma order_8_equation:
  "field_prime dvd 121665 * order_8_y ^ 4 + 121666 - 2 * 121666 * order_8_y ^ 2"
proof
  show "121665 * order_8_y ^ 4 + 121666 - 2 * 121666 * order_8_y ^ 2 = field_prime *
      112906036331323448156872562553268991417860332857672912474895817263891655189610579261091843652975287253628779081697460285287036075596526030507875802598140685061703626526588198523310568863718518448627066271701187320982206014621356682"
    unfolding order_8_y_value field_prime_def by simp
qed

lemma small_order_facts:
  "map le_value SMALL_ORDER =
     [1, field_prime - 1, 0, 2 ^ 255, order_8_y, 2 ^ 255 + order_8_y,
      field_prime - order_8_y, 2 ^ 255 + (field_prime - order_8_y)]"
  "list_all (\<lambda>s. length s = 32) SMALL_ORDER" "1 < order_8_y \<and> order_8_y + 1 < field_prime"
  by code_simp+

lemma le_value_inject: "length s = length t \<Longrightarrow> le_value s = le_value t \<longleftrightarrow> s = t"
proof (induction s t rule: list_induct2)
  case (Cons c s d t)
  have "byte c = byte d" if "byte c + 256 * le_value s = byte d + 256 * le_value t"
    using arg_cong [OF that, of "\<lambda>n. n mod 256"] by simp
  then have "byte c + 256 * le_value s = byte d + 256 * le_value t \<longleftrightarrow>
      byte c = byte d \<and> le_value s = le_value t" by auto
  then show ?case using Cons by simp
qed simp

lemma small_order_value:
  assumes "length b = 32"
  shows "is_small_order b \<longleftrightarrow> le_value b \<in> set (map le_value SMALL_ORDER)"
proof
  assume "le_value b \<in> set (map le_value SMALL_ORDER)"
  then obtain s where "s \<in> set SMALL_ORDER" "le_value b = le_value s" by auto
  moreover from this have "length s = 32" using small_order_facts(2) by (simp add: list_all_iff)
  ultimately show "is_small_order b" using assms le_value_inject [of b s]
    by (simp add: is_small_order_def list_ex_iff)
qed (auto simp: is_small_order_def list_ex_iff)

lemma value_split:
  assumes "length b = 32"
  shows "le_value b = y_coordinate b + (if sign_bit b then 2 ^ 255 else 0)" "y_coordinate b < 2 ^ 255"
proof -
  have "le_value b < 2 ^ 255 + 2 ^ 255" using le_value_bound [of b] assms by simp
  then show "le_value b = y_coordinate b + (if sign_bit b then 2 ^ 255 else 0)"
    unfolding y_coordinate_def sign_bit_def by (cases "2 ^ 255 \<le> le_value b") (simp_all add: le_mod_geq)
  show "y_coordinate b < 2 ^ 255" by (simp add: y_coordinate_def)
qed

lemma small_encodings:
  fixes y e f P :: nat
  assumes "y < P" "f < P" "1 < e" "e + 1 < f"
  shows "y \<in> {1, f - 1, 0, P, e, P + e, f - e, P + (f - e)} \<longleftrightarrow> y \<in> {0, 1, f - 1, e, f - e}"
    and "P + y \<in> {1, f - 1, 0, P, e, P + e, f - e, P + (f - e)} \<longleftrightarrow> y \<in> {0, e, f - e}"
proof -
  have "y \<noteq> P" "y \<noteq> P + e" "y \<noteq> P + (f - e)" using assms by linarith+
  then show "y \<in> {1, f - 1, 0, P, e, P + e, f - e, P + (f - e)} \<longleftrightarrow> y \<in> {0, 1, f - 1, e, f - e}" by blast
  have "P + y \<noteq> 1" "P + y \<noteq> f - 1" "P + y \<noteq> 0" "P + y \<noteq> e" "P + y \<noteq> f - e" using assms by linarith+
  then have "P + y \<in> {1, f - 1, 0, P, e, P + e, f - e, P + (f - e)} \<longleftrightarrow>
      P + y = P \<or> P + y = P + e \<or> P + y = P + (f - e)" by blast
  then show "P + y \<in> {1, f - 1, 0, P, e, P + e, f - e, P + (f - e)} \<longleftrightarrow> y \<in> {0, e, f - e}"
    unfolding add_cancel_left_right add_left_cancel by blast
qed

lemma accepted_encoding:
  assumes "length b = 32"
  shows "canonical b \<and> \<not> is_small_order b \<longleftrightarrow> y_coordinate b < field_prime \<and> y_coordinate b \<notin> set small_y"
proof -
  have P: "field_prime < 2 ^ 255" by (simp add: field_prime_def)
  have e: "1 < order_8_y" "order_8_y + 1 < field_prime" using small_order_facts(3) by simp_all
  note v = value_split [OF assms]
  note enc = small_encodings [OF v(2) P e]
  have small: "is_small_order b \<longleftrightarrow> le_value b \<in> {1, field_prime - 1, 0, 2 ^ 255, order_8_y,
      2 ^ 255 + order_8_y, field_prime - order_8_y, 2 ^ 255 + (field_prime - order_8_y)}"
    unfolding small_order_value [OF assms] small_order_facts(1) by (simp only: list.set)
  have ys: "set small_y = {0, 1, field_prime - 1, order_8_y, field_prime - order_8_y}"
    by (simp only: small_y_def list.set)
  show ?thesis
  proof (cases "sign_bit b")
    case True
    then have le: "le_value b = 2 ^ 255 + y_coordinate b" using v(1) by (simp only: if_True add.commute)
    show ?thesis unfolding canonical_value [OF assms] small le enc(2) ys using True by blast
  next
    case False
    then have le: "le_value b = y_coordinate b" using v(1) by (simp only: if_False add_0_right)
    show ?thesis unfolding canonical_value [OF assms] small le enc(1) ys using False by blast
  qed
qed

lemma strict_gate_value:
  assumes "length signature = 64" "length public_key = 32"
  shows "strict_gate signature public_key \<longleftrightarrow>
    y_coordinate public_key < field_prime \<and> y_coordinate public_key \<notin> set small_y \<and>
    y_coordinate (take 32 signature) < field_prime \<and> y_coordinate (take 32 signature) \<notin> set small_y \<and>
    le_value (drop 32 signature) < group_order"
  using accepted_encoding [of public_key] accepted_encoding [of "take 32 signature"]
    scalar_below_value [of "drop 32 signature"] assms
  by (auto simp: strict_gate_def signature_gate_def Let_def)

section \<open>Properties\<close>

text \<open>C35: The byte-level gate of rule S1 is the numeric one: the key and \<open>R\<close> have a \<open>y\<close> below the field
  prime that is none of the five of the points of small order, and \<open>S\<close> is below the group order. The
  sign bit does not matter: its two forbidden encodings have a \<open>y\<close> that is excluded anyway.\<close>

theorem strict_gate_numeric:
  assumes "length signature = 64" "length public_key = 32"
  shows "strict_gate signature public_key \<longleftrightarrow>
    y_coordinate public_key < field_prime \<and> y_coordinate public_key \<notin> set small_y \<and>
    y_coordinate (take 32 signature) < field_prime \<and> y_coordinate (take 32 signature) \<notin> set small_y \<and>
    le_value (drop 32 signature) < group_order"
  using assms by (rule strict_gate_value)

definition sample_key :: bytes where
  "sample_key = hex32 ''d75a980182b10ab7d54bfed3c964073a0ee172f3daa62325af021a68f707511a''"

definition sample_signature :: bytes where
  "sample_signature = sample_key @ hex32 ''0100000000000000000000000000000000000000000000000000000000000000''"

lemma sample_key_facts:
  "length sample_key = 32" "length sample_signature = 64"
  "canonical sample_key \<and> \<not> is_small_order sample_key" "strict_gate sample_signature sample_key"
  by code_simp+

theorem strict_gate_numeric_witness:
  "y_coordinate sample_key \<notin> set small_y \<and> le_value (drop 32 sample_signature) < group_order"
  using strict_gate_numeric [OF sample_key_facts(2) sample_key_facts(1)] sample_key_facts(4) by blast

end
