(* ===== verification/Es256.thy ===== *)
theory Es256
  imports Backend
begin

text \<open>
  The ES256 verifier of \<open>sdks/rust/src/es256.rs\<close>: the range and low-S checks in the profile's own
  arithmetic around the \<open>p256\<close> backend, which is a parameter (theory Backend). Scalars are 32-byte
  big-endian arrays compared byte by byte.
\<close>

section \<open>The code\<close>

definition N_order :: bytes where
  "N_order = map char_of [
    0xFF, 0xFF, 0xFF, 0xFF, 0x00, 0x00, 0x00, 0x00, 0xFF, 0xFF, 0xFF, 0xFF, 0xFF, 0xFF, 0xFF, 0xFF,
    0xBC, 0xE6, 0xFA, 0xAD, 0xA7, 0x17, 0x9E, 0x84, 0xF3, 0xB9, 0xCA, 0xC2, 0xFC, 0x63, 0x25, 0x51 :: nat]"

text \<open>The loop of \<open>shr1\<close>, with the previous (more significant) byte, 0 at the start.\<close>

fun shr1_from :: "nat \<Rightarrow> bytes \<Rightarrow> bytes" where
  "shr1_from prev [] = []"
| "shr1_from prev (c # s) =
     char_of (drop_bit 1 (byte c) OR push_bit 7 (prev AND 1)) # shr1_from (byte c) s"

definition shr1 :: "bytes \<Rightarrow> bytes" where
  "shr1 v = shr1_from 0 v"

definition HALF_N :: bytes where
  "HALF_N = shr1 N_order"

text \<open>The comparisons of arrays are lexicographic.\<close>

fun bytes_less :: "bytes \<Rightarrow> bytes \<Rightarrow> bool" where
  "bytes_less (a # s) (b # t) = (byte a < byte b \<or> a = b \<and> bytes_less s t)"
| "bytes_less [] (b # t) = True"
| "bytes_less _ [] = False"

definition validate_point :: "backend \<Rightarrow> bytes \<Rightarrow> unit result" where
  "validate_point B public_key =
     do {
       reject_if (public_key ! 0 \<noteq> CHR 0x04);
       if p256_point B public_key then Some () else None
     }"

definition validate_rs_range :: "bytes \<Rightarrow> unit result" where
  "validate_rs_range signature =
     (let r = take 32 signature; s = drop 32 signature; zero = replicate 32 (CHR 0x00) in
      do {
        reject_if (r = zero \<or> s = zero);
        reject_if (\<not> bytes_less r N_order \<or> \<not> bytes_less s N_order);
        reject_if (bytes_less HALF_N s);
        Some ()
      })"

definition es256_verify :: "backend \<Rightarrow> bytes \<Rightarrow> bytes \<Rightarrow> bytes \<Rightarrow> unit result" where
  "es256_verify B public_key message signature =
     do {
       validate_point B public_key;
       validate_rs_range signature;
       reject_if (\<not> p256_verify B public_key message signature);
       Some ()
     }"

section \<open>Big-endian values\<close>

definition be_value :: "bytes \<Rightarrow> nat" where
  "be_value s = foldl (\<lambda>v c. v * 256 + byte c) 0 s"

definition p256_order :: nat where
  "p256_order = 0xFFFFFFFF00000000FFFFFFFFFFFFFFFFBCE6FAADA7179E84F3B9CAC2FC632551"

lemma be_foldl: "foldl (\<lambda>v c. v * 256 + byte c) a s = a * 256 ^ length s + be_value s"
proof (induction s arbitrary: a)
  case (Cons c s)
  show ?case using Cons [of "a * 256 + byte c"] Cons [of "byte c"]
    by (simp add: be_value_def algebra_simps)
qed (simp add: be_value_def)

lemma be_value_Cons: "be_value (c # s) = byte c * 256 ^ length s + be_value s"
  using be_foldl [of "byte c" s] by (simp add: be_value_def)

lemma be_value_Nil [simp]: "be_value [] = 0"
  by (simp add: be_value_def)

lemma be_value_bound: "be_value s < 256 ^ length s"
proof (induction s)
  case (Cons c s)
  have le: "(byte c + 1) * 256 ^ length s \<le> 256 * 256 ^ length s"
    using byte_less [of c] by (intro mult_right_mono) linarith+
  have eq: "(byte c + 1) * 256 ^ length s = byte c * 256 ^ length s + 256 ^ length s" by simp
  show ?case unfolding be_value_Cons length_Cons power_Suc
    using Cons le eq by linarith
qed simp

lemma bytes_less_value:
  "length s = length t \<Longrightarrow> bytes_less s t \<longleftrightarrow> be_value s < be_value t"
proof (induction s t rule: bytes_less.induct)
  case (1 a s b t)
  let ?p = "256 ^ length t :: nat"
  have bs: "be_value s < ?p" "be_value t < ?p"
    using be_value_bound [of s] be_value_bound [of t] 1 by simp_all
  have len: "length s = length t" using 1 by simp
  consider "byte a < byte b" | "byte b < byte a" | "byte a = byte b" by linarith
  then show ?case
  proof cases
    case 1
    then have "(byte a + 1) * ?p \<le> byte b * ?p" by (intro mult_right_mono) auto
    then show ?thesis using 1 bs len by (simp add: be_value_Cons algebra_simps)
  next
    case 2
    then have "(byte b + 1) * ?p \<le> byte a * ?p" by (intro mult_right_mono) auto
    moreover have "a \<noteq> b" using 2 by auto
    ultimately show ?thesis using 2 bs len by (simp add: be_value_Cons algebra_simps)
  next
    case 3
    then show ?thesis using "1.IH" len by (simp add: be_value_Cons)
  qed
qed auto

lemma be_value_zero: "be_value s = 0 \<longleftrightarrow> s = replicate (length s) (CHR 0x00)"
proof (induction s)
  case (Cons c s)
  have "byte CHR 0x00 = 0" by code_simp
  then have "byte c = 0 \<longleftrightarrow> c = CHR 0x00" by (metis byte_inject)
  then show ?case using Cons by (simp add: be_value_Cons)
qed simp

text \<open>One step of the shift: the low bit of the previous byte becomes the high bit.\<close>

lemma shr1_byte: "byte (char_of (drop_bit 1 (byte c) OR push_bit 7 (p AND 1))) = byte c div 2 + 128 * (p mod 2)"
proof -
  have low: "byte c div 2 < 2 ^ 7"
    by (rule less_mult_imp_div_less) (use byte_less [of c] in simp)
  have "(drop_bit 1 (byte c) OR push_bit 7 (p AND 1)) = (push_bit 7 (p AND 1) OR byte c div 2)"
    by (simp add: or.commute drop_bit_eq_div)
  also have "\<dots> = (p AND 1) * 2 ^ 7 + byte c div 2" by (rule or_push_bit_nat [OF low])
  also have "p AND 1 = p mod 2" by (simp add: and_one_eq)
  finally show ?thesis using low by (simp add: mod_less)
qed

lemma shr1_from_value:
  "be_value (shr1_from p s) = (p mod 2 * 256 ^ length s + be_value s) div 2"
proof (induction s arbitrary: p)
  case (Cons c s)
  let ?P = "256 ^ length s :: nat"
  let ?X = "(byte c div 2 + 128 * (p mod 2)) * ?P" and ?Y = "byte c mod 2 * ?P + be_value s"
  have len: "length (shr1_from q s) = length s" for q by (induction s arbitrary: q) auto
  have c: "byte c * ?P = 2 * (byte c div 2 * ?P) + byte c mod 2 * ?P"
  proof -
    have "byte c = 2 * (byte c div 2) + byte c mod 2" by simp
    then have "byte c * ?P = (2 * (byte c div 2) + byte c mod 2) * ?P" by (simp only:)
    also have "\<dots> = 2 * (byte c div 2 * ?P) + byte c mod 2 * ?P" by (simp only: add_mult_distrib mult.assoc)
    finally show ?thesis .
  qed
  have "p mod 2 * 256 ^ length (c # s) + be_value (c # s) = 2 * ?X + ?Y"
    unfolding be_value_Cons c by (simp add: algebra_simps)
  then have "(p mod 2 * 256 ^ length (c # s) + be_value (c # s)) div 2 = ?X + ?Y div 2" by simp
  moreover have "be_value (shr1_from p (c # s)) = ?X + ?Y div 2"
    unfolding shr1_from.simps be_value_Cons shr1_byte len Cons.IH ..
  ultimately show ?case by simp
qed simp

lemma shr1_value: "be_value (shr1 v) = be_value v div 2"
  using shr1_from_value [of 0 v] by (simp add: shr1_def)

lemma N_order_value: "be_value N_order = p256_order" "length N_order = 32"
  by code_simp+

lemma HALF_N_value: "be_value HALF_N = p256_order div 2" "length HALF_N = 32"
proof -
  have "length (shr1_from q s) = length s" for q s by (induction s arbitrary: q) auto
  then show "length HALF_N = 32" by (simp add: HALF_N_def N_order_value shr1_def)
  show "be_value HALF_N = p256_order div 2" by (simp add: HALF_N_def shr1_value N_order_value)
qed

lemma validate_rs_value:
  assumes "length signature = 64"
  shows "validate_rs_range signature = Some () \<longleftrightarrow>
    0 < be_value (take 32 signature) \<and> be_value (take 32 signature) < p256_order \<and>
    0 < be_value (drop 32 signature) \<and> be_value (drop 32 signature) \<le> p256_order div 2"
proof -
  let ?r = "take 32 signature" and ?s = "drop 32 signature"
  have len: "length ?r = 32" "length ?s = 32" using assms by simp_all
  have zero: "?r = replicate 32 (CHR 0x00) \<longleftrightarrow> be_value ?r = 0"
      "?s = replicate 32 (CHR 0x00) \<longleftrightarrow> be_value ?s = 0"
    using be_value_zero [of ?r] be_value_zero [of ?s] len by simp_all
  have cmp: "bytes_less ?r N_order \<longleftrightarrow> be_value ?r < p256_order"
      "bytes_less ?s N_order \<longleftrightarrow> be_value ?s < p256_order"
      "bytes_less HALF_N ?s \<longleftrightarrow> p256_order div 2 < be_value ?s"
    using bytes_less_value len by (simp_all add: N_order_value HALF_N_value)
  have "p256_order div 2 < p256_order" by (simp add: p256_order_def)
  then show ?thesis unfolding validate_rs_range_def Let_def zero cmp by (auto split: if_splits)
qed

section \<open>Properties\<close>

text \<open>C36: The ES256 range check is the numeric one: a signature passes if and only if, as big-endian
  numbers, both halves are positive, \<open>r\<close> is below the group order and \<open>s\<close> is at most half of it. The
  ceiling is the shifted order, which is its half.\<close>

theorem rs_range_numeric:
  assumes "length signature = 64"
  shows "validate_rs_range signature = Some () \<longleftrightarrow>
    0 < be_value (take 32 signature) \<and> be_value (take 32 signature) < p256_order \<and>
    0 < be_value (drop 32 signature) \<and> be_value (drop 32 signature) \<le> p256_order div 2"
  using assms by (rule validate_rs_value)

definition sample_rs :: bytes where
  "sample_rs = replicate 31 (CHR 0x00) @ [CHR 0x01] @ replicate 31 (CHR 0x00) @ [CHR 0x02]"

lemma sample_rs_value:
  "length sample_rs = 64" "be_value (take 32 sample_rs) = 1" "be_value (drop 32 sample_rs) = 2"
  by code_simp+

theorem rs_range_numeric_witness: "validate_rs_range sample_rs = Some ()"
  using rs_range_numeric [OF sample_rs_value(1)] sample_rs_value by (simp add: p256_order_def)

text \<open>Low-S excludes malleability: of the two signatures \<open>(r, s)\<close> and \<open>(r, n - s)\<close> that satisfy the
  verification equation, at most one passes the range check.\<close>

theorem low_s_unique:
  assumes "length (r @ s) = 64" "length (r @ s') = 64" "length r = 32"
    and "validate_rs_range (r @ s) = Some ()" "be_value s' = p256_order - be_value s"
  shows "validate_rs_range (r @ s') = None"
proof -
  have s: "0 < be_value s" "be_value s \<le> p256_order div 2"
    using validate_rs_value [OF assms(1)] assms(3,4) by simp_all
  have "odd p256_order" by (simp add: p256_order_def)
  then have "p256_order div 2 < be_value s'" using s assms(5) by presburger
  then have "\<not> be_value (drop 32 (r @ s')) \<le> p256_order div 2" using assms(3) by simp
  then have "validate_rs_range (r @ s') \<noteq> Some ()" using validate_rs_value [OF assms(2)] by blast
  then show ?thesis by (cases "validate_rs_range (r @ s')") auto
qed


theorem low_s_unique_witness:
  "validate_rs_range (take 32 sample_rs @ butlast N_order @ [CHR 0x4F]) = None"
proof (rule low_s_unique)
  show "length (take 32 sample_rs @ drop 32 sample_rs) = 64"
    "length (take 32 sample_rs @ butlast N_order @ [CHR 0x4F]) = 64" "length (take 32 sample_rs) = 32"
    using sample_rs_value by (simp_all add: N_order_value)
  show "validate_rs_range (take 32 sample_rs @ drop 32 sample_rs) = Some ()"
    using validate_rs_value [OF sample_rs_value(1)] sample_rs_value by (simp add: p256_order_def)
  show "be_value (butlast N_order @ [CHR 0x4F]) = p256_order - be_value (drop 32 sample_rs)"
    by code_simp
qed

end
