(* ===== verification/Jwk.thy ===== *)
theory Jwk
  imports Ed25519 Base64url Json
begin

text \<open>
  The Ed25519 JWK codec and the RFC 7638 thumbprint of \<open>sdks/rust/src/jwk.rs\<close>.
\<close>

definition CRV_ED25519 :: bytes where "CRV_ED25519 = ''Ed25519''"
definition KTY_OKP :: bytes where "KTY_OKP = ''OKP''"

definition jwk_encode_unchecked :: "bytes \<Rightarrow> bytes" where
  "jwk_encode_unchecked public_key =
     ''{\"crv\":\"'' @ CRV_ED25519 @ ''\",\"kty\":\"'' @ KTY_OKP @ ''\",\"x\":\"'' @
     base64url_encode public_key @ ''\"}''"

definition jwk_encode_public :: "backend \<Rightarrow> bytes \<Rightarrow> bytes result" where
  "jwk_encode_public B public_key =
     do { reject_if (\<not> acceptable_public_key B public_key); Some (jwk_encode_unchecked public_key) }"

text \<open>The walk over the members: each known name overwrites its slot, an unknown one is rejected.\<close>

fun jwk_members ::
  "(bytes \<times> json) list \<Rightarrow> json option \<times> json option \<times> json option \<Rightarrow>
   (json option \<times> json option \<times> json option) result" where
  "jwk_members [] slots = Some slots"
| "jwk_members ((name, val) # ms) (crv, kty, x) =
     (if name = ''crv'' then jwk_members ms (Some val, kty, x)
      else if name = ''kty'' then jwk_members ms (crv, Some val, x)
      else if name = ''x'' then jwk_members ms (crv, kty, Some val)
      else None)"

definition jwk_decode_public :: "backend \<Rightarrow> bytes \<Rightarrow> bytes result" where
  "jwk_decode_public B jwk_text =
     do {
       v \<leftarrow> json_decode maximum jwk_text;
       members \<leftarrow> (case v of Object m \<Rightarrow> Some m | _ \<Rightarrow> None);
       (crv, kty, x) \<leftarrow> jwk_members members (None, None, None);
       reject_if (crv \<noteq> Some (String CRV_ED25519));
       reject_if (kty \<noteq> Some (String KTY_OKP));
       x_str \<leftarrow> (case x of Some (String s) \<Rightarrow> Some s | _ \<Rightarrow> None);
       x_bytes \<leftarrow> base64url_decode x_str;
       reject_if (length x_bytes \<noteq> 32);
       reject_if (\<not> acceptable_public_key B x_bytes);
       Some x_bytes
     }"

definition thumbprint_preimage :: "backend \<Rightarrow> bytes \<Rightarrow> bytes result" where
  "thumbprint_preimage B public_key = jwk_encode_public B public_key"

definition thumbprint_digest_unchecked :: "backend \<Rightarrow> bytes \<Rightarrow> bytes" where
  "thumbprint_digest_unchecked B public_key = sha256 B (jwk_encode_unchecked public_key)"

definition thumbprint_raw :: "backend \<Rightarrow> bytes \<Rightarrow> bytes result" where
  "thumbprint_raw B public_key =
     do {
       reject_if (\<not> acceptable_public_key B public_key);
       Some (thumbprint_digest_unchecked B public_key)
     }"

definition thumbprint :: "backend \<Rightarrow> bytes \<Rightarrow> bytes result" where
  "thumbprint B public_key = map_option base64url_encode (thumbprint_raw B public_key)"

definition public_key_thumbprint_raw :: "backend \<Rightarrow> bytes \<Rightarrow> bytes result" where
  "public_key_thumbprint_raw B public_key = thumbprint_raw B public_key"

end
