(* ===== verification/Jwk_Facts.thy ===== *)
theory Jwk_Facts
  imports Jwk Json_Roundtrip
begin

text \<open>
  The JWK text is the canonical encoding of its three members, the decoder takes it back to the key, and
  the thumbprint commits to the key.
\<close>

section \<open>The text is canonical\<close>

definition jwk_value :: "bytes \<Rightarrow> json" where
  "jwk_value k = Object [(''crv'', String CRV_ED25519), (''kty'', String KTY_OKP),
     (''x'', String (base64url_encode k))]"

lemma b64_plain: "is_ascii (base64url_encode k)" "list_all plain_byte (base64url_encode k)"
proof -
  have "byte c < 0x80 \<and> plain_byte c" if "c \<in> set (base64url_encode k)" for c
  proof -
    have "b64_char c" using encode_chars [of k] that by (simp add: list_all_iff)
    then show ?thesis using b64_char_plain [of c] by (simp add: plain_byte_def)
  qed
  then show "is_ascii (base64url_encode k)" "list_all plain_byte (base64url_encode k)"
    by (simp_all add: is_ascii_def list_all_iff)
qed

lemma jwk_words:
  "string_text ''crv'' = [CHR 0x22, CHR ''c'', CHR ''r'', CHR ''v'', CHR 0x22]"
  "string_text ''kty'' = [CHR 0x22, CHR ''k'', CHR ''t'', CHR ''y'', CHR 0x22]"
  "string_text ''x'' = [CHR 0x22, CHR ''x'', CHR 0x22]"
  "string_text ''Ed25519'' = CHR 0x22 # ''Ed25519'' @ [CHR 0x22]"
  "string_text ''OKP'' = CHR 0x22 # ''OKP'' @ [CHR 0x22]"
  "utf8_valid ''crv''" "utf8_valid ''kty''" "utf8_valid ''x''" "utf8_valid ''Ed25519''" "utf8_valid ''OKP''"
  by code_simp+

lemma jwk_order:
  "utf16_compare ''crv'' ''kty'' = Less" "utf16_compare ''crv'' ''x'' = Less"
  "utf16_compare ''kty'' ''x'' = Less"
  by code_simp+

lemma jwk_sorted:
  "sort_by (by_name utf16_compare) [(''crv'', u), (''kty'', v), (''x'', w)] =
     [(''crv'', u), (''kty'', v), (''x'', w)]"
  by (simp add: by_name_def jwk_order)

lemma jwk_canon: "canon (jwk_value k) = jwk_value k"
  by (simp add: jwk_value_def jwk_sorted del: sort_by.simps)

lemma jwk_text: "jcs_text B (jwk_value k) = jwk_encode_unchecked k"
proof -
  have "string_text (base64url_encode k) = CHR 0x22 # base64url_encode k @ [CHR 0x22]"
    using b64_plain by (rule string_text_plain)
  then show ?thesis unfolding jcs_text_def jwk_canon
    by (simp add: jwk_value_def member_text_def jwk_words jwk_encode_unchecked_def
        CRV_ED25519_def KTY_OKP_def)
qed

lemma jwk_encodes:
  assumes "length k = 32" shows "jcs_encode B maximum (jwk_value k) = Some (jwk_encode_unchecked k)"
  using assms unfolding jcs_encode_Some jwk_text
  by (simp add: jwk_value_def maximum_def length_encode CRV_ED25519_def KTY_OKP_def jwk_encode_unchecked_def)

lemma jwk_decodes:
  assumes "length k = 32" shows "json_decode maximum (jwk_encode_unchecked k) = Some (jwk_value k)"
proof -
  have "length (jwk_encode_unchecked k) \<le> json_bytes maximum"
    using assms by (simp add: jwk_encode_unchecked_def length_encode CRV_ED25519_def KTY_OKP_def maximum_def)
  moreover have "portable (jwk_value k)"
    using ascii_valid [OF b64_plain(1)] jwk_words(6-) by (simp add: jwk_value_def CRV_ED25519_def KTY_OKP_def)
  ultimately show ?thesis
    using decode_encode_canon [OF jwk_encodes [OF assms]] maximum_fits(1) by (simp add: jwk_canon)
qed

section \<open>Decoding\<close>

lemma acceptable_length: "acceptable_public_key B k \<Longrightarrow> length k = 32"
  by (simp add: acceptable_public_key_def split: if_splits)

lemma jwk_round:
  assumes "acceptable_public_key B k"
  shows "jwk_encode_public B k = Some (jwk_encode_unchecked k)"
    and "jwk_decode_public B (jwk_encode_unchecked k) = Some k"
proof -
  show "jwk_encode_public B k = Some (jwk_encode_unchecked k)"
    using assms by (simp add: jwk_encode_public_def)
  show "jwk_decode_public B (jwk_encode_unchecked k) = Some k"
    using assms acceptable_length [OF assms]
    by (simp add: jwk_decode_public_def jwk_decodes jwk_value_def decode_encode)
qed

text \<open>The walk over the members keeps the last value of each of the three names.\<close>

definition last_of :: "(bytes \<times> json) list \<Rightarrow> bytes \<Rightarrow> json option \<Rightarrow> json option" where
  "last_of ms name slot = (case map_of (rev ms) name of Some v \<Rightarrow> Some v | None \<Rightarrow> slot)"

lemma last_of_Cons:
  "last_of ((k, v) # ms) name slot = last_of ms name (if name = k then Some v else slot)"
  by (auto simp: last_of_def map_of_append map_add_def split: option.split)

lemma jwk_members_eq:
  "jwk_members ms (c, k, x) =
     (if fst ` set ms \<subseteq> {''crv'', ''kty'', ''x''}
      then Some (last_of ms ''crv'' c, last_of ms ''kty'' k, last_of ms ''x'' x) else None)"
proof (induction ms arbitrary: c k x)
  case (Cons m ms)
  obtain n v where m: "m = (n, v)" by (cases m)
  consider "n = ''crv''" | "n = ''kty''" | "n = ''x''" | "n \<notin> {''crv'', ''kty'', ''x''}" by blast
  then show ?case by cases (simp_all add: m Cons.IH last_of_Cons)
qed (simp add: last_of_def)

abbreviation jwk_triple :: "bytes \<Rightarrow> (bytes \<times> json) list" where
  "jwk_triple k \<equiv> [(''crv'', String CRV_ED25519), (''kty'', String KTY_OKP),
     (''x'', String (base64url_encode k))]"

lemma last_of_distinct:
  assumes "distinct (map fst ms)" shows "last_of ms name None = Some v \<longleftrightarrow> (name, v) \<in> set ms"
proof -
  have "map_of (rev ms) name = Some v \<longleftrightarrow> (name, v) \<in> set ms"
    using assms by (subst map_of_eq_Some_iff) (simp_all add: rev_map [symmetric])
  then show ?thesis by (auto simp: last_of_def split: option.split)
qed

lemma triple_names: "fst ` set (jwk_triple k) = {''crv'', ''kty'', ''x''}"
  by (simp only: list.set image_insert image_empty fst_conv)

lemma triple_distinct: "distinct (jwk_triple k)" "distinct (map fst (jwk_triple k))"
  by simp_all

lemma same_members:
  assumes "distinct (map fst ms)" "distinct (map fst ns)"
  shows "fst ` set ms \<subseteq> fst ` set ns \<and> set ns \<subseteq> set ms \<longleftrightarrow> mset ms = mset ns"
proof
  assume s: "fst ` set ms \<subseteq> fst ` set ns \<and> set ns \<subseteq> set ms"
  have "set ms \<subseteq> set ns"
  proof
    fix m assume m: "m \<in> set ms"
    then have "fst m \<in> fst ` set ns" using s by blast
    then obtain n where n: "n \<in> set ns" "fst n = fst m" by (metis imageE)
    then have "n \<in> set ms" using s by blast
    moreover have "inj_on fst (set ms)" using assms(1) by (simp add: distinct_map)
    ultimately have "n = m" using n(2) m by (meson inj_onD)
    then show "m \<in> set ns" using n(1) by simp
  qed
  then have "set ms = set ns" using s by blast
  moreover have "distinct ms" "distinct ns" using assms by (simp_all add: distinct_map)
  ultimately show "mset ms = mset ns" by (simp add: set_eq_iff_mset_eq_distinct)
next
  assume "mset ms = mset ns"
  then have "set ms = set ns" by (metis set_mset_mset)
  then show "fst ` set ms \<subseteq> fst ` set ns \<and> set ns \<subseteq> set ms" by simp
qed

lemma triple_set:
  assumes "distinct (map fst ms)"
  shows "fst ` set ms \<subseteq> {''crv'', ''kty'', ''x''} \<and> set (jwk_triple k) \<subseteq> set ms \<longleftrightarrow>
    mset ms = mset (jwk_triple k)"
  using same_members [OF assms triple_distinct(2)] unfolding triple_names .

lemma jwk_members_triple:
  assumes "distinct (map fst ms)"
  shows "jwk_members ms (None, None, None) =
      Some (Some (String CRV_ED25519), Some (String KTY_OKP), Some (String (base64url_encode k))) \<longleftrightarrow>
    mset ms = mset (jwk_triple k)"
  unfolding triple_set [OF assms, symmetric] jwk_members_eq
  by (simp add: last_of_distinct [OF assms])

lemma canon_triple:
  assumes "distinct (map fst ms)" "\<forall>m \<in> set ms. utf8_valid (fst m)"
  shows "canon (Object ms) = jwk_value k \<longleftrightarrow> mset ms = mset (jwk_triple k)"
proof
  assume "canon (Object ms) = jwk_value k"
  then have mset: "mset (map (map_prod (\<lambda>k. k) canon) ms) = mset (jwk_triple k)"
    unfolding jwk_value_def canon.simps json.inject by (metis mset_sort_by)
  then have F: "map_prod (\<lambda>k. k) canon m \<in> set (jwk_triple k)" if "m \<in> set ms" for m
    using that by (metis image_eqI list.set_map set_mset_mset)
  have scalar: "canon v = String s \<Longrightarrow> v = String s" for v s by (cases v) simp_all
  have "map_prod (\<lambda>k. k) canon m = m" if m: "m \<in> set ms" for m
  proof -
    obtain s where "canon (snd m) = String s" using F [OF m] by (cases m) auto
    then have "snd m = String s" by (rule scalar)
    then show ?thesis by (cases m) simp
  qed
  then have "map (map_prod (\<lambda>k. k) canon) ms = ms" by (rule map_idI)
  then show "mset ms = mset (jwk_triple k)" using mset by simp
next
  assume "mset ms = mset (jwk_triple k)"
  then have "canon (Object ms) = canon (Object (jwk_triple k))" using assms by (rule canon_permuted)
  then show "canon (Object ms) = jwk_value k" using jwk_canon by (simp only: jwk_value_def)
qed

lemma string_slot:
  "(case x of None \<Rightarrow> None | Some (String s) \<Rightarrow> Some s | Some _ \<Rightarrow> None) = Some s \<longleftrightarrow> x = Some (String s)"
  by (auto split: option.splits json.splits)

lemma jwk_accepts:
  "jwk_decode_public B t = Some k \<longleftrightarrow>
     acceptable_public_key B k \<and> (\<exists>v. json_decode maximum t = Some v \<and> canon v = jwk_value k)"
proof (cases "\<exists>ms. json_decode maximum t = Some (Object ms)")
  case True
  then obtain ms where ms: "json_decode maximum t = Some (Object ms)" by blast
  have "0 < integer_magnitude maximum" by (simp add: maximum_def)
  from json_decode_ok [OF ms this] have ok: "distinct (map fst ms)" "\<forall>m \<in> set ms. utf8_valid (fst m)"
    by auto
  have "jwk_decode_public B t = Some k \<longleftrightarrow> acceptable_public_key B k \<and>
      jwk_members ms (None, None, None) =
        Some (Some (String CRV_ED25519), Some (String KTY_OKP), Some (String (base64url_encode k)))"
    by (auto simp: jwk_decode_public_def ms accept b64.dec_iff acceptable_length decode_encode string_slot)
  then show ?thesis unfolding ms jwk_members_triple [OF ok(1)] canon_triple [OF ok, symmetric] by simp
next
  case False
  then have "canon v \<noteq> jwk_value k" if "json_decode maximum t = Some v" for v
    using that by (cases v) (auto simp: jwk_value_def)
  moreover have "jwk_decode_public B t = None"
    using False by (auto simp: jwk_decode_public_def bind_eq_None_conv split: json.splits)
  ultimately show ?thesis by auto
qed

section \<open>Properties\<close>

text \<open>C37: An accepted key survives the JWK codec: its text is the canonical encoding of the three members,
  which is the preimage RFC 7638 asks for, and decoding the text gives the key back.\<close>

theorem jwk_round_trip:
  assumes "acceptable_public_key B k"
  shows "jwk_encode_public B k = Some (jwk_encode_unchecked k) \<and>
    jcs_encode B maximum (jwk_value k) = Some (jwk_encode_unchecked k) \<and>
    jwk_decode_public B (jwk_encode_unchecked k) = Some k"
  using jwk_round [OF assms] jwk_encodes [OF acceptable_length [OF assms]] by simp

lemma sample_key_acceptable: "acceptable_public_key sample_backend sample_key"
  using sample_key_facts by (simp add: acceptable_public_key_def sample_backend_def)

theorem jwk_round_trip_witness:
  "jwk_decode_public sample_backend (jwk_encode_unchecked sample_key) = Some sample_key"
  using jwk_round_trip [OF sample_key_acceptable] by blast

text \<open>The decoder accepts exactly the texts that are, up to member order and JSON spelling, the JWK of an
  acceptable key: the decoded value has the canonical form of the three members, with no other name.\<close>

theorem jwk_decode_public_exact:
  "jwk_decode_public B t = Some k \<longleftrightarrow>
     acceptable_public_key B k \<and> (\<exists>v. json_decode maximum t = Some v \<and> canon v = jwk_value k)"
  by (rule jwk_accepts)

end
