(* ===== verification/Digest.thy ===== *)
theory Digest
  imports Jcs Base64url
begin

text \<open>
  The request digest of \<open>sdks/rust/src/digest.rs\<close>: the typed projection of the arguments, the walk that
  re-checks the structural limits on the projected value, and the three domain-separated digests.
\<close>

section \<open>The code\<close>

definition REQUEST_DIGEST_PREFIX :: bytes where
  "REQUEST_DIGEST_PREFIX = ''BAP1-REQUEST'' @ [CHR 0x00]"

definition SUCCESSOR_REQUEST_DIGEST_PREFIX :: bytes where
  "SUCCESSOR_REQUEST_DIGEST_PREFIX = ''BAP2-REQUEST'' @ [CHR 0x00]"

definition ECDSA_REQUEST_DIGEST_PREFIX :: bytes where
  "ECDSA_REQUEST_DIGEST_PREFIX = ''BAP3-REQUEST'' @ [CHR 0x00]"

definition tag1 :: "bytes \<Rightarrow> json" where
  "tag1 tag = Array [String tag]"

definition tag2 :: "bytes \<Rightarrow> json \<Rightarrow> json" where
  "tag2 tag v = Array [String tag, v]"

fun typed :: "json \<Rightarrow> json result"
and typed_items :: "json list \<Rightarrow> json list result"
and typed_members :: "(bytes \<times> json) list \<Rightarrow> (bytes \<times> json) list result"
where
  "typed Null = Some (tag1 ''null'')"
| "typed (Bool v) = Some (tag2 ''boolean'' (Bool v))"
| "typed (Integer n) = Some (tag2 ''integer'' (Integer n))"
| "typed (Float f) = (if \<not> f64_is_finite f then None else Some (tag2 ''float'' (Float f)))"
| "typed (String s) = Some (tag2 ''string'' (String s))"
| "typed (Array items) =
     (case typed_items items of None \<Rightarrow> None | Some projected \<Rightarrow> Some (tag2 ''array'' (Array projected)))"
| "typed (Object members) =
     (case typed_members members of None \<Rightarrow> None | Some projected \<Rightarrow> Some (tag2 ''object'' (Object projected)))"
| "typed_items [] = Some []"
| "typed_items (v # vs) =
     (case typed v of None \<Rightarrow> None | Some t \<Rightarrow> map_option (Cons t) (typed_items vs))"
| "typed_members [] = Some []"
| "typed_members ((k, v) # ms) =
     (case typed v of None \<Rightarrow> None | Some t \<Rightarrow> map_option (Cons (k, t)) (typed_members ms))"

text \<open>\<open>validate_bounds\<close> returns the node counter it was given by reference.\<close>

fun validate_bounds :: "bounds \<Rightarrow> json \<Rightarrow> nat \<Rightarrow> nat \<Rightarrow> nat result"
and validate_items :: "bounds \<Rightarrow> json list \<Rightarrow> nat \<Rightarrow> nat \<Rightarrow> nat result"
and validate_members :: "bounds \<Rightarrow> (bytes \<times> json) list \<Rightarrow> nat \<Rightarrow> nat \<Rightarrow> nat result"
where
  "validate_bounds b (Array items) d nodes =
     (if nodes + 1 > total_nodes b then None
      else if d > depth b then None
      else if length items > array_items b then None
      else validate_items b items (d + 1) (nodes + 1))"
| "validate_bounds b (Object members) d nodes =
     (if nodes + 1 > total_nodes b then None
      else if d > depth b then None
      else if length members > object_members b then None
      else validate_members b members (d + 1) (nodes + 1))"
| "validate_bounds b (String s) d nodes =
     (if nodes + 1 > total_nodes b then None
      else if length s > string_bytes b then None else Some (nodes + 1))"
| "validate_bounds b _ d nodes = (if nodes + 1 > total_nodes b then None else Some (nodes + 1))"
| "validate_items b [] d nodes = Some nodes"
| "validate_items b (v # vs) d nodes =
     (case validate_bounds b v d nodes of None \<Rightarrow> None | Some n \<Rightarrow> validate_items b vs d n)"
| "validate_members b [] d nodes = Some nodes"
| "validate_members b ((k, v) # ms) d nodes =
     (if length k > key_bytes b then None
      else case validate_bounds b v d nodes of None \<Rightarrow> None | Some n \<Rightarrow> validate_members b ms d n)"

definition request_digest_with :: "backend \<Rightarrow> bytes \<Rightarrow> bytes \<Rightarrow> json \<Rightarrow> bounds \<Rightarrow> bytes result" where
  "request_digest_with B prefix operation cast_arguments b =
     do {
       reject_if (length operation > operation_bytes b);
       projected \<leftarrow> typed cast_arguments;
       let signing_array = Array [String operation, projected];
       validate_bounds b signing_array 1 0;
       preimage \<leftarrow> jcs_encode B b signing_array;
       Some (base64url_encode (sha256 B (prefix @ preimage)))
     }"

definition request_digest :: "backend \<Rightarrow> bytes \<Rightarrow> json \<Rightarrow> bounds \<Rightarrow> bytes result" where
  "request_digest B operation cast_arguments b =
     request_digest_with B REQUEST_DIGEST_PREFIX operation cast_arguments b"

definition request_digest_successor :: "backend \<Rightarrow> bytes \<Rightarrow> json \<Rightarrow> bounds \<Rightarrow> bytes result" where
  "request_digest_successor B operation cast_arguments b =
     request_digest_with B SUCCESSOR_REQUEST_DIGEST_PREFIX operation cast_arguments b"

definition request_digest_v3 :: "backend \<Rightarrow> bytes \<Rightarrow> json \<Rightarrow> bounds \<Rightarrow> bytes result" where
  "request_digest_v3 B operation cast_arguments b =
     request_digest_with B ECDSA_REQUEST_DIGEST_PREFIX operation cast_arguments b"

end
