(* ===== verification/Digest_Facts.thy ===== *)
theory Digest_Facts
  imports Digest Json_Roundtrip
begin

text \<open>
  The typed projection is injective and commutes with canonicalisation, so the request digest commits to
  the protocol version, the operation and the canonical arguments.
\<close>

section \<open>The projection as a total function\<close>

primrec tagged :: "json \<Rightarrow> json" where
  "tagged Null = tag1 ''null''"
| "tagged (Bool v) = tag2 ''boolean'' (Bool v)"
| "tagged (Integer n) = tag2 ''integer'' (Integer n)"
| "tagged (Float f) = tag2 ''float'' (Float f)"
| "tagged (String s) = tag2 ''string'' (String s)"
| "tagged (Array xs) = tag2 ''array'' (Array (map tagged xs))"
| "tagged (Object ms) = tag2 ''object'' (Object (map (map_prod (\<lambda>k. k) tagged) ms))"

fun finite_floats :: "json \<Rightarrow> bool" where
  "finite_floats (Float f) = f64_is_finite f"
| "finite_floats (Array xs) = (\<forall>x \<in> set xs. finite_floats x)"
| "finite_floats (Object ms) = (\<forall>m \<in> set ms. finite_floats (snd m))"
| "finite_floats _ = True"

lemma typed_tagged:
  "typed v = (if finite_floats v then Some (tagged v) else None)"
  "typed_items vs = (if \<forall>v \<in> set vs. finite_floats v then Some (map tagged vs) else None)"
  "typed_members ms =
     (if \<forall>m \<in> set ms. finite_floats (snd m) then Some (map (map_prod (\<lambda>k. k) tagged) ms) else None)"
  by (induction v and vs and ms rule: typed_typed_items_typed_members.induct) auto

lemma map_eq_on:
  "(\<And>m n. m \<in> set xs \<Longrightarrow> f m = f n \<longleftrightarrow> m = n) \<Longrightarrow> map f xs = map f ys \<longleftrightarrow> xs = ys"
proof (induction xs arbitrary: ys)
  case (Cons x xs)
  then show ?case by (cases ys) simp_all
qed auto

lemma tagged_inject: "tagged v = tagged w \<longleftrightarrow> v = w"
proof (induction v arbitrary: w)
  case (Array xs)
  have "map tagged xs = map tagged ys \<longleftrightarrow> xs = ys" for ys
    using Array by (intro map_eq_on)
  then show ?case by (cases w) (simp_all add: tag1_def tag2_def)
next
  case (Object ms)
  have "map_prod (\<lambda>k. k) tagged m = map_prod (\<lambda>k. k) tagged n \<longleftrightarrow> m = n" if "m \<in> set ms" for m n
    using Object.IH [OF that, of "snd m"] by (cases m; cases n) auto
  then have "map (map_prod (\<lambda>k. k) tagged) ms = map (map_prod (\<lambda>k. k) tagged) ns \<longleftrightarrow> ms = ns" for ns
    by (rule map_eq_on)
  then show ?case by (cases w) (simp_all add: tag1_def tag2_def)
next
  case Null
  show ?case by (cases w) (simp_all add: tag1_def tag2_def)
next
  case (Bool v)
  show ?case by (cases w) (auto simp: tag1_def tag2_def)
next
  case (Integer n)
  show ?case by (cases w) (auto simp: tag1_def tag2_def)
next
  case (Float f)
  show ?case by (cases w) (auto simp: tag1_def tag2_def)
next
  case (String s)
  show ?case by (cases w) (auto simp: tag1_def tag2_def)
qed

lemma canon_tagged: "canon (tagged v) = tagged (canon v)"
proof (induction v)
  case (Object ms)
  have "map (map_prod (\<lambda>k. k) canon) (map (map_prod (\<lambda>k. k) tagged) ms) =
      map (map_prod (\<lambda>k. k) tagged) (map (map_prod (\<lambda>k. k) canon) ms)"
    using Object by (auto simp: snds.simps)
  then show ?case by (simp only: tagged.simps tag2_def canon.simps list.map sort_by_map)
qed (simp_all add: tag1_def tag2_def cong: map_cong)

lemma portable_tagged: "portable v \<Longrightarrow> portable (tagged v)"
proof (induction v)
  case (Object ms)
  have "utf8_valid ''object''" by code_simp
  moreover have "portable (tagged (snd m))" if "m \<in> set ms" for m
    using Object.prems that by (intro Object.IH [of m]) (auto simp: snds.simps)
  ultimately show ?case using Object.prems by (auto simp: tag2_def)
next
  case (Array xs)
  have "utf8_valid ''array''" by code_simp
  then show ?case using Array by (auto simp: tag2_def)
next
  case Null
  have "utf8_valid ''null''" by code_simp
  then show ?case by (simp add: tag1_def)
next
  case (Bool v)
  have "utf8_valid ''boolean''" by code_simp
  then show ?case by (simp add: tag2_def)
next
  case (Integer n)
  have "utf8_valid ''integer''" by code_simp
  then show ?case by (simp add: tag2_def)
next
  case (String s)
  have "utf8_valid ''string''" by code_simp
  then show ?case using String by (simp add: tag2_def)
qed simp

section \<open>The digest\<close>

definition signing_array :: "bytes \<Rightarrow> json \<Rightarrow> json" where
  "signing_array operation args = Array [String operation, tagged args]"

definition digest_preimage :: "backend \<Rightarrow> bytes \<Rightarrow> bytes \<Rightarrow> json \<Rightarrow> bytes" where
  "digest_preimage B prefix operation args = prefix @ jcs_text B (signing_array operation args)"

lemma request_digest_Some:
  assumes "request_digest_with B prefix operation args b = Some d"
  shows "d = base64url_encode (sha256 B (digest_preimage B prefix operation args))"
    and "jcs_encode B b (signing_array operation args) = Some (jcs_text B (signing_array operation args))"
  using assms
  by (auto simp: request_digest_with_def typed_tagged accept jcs_encode_Some signing_array_def
      digest_preimage_def Let_def split: if_splits)

lemma request_digest_exists:
  assumes "length operation \<le> operation_bytes b" "finite_floats args"
    and "validate_bounds b (signing_array operation args) 1 0 \<noteq> None"
    and "jcs_encode B b (signing_array operation args) \<noteq> None"
  shows "request_digest_with B prefix operation args b =
    Some (base64url_encode (sha256 B (digest_preimage B prefix operation args)))"
  using assms
  by (auto simp: request_digest_with_def typed_tagged accept jcs_encode_Some signing_array_def
      digest_preimage_def Let_def)

definition request_prefixes :: "bytes list" where
  "request_prefixes = [REQUEST_DIGEST_PREFIX, SUCCESSOR_REQUEST_DIGEST_PREFIX, ECDSA_REQUEST_DIGEST_PREFIX]"

lemma prefixes_separate:
  assumes "p \<in> set request_prefixes" "q \<in> set request_prefixes" "p @ s = q @ t"
  shows "p = q \<and> s = t"
proof -
  have "length p = 13" "length q = 13" using assms(1,2)
    by (auto simp: request_prefixes_def REQUEST_DIGEST_PREFIX_def SUCCESSOR_REQUEST_DIGEST_PREFIX_def
        ECDSA_REQUEST_DIGEST_PREFIX_def)
  then show ?thesis using assms(3) by simp
qed

lemma request_digest_commits:
  assumes "request_digest_with B p op args b = Some d" "request_digest_with B p' op' args' b = Some d"
    and "p \<in> set request_prefixes" "p' \<in> set request_prefixes"
    and "portable args" "portable args'" "utf8_valid op" "utf8_valid op'"
    and "integers_fit b" "jcs_bytes b \<le> json_bytes b"
    and "collision_free B (digest_preimage B p op args) (digest_preimage B p' op' args')"
  shows "p = p' \<and> op = op' \<and> canon args = canon args'"
proof -
  note d = request_digest_Some [OF assms(1)] request_digest_Some [OF assms(2)]
  have "sha256 B (digest_preimage B p op args) = sha256 B (digest_preimage B p' op' args')"
    using d(1,3) b64.enc_inject by metis
  then have "digest_preimage B p op args = digest_preimage B p' op' args'"
    using assms(11) by (simp add: collision_free_def)
  then have eq: "p = p'" "jcs_text B (signing_array op args) = jcs_text B (signing_array op' args')"
    using prefixes_separate [OF assms(3,4)] unfolding digest_preimage_def by blast+
  have "portable (signing_array op args)" "portable (signing_array op' args')"
    using assms(5-8) portable_tagged by (simp_all add: signing_array_def)
  then have "canon (signing_array op args) = canon (signing_array op' args')"
    using d(2,4) eq(2) assms(9,10) by (metis jcs_text_determines)
  then show ?thesis using eq(1) by (simp add: signing_array_def canon_tagged tagged_inject)
qed

section \<open>Properties\<close>


definition sample_args :: json where
  "sample_args = Object [(''b'', Null), (''a'', Bool True)]"

definition sample_args_sorted :: json where
  "sample_args_sorted = Object [(''a'', Bool True), (''b'', Null)]"

lemma sample_digests:
  "jcs_encode sample_backend maximum (signing_array ''op'' sample_args) \<noteq> None"
  "jcs_encode sample_backend maximum (signing_array ''op'' sample_args_sorted) \<noteq> None"
  "validate_bounds maximum (signing_array ''op'' sample_args) 1 0 \<noteq> None"
  "validate_bounds maximum (signing_array ''op'' sample_args_sorted) 1 0 \<noteq> None"
  "length ''op'' \<le> operation_bytes maximum" "finite_floats sample_args" "finite_floats sample_args_sorted"
  "digest_preimage sample_backend REQUEST_DIGEST_PREFIX ''op'' sample_args_sorted =
     digest_preimage sample_backend REQUEST_DIGEST_PREFIX ''op'' sample_args"
  "portable sample_args" "portable sample_args_sorted" "utf8_valid ''op''"
  by code_simp+


text \<open>The typed projection that the digest hashes exists exactly for values with finite floats, is
  injective, and commutes with canonicalisation.\<close>

theorem typed_faithful:
  "typed v = (if finite_floats v then Some (tagged v) else None) \<and> (tagged v = tagged w \<longleftrightarrow> v = w) \<and>
   canon (tagged v) = tagged (canon v)"
  by (simp add: typed_tagged tagged_inject canon_tagged)

end
