(* ===== verification/Selector.thy ===== *)
theory Selector
  imports Jcs
begin

text \<open>
  The selector algebra of \<open>sdks/rust/src/selector.rs\<close>: shape validation and evaluation for version 1
  and its version 2 extension with the two range kinds, path traversal and semantic identity.
\<close>

section \<open>Members\<close>

definition member_value :: "(bytes \<times> json) list \<Rightarrow> bytes \<Rightarrow> json result" where
  "member_value members name = map_of members name"

definition member_str :: "(bytes \<times> json) list \<Rightarrow> bytes \<Rightarrow> bytes result" where
  "member_str members name =
     (case member_value members name of Some (String s) \<Rightarrow> Some s | _ \<Rightarrow> None)"

definition name_count :: "(bytes \<times> json) list \<Rightarrow> bytes \<Rightarrow> nat" where
  "name_count members name = length (filter (\<lambda>m. fst m = name) members)"

definition recognized_member_set :: "(bytes \<times> json) list \<Rightarrow> bool" where
  "recognized_member_set members =
     (let kind = name_count members ''kind'' = 1;
          path = name_count members ''path'' = 1;
          val = name_count members ''value'' = 1;
          vals = name_count members ''values'' = 1
      in (length members = 1 \<and> kind) \<or> (length members = 3 \<and> kind \<and> path \<and> (val \<noteq> vals)))"

section \<open>Paths\<close>

fun path_segments_of :: "bounds \<Rightarrow> json list \<Rightarrow> bytes list result" where
  "path_segments_of b [] = Some []"
| "path_segments_of b (elem # elems) =
     (case elem of
        String s \<Rightarrow>
          (if s = [] then None
           else if length s > key_bytes b then None
           else map_option (Cons s) (path_segments_of b elems))
      | _ \<Rightarrow> None)"

definition extract_path :: "(bytes \<times> json) list \<Rightarrow> bytes \<Rightarrow> bounds \<Rightarrow> bytes list result" where
  "extract_path members name b =
     do {
       raw \<leftarrow> member_value members name;
       arr \<leftarrow> (case raw of Array a \<Rightarrow> Some a | _ \<Rightarrow> None);
       reject_if (arr = []);
       reject_if (length arr > path_segments b);
       path_segments_of b arr
     }"

fun traverse :: "json \<Rightarrow> bytes list \<Rightarrow> json result" where
  "traverse current [] = Some current"
| "traverse current (seg # path) =
     (case current of
        Object members \<Rightarrow> (case map_of members seg of Some v \<Rightarrow> traverse v path | None \<Rightarrow> None)
      | _ \<Rightarrow> None)"

section \<open>Semantic identity\<close>

definition unique_keys :: "(bytes \<times> json) list \<Rightarrow> bool" where
  "unique_keys members = distinct (map fst members)"

text \<open>
  The zipped walk over two arrays and the lookup of each member of the first object in the second are
  the two auxiliary functions; \<open>==\<close> on \<open>f64\<close> identifies the two zeros.
\<close>

fun semantic_identity :: "json \<Rightarrow> json \<Rightarrow> bool"
and identity_items :: "json list \<Rightarrow> json list \<Rightarrow> bool"
and identity_members :: "(bytes \<times> json) list \<Rightarrow> (bytes \<times> json) list \<Rightarrow> bool"
where
  "semantic_identity Null c = (case c of Null \<Rightarrow> True | _ \<Rightarrow> False)"
| "semantic_identity (Bool x) c = (case c of Bool y \<Rightarrow> x = y | _ \<Rightarrow> False)"
| "semantic_identity (Integer x) c = (case c of Integer y \<Rightarrow> x = y | _ \<Rightarrow> False)"
| "semantic_identity (Float x) c = (case c of Float y \<Rightarrow> f64_eq x y | _ \<Rightarrow> False)"
| "semantic_identity (String x) c = (case c of String y \<Rightarrow> x = y | _ \<Rightarrow> False)"
| "semantic_identity (Array x) c =
     (case c of Array y \<Rightarrow> length x = length y \<and> identity_items x y | _ \<Rightarrow> False)"
| "semantic_identity (Object x) c =
     (case c of
        Object y \<Rightarrow>
          (if \<not> unique_keys x \<or> \<not> unique_keys y then False
           else length x = length y \<and> identity_members x y)
      | _ \<Rightarrow> False)"
| "identity_items [] ys = True"
| "identity_items (x # xs) ys =
     (case ys of [] \<Rightarrow> True | y # ys' \<Rightarrow> semantic_identity x y \<and> identity_items xs ys')"
| "identity_members [] y = True"
| "identity_members ((k, v) # ms) y =
     ((case map_of y k of Some w \<Rightarrow> semantic_identity v w | None \<Rightarrow> False) \<and> identity_members ms y)"

section \<open>The version 1 kinds\<close>

fun encode_each :: "backend \<Rightarrow> bounds \<Rightarrow> json list \<Rightarrow> unit result" where
  "encode_each B b [] = Some ()"
| "encode_each B b (v # vs) = (if jcs_encode B b v = None then None else encode_each B b vs)"

text \<open>The two arms that both validators have in common.\<close>

definition validate_equals :: "backend \<Rightarrow> (bytes \<times> json) list \<Rightarrow> bounds \<Rightarrow> unit result" where
  "validate_equals B members b =
     do {
       extract_path members ''path'' b;
       v \<leftarrow> member_value members ''value'';
       jcs_encode B b v;
       Some ()
     }"

definition validate_one_of :: "backend \<Rightarrow> (bytes \<times> json) list \<Rightarrow> bounds \<Rightarrow> unit result" where
  "validate_one_of B members b =
     do {
       extract_path members ''path'' b;
       raw \<leftarrow> member_value members ''values'';
       vs \<leftarrow> (case raw of Array a \<Rightarrow> Some a | _ \<Rightarrow> None);
       reject_if (vs = [] \<or> length vs > one_of_values b);
       encode_each B b vs
     }"

definition validate :: "backend \<Rightarrow> json \<Rightarrow> bounds \<Rightarrow> unit result" where
  "validate B selector b =
     do {
       members \<leftarrow> (case selector of Object m \<Rightarrow> Some m | _ \<Rightarrow> None);
       kind \<leftarrow> member_str members ''kind'';
       reject_if (\<not> recognized_member_set members);
       if kind = ''all'' then Some ()
       else if kind = ''equals'' then validate_equals B members b
       else if kind = ''one_of'' then validate_one_of B members b
       else None
     }"

definition eval_equals :: "(bytes \<times> json) list \<Rightarrow> json \<Rightarrow> bounds \<Rightarrow> bool result" where
  "eval_equals members cast_arguments b =
     do {
       reject_if (length members \<noteq> 3);
       path \<leftarrow> extract_path members ''path'' b;
       v \<leftarrow> member_value members ''value'';
       found \<leftarrow> traverse cast_arguments path;
       Some (semantic_identity found v)
     }"

definition eval_one_of :: "(bytes \<times> json) list \<Rightarrow> json \<Rightarrow> bounds \<Rightarrow> bool result" where
  "eval_one_of members cast_arguments b =
     do {
       reject_if (length members \<noteq> 3);
       path \<leftarrow> extract_path members ''path'' b;
       raw \<leftarrow> member_value members ''values'';
       vs \<leftarrow> (case raw of Array a \<Rightarrow> Some a | _ \<Rightarrow> None);
       reject_if (vs = []);
       reject_if (length vs > one_of_values b);
       found \<leftarrow> traverse cast_arguments path;
       Some (list_ex (\<lambda>v. semantic_identity v found) vs)
     }"

definition evaluate :: "backend \<Rightarrow> json \<Rightarrow> json \<Rightarrow> bounds \<Rightarrow> bool result" where
  "evaluate B selector cast_arguments b =
     do {
       validate B selector b;
       members \<leftarrow> (case selector of Object m \<Rightarrow> Some m | _ \<Rightarrow> None);
       kind \<leftarrow> member_str members ''kind'';
       reject_if (\<not> recognized_member_set members);
       if kind = ''all'' then Some True
       else if kind = ''equals'' then eval_equals members cast_arguments b
       else if kind = ''one_of'' then eval_one_of members cast_arguments b
       else None
     }"

section \<open>The version 2 kinds\<close>

datatype range_order = Lte | Gte

definition validate_range :: "backend \<Rightarrow> (bytes \<times> json) list \<Rightarrow> bounds \<Rightarrow> unit result" where
  "validate_range B members b =
     do {
       extract_path members ''path'' b;
       bound \<leftarrow> member_value members ''value'';
       reject_if (\<not> (case bound of Integer _ \<Rightarrow> True | Float _ \<Rightarrow> True | _ \<Rightarrow> False));
       jcs_encode B b bound;
       Some ()
     }"

definition validate_v2 :: "backend \<Rightarrow> json \<Rightarrow> bounds \<Rightarrow> unit result" where
  "validate_v2 B selector b =
     do {
       members \<leftarrow> (case selector of Object m \<Rightarrow> Some m | _ \<Rightarrow> None);
       kind \<leftarrow> member_str members ''kind'';
       reject_if (\<not> recognized_member_set members);
       if kind = ''all'' then Some ()
       else if kind = ''equals'' then validate_equals B members b
       else if kind = ''one_of'' then validate_one_of B members b
       else if kind = ''lte'' \<or> kind = ''gte'' then validate_range B members b
       else None
     }"

definition eval_range ::
  "(bytes \<times> json) list \<Rightarrow> json \<Rightarrow> bounds \<Rightarrow> range_order \<Rightarrow> bool result" where
  "eval_range members cast_arguments b order =
     do {
       reject_if (length members \<noteq> 3);
       path \<leftarrow> extract_path members ''path'' b;
       bound \<leftarrow> member_value members ''value'';
       found \<leftarrow> traverse cast_arguments path;
       Some (case (found, bound) of
               (Integer x, Integer y) \<Rightarrow> (case order of Lte \<Rightarrow> x \<le> y | Gte \<Rightarrow> x \<ge> y)
             | (Float x, Float y) \<Rightarrow> (case order of Lte \<Rightarrow> f64_le x y | Gte \<Rightarrow> f64_le y x)
             | _ \<Rightarrow> False)
     }"

definition evaluate_v2 :: "backend \<Rightarrow> json \<Rightarrow> json \<Rightarrow> bounds \<Rightarrow> bool result" where
  "evaluate_v2 B selector cast_arguments b =
     do {
       validate_v2 B selector b;
       members \<leftarrow> (case selector of Object m \<Rightarrow> Some m | _ \<Rightarrow> None);
       kind \<leftarrow> member_str members ''kind'';
       reject_if (\<not> recognized_member_set members);
       if kind = ''all'' then Some True
       else if kind = ''equals'' then eval_equals members cast_arguments b
       else if kind = ''one_of'' then eval_one_of members cast_arguments b
       else if kind = ''lte'' then eval_range members cast_arguments b Lte
       else if kind = ''gte'' then eval_range members cast_arguments b Gte
       else None
     }"

end
