(* ===== verification/Selector_Facts.thy ===== *)
theory Selector_Facts
  imports Selector Json_Roundtrip
begin

text \<open>
  The selector algebra meets its contract: semantic identity is equality of canonical forms, hence of
  canonical texts; evaluation has a closed set of kinds, fails closed on a path that does not resolve,
  never compares across tags; and version 2 extends version 1.
\<close>

section \<open>Semantic identity as equality of canonical forms\<close>

fun dup_free :: "json \<Rightarrow> bool" where
  "dup_free (Array xs) = (\<forall>x \<in> set xs. dup_free x)"
| "dup_free (Object ms) = (distinct (map fst ms) \<and> (\<forall>m \<in> set ms. dup_free (snd m)))"
| "dup_free _ = True"

lemma identity_items_iff:
  "length xs = length ys \<Longrightarrow> identity_items xs ys \<longleftrightarrow> list_all2 semantic_identity xs ys"
  by (induction xs ys rule: list_induct2) auto

lemma identity_members_iff:
  "identity_members ms ys \<longleftrightarrow> (\<forall>m \<in> set ms. \<exists>w. map_of ys (fst m) = Some w \<and> semantic_identity (snd m) w)"
  by (induction ms) (auto split: option.splits)

lemma identity_objects:
  "semantic_identity (Object xs) (Object ys) \<longleftrightarrow>
     distinct (map fst xs) \<and> distinct (map fst ys) \<and> length xs = length ys \<and>
     (\<forall>m \<in> set xs. \<exists>w. (fst m, w) \<in> set ys \<and> semantic_identity (snd m) w)"
  by (auto simp: unique_keys_def identity_members_iff map_of_eq_Some_iff)

lemma subset_mset:
  assumes "distinct xs" "distinct ys" "length xs = length ys" "set xs \<subseteq> set ys"
  shows "mset xs = mset ys"
proof -
  have "card (set xs) = card (set ys)" using assms by (simp add: distinct_card)
  then have "set xs = set ys" using assms(4) by (simp add: card_subset_eq)
  then show ?thesis using assms(1,2) by (metis set_eq_iff_mset_eq_distinct)
qed

abbreviation canon_member :: "bytes \<times> json \<Rightarrow> bytes \<times> json" where
  "canon_member \<equiv> map_prod (\<lambda>k. k) canon"

lemma canon_object_mset:
  assumes "mset (map canon_member xs) = mset (map canon_member ys)"
    and "distinct (map fst xs)" "\<forall>m \<in> set xs. utf8_valid (fst m)"
  shows "canon (Object xs) = canon (Object ys)"
  unfolding canon.simps json.inject
  by (rule utf16.sort_unique) (use assms in \<open>auto simp: comp_def\<close>)

lemma canon_object_members:
  assumes "canon (Object xs) = canon (Object ys)"
  shows "mset (map canon_member xs) = mset (map canon_member ys)"
proof -
  have "sort_by (by_name utf16_compare) (map canon_member xs) =
      sort_by (by_name utf16_compare) (map canon_member ys)" using assms by simp
  then show ?thesis by (metis mset_sort_by)
qed

lemma identity_objects_canon:
  assumes IH: "\<And>m w. m \<in> set xs \<Longrightarrow> w \<in> snd ` set ys \<Longrightarrow> semantic_identity (snd m) w \<longleftrightarrow> canon (snd m) = canon w"
    and d: "distinct (map fst xs)" "distinct (map fst ys)"
    and u: "\<forall>m \<in> set xs. utf8_valid (fst m)"
  shows "semantic_identity (Object xs) (Object ys) \<longleftrightarrow> canon (Object xs) = canon (Object ys)"
proof
  assume "semantic_identity (Object xs) (Object ys)"
  then have len: "length xs = length ys"
    and ex: "\<forall>m \<in> set xs. \<exists>w. (fst m, w) \<in> set ys \<and> semantic_identity (snd m) w"
    unfolding identity_objects by blast+
  have "set (map canon_member xs) \<subseteq> set (map canon_member ys)"
  proof
    fix n assume "n \<in> set (map canon_member xs)"
    then obtain m where m: "m \<in> set xs" "n = (fst m, canon (snd m))" by auto
    with ex obtain w where w: "(fst m, w) \<in> set ys" "semantic_identity (snd m) w" by blast
    then have "canon (snd m) = canon w" using IH [OF m(1), of w] by force
    then show "n \<in> set (map canon_member ys)" using w(1) m(2) by force
  qed
  moreover have "distinct (map canon_member zs)" if "distinct (map fst zs)" for zs
  proof -
    have "distinct (map fst (map canon_member zs))" using that by (simp add: comp_def)
    then show ?thesis unfolding distinct_map [of fst] by blast
  qed
  ultimately have "mset (map canon_member xs) = mset (map canon_member ys)"
    using d len by (intro subset_mset) simp_all
  then show "canon (Object xs) = canon (Object ys)" using d(1) u by (rule canon_object_mset)
next
  assume "canon (Object xs) = canon (Object ys)"
  then have ms: "mset (map canon_member xs) = mset (map canon_member ys)" by (rule canon_object_members)
  have "\<exists>w. (fst m, w) \<in> set ys \<and> semantic_identity (snd m) w" if m: "m \<in> set xs" for m
  proof -
    have "canon_member m \<in> set (map canon_member xs)" using m by simp
    then have "canon_member m \<in> set (map canon_member ys)" using ms by (metis set_mset_mset)
    then obtain k w where w: "(k, w) \<in> set ys" "canon_member m = (k, canon w)" by force
    then have "k = fst m" "canon (snd m) = canon w" by (cases m; simp)+
    moreover have "w \<in> snd ` set ys" using w(1) by force
    ultimately show ?thesis using IH [OF m] w(1) by blast
  qed
  moreover have "length xs = length ys" using ms by (metis length_map size_mset)
  ultimately show "semantic_identity (Object xs) (Object ys)" unfolding identity_objects using d by blast
qed

lemma identity_canon:
  "portable a \<Longrightarrow> portable c \<Longrightarrow> dup_free a \<Longrightarrow> dup_free c \<Longrightarrow>
   semantic_identity a c \<longleftrightarrow> canon a = canon c"
proof (induction a arbitrary: c)
  case (Array xs)
  show ?case
  proof (cases c)
    case (Array ys)
    have IH: "semantic_identity x y \<longleftrightarrow> canon x = canon y" if "x \<in> set xs" "y \<in> set ys" for x y
      using that Array.IH [of x y] Array.prems Array by simp
    have "list_all2 semantic_identity xs ys \<longleftrightarrow> list_all2 (\<lambda>x y. canon x = canon y) xs ys"
      using IH by (auto simp: list_all2_conv_all_nth)
    also have "\<dots> \<longleftrightarrow> map canon xs = map canon ys"
      by (simp add: list_eq_iff_nth_eq list_all2_conv_all_nth conj_commute cong: conj_cong)
    finally have all: "list_all2 semantic_identity xs ys \<longleftrightarrow> map canon xs = map canon ys" .
    show ?thesis
    proof (cases "length xs = length ys")
      case True
      then show ?thesis using all by (simp add: Array identity_items_iff)
    next
      case False
      then have "map canon xs \<noteq> map canon ys" by (metis length_map)
      then show ?thesis using False by (simp add: Array)
    qed
  qed simp_all
next
  case (Object xs)
  show ?case
  proof (cases c)
    case (Object ys)
    show ?thesis unfolding Object
    proof (rule identity_objects_canon)
      show "semantic_identity (snd m) w \<longleftrightarrow> canon (snd m) = canon w"
        if "m \<in> set xs" "w \<in> snd ` set ys" for m w
        using that Object.prems Object by (intro Object.IH [of m]) (auto simp: snds.simps)
    qed (use Object.prems Object in simp_all)
  qed simp_all
qed (simp_all split: json.splits)

lemma encodable_dup_free: "encodable b d v \<Longrightarrow> dup_free v"
  by (induction v arbitrary: d) (fastforce simp: snds.simps)+

lemma identity_text:
  assumes "jcs_encode B b a = Some s" "jcs_encode B b c = Some t" "portable a" "portable c"
    and "integers_fit b" "jcs_bytes b \<le> json_bytes b"
  shows "semantic_identity a c \<longleftrightarrow> s = t"
proof -
  have e: "encodable b 1 a" "encodable b 1 c" "s = jcs_text B a" "t = jcs_text B c"
    using assms(1,2) by (simp_all add: jcs_encode_Some)
  have "semantic_identity a c \<longleftrightarrow> canon a = canon c"
    using assms(3,4) e(1,2) by (intro identity_canon) (auto dest: encodable_dup_free)
  moreover have "canon a = canon c \<Longrightarrow> s = t" using e(3,4) by (simp add: jcs_text_def)
  moreover have "s = t \<Longrightarrow> canon a = canon c" using jcs_text_determines assms by blast
  ultimately show ?thesis by blast
qed

section \<open>Semantic identity is a partial equivalence\<close>

fun self_identical :: "json \<Rightarrow> bool" where
  "self_identical (Float f) = (f \<noteq> NaN)"
| "self_identical (Array xs) = (\<forall>x \<in> set xs. self_identical x)"
| "self_identical (Object ms) = (distinct (map fst ms) \<and> (\<forall>m \<in> set ms. self_identical (snd m)))"
| "self_identical _ = True"

lemma identity_arrays:
  "semantic_identity (Array xs) (Array ys) \<longleftrightarrow> list_all2 semantic_identity xs ys"
  by (cases "length xs = length ys") (simp_all add: identity_items_iff list_all2_conv_all_nth)

lemma identity_refl: "semantic_identity a a \<longleftrightarrow> self_identical a"
proof (induction a)
  case (Array xs)
  then show ?case unfolding identity_arrays by (auto simp: list_all2_same)
next
  case (Object ms)
  have IH: "semantic_identity (snd m) (snd m) \<longleftrightarrow> self_identical (snd m)" if "m \<in> set ms" for m
    using that by (intro Object.IH [of m]) (auto simp: snds.simps)
  have "(\<exists>w. (fst m, w) \<in> set ms \<and> semantic_identity (snd m) w) \<longleftrightarrow> self_identical (snd m)"
    if "m \<in> set ms" "distinct (map fst ms)" for m
    using that IH by (metis eq_key_imp_eq_value prod.collapse)
  then show ?case unfolding identity_objects self_identical.simps by blast
qed (simp_all add: f64_eq_refl)

lemma members_matched:
  assumes "distinct (map fst xs)" "distinct (map fst ys)" "length xs = length ys"
    and "\<forall>m \<in> set xs. \<exists>w. (fst m, w) \<in> set ys \<and> semantic_identity (snd m) w" "n \<in> set ys"
  obtains v where "(fst n, v) \<in> set xs" "semantic_identity v (snd n)"
proof -
  have "set (map fst xs) \<subseteq> set (map fst ys)" using assms(4) by force
  then have "mset (map fst xs) = mset (map fst ys)" using assms by (intro subset_mset) simp_all
  then have "fst n \<in> set (map fst xs)" using assms(5) by (metis image_eqI list.set_map set_mset_mset)
  then obtain v where v: "(fst n, v) \<in> set xs" by auto
  with assms(4) obtain w where w: "(fst n, w) \<in> set ys" "semantic_identity v w" by force
  then have "w = snd n" using assms(2,5) by (metis eq_key_imp_eq_value prod.collapse)
  then show thesis using that v w by blast
qed

lemma identity_sym: "semantic_identity a c \<Longrightarrow> semantic_identity c a"
proof (induction a arbitrary: c)
  case (Array xs)
  from Array.prems obtain ys where c: "c = Array ys" by (cases c) simp_all
  have all: "length xs = length ys" "\<forall>i < length xs. semantic_identity (xs ! i) (ys ! i)"
    using Array.prems unfolding c identity_arrays list_all2_conv_all_nth by blast+
  have "semantic_identity (ys ! i) (xs ! i)" if "i < length xs" for i
    by (rule Array.IH) (use that all in simp_all)
  then show ?case unfolding c identity_arrays list_all2_conv_all_nth using all(1) by simp
next
  case (Object xs)
  from Object.prems obtain ys where c: "c = Object ys" by (cases c) simp_all
  have o: "distinct (map fst xs)" "distinct (map fst ys)" "length xs = length ys"
    "\<forall>m \<in> set xs. \<exists>w. (fst m, w) \<in> set ys \<and> semantic_identity (snd m) w"
    using Object.prems unfolding c identity_objects by blast+
  have "\<exists>v. (fst n, v) \<in> set xs \<and> semantic_identity (snd n) v" if n: "n \<in> set ys" for n
  proof -
    obtain v where v: "(fst n, v) \<in> set xs" "semantic_identity v (snd n)"
      using members_matched [OF o n] .
    have "semantic_identity (snd n) v"
      by (rule Object.IH [OF v(1)]) (use v(2) in \<open>auto simp: snds.simps\<close>)
    then show ?thesis using v by blast
  qed
  then show ?case unfolding c identity_objects using o by simp
next
  case (Float f)
  then obtain g where "c = Float g" "f64_eq f g" by (cases c) simp_all
  then show ?case using f64_eq_sym by simp
qed (simp_all split: json.splits)

lemma identity_trans: "semantic_identity a c \<Longrightarrow> semantic_identity c e \<Longrightarrow> semantic_identity a e"
proof (induction a arbitrary: c e)
  case (Array xs)
  then obtain ys where c: "c = Array ys" by (cases c) simp_all
  with Array obtain zs where e: "e = Array zs" by (cases e) simp_all
  have "list_all2 semantic_identity xs ys" "list_all2 semantic_identity ys zs"
    using Array.prems unfolding c e identity_arrays by blast+
  then have "semantic_identity (xs ! i) (zs ! i)" if "i < length xs" for i
    using that Array.IH [of "xs ! i" "ys ! i" "zs ! i"] by (auto simp: list_all2_conv_all_nth)
  then show ?case using \<open>list_all2 semantic_identity xs ys\<close> \<open>list_all2 semantic_identity ys zs\<close>
    unfolding e identity_arrays by (simp add: list_all2_conv_all_nth)
next
  case (Object xs)
  then obtain ys where c: "c = Object ys" by (cases c) simp_all
  with Object obtain zs where e: "e = Object zs" by (cases e) simp_all
  have o: "distinct (map fst xs)" "length xs = length ys"
    "\<forall>m \<in> set xs. \<exists>w. (fst m, w) \<in> set ys \<and> semantic_identity (snd m) w"
    and p: "distinct (map fst zs)" "length ys = length zs"
    "\<forall>m \<in> set ys. \<exists>w. (fst m, w) \<in> set zs \<and> semantic_identity (snd m) w"
    using Object.prems unfolding c e identity_objects by blast+
  have "\<exists>w. (fst m, w) \<in> set zs \<and> semantic_identity (snd m) w" if m: "m \<in> set xs" for m
  proof -
    obtain u where u: "(fst m, u) \<in> set ys" "semantic_identity (snd m) u" using o(3) m by blast
    then obtain w where w: "(fst m, w) \<in> set zs" "semantic_identity u w" using p(3) by force
    have "semantic_identity (snd m) w"
      using Object.IH [OF m _ u(2) w(2)] by (auto simp: snds.simps)
    then show ?thesis using w(1) by blast
  qed
  then show ?case unfolding e identity_objects using o p by simp
next
  case (Float f)
  then obtain g where c: "c = Float g" by (cases c) simp_all
  with Float obtain h where e: "e = Float h" by (cases e) simp_all
  show ?case using Float f64_eq_trans unfolding c e by simp
qed (simp_all split: json.splits)

section \<open>What a selector denotes\<close>

text \<open>
  The abstract syntax of a selector and its meaning on the arguments: reading the selector is the only
  step that can reject its shape, and the meaning fails only when the path does not resolve.
\<close>

datatype selector =
    Any
  | Equals "bytes list" json
  | One_of "bytes list" "json list"
  | Within range_order "bytes list" json

fun ordered :: "range_order \<Rightarrow> json \<Rightarrow> json \<Rightarrow> bool" where
  "ordered Lte (Integer x) (Integer y) = (x \<le> y)"
| "ordered Gte (Integer x) (Integer y) = (y \<le> x)"
| "ordered Lte (Float x) (Float y) = f64_le x y"
| "ordered Gte (Float x) (Float y) = f64_le y x"
| "ordered _ _ _ = False"

fun meaning :: "selector \<Rightarrow> json \<Rightarrow> bool result" where
  "meaning Any args = Some True"
| "meaning (Equals path v) args = map_option (\<lambda>found. semantic_identity found v) (traverse args path)"
| "meaning (One_of path vs) args = map_option (\<lambda>found. \<exists>v \<in> set vs. semantic_identity v found) (traverse args path)"
| "meaning (Within ord path v) args = map_option (\<lambda>found. ordered ord found v) (traverse args path)"

definition is_numeric :: "json \<Rightarrow> bool" where
  "is_numeric v = (case v of Integer _ \<Rightarrow> True | Float _ \<Rightarrow> True | _ \<Rightarrow> False)"

definition read_with_value ::
  "backend \<Rightarrow> bounds \<Rightarrow> (bytes \<times> json) list \<Rightarrow> (bytes list \<Rightarrow> json \<Rightarrow> selector) \<Rightarrow> selector result" where
  "read_with_value B b members build =
     (case (extract_path members ''path'' b, map_of members ''value'') of
        (Some path, Some v) \<Rightarrow> if jcs_encode B b v = None then None else Some (build path v)
      | _ \<Rightarrow> None)"

definition read_one_of :: "backend \<Rightarrow> bounds \<Rightarrow> (bytes \<times> json) list \<Rightarrow> selector result" where
  "read_one_of B b members =
     (case (extract_path members ''path'' b, map_of members ''values'') of
        (Some path, Some (Array vs)) \<Rightarrow>
          if vs \<noteq> [] \<and> length vs \<le> one_of_values b \<and> (\<forall>v \<in> set vs. jcs_encode B b v \<noteq> None)
          then Some (One_of path vs) else None
      | _ \<Rightarrow> None)"

definition read_kind :: "backend \<Rightarrow> bounds \<Rightarrow> (bytes \<times> json) list \<Rightarrow> bytes \<Rightarrow> selector result" where
  "read_kind B b members kind =
     (if kind = ''all'' then Some Any
      else if kind = ''equals'' then read_with_value B b members Equals
      else if kind = ''one_of'' then read_one_of B b members
      else if kind = ''lte'' \<or> kind = ''gte'' then
        (if \<exists>v. map_of members ''value'' = Some v \<and> is_numeric v
         then read_with_value B b members (Within (if kind = ''lte'' then Lte else Gte)) else None)
      else None)"

definition read_selector :: "backend \<Rightarrow> bounds \<Rightarrow> json \<Rightarrow> selector result" where
  "read_selector B b v =
     (case v of
        Object members \<Rightarrow>
          if recognized_member_set members
          then (case map_of members ''kind'' of Some (String kind) \<Rightarrow> read_kind B b members kind | _ \<Rightarrow> None)
          else None
      | _ \<Rightarrow> None)"

lemma encode_each_iff: "encode_each B b vs = Some () \<longleftrightarrow> (\<forall>v \<in> set vs. jcs_encode B b v \<noteq> None)"
  by (induction vs) auto

lemma extracted_three:
  assumes "recognized_member_set members" "extract_path members ''path'' b = Some path"
    and "member_str members ''kind'' = Some kind"
  shows "length members = 3"
proof (rule ccontr)
  assume "length members \<noteq> 3"
  then obtain k v where "members = [(k, v)]"
    using assms(1) by (auto simp: recognized_member_set_def Let_def length_Suc_conv)
  then show False using assms(2,3)
    by (auto simp: extract_path_def member_str_def member_value_def split: if_splits option.splits)
qed

lemma eval_equals_eq:
  assumes "length members = 3" "extract_path members ''path'' b = Some path" "map_of members ''value'' = Some v"
  shows "eval_equals members args b = meaning (Equals path v) args"
  using assms by (simp add: eval_equals_def member_value_def map_option_case split: option.split)

lemma eval_one_of_eq:
  assumes "length members = 3" "extract_path members ''path'' b = Some path"
    and "map_of members ''values'' = Some (Array vs)" "vs \<noteq> []" "length vs \<le> one_of_values b"
  shows "eval_one_of members args b = meaning (One_of path vs) args"
  using assms by (simp add: eval_one_of_def member_value_def map_option_case list_ex_iff split: option.split)

lemma eval_range_eq:
  assumes "length members = 3" "extract_path members ''path'' b = Some path" "map_of members ''value'' = Some v"
  shows "eval_range members args b order = meaning (Within order path v) args"
  using assms
  by (cases order; simp add: eval_range_def member_value_def map_option_case split: option.split json.split)

lemma validate_equals_read:
  "validate_equals B members b = Some () \<longleftrightarrow> read_with_value B b members build \<noteq> None"
  by (auto simp: validate_equals_def read_with_value_def member_value_def split: option.splits)

lemma validate_one_of_read:
  "validate_one_of B members b = Some () \<longleftrightarrow> read_one_of B b members \<noteq> None"
  by (auto simp: validate_one_of_def read_one_of_def member_value_def encode_each_iff
      split: option.splits json.splits if_splits)

lemma validate_range_read:
  "validate_range B members b = Some () \<longleftrightarrow>
     (\<exists>v. map_of members ''value'' = Some v \<and> is_numeric v) \<and> read_with_value B b members build \<noteq> None"
  by (auto simp: validate_range_def read_with_value_def member_value_def is_numeric_def
      split: option.splits json.splits)

definition as_object :: "json \<Rightarrow> (bytes \<times> json) list result" where
  "as_object v = (case v of Object ms \<Rightarrow> Some ms | _ \<Rightarrow> None)"

lemma read_kind_path:
  "read_kind B b members kind = Some s \<Longrightarrow> kind \<noteq> ''all'' \<Longrightarrow> \<exists>path. extract_path members ''path'' b = Some path"
  by (auto simp: read_kind_def read_with_value_def read_one_of_def split: if_splits option.splits)

lemma read_with_value_Some:
  "read_with_value B b members build = Some s \<longleftrightarrow>
     (\<exists>path v. extract_path members ''path'' b = Some path \<and> map_of members ''value'' = Some v \<and>
        jcs_encode B b v \<noteq> None \<and> s = build path v)"
  by (auto simp: read_with_value_def split: option.splits)

lemma read_one_of_Some:
  "read_one_of B b members = Some s \<longleftrightarrow>
     (\<exists>path vs. extract_path members ''path'' b = Some path \<and> map_of members ''values'' = Some (Array vs) \<and>
        vs \<noteq> [] \<and> length vs \<le> one_of_values b \<and> (\<forall>v \<in> set vs. jcs_encode B b v \<noteq> None) \<and> s = One_of path vs)"
  by (auto simp: read_one_of_def split: option.splits json.splits)

lemma member_str_kind:
  "member_str members ''kind'' = (case map_of members ''kind'' of Some (String kind) \<Rightarrow> Some kind | _ \<Rightarrow> None)"
  by (simp add: member_str_def member_value_def)

lemma read_selector_eq:
  "read_selector B b v =
     do {
       members \<leftarrow> as_object v;
       kind \<leftarrow> member_str members ''kind'';
       if recognized_member_set members then read_kind B b members kind else None
     }"
  by (auto simp: read_selector_def as_object_def member_str_kind split: json.split option.split)

lemma validate_kind_read:
  "(if kind = ''all'' then Some ()
    else if kind = ''equals'' then validate_equals B members b
    else if kind = ''one_of'' then validate_one_of B members b
    else if kind = ''lte'' \<or> kind = ''gte'' then validate_range B members b
    else None) = Some () \<longleftrightarrow> read_kind B b members kind \<noteq> None"
proof (cases "kind \<in> {''all'', ''equals'', ''one_of'', ''lte'', ''gte''}")
  case True
  then show ?thesis
    by (auto simp: read_kind_def validate_equals_read [where build = Equals] validate_one_of_read
        validate_range_read [where build = "Within (if kind = ''lte'' then Lte else Gte)"])
qed (simp add: read_kind_def)

lemma validate_v2_read: "validate_v2 B v b = Some () \<longleftrightarrow> read_selector B b v \<noteq> None"
  unfolding validate_v2_def read_selector_eq as_object_def [symmetric]
  by (cases "as_object v"; simp; rename_tac ms; case_tac "member_str ms ''kind''"; simp add: validate_kind_read)

lemma dispatch_v2:
  assumes "recognized_member_set members" "member_str members ''kind'' = Some kind"
    and "read_kind B b members kind = Some s"
  shows "(if kind = ''all'' then Some True
          else if kind = ''equals'' then eval_equals members args b
          else if kind = ''one_of'' then eval_one_of members args b
          else if kind = ''lte'' then eval_range members args b Lte
          else if kind = ''gte'' then eval_range members args b Gte
          else None) = meaning s args"
proof (cases "kind = ''all''")
  case True
  then show ?thesis using assms(3) by (simp add: read_kind_def)
next
  case False
  then obtain path where path: "extract_path members ''path'' b = Some path"
    using read_kind_path [OF assms(3)] by blast
  have three: "length members = 3" using assms(1) path assms(2) by (rule extracted_three)
  show ?thesis using False assms(3) path
    by (auto simp: read_kind_def read_with_value_Some read_one_of_Some eval_equals_eq [OF three]
        eval_one_of_eq [OF three] eval_range_eq [OF three] split: if_splits)
qed

lemma evaluate_v2_meaning:
  "evaluate_v2 B v args b = do { s \<leftarrow> read_selector B b v; meaning s args }"
proof (cases "read_selector B b v")
  case None
  then have "validate_v2 B v b = None" using validate_v2_read [of B v b] by (cases "validate_v2 B v b") simp_all
  then show ?thesis using None by (simp add: evaluate_v2_def)
next
  case (Some s)
  then have valid: "validate_v2 B v b = Some ()" using validate_v2_read [of B v b] by simp
  obtain members kind where m: "as_object v = Some members" "member_str members ''kind'' = Some kind"
    "recognized_member_set members" "read_kind B b members kind = Some s"
    using Some unfolding read_selector_eq by (auto simp: accept split: if_splits)
  show ?thesis using valid m(1,2,3) dispatch_v2 [OF m(3,2,4)]
    by (simp add: evaluate_v2_def as_object_def [symmetric] Some)
qed

definition range_kind :: "json \<Rightarrow> bool" where
  "range_kind v = (case v of
      Object members \<Rightarrow> map_of members ''kind'' \<in> {Some (String ''lte''), Some (String ''gte'')}
    | _ \<Rightarrow> False)"

lemma validate_v1: "validate B v b = (if range_kind v then None else validate_v2 B v b)"
  by (auto simp: validate_def validate_v2_def range_kind_def member_str_kind split: json.split option.split)

lemma evaluate_v1: "evaluate B v args b = (if range_kind v then None else evaluate_v2 B v args b)"
  by (auto simp: evaluate_def evaluate_v2_def validate_v1 range_kind_def member_str_kind
      split: json.split option.split)

section \<open>Properties\<close>



text \<open>Semantic identity is symmetric and transitive on all values, floats included, and reflexive
  exactly on the values without NaN and without duplicate member names.\<close>

theorem identity_partial_equivalence:
  "(semantic_identity a a \<longleftrightarrow> self_identical a) \<and> (semantic_identity a c \<longleftrightarrow> semantic_identity c a) \<and>
   (semantic_identity a c \<and> semantic_identity c e \<longrightarrow> semantic_identity a e)"
  using identity_refl identity_sym identity_trans by blast

theorem identity_partial_equivalence_witness:
  "semantic_identity (Object [(''a'', Null), (''b'', Float (Finite True 0))])
     (Object [(''a'', Null), (''b'', Float (Finite True 0))])"
  using identity_partial_equivalence
    [of "Object [(''a'', Null), (''b'', Float (Finite True 0))]"
      "Object [(''b'', Float (Finite False 0)), (''a'', Null)]"
      "Object [(''a'', Null), (''b'', Float (Finite True 0))]"]
  by (simp add: unique_keys_def)

text \<open>C40: Evaluating a version 2 selector is reading its shape, without the arguments, and then taking its
  meaning: \<open>equals\<close> and \<open>one_of\<close> compare by semantic identity, \<open>lte\<close> and \<open>gte\<close> inclusively within one
  numeric tag, and the meaning fails only when the path does not resolve through objects.\<close>

theorem evaluate_v2_refines:
  "evaluate_v2 B v args b = do { s \<leftarrow> read_selector B b v; meaning s args }"
  by (rule evaluate_v2_meaning)

text \<open>Version 1 rejects the range kinds and agrees with version 2 on every other selector, malformed
  ones included.\<close>

theorem evaluate_v1_restricts_v2:
  "evaluate B v args b = (if range_kind v then None else evaluate_v2 B v args b)"
  by (rule evaluate_v1)

end
