(* ===== verification/Claims.thy ===== *)
theory Claims
  imports Types Base64url Uri Selector Jwk
begin

text \<open>
  The closed-set validators of the version 1 profile (\<open>sdks/rust/src/v1.rs\<close>, lines 3085 to 3745): the
  protected headers, the grant and proof claim tables and the scalar claim types.

  Every header and claim table is read by the same loop: a known name overwrites its slot, an unknown
  name is rejected. The slots of the source are the map that \<open>collect\<close> threads.
\<close>

section \<open>Constants and the closed member loop\<close>

definition ALG_EDDSA :: bytes where "ALG_EDDSA = ''EdDSA''"
definition TYP_GRANT :: bytes where "TYP_GRANT = ''ba+cap''"
definition TYP_PROOF :: bytes where "TYP_PROOF = ''dpop+jwt''"
definition TYP_LOCAL_LOOPBACK_HTTP_PROOF :: bytes where
  "TYP_LOCAL_LOOPBACK_HTTP_PROOF = ''ba+loopback-proof''"
definition TYP_CHAIN_ANCHOR :: bytes where "TYP_CHAIN_ANCHOR = ''ba+chain-anchor''"
definition TYP_KEY_TRANSITION :: bytes where "TYP_KEY_TRANSITION = ''ba+key-transition''"

datatype proof_profile = Standard | LocalLoopbackHttp

fun proof_typ :: "proof_profile \<Rightarrow> bytes" where
  "proof_typ Standard = TYP_PROOF"
| "proof_typ LocalLoopbackHttp = TYP_LOCAL_LOOPBACK_HTTP_PROOF"

fun collect :: "bytes list \<Rightarrow> (bytes \<times> json) list \<Rightarrow> (bytes \<Rightarrow> json option) \<Rightarrow> (bytes \<Rightarrow> json option) result" where
  "collect names [] slots = Some slots"
| "collect names ((name, v) # ms) slots =
     (if name \<in> set names then collect names ms (slots(name := Some v)) else None)"

definition members_of :: "json \<Rightarrow> (bytes \<times> json) list result" where
  "members_of v = (case v of Object m \<Rightarrow> Some m | _ \<Rightarrow> None)"

definition items_of :: "json \<Rightarrow> json list result" where
  "items_of v = (case v of Array a \<Rightarrow> Some a | _ \<Rightarrow> None)"

definition string_of :: "json option \<Rightarrow> bytes result" where
  "string_of v = (case v of Some (String s) \<Rightarrow> Some s | _ \<Rightarrow> None)"

section \<open>Scalars\<close>

definition is_kid_byte :: "u8 \<Rightarrow> bool" where
  "is_kid_byte c \<longleftrightarrow> is_ascii_alphanumeric c \<or> c \<in> set ''-._~''"

definition is_htm_byte :: "u8 \<Rightarrow> bool" where
  "is_htm_byte c \<longleftrightarrow> is_ascii_alphanumeric c \<or> c \<in> set (CHR 0x21 # CHR 0x23 # CHR 0x27 # CHR 0x60 # ''$%&*+-.^_|~'')"

definition is_printable_ascii :: "u8 \<Rightarrow> bool" where
  "is_printable_ascii c \<longleftrightarrow> 0x20 \<le> byte c \<and> byte c \<le> 0x7E"

definition validate_kid :: "bytes \<Rightarrow> bounds \<Rightarrow> unit result" where
  "validate_kid s b =
     do { reject_if (s = [] \<or> length s > kid_bytes b); reject_if (\<not> list_all is_kid_byte s); Some () }"

definition validate_method_token :: "bytes \<Rightarrow> bounds \<Rightarrow> unit result" where
  "validate_method_token s b =
     do { reject_if (s = [] \<or> length s > method_bytes b); reject_if (\<not> list_all is_htm_byte s); Some () }"

definition validate_operation_name :: "bytes \<Rightarrow> bounds \<Rightarrow> unit result" where
  "validate_operation_name s b =
     do { reject_if (s = [] \<or> length s > operation_bytes b); reject_if (\<not> list_all is_printable_ascii s); Some () }"

text \<open>The loop over \<open>enumerate\<close>: hyphens at four positions, lowercase hex elsewhere.\<close>

fun uuid_bytes :: "nat \<Rightarrow> bytes \<Rightarrow> unit result" where
  "uuid_bytes i [] = Some ()"
| "uuid_bytes i (c # cs) =
     (if i = 8 \<or> i = 13 \<or> i = 18 \<or> i = 23 then
        (if c \<noteq> CHR ''-'' then None else uuid_bytes (i + 1) cs)
      else if \<not> is_ascii_digit c \<and> \<not> in_range CHR ''a'' CHR ''f'' c then None
      else uuid_bytes (i + 1) cs)"

definition validate_uuid :: "bytes \<Rightarrow> unit result" where
  "validate_uuid s = do { reject_if (length s \<noteq> 36); uuid_bytes 0 s }"

section \<open>Identifiers\<close>

definition validate_scheme :: "bytes \<Rightarrow> unit result" where
  "validate_scheme scheme =
     do {
       reject_if (scheme = [] \<or> \<not> is_ascii_alphabetic (hd scheme));
       reject_if (\<not> list_all (\<lambda>c. is_ascii_alphanumeric c \<or> c \<in> set ''+-.'') scheme);
       Some ()
     }"

definition is_hex :: "u8 \<Rightarrow> bool" where
  "is_hex c \<longleftrightarrow> is_ascii_digit c \<or> (0x41 \<le> byte c \<and> byte c \<le> 0x46) \<or> (0x61 \<le> byte c \<and> byte c \<le> 0x66)"

definition URI_PUNCT :: bytes where
  "URI_PUNCT = CHR 0x23 # CHR 0x27 # ''-._~:/?[]@!$&()*+,;=''"

fun validate_uri_bytes :: "bytes \<Rightarrow> unit result" where
  "validate_uri_bytes [] = Some ()"
| "validate_uri_bytes (c # cs) =
     (if is_ascii_alphanumeric c \<or> c \<in> set URI_PUNCT then validate_uri_bytes cs
      else if c = CHR ''%'' then
        (case cs of
           h1 # h2 # r \<Rightarrow> if is_hex h1 \<and> is_hex h2 then validate_uri_bytes r else None
         | _ \<Rightarrow> None)
      else None)"

definition validate_authority_port :: "bytes \<Rightarrow> unit result" where
  "validate_authority_port s =
     (case find_scheme_end s of
        None \<Rightarrow> Some ()
      | Some i \<Rightarrow>
          (let after_scheme_host = drop (i + 3) s;
               authority = takeWhile (\<lambda>c. c \<notin> {CHR ''/'', CHR ''?'', CHR 0x23}) after_scheme_host
           in if starts_with ''['' authority then Some ()
              else case rposition (\<lambda>c. c = CHR '':'') authority of
                None \<Rightarrow> Some ()
              | Some c \<Rightarrow>
                  (let port = drop (c + 1) authority
                   in if port = [] \<or> \<not> list_all is_ascii_digit port then None else Some ())))"

definition validate_identifier :: "bytes \<Rightarrow> bounds \<Rightarrow> unit result" where
  "validate_identifier s b =
     do {
       reject_if (s = [] \<or> length s > identifier_bytes b);
       case position (\<lambda>c. c = CHR '':'') s of
         None \<Rightarrow> Some ()
       | Some colon \<Rightarrow>
           do {
             validate_scheme (take colon s);
             validate_uri_bytes s;
             validate_authority_port s;
             Some ()
           }
     }"

section \<open>Claim types\<close>

definition take_string_or_uri :: "json option \<Rightarrow> bounds \<Rightarrow> bytes result" where
  "take_string_or_uri v b = do { s \<leftarrow> string_of v; validate_identifier s b; Some s }"

fun audience_items :: "bounds \<Rightarrow> bytes set \<Rightarrow> json list \<Rightarrow> bytes list result" where
  "audience_items b seen [] = Some []"
| "audience_items b seen (item # items) =
     do {
       s \<leftarrow> string_of (Some item);
       validate_identifier s b;
       reject_if (s \<in> seen);
       rest \<leftarrow> audience_items b (insert s seen) items;
       Some (s # rest)
     }"

definition take_audiences :: "json option \<Rightarrow> bounds \<Rightarrow> bytes list result" where
  "take_audiences v b =
     (case v of
        Some (String s) \<Rightarrow> do { validate_identifier s b; Some [s] }
      | Some (Array items) \<Rightarrow>
          do { reject_if (items = [] \<or> length items > audiences b); audience_items b {} items }
      | _ \<Rightarrow> None)"

definition take_integral_date :: "json option \<Rightarrow> int result" where
  "take_integral_date v = (case v of Some (Integer n) \<Rightarrow> Some n | _ \<Rightarrow> None)"

definition take_digest_b64u :: "json option \<Rightarrow> bounds \<Rightarrow> bytes result" where
  "take_digest_b64u v b =
     do {
       s \<leftarrow> string_of v;
       reject_if (length s > encoded_segment_bytes b);
       raw \<leftarrow> base64url_decode s;
       reject_if (length raw \<noteq> 32);
       Some raw
     }"

definition take_cnf_jkt :: "json option \<Rightarrow> bounds \<Rightarrow> bytes result" where
  "take_cnf_jkt v b =
     do {
       v \<leftarrow> v;
       members \<leftarrow> members_of v;
       reject_if (length members \<noteq> 1);
       reject_if (fst (hd members) \<noteq> ''jkt'');
       s \<leftarrow> string_of (Some (snd (hd members)));
       reject_if (length s > encoded_segment_bytes b);
       raw \<leftarrow> base64url_decode s;
       reject_if (length raw \<noteq> 32);
       Some raw
     }"

definition take_method_token :: "json option \<Rightarrow> bounds \<Rightarrow> bytes result" where
  "take_method_token v b = do { s \<leftarrow> string_of v; validate_method_token s b; Some s }"

definition take_operation_name :: "json option \<Rightarrow> bounds \<Rightarrow> bytes result" where
  "take_operation_name v b = do { s \<leftarrow> string_of v; validate_operation_name s b; Some s }"

definition take_uuid :: "json option \<Rightarrow> bytes result" where
  "take_uuid v = do { s \<leftarrow> string_of v; validate_uuid s; Some s }"

fun validate_each :: "(json \<Rightarrow> unit result) \<Rightarrow> json list \<Rightarrow> unit result" where
  "validate_each f [] = Some ()"
| "validate_each f (v # vs) = do { f v; validate_each f vs }"

fun operation_items :: "backend \<Rightarrow> bounds \<Rightarrow> bytes set \<Rightarrow> json list \<Rightarrow> unit result" where
  "operation_items B b seen [] = Some ()"
| "operation_items B b seen (op # ops) =
     do {
       members \<leftarrow> members_of op;
       reject_if (length members \<noteq> 2);
       slots \<leftarrow> collect [''name'', ''selectors''] members Map.empty;
       name \<leftarrow> string_of (slots ''name'');
       validate_operation_name name b;
       reject_if (name \<in> seen);
       sel \<leftarrow> slots ''selectors'';
       sel_items \<leftarrow> items_of sel;
       reject_if (sel_items = [] \<or> length sel_items > selectors b);
       validate_each (\<lambda>s. validate B s b) sel_items;
       operation_items B b (insert name seen) ops
     }"

definition validate_operations :: "backend \<Rightarrow> json option \<Rightarrow> bounds \<Rightarrow> unit result" where
  "validate_operations B v b =
     do {
       v \<leftarrow> v;
       items \<leftarrow> items_of v;
       reject_if (items = [] \<or> length items > operations b);
       operation_items B b {} items
     }"

section \<open>Headers\<close>

definition validate_grant_header :: "json \<Rightarrow> bounds \<Rightarrow> bytes result" where
  "validate_grant_header header b =
     do {
       members \<leftarrow> members_of header;
       slots \<leftarrow> collect [''alg'', ''typ'', ''kid''] members Map.empty;
       reject_if (slots ''alg'' \<noteq> Some (String ALG_EDDSA));
       reject_if (slots ''typ'' \<noteq> Some (String TYP_GRANT));
       kid \<leftarrow> string_of (slots ''kid'');
       validate_kid kid b;
       Some kid
     }"

definition validate_proof_header_for :: "backend \<Rightarrow> json \<Rightarrow> bounds \<Rightarrow> proof_profile \<Rightarrow> bytes result" where
  "validate_proof_header_for B header b profile =
     do {
       members \<leftarrow> members_of header;
       slots \<leftarrow> collect [''alg'', ''typ'', ''jwk''] members Map.empty;
       reject_if (slots ''alg'' \<noteq> Some (String ALG_EDDSA));
       reject_if (slots ''typ'' \<noteq> Some (String (proof_typ profile)));
       jwk_val \<leftarrow> slots ''jwk'';
       jwk_bytes \<leftarrow> jcs_encode B b jwk_val;
       jwk_decode_public B jwk_bytes
     }"

section \<open>Claim tables\<close>

record grant_payload =
  gp_version :: int
  gp_issuer :: bytes
  gp_grant_id :: bytes
  gp_audiences :: "bytes list"
  gp_holder_thumbprint :: bytes
  gp_issued_at :: int
  gp_not_before :: int
  gp_expires_at :: int

definition grant_claims :: "bytes list" where
  "grant_claims = [''v'', ''iss'', ''jti'', ''aud'', ''iat'', ''nbf'', ''exp'', ''cnf'', ''operations'']"

definition validate_grant_payload :: "backend \<Rightarrow> json \<Rightarrow> bounds \<Rightarrow> grant_payload result" where
  "validate_grant_payload B payload b =
     do {
       members \<leftarrow> members_of payload;
       slots \<leftarrow> collect grant_claims members Map.empty;
       reject_if (slots ''v'' \<noteq> Some (Integer 1));
       issuer \<leftarrow> take_string_or_uri (slots ''iss'') b;
       grant_id \<leftarrow> take_string_or_uri (slots ''jti'') b;
       audiences \<leftarrow> take_audiences (slots ''aud'') b;
       issued_at \<leftarrow> take_integral_date (slots ''iat'');
       not_before \<leftarrow> take_integral_date (slots ''nbf'');
       expires_at \<leftarrow> take_integral_date (slots ''exp'');
       holder_thumbprint \<leftarrow> take_cnf_jkt (slots ''cnf'') b;
       validate_operations B (slots ''operations'') b;
       reject_if (\<not> (issued_at < expires_at \<and> not_before < expires_at));
       Some \<lparr>gp_version = 1, gp_issuer = issuer, gp_grant_id = grant_id, gp_audiences = audiences,
         gp_holder_thumbprint = holder_thumbprint, gp_issued_at = issued_at,
         gp_not_before = not_before, gp_expires_at = expires_at\<rparr>
     }"

record proof_payload =
  pp_proof_id :: bytes
  pp_method :: bytes
  pp_target_uri :: bytes
  pp_invocation_id :: bytes
  pp_operation :: bytes
  pp_grant_hash :: bytes
  pp_request_hash :: bytes
  pp_issued_at :: int
  pp_nonce :: "bytes option"

definition proof_claims :: "bytes list" where
  "proof_claims =
     [''v'', ''jti'', ''htm'', ''htu'', ''iat'', ''nonce'', ''ba_inv'', ''ba_op'', ''ath'', ''ba_req'']"

definition take_nonce :: "json option \<Rightarrow> bounds \<Rightarrow> bytes option result" where
  "take_nonce v b =
     (case v of
        None \<Rightarrow> Some None
      | Some (String s) \<Rightarrow>
          (if s = [] then None else if length s > nonce_bytes b then None else Some (Some s))
      | _ \<Rightarrow> None)"

definition profile_uri_normalize :: "proof_profile \<Rightarrow> bounds \<Rightarrow> bytes \<Rightarrow> bytes result" where
  "profile_uri_normalize profile b s =
     (case profile of
        Standard \<Rightarrow> uri_normalize b s
      | LocalLoopbackHttp \<Rightarrow> local_loopback_http_uri_normalize b s)"

definition validate_proof_payload_for :: "json \<Rightarrow> bounds \<Rightarrow> proof_profile \<Rightarrow> proof_payload result" where
  "validate_proof_payload_for payload b profile =
     do {
       members \<leftarrow> members_of payload;
       slots \<leftarrow> collect proof_claims members Map.empty;
       reject_if (slots ''v'' \<noteq> Some (Integer 1));
       proof_id \<leftarrow> take_string_or_uri (slots ''jti'') b;
       method \<leftarrow> take_method_token (slots ''htm'') b;
       invocation_id \<leftarrow> take_uuid (slots ''ba_inv'');
       operation \<leftarrow> take_operation_name (slots ''ba_op'') b;
       grant_hash \<leftarrow> take_digest_b64u (slots ''ath'') b;
       request_hash \<leftarrow> take_digest_b64u (slots ''ba_req'') b;
       issued_at \<leftarrow> take_integral_date (slots ''iat'');
       target_uri_input \<leftarrow> string_of (slots ''htu'');
       nonce \<leftarrow> take_nonce (slots ''nonce'') b;
       reject_if (profile = LocalLoopbackHttp \<and> nonce = None);
       target_uri \<leftarrow> profile_uri_normalize profile b target_uri_input;
       reject_if (target_uri \<noteq> target_uri_input);
       Some \<lparr>pp_proof_id = proof_id, pp_method = method, pp_target_uri = target_uri,
         pp_invocation_id = invocation_id, pp_operation = operation, pp_grant_hash = grant_hash,
         pp_request_hash = request_hash, pp_issued_at = issued_at, pp_nonce = nonce\<rparr>
     }"

section \<open>The member loop collects the last value of each name\<close>

lemma collect_eq:
  "collect names ms slots =
     (if fst ` set ms \<subseteq> set names then Some (slots ++ map_of (rev ms)) else None)"
proof (induction ms arbitrary: slots)
  case (Cons m ms)
  obtain n v where m: "m = (n, v)" by (cases m)
  have "slots(n \<mapsto> v) ++ map_of (rev ms) = slots ++ map_of (rev (m # ms))"
    by (simp add: m map_of_append map_add_assoc)
  then show ?case by (simp add: m Cons.IH)
qed simp

lemma map_of_rev: "distinct (map fst ms) \<Longrightarrow> map_of (rev ms) = map_of ms"
  by (rule map_of_inject_set [THEN iffD2]) (simp_all add: rev_map [symmetric])

lemma collect_distinct:
  "distinct (map fst ms) \<Longrightarrow>
   collect names ms Map.empty = (if fst ` set ms \<subseteq> set names then Some (map_of ms) else None)"
  by (simp add: collect_eq map_of_rev)

lemma validate_each_iff: "validate_each f vs = Some () \<longleftrightarrow> (\<forall>v \<in> set vs. f v = Some ())"
  by (induction vs) (auto simp: bind_Some)

end
