(* ===== verification/Producers.thy ===== *)
theory Producers
  imports Grant
begin

text \<open>
  The producers of signing inputs (\<open>grant_signing_input\<close>, \<open>proof_signing_input\<close> and the two archival
  ones) of \<open>sdks/rust/src/v1.rs\<close>. \<open>assemble_compact\<close>, which re-parses what it frames, is in theory
  Anchors after the decoders it needs.
\<close>

section \<open>Shared steps\<close>

definition build_produced :: "backend \<Rightarrow> json \<Rightarrow> json \<Rightarrow> bounds \<Rightarrow> produced_signing_input result" where
  "build_produced B header payload b =
     do {
       header_jcs \<leftarrow> jcs_encode B b header;
       payload_jcs \<leftarrow> jcs_encode B b payload;
       let protected_seg = base64url_encode header_jcs;
       let payload_seg = base64url_encode payload_jcs;
       Some \<lparr>psi_protected_segment = protected_seg, psi_payload_segment = payload_seg,
         psi_message = protected_seg @ ''.'' @ payload_seg\<rparr>
     }"

definition b64url_to_string :: "bytes \<Rightarrow> bytes result" where
  "b64url_to_string s = from_utf8 s"

text \<open>The protected header of grants, anchors and transitions: \<open>alg\<close>, \<open>kid\<close> and \<open>typ\<close>.\<close>

definition kid_header :: "bytes \<Rightarrow> bytes \<Rightarrow> json" where
  "kid_header key_id typ =
     Object [(''alg'', String ALG_EDDSA), (''kid'', String key_id), (''typ'', String typ)]"

section \<open>Grants\<close>

fun distinct_identifiers :: "bounds \<Rightarrow> bytes set \<Rightarrow> bytes list \<Rightarrow> unit result" where
  "distinct_identifiers b seen [] = Some ()"
| "distinct_identifiers b seen (aud # auds) =
     do {
       validate_identifier aud b;
       reject_if (aud \<in> seen);
       distinct_identifiers b (insert aud seen) auds
     }"

fun check_operations :: "backend \<Rightarrow> bounds \<Rightarrow> bytes set \<Rightarrow> grant_operation list \<Rightarrow> unit result" where
  "check_operations B b seen [] = Some ()"
| "check_operations B b seen (op # ops) =
     do {
       validate_operation_name (go_name op) b;
       reject_if (go_name op \<in> seen);
       reject_if (go_selectors op = [] \<or> length (go_selectors op) > selectors b);
       validate_each (\<lambda>s. validate B s b) (go_selectors op);
       check_operations B b (insert (go_name op) seen) ops
     }"

definition operation_json :: "grant_operation \<Rightarrow> json" where
  "operation_json op = Object [(''name'', String (go_name op)), (''selectors'', Array (go_selectors op))]"

definition grant_signing_input :: "backend \<Rightarrow> grant_input \<Rightarrow> bounds \<Rightarrow> produced_signing_input result" where
  "grant_signing_input B g b =
     do {
       validate_kid (gi_key_id g) b;
       validate_identifier (gi_issuer g) b;
       validate_identifier (gi_grant_id g) b;
       reject_if (gi_audiences g = [] \<or> length (gi_audiences g) > audiences b);
       distinct_identifiers b {} (gi_audiences g);
       reject_if (gi_operations g = [] \<or> length (gi_operations g) > operations b);
       check_operations B b {} (gi_operations g);
       jkt \<leftarrow> b64url_to_string (base64url_encode (gi_holder_thumbprint g));
       build_produced B (kid_header (gi_key_id g) TYP_GRANT)
         (Object
           [(''aud'', Array (map String (gi_audiences g))),
            (''cnf'', Object [(''jkt'', String jkt)]),
            (''exp'', Integer (gi_expires_at g)),
            (''iat'', Integer (gi_issued_at g)),
            (''iss'', String (gi_issuer g)),
            (''jti'', String (gi_grant_id g)),
            (''nbf'', Integer (gi_not_before g)),
            (''operations'', Array (map operation_json (gi_operations g))),
            (''v'', Integer 1)]) b
     }"

section \<open>Proofs\<close>

definition scan_compact :: "bytes \<Rightarrow> bounds \<Rightarrow> unit result" where
  "scan_compact compact b =
     do {
       reject_if (length compact > compact_bytes b);
       dot1 \<leftarrow> position (\<lambda>c. c = CHR ''.'') compact;
       reject_if (dot1 = 0 \<or> dot1 > encoded_segment_bytes b);
       let after1 = drop (dot1 + 1) compact;
       dot2 \<leftarrow> position (\<lambda>c. c = CHR ''.'') after1;
       reject_if (dot2 = 0 \<or> dot2 > encoded_segment_bytes b);
       let signature = drop (dot2 + 1) after1;
       reject_if (signature = [] \<or> length signature > encoded_segment_bytes b);
       reject_if (CHR ''.'' \<in> set signature);
       Some ()
     }"

definition proof_signing_input_for ::
  "backend \<Rightarrow> proof_input \<Rightarrow> bounds \<Rightarrow> proof_profile \<Rightarrow> bytes option \<Rightarrow> produced_signing_input result" where
  "proof_signing_input_for B p b profile nonce =
     do {
       validate_identifier (pi_proof_id p) b;
       validate_method_token (pi_method p) b;
       validate_operation_name (pi_operation p) b;
       validate_uuid (pi_invocation_id p);
       htu \<leftarrow> profile_uri_normalize profile b (pi_target_uri p);
       reject_if (htu \<noteq> pi_target_uri p);
       scan_compact (pi_grant_compact p) b;
       ath \<leftarrow> b64url_to_string (base64url_encode (sha256 B (pi_grant_compact p)));
       ba_req \<leftarrow> request_digest B (pi_operation p) (pi_cast_arguments p) b;
       ba_req_str \<leftarrow> from_utf8 ba_req;
       reject_if (\<not> acceptable_public_key B (pi_holder_public_key p));
       x \<leftarrow> b64url_to_string (base64url_encode (pi_holder_public_key p));
       let jwk = Object [(''crv'', String CRV_ED25519), (''kty'', String KTY_OKP), (''x'', String x)];
       let header = Object [(''alg'', String ALG_EDDSA), (''jwk'', jwk), (''typ'', String (proof_typ profile))];
       let payload_members =
         [(''ath'', String ath), (''ba_inv'', String (pi_invocation_id p)),
          (''ba_op'', String (pi_operation p)), (''ba_req'', String ba_req_str),
          (''htm'', String (pi_method p)), (''htu'', String (pi_target_uri p)),
          (''iat'', Integer (pi_issued_at p)), (''jti'', String (pi_proof_id p)), (''v'', Integer 1)];
       payload_members \<leftarrow>
         (if profile = LocalLoopbackHttp then
            do {
              n \<leftarrow> nonce;
              reject_if (n = [] \<or> length n > nonce_bytes b);
              Some (payload_members @ [(''nonce'', String n)])
            }
          else Some payload_members);
       build_produced B header (Object payload_members) b
     }"

definition proof_signing_input :: "backend \<Rightarrow> proof_input \<Rightarrow> bounds \<Rightarrow> produced_signing_input result" where
  "proof_signing_input B p b = proof_signing_input_for B p b Standard None"

definition local_loopback_http_proof_signing_input ::
  "backend \<Rightarrow> local_loopback_http_proof_input \<Rightarrow> bounds \<Rightarrow> produced_signing_input result" where
  "local_loopback_http_proof_signing_input B p b =
     (let common = \<lparr>pi_proof_id = lpi_proof_id p, pi_method = lpi_method p, pi_target_uri = lpi_target_uri p,
        pi_invocation_id = lpi_invocation_id p, pi_operation = lpi_operation p,
        pi_cast_arguments = lpi_cast_arguments p, pi_grant_compact = lpi_grant_compact p,
        pi_holder_public_key = lpi_holder_public_key p, pi_issued_at = lpi_issued_at p\<rparr>
      in proof_signing_input_for B common b LocalLoopbackHttp (Some (lpi_nonce p)))"

section \<open>Archival signing inputs\<close>

definition boundary_anchor_signing_input ::
  "backend \<Rightarrow> boundary_anchor \<Rightarrow> bounds \<Rightarrow> produced_signing_input result" where
  "boundary_anchor_signing_input B a b =
     do {
       validate_kid (ba_key_id a) b;
       validate_identifier (ba_anchor_id a) b;
       validate_identifier (ba_chain_id a) b;
       reject_if (ba_sequence a < 0);
       reject_if (ba_sequence a = 0 \<and> list_ex (\<lambda>c. byte c \<noteq> 0) (ba_chain_hash a));
       chain_hash_str \<leftarrow> b64url_to_string (base64url_encode (ba_chain_hash a));
       fingerprint \<leftarrow> public_key_thumbprint_raw B (ba_public_key a);
       fingerprint_str \<leftarrow> b64url_to_string (base64url_encode fingerprint);
       build_produced B (kid_header (ba_key_id a) TYP_CHAIN_ANCHOR)
         (Object
           [(''anchor_id'', String (ba_anchor_id a)), (''anchored_at'', Integer (ba_anchored_at a)),
            (''chain_hash'', String chain_hash_str), (''chain_id'', String (ba_chain_id a)),
            (''key_fingerprint'', String fingerprint_str), (''sequence'', Integer (ba_sequence a)),
            (''v'', Integer 1)]) b
     }"

definition key_transition_signing_input ::
  "backend \<Rightarrow> key_transition \<Rightarrow> bounds \<Rightarrow> produced_signing_input result" where
  "key_transition_signing_input B t b =
     do {
       validate_kid (kt_current_key_id t) b;
       validate_kid (kt_next_key_id t) b;
       validate_identifier (kt_chain_id t) b;
       validate_identifier (kt_transition_id t) b;
       reject_if (kt_current_public_key t = kt_next_public_key t);
       from_fp \<leftarrow> public_key_thumbprint_raw B (kt_current_public_key t);
       to_fp \<leftarrow> public_key_thumbprint_raw B (kt_next_public_key t);
       from_str \<leftarrow> b64url_to_string (base64url_encode from_fp);
       to_str \<leftarrow> b64url_to_string (base64url_encode to_fp);
       build_produced B (kid_header (kt_current_key_id t) TYP_KEY_TRANSITION)
         (Object
           [(''chain_id'', String (kt_chain_id t)), (''effective_at'', Integer (kt_effective_at t)),
            (''from_key_fingerprint'', String from_str), (''to_key_fingerprint'', String to_str),
            (''to_key_id'', String (kt_next_key_id t)), (''transition_id'', String (kt_transition_id t)),
            (''v'', Integer 1)]) b
     }"

end
