(* ===== verification/Chain.thy ===== *)
theory Chain
  imports Producers
begin

text \<open>
  The consumption chain of \<open>sdks/rust/src/v1.rs\<close>: the row encoder, the row parser and \<open>check_chain\<close>,
  which verifies a range of canonical rows against the boundaries the caller expects.
\<close>

section \<open>Bounds of a context\<close>

definition resolve_bounds :: "bounds option \<Rightarrow> bounds" where
  "resolve_bounds nested = (case nested of None \<Rightarrow> maximum | Some b \<Rightarrow> b)"

definition require_bounds_equal :: "bounds option \<Rightarrow> bounds \<Rightarrow> unit result" where
  "require_bounds_equal nested outer =
     (case nested of
        Some b \<Rightarrow> (if b \<noteq> outer then None else Some ())
      | None \<Rightarrow> (if outer \<noteq> maximum then None else Some ()))"

section \<open>Rows\<close>

definition CHAIN_DIGEST_PREFIX :: bytes where
  "CHAIN_DIGEST_PREFIX = ''BAP1-CHAIN'' @ [CHR 0x00]"

definition row_domain_hash :: "backend \<Rightarrow> bytes \<Rightarrow> bytes" where
  "row_domain_hash B canonical_row = sha256 B (CHAIN_DIGEST_PREFIX @ canonical_row)"

definition encode_consumption_entry ::
  "backend \<Rightarrow> consumption_entry \<Rightarrow> bounds \<Rightarrow> (bytes \<times> bytes) result" where
  "encode_consumption_entry B entry b =
     do {
       reject_if (ce_sequence entry < 1);
       validate_identifier (ce_chain_id entry) b;
       reject_if (ce_sequence entry = 1 \<and> list_ex (\<lambda>c. byte c \<noteq> 0) (ce_previous_hash entry));
       previous_str \<leftarrow> b64url_to_string (base64url_encode (ce_previous_hash entry));
       commitment_str \<leftarrow> b64url_to_string (base64url_encode (ce_commitment entry));
       let row = Object
         [(''chain_id'', String (ce_chain_id entry)), (''commitment'', String commitment_str),
          (''previous'', String previous_str), (''sequence'', Integer (ce_sequence entry)),
          (''v'', Integer 1)];
       canonical \<leftarrow> jcs_encode B b row;
       reject_if (length canonical > chain_row_bytes b);
       Some (canonical, row_domain_hash B canonical)
     }"

record parsed_row =
  pr_chain_id :: bytes
  pr_previous :: bytes
  pr_sequence :: int
  pr_hash :: bytes

definition take_b64url_32 :: "json option \<Rightarrow> bytes result" where
  "take_b64url_32 v =
     do {
       s \<leftarrow> string_of v;
       raw \<leftarrow> base64url_decode s;
       reject_if (length raw \<noteq> 32);
       Some raw
     }"

definition row_members :: "bytes list" where
  "row_members = [''chain_id'', ''commitment'', ''previous'', ''sequence'', ''v'']"

definition parse_row :: "backend \<Rightarrow> bytes \<Rightarrow> bounds \<Rightarrow> parsed_row result" where
  "parse_row B row b =
     do {
       v \<leftarrow> json_decode b row;
       members \<leftarrow> members_of v;
       slots \<leftarrow> collect row_members members Map.empty;
       reject_if (slots ''v'' \<noteq> Some (Integer 1));
       chain_id \<leftarrow> string_of (slots ''chain_id'');
       sequence \<leftarrow> take_integral_date (slots ''sequence'');
       take_b64url_32 (slots ''commitment'');
       previous \<leftarrow> take_b64url_32 (slots ''previous'');
       reencoded \<leftarrow> jcs_encode B b v;
       reject_if (reencoded \<noteq> row);
       Some \<lparr>pr_chain_id = chain_id, pr_previous = previous, pr_sequence = sequence,
         pr_hash = row_domain_hash B row\<rparr>
     }"

section \<open>Ranges of rows\<close>

fun parse_rows :: "backend \<Rightarrow> bounds \<Rightarrow> bytes list \<Rightarrow> parsed_row list result" where
  "parse_rows B b [] = Some []"
| "parse_rows B b (row # rows) =
     do { p \<leftarrow> parse_row B row b; ps \<leftarrow> parse_rows B b rows; Some (p # ps) }"

fun check_identities :: "bounds \<Rightarrow> bytes \<Rightarrow> parsed_row list \<Rightarrow> unit result" where
  "check_identities b chain_id [] = Some ()"
| "check_identities b chain_id (p # ps) =
     do {
       validate_identifier (pr_chain_id p) b;
       reject_if (pr_chain_id p \<noteq> chain_id);
       check_identities b chain_id ps
     }"

fun check_sequences :: "int \<Rightarrow> nat \<Rightarrow> parsed_row list \<Rightarrow> unit result" where
  "check_sequences first i [] = Some ()"
| "check_sequences first i (p # ps) =
     do {
       want \<leftarrow> checked_add_i64 first (int i);
       reject_if (pr_sequence p \<noteq> want);
       check_sequences first (i + 1) ps
     }"

fun check_links :: "parsed_row list \<Rightarrow> unit result" where
  "check_links (p # q # ps) =
     do { reject_if (pr_previous q \<noteq> pr_hash p); check_links (q # ps) }"
| "check_links _ = Some ()"

definition check_chain :: "backend \<Rightarrow> chain_input \<Rightarrow> expected_chain \<Rightarrow> chain_facts result" where
  "check_chain B input expected =
     (let b = resolve_bounds (ec_bounds expected); rows = ci_rows input in
      do {
        reject_if (rows = [] \<or> length rows > chain_rows b);
        reject_if (list_ex (\<lambda>row. length row > chain_row_bytes b) rows);
        parsed \<leftarrow> parse_rows B b rows;
        validate_identifier (ec_chain_id expected) b;
        check_identities b (ec_chain_id expected) parsed;
        check_sequences (ec_first_sequence expected) 0 parsed;
        reject_if (ec_first_sequence expected < 1);
        reject_if (ec_first_sequence expected = 1 \<and> list_ex (\<lambda>c. byte c \<noteq> 0) (ec_previous_hash expected));
        reject_if (pr_previous (hd parsed) \<noteq> ec_previous_hash expected);
        check_links parsed;
        reject_if (int (length parsed) \<noteq> ec_row_count expected);
        reject_if (pr_sequence (last parsed) \<noteq> ec_last_sequence expected);
        reject_if (pr_hash (last parsed) \<noteq> ec_head_hash expected);
        Some \<lparr>cf_chain_id = ec_chain_id expected, cf_row_count = int (length parsed),
          cf_first_sequence = ec_first_sequence expected, cf_last_sequence = ec_last_sequence expected,
          cf_previous_hash = ec_previous_hash expected, cf_head_hash = ec_head_hash expected,
          cf_trust = NotEvaluated\<rparr>
      })"

end
