(* ===== verification/Row_Log.thy ===== *)
theory Row_Log
  imports Chain "HOL-Library.Sublist"
begin

text \<open>
  The consumption chain as an append-only log, for any row parser. The log machine reads one row at a time
  and keeps the next sequence number and the hash of the last row; the passes of \<open>check_chain\<close>
  (identities, sequences, links, boundaries) refine one run of that machine. Tamper evidence is proved once,
  in the locale \<open>hash_chain\<close>, from two laws of a step. The locale \<open>row_reader\<close> is the interface of a
  version of the profile: its row parser, its row hash and its \<open>check_chain\<close>; each version interprets it.
\<close>

section \<open>Hash-linked logs\<close>

fun run_log :: "('s \<Rightarrow> 'r \<Rightarrow> 's option) \<Rightarrow> 's \<Rightarrow> 'r list \<Rightarrow> 's option" where
  "run_log step s [] = Some s"
| "run_log step s (r # rs) = do { s' \<leftarrow> step s r; run_log step s' rs }"

lemma run_log_append: "run_log step s (rs @ qs) = do { s' \<leftarrow> run_log step s rs; run_log step s' qs }"
  by (induction rs arbitrary: s) (auto split: Option.bind_splits)

locale hash_chain =
  fixes step :: "'s \<Rightarrow> 'r \<Rightarrow> 's option"
    and head :: "'s \<Rightarrow> 'd"
    and digest :: "'r \<Rightarrow> 'd"
  assumes step_digest: "step s r = Some s' \<Longrightarrow> head s' = digest r"
    and step_previous: "step s r = Some s' \<Longrightarrow> step t r = Some t' \<Longrightarrow> head s = head t"
begin

text \<open>Two runs that end with the same head have read the same last rows, as far back as both go.\<close>

lemma same_head_suffix:
  assumes "run_log step s rs = Some z" "run_log step t qs = Some y" "head z = head y"
    and "length rs \<le> length qs"
    and "\<forall>r \<in> set rs. \<forall>q \<in> set qs. digest r = digest q \<longrightarrow> r = q"
  shows "suffix rs qs"
  using assms
proof (induction rs arbitrary: qs z y rule: rev_induct)
  case (snoc r rs)
  then obtain ps q where qs: "qs = ps @ [q]" by (cases qs rule: rev_cases) auto
  obtain u where u: "run_log step s rs = Some u" "step u r = Some z"
    using snoc.prems(1) by (auto simp: run_log_append bind_Some)
  obtain v where v: "run_log step t ps = Some v" "step v q = Some y"
    using snoc.prems(2) by (auto simp: run_log_append bind_Some qs)
  have "digest r = digest q"
    using step_digest [OF u(2)] step_digest [OF v(2)] snoc.prems(3) by simp
  then have rq: "r = q" using snoc.prems(5) qs by simp
  then have "head u = head v" using step_previous [OF u(2)] v(2) by simp
  then have "suffix rs ps" using snoc.prems(4,5) by (intro snoc.IH [OF u(1) v(1)]) (auto simp: qs)
  then show ?case by (simp add: qs rq)
qed simp

lemma same_head_same_rows:
  assumes "run_log step s rs = Some z" "run_log step t qs = Some y" "head z = head y"
    and "length rs = length qs"
    and "\<forall>r \<in> set rs. \<forall>q \<in> set qs. digest r = digest q \<longrightarrow> r = q"
  shows "rs = qs"
  using same_head_suffix [OF assms(1-3) _ assms(5)] assms(4) by (auto elim: suffixE)

end

section \<open>The log machine of a row parser\<close>

text \<open>The state is the next sequence number and the hash of the last row.\<close>

definition log_step :: "(bytes \<Rightarrow> parsed_row option) \<Rightarrow> bytes \<Rightarrow> int \<times> bytes \<Rightarrow> bytes \<Rightarrow> (int \<times> bytes) option" where
  "log_step parse chain_id st row =
     do {
       p \<leftarrow> parse row;
       reject_if (pr_chain_id p \<noteq> chain_id \<or> pr_sequence p \<noteq> fst st \<or> pr_previous p \<noteq> snd st);
       Some (fst st + 1, pr_hash p)
     }"

lemma run_log_sequence:
  "run_log (log_step parse chain_id) st rows = Some z \<Longrightarrow> fst z = fst st + int (length rows)"
proof (induction rows arbitrary: st)
  case (Cons row rows)
  then obtain u where "log_step parse chain_id st row = Some u" "run_log (log_step parse chain_id) u rows = Some z"
    by (auto simp: bind_Some)
  moreover have "fst u = fst st + 1" using calculation(1) by (auto simp: log_step_def bind_Some split: if_splits)
  ultimately show ?case using Cons.IH [of u] by simp
qed simp

text \<open>The passes of \<open>check_chain\<close> over a row parser.\<close>

fun read_rows :: "(bytes \<Rightarrow> parsed_row option) \<Rightarrow> bytes list \<Rightarrow> parsed_row list option" where
  "read_rows parse [] = Some []"
| "read_rows parse (row # rows) = do { p \<leftarrow> parse row; ps \<leftarrow> read_rows parse rows; Some (p # ps) }"

definition rows_checked ::
  "(bounds \<Rightarrow> bytes \<Rightarrow> parsed_row option) \<Rightarrow> chain_input \<Rightarrow> expected_chain \<Rightarrow> chain_facts option" where
  "rows_checked parse input expected =
     (let b = resolve_bounds (ec_bounds expected); rows = ci_rows input in
      do {
        reject_if (rows = [] \<or> length rows > chain_rows b);
        reject_if (list_ex (\<lambda>row. length row > chain_row_bytes b) rows);
        parsed \<leftarrow> read_rows (parse b) rows;
        validate_identifier (ec_chain_id expected) b;
        check_identities b (ec_chain_id expected) parsed;
        check_sequences (ec_first_sequence expected) 0 parsed;
        reject_if (ec_first_sequence expected < 1);
        reject_if (ec_first_sequence expected = 1 \<and> list_ex (\<lambda>c. byte c \<noteq> 0) (ec_previous_hash expected));
        reject_if (pr_previous (hd parsed) \<noteq> ec_previous_hash expected);
        check_links parsed;
        reject_if (int (length parsed) \<noteq> ec_row_count expected);
        reject_if (pr_sequence (last parsed) \<noteq> ec_last_sequence expected);
        reject_if (pr_hash (last parsed) \<noteq> ec_head_hash expected);
        Some \<lparr>cf_chain_id = ec_chain_id expected, cf_row_count = int (length parsed),
          cf_first_sequence = ec_first_sequence expected, cf_last_sequence = ec_last_sequence expected,
          cf_previous_hash = ec_previous_hash expected, cf_head_hash = ec_head_hash expected,
          cf_trust = NotEvaluated\<rparr>
      })"

section \<open>The passes refine the machine\<close>

lemma read_rows_Some:
  "read_rows parse rows = Some ps \<longleftrightarrow> list_all2 (\<lambda>row p. parse row = Some p) rows ps"
  by (induction rows arbitrary: ps) (auto simp: bind_Some list_all2_Cons1)

lemma check_identities_iff:
  "check_identities b chain_id ps = Some () \<longleftrightarrow>
     (\<forall>p \<in> set ps. validate_identifier (pr_chain_id p) b = Some () \<and> pr_chain_id p = chain_id)"
  by (induction ps) (auto simp: bind_Some)

lemma check_sequences_iff:
  "check_sequences first i ps = Some () \<longleftrightarrow>
     (\<forall>k < length ps. is_i64 (first + int (i + k)) \<and> pr_sequence (ps ! k) = first + int (i + k))"
proof (induction ps arbitrary: i)
  case (Cons p ps)
  show ?case by (auto simp: Cons bind_Some checked_add_i64_def All_less_Suc2 algebra_simps split: if_splits)
qed simp

lemma check_links_iff:
  "check_links ps = Some () \<longleftrightarrow> (\<forall>k. Suc k < length ps \<longrightarrow> pr_previous (ps ! Suc k) = pr_hash (ps ! k))"
proof (induction ps rule: check_links.induct)
  case (1 p q ps)
  have "(\<forall>k. Suc k < length (p # q # ps) \<longrightarrow> P k) \<longleftrightarrow> P 0 \<and> (\<forall>k. Suc k < length (q # ps) \<longrightarrow> P (Suc k))" for P
    by (metis Suc_less_eq length_Cons not0_implies_Suc zero_less_Suc)
  then show ?case by (simp add: 1)
qed simp_all

fun follows :: "bytes \<Rightarrow> int \<Rightarrow> bytes \<Rightarrow> parsed_row list \<Rightarrow> bool" where
  "follows chain_id n h [] = True"
| "follows chain_id n h (p # ps) \<longleftrightarrow>
     pr_chain_id p = chain_id \<and> pr_sequence p = n \<and> pr_previous p = h \<and> follows chain_id (n + 1) (pr_hash p) ps"

lemma run_log_parsed:
  assumes "list_all2 (\<lambda>row p. parse row = Some p) rows ps"
  shows "run_log (log_step parse chain_id) (n, h) rows =
    (if follows chain_id n h ps
     then Some (n + int (length ps), if ps = [] then h else pr_hash (last ps)) else None)"
  using assms
proof (induction rows ps arbitrary: n h rule: list_all2_induct)
  case (Cons row rows p ps)
  then show ?case by (simp add: log_step_def)
qed simp

lemma run_log_parses:
  "run_log (log_step parse chain_id) s rows \<noteq> None \<Longrightarrow> \<exists>ps. list_all2 (\<lambda>row p. parse row = Some p) rows ps"
proof (induction rows arbitrary: s)
  case (Cons row rows)
  then obtain s' where s': "log_step parse chain_id s row = Some s'" "run_log (log_step parse chain_id) s' rows \<noteq> None"
    by (cases "log_step parse chain_id s row") simp_all
  obtain p where "parse row = Some p" using s'(1) by (auto simp: log_step_def bind_Some)
  moreover obtain ps where "list_all2 (\<lambda>row p. parse row = Some p) rows ps"
    using Cons.IH [OF s'(2)] by blast
  ultimately have "list_all2 (\<lambda>row p. parse row = Some p) (row # rows) (p # ps)" by simp
  then show ?case ..
qed (simp add: exI [of _ "[]"])

lemma follows_iff:
  "follows chain_id n h ps \<longleftrightarrow>
     (\<forall>p \<in> set ps. pr_chain_id p = chain_id) \<and> (\<forall>k < length ps. pr_sequence (ps ! k) = n + int k) \<and>
     (ps \<noteq> [] \<longrightarrow> pr_previous (hd ps) = h) \<and> check_links ps = Some ()"
proof (induction ps arbitrary: n h)
  case (Cons p ps)
  show ?case
  proof (cases ps)
    case (Cons q qs)
    have IH: "follows chain_id (n + 1) (pr_hash p) ps \<longleftrightarrow>
       (\<forall>r \<in> set ps. pr_chain_id r = chain_id) \<and> (\<forall>k < length ps. pr_sequence (ps ! k) = n + 1 + int k) \<and>
       pr_previous q = pr_hash p \<and> check_links ps = Some ()"
      unfolding Cons.IH by (simp add: Cons)
    have "check_links (p # ps) = Some () \<longleftrightarrow> pr_previous q = pr_hash p \<and> check_links ps = Some ()"
      by (simp add: Cons)
    then show ?thesis using IH by (auto simp: All_less_Suc2 algebra_simps)
  qed (auto simp: Cons)
qed simp


section \<open>What an accepted chain is\<close>

definition chain_request_ok :: "chain_input \<Rightarrow> expected_chain \<Rightarrow> bool" where
  "chain_request_ok input e \<longleftrightarrow>
     (let b = resolve_bounds (ec_bounds e); rows = ci_rows input in
      rows \<noteq> [] \<and> length rows \<le> chain_rows b \<and> (\<forall>row \<in> set rows. length row \<le> chain_row_bytes b) \<and>
      validate_identifier (ec_chain_id e) b = Some () \<and> 1 \<le> ec_first_sequence e \<and>
      (ec_first_sequence e = 1 \<longrightarrow> (\<forall>c \<in> set (ec_previous_hash e). byte c = 0)) \<and>
      ec_row_count e = int (length rows))"

definition chain_facts_of :: "expected_chain \<Rightarrow> chain_facts" where
  "chain_facts_of e =
     \<lparr>cf_chain_id = ec_chain_id e, cf_row_count = ec_row_count e,
      cf_first_sequence = ec_first_sequence e, cf_last_sequence = ec_last_sequence e,
      cf_previous_hash = ec_previous_hash e, cf_head_hash = ec_head_hash e, cf_trust = NotEvaluated\<rparr>"

text \<open>The log that the caller expects: from the first sequence number and the previous hash to the head.\<close>

definition expected_run :: "(bounds \<Rightarrow> bytes \<Rightarrow> parsed_row option) \<Rightarrow> bytes list \<Rightarrow> expected_chain \<Rightarrow> bool" where
  "expected_run parse rows e \<longleftrightarrow>
     run_log (log_step (parse (resolve_bounds (ec_bounds e))) (ec_chain_id e)) (ec_first_sequence e, ec_previous_hash e) rows =
     Some (ec_last_sequence e + 1, ec_head_hash e)"

lemma last_sequence:
  assumes "\<forall>k < length ps. pr_sequence (ps ! k) = n + int k" "ps \<noteq> []"
  shows "pr_sequence (last ps) = n + int (length ps) - 1"
  using assms by (cases ps rule: rev_cases) (auto simp: last_conv_nth)

lemma rows_checked_iff:
  assumes "is_i64 (ec_last_sequence e)"
  shows "rows_checked parse input e = Some facts \<longleftrightarrow>
    chain_request_ok input e \<and> expected_run parse (ci_rows input) e \<and> facts = chain_facts_of e"
proof -
  let ?b = "resolve_bounds (ec_bounds e)"
  let ?id = "ec_chain_id e"
  show ?thesis
  proof (cases "read_rows (parse ?b) (ci_rows input)")
    case None
    then have "\<not> expected_run parse (ci_rows input) e"
      using run_log_parses [of "parse ?b" ?id _ "ci_rows input"] read_rows_Some [of "parse ?b" "ci_rows input"]
      by (auto simp: expected_run_def)
    moreover have "rows_checked parse input e = None" using None by (simp add: rows_checked_def Let_def)
    ultimately show ?thesis by simp
  next
    case (Some ps)
    then have all: "list_all2 (\<lambda>row p. parse ?b row = Some p) (ci_rows input) ps"
      by (simp add: read_rows_Some)
    have len: "length ps = length (ci_rows input)" using list_all2_lengthD [OF all] by simp
    show ?thesis
    proof (cases "ps = []")
      case True
      then show ?thesis using len by (simp add: rows_checked_def chain_request_ok_def Let_def)
    next
      case False
      then have ne: "ci_rows input \<noteq> []" using len by auto
      let ?n = "ec_first_sequence e"
      let ?seqs = "\<forall>k < length ps. pr_sequence (ps ! k) = ?n + int k"
      have run: "expected_run parse (ci_rows input) e \<longleftrightarrow>
          follows ?id ?n (ec_previous_hash e) ps \<and> ec_last_sequence e + 1 = ?n + int (length ps) \<and>
          pr_hash (last ps) = ec_head_hash e"
        unfolding expected_run_def run_log_parsed [OF all] using False by auto
      let ?L = "pr_sequence (last ps) = ec_last_sequence e"
      have s1: "check_sequences ?n 0 ps = Some () \<Longrightarrow> ?seqs" unfolding check_sequences_iff by simp
      have s2: "check_sequences ?n 0 ps = Some ()" if "1 \<le> ?n" ?seqs ?L
      proof -
        have "is_i64 (?n + int k)" if "k < length ps" for k
          using that \<open>1 \<le> ?n\<close> \<open>?L\<close> assms last_sequence [OF \<open>?seqs\<close> False]
          by (simp add: is_i64_def i64_min_def)
        then show ?thesis using \<open>?seqs\<close> unfolding check_sequences_iff by simp
      qed
      have l: "?L \<longleftrightarrow> ec_last_sequence e + 1 = ?n + int (length ps)" if ?seqs
        using last_sequence [OF that False] by auto
      have ids: "check_identities ?b ?id ps = Some () \<longleftrightarrow> (\<forall>p \<in> set ps. pr_chain_id p = ?id)"
        if "validate_identifier ?id ?b = Some ()"
        using that unfolding check_identities_iff by auto
      have "rows_checked parse input e = Some facts \<longleftrightarrow>
          chain_request_ok input e \<and> check_identities ?b ?id ps = Some () \<and> check_sequences ?n 0 ps = Some () \<and>
          pr_previous (hd ps) = ec_previous_hash e \<and> check_links ps = Some () \<and> ?L \<and>
          pr_hash (last ps) = ec_head_hash e \<and> facts = chain_facts_of e"
        using Some len ne
        by (simp add: rows_checked_def chain_request_ok_def chain_facts_of_def Let_def accept list_ex_iff
            not_less not_le cong: conj_cong) (rule iffI; clarsimp)
      moreover have "chain_request_ok input e \<Longrightarrow> 1 \<le> ?n \<and> validate_identifier ?id ?b = Some ()"
        by (simp add: chain_request_ok_def Let_def)
      ultimately show ?thesis
        unfolding run follows_iff using False s1 s2 l ids by blast
    qed
  qed
qed

section \<open>The interface of a version\<close>

locale row_reader =
  fixes parse :: "bounds \<Rightarrow> bytes \<Rightarrow> parsed_row option"
    and hash :: "bytes \<Rightarrow> bytes"
    and check :: "chain_input \<Rightarrow> expected_chain \<Rightarrow> chain_facts option"
  assumes parse_hash: "parse b row = Some p \<Longrightarrow> pr_hash p = hash row"
    and check_passes: "check input e = rows_checked parse input e"

sublocale row_reader \<subseteq> log: hash_chain "log_step (parse b) chain_id" snd hash for b chain_id
  by unfold_locales (auto simp: log_step_def accept parse_hash)

definition extended :: "expected_chain \<Rightarrow> bytes \<Rightarrow> expected_chain" where
  "extended e h = e\<lparr>ec_last_sequence := ec_last_sequence e + 1, ec_row_count := ec_row_count e + 1, ec_head_hash := h\<rparr>"

context row_reader
begin

lemma check_iff:
  assumes "is_i64 (ec_last_sequence e)"
  shows "check input e = Some facts \<longleftrightarrow>
    chain_request_ok input e \<and> expected_run parse (ci_rows input) e \<and> facts = chain_facts_of e"
  unfolding check_passes using assms by (rule rows_checked_iff)

lemma counts:
  assumes "check input e = Some f" "is_i64 (ec_last_sequence e)"
  shows "chain_request_ok input e \<and> ec_last_sequence e + 1 = ec_first_sequence e + int (length (ci_rows input))"
  using assms(1) run_log_sequence unfolding check_iff [OF assms(2)] by (fastforce simp: expected_run_def)

lemma accepted_determined:
  assumes a: "check i e = Some f" "check j e' = Some f'"
    and i: "is_i64 (ec_last_sequence e)" "is_i64 (ec_last_sequence e')"
    and eq: "resolve_bounds (ec_bounds e) = resolve_bounds (ec_bounds e')" "ec_chain_id e = ec_chain_id e'"
      "ec_head_hash e = ec_head_hash e'" "ec_row_count e \<le> ec_row_count e'"
    and same: "\<forall>r \<in> set (ci_rows i). \<forall>q \<in> set (ci_rows j). hash r = hash q \<longrightarrow> r = q"
  shows "suffix (ci_rows i) (ci_rows j)"
proof -
  note c = a(1) [unfolded check_iff [OF i(1)]] a(2) [unfolded check_iff [OF i(2)]]
  have run: "expected_run parse (ci_rows i) e" "expected_run parse (ci_rows j) e'" using c by blast+
  have len: "length (ci_rows i) \<le> length (ci_rows j)"
    using c eq(4) by (simp add: chain_request_ok_def Let_def)
  show ?thesis
    by (rule log.same_head_suffix [OF run(1) [unfolded expected_run_def]
          run(2) [unfolded expected_run_def, folded eq(1,2)] _ len same])
      (simp add: eq(3))
qed

text \<open>A row that the parser reads as the next one extends an accepted chain.\<close>

lemma accepted_extends:
  assumes acc: "check i e = Some f" and l: "is_i64 (ec_last_sequence e)" "is_i64 (ec_last_sequence e + 1)"
    and row: "parse (resolve_bounds (ec_bounds e)) row = Some p" "pr_chain_id p = ec_chain_id e"
      "pr_sequence p = ec_last_sequence e + 1" "pr_previous p = ec_head_hash e"
    and b: "length row \<le> chain_row_bytes (resolve_bounds (ec_bounds e))"
      "length (ci_rows i) < chain_rows (resolve_bounds (ec_bounds e))"
  shows "check \<lparr>ci_rows = ci_rows i @ [row]\<rparr> (extended e (hash row)) = Some (chain_facts_of (extended e (hash row)))"
proof -
  note c = acc [unfolded check_iff [OF l(1)]]
  have "log_step (parse (resolve_bounds (ec_bounds e))) (ec_chain_id e) (ec_last_sequence e + 1, ec_head_hash e) row =
      Some (ec_last_sequence e + 1 + 1, hash row)"
    using row parse_hash [OF row(1)] by (simp add: log_step_def)
  then have "expected_run parse (ci_rows i @ [row]) (extended e (hash row))"
    using c by (simp add: expected_run_def extended_def run_log_append)
  moreover have "chain_request_ok \<lparr>ci_rows = ci_rows i @ [row]\<rparr> (extended e (hash row))"
    using c b by (auto simp: chain_request_ok_def extended_def Let_def)
  moreover have "is_i64 (ec_last_sequence (extended e (hash row)))" using l(2) by (simp add: extended_def)
  ultimately show ?thesis using check_iff [of "extended e (hash row)"] by simp
qed

end

end
