(* ===== verification/Canonical.thy ===== *)
theory Canonical
  imports Json_Roundtrip Jwk_Facts Claims
begin

text \<open>
  What the artifacts of the profile share: a producer encodes an object, a verifier decodes the text,
  collects the members into slots, and may encode the decoded value again. The canonical form is a
  fixed point, so the text survives the second encoding, and the slots are those of the object that
  was encoded, whatever order its members had.
\<close>

section \<open>The canonical form is a fixed point\<close>

lemma canon_canon: "encodable b d v \<Longrightarrow> portable v \<Longrightarrow> canon (canon v) = canon v"
proof (induction v arbitrary: d)
  case (Array xs)
  then show ?case by (auto simp: map_idI)
next
  case (Object ms)
  let ?f = "map_prod (\<lambda>k. k) canon"
  let ?s = "sort_by (by_name utf16_compare) (map ?f ms)"
  have IH: "canon (canon (snd m)) = canon (snd m)" if "m \<in> set ms" for m
    using Object.prems that by (intro Object.IH [of m _ "d + 1"]) (simp_all add: snds.simps)
  have "?f m = m" if "m \<in> set ?s" for m
  proof -
    have "m \<in> ?f ` set ms" using that unfolding set_sort_by set_map .
    then obtain k where "k \<in> set ms" "m = ?f k" by (rule imageE) blast
    with IH [of k] show ?thesis by (cases k) simp
  qed
  then have "map ?f ?s = ?s" by (rule map_idI)
  moreover have "map fst (map ?f ms) = map fst ms" by simp
  then have d: "distinct (map fst (map ?f ms))" using Object.prems by (simp add: comp_def)
  have u: "\<forall>m \<in> set (map ?f ms). utf8_valid (fst m)" using Object.prems(2) by simp
  have "sort_by (by_name utf16_compare) ?s = ?s"
  proof (rule utf16.sort_ascending)
    show "ascending utf16_compare ?s" using d u by (rule utf16.ascending_sort)
    show "\<forall>m \<in> set ?s. utf8_valid (fst m)" using u unfolding set_sort_by .
  qed
  ultimately show ?case by (simp only: canon.simps)
qed simp_all

lemma encodable_canon: "encodable b d v \<Longrightarrow> encodable b d (canon v)"
proof (induction v arbitrary: d)
  case (Object ms)
  have "map fst (map (map_prod (\<lambda>k. k) canon) ms) = map fst ms" by simp
  then have "distinct (map fst (sort_by (by_name utf16_compare) (map (map_prod (\<lambda>k. k) canon) ms)))"
    using Object.prems by (simp add: comp_def)
  moreover have "encodable b (d + 1) (canon (snd m))" if "m \<in> set ms" for m
    using Object.prems that by (intro Object.IH [of m]) (auto simp: snds.simps)
  ultimately show ?case using Object.prems by auto
qed auto

lemma jcs_encode_canon:
  assumes "jcs_encode B b v = Some t" "portable v" shows "jcs_encode B b (canon v) = Some t"
  using assms encodable_canon [of b 1 v] canon_canon [of b 1 v]
  by (auto simp: jcs_encode_Some jcs_text_def node_count_canon)

lemma b64_utf8 [simp]: "utf8_valid (base64url_encode k)" "from_utf8 (base64url_encode k) = Some (base64url_encode k)"
  using b64_plain(1) [of k] by (auto simp: ascii_valid)

section \<open>Objects with named slots\<close>

lemma map_of_members_map:
  "map_of (map (map_prod (\<lambda>k. k) f) ms) n = map_option f (map_of ms n)"
  by (induction ms) auto

text \<open>The decoder gives back the members, in canonical order, and the slots are the values' canonical forms.\<close>

lemma object_round_trip:
  assumes enc: "jcs_encode B b (Object ms) = Some t" and p: "portable (Object ms)"
    and b: "integers_fit b" "length t \<le> json_bytes b"
  obtains ms' where "json_decode b t = Some (Object ms')" "jcs_encode B b (Object ms') = Some t"
    "distinct (map fst ms')" "length ms' = length ms"
    "\<And>names. fst ` set ms \<subseteq> set names \<Longrightarrow>
       collect names ms' Map.empty = Some (\<lambda>n. map_option canon (map_of ms n))"
proof -
  let ?cs = "map (map_prod (\<lambda>k. k) canon) ms"
  let ?ms = "sort_by (by_name utf16_compare) ?cs"
  have c: "canon (Object ms) = Object ?ms" by simp
  have names: "map fst ?cs = map fst ms" by simp
  have "distinct (map fst ms)" using enc by (simp add: jcs_encode_Some)
  then have d: "distinct (map fst ?ms)" "distinct (map fst ?cs)" by (simp_all add: comp_def)
  have "mset ?ms = mset ?cs" by (rule mset_sort_by)
  then have m: "map_of ?ms = map_of ?cs"
    using d by (metis map_of_inject_set set_mset_mset)
  have "collect names ?ms Map.empty = Some (\<lambda>n. map_option canon (map_of ms n))"
    if "fst ` set ms \<subseteq> set names" for names
  proof -
    have "fst ` set ?ms = fst ` set ms" by (simp add: image_image)
    then show ?thesis using that by (simp add: collect_distinct [OF d(1)] m map_of_members_map fun_eq_iff)
  qed
  moreover have "length ?ms = length ms" by simp
  ultimately show ?thesis
    using that [of ?ms] decode_encode_canon [OF enc p b] jcs_encode_canon [OF enc p] d(1) unfolding c by blast
qed

section \<open>Sizes\<close>

text \<open>The size of an object's text, whatever order its members are written in.\<close>

lemma length_join_with:
  "ts \<noteq> [] \<Longrightarrow> length (join_with d ts) + 1 = (\<Sum>t \<leftarrow> ts. length t + 1)"
  by (induction d ts rule: join_with.induct) auto

lemma sum_list_sort_by: "(\<Sum>m \<leftarrow> sort_by cmp ms. f m) = ((\<Sum>m \<leftarrow> ms. f m) :: nat)"
  by (metis mset_map mset_sort_by sum_mset_sum_list)

lemma length_object_text:
  assumes "ms \<noteq> []"
  shows "length (jcs_text B (Object ms)) =
    1 + (\<Sum>m \<leftarrow> ms. length (string_text (fst m)) + length (jcs_text B (snd m)) + 2)"
proof -
  let ?s = "sort_by (by_name utf16_compare) ms"
  let ?size = "\<lambda>m. length (string_text (fst m)) + length (jcs_text B (snd m)) + 2"
  have ne: "member_texts B ?s \<noteq> []"
    using assms by (metis length_0_conv length_map length_sort_by member_texts_def)
  have "length (join_with CHR '','' (member_texts B ?s)) + 1 = (\<Sum>m \<leftarrow> ?s. ?size m)"
    unfolding length_join_with [OF ne] by (simp add: member_texts_def member_text_def comp_def)
  also have "\<dots> = (\<Sum>m \<leftarrow> ms. ?size m)" by (rule sum_list_sort_by)
  finally show ?thesis using ne by (simp add: jcs_text_Object join_from_def)
qed

lemma length_b64_text: "length (string_text (base64url_encode k)) = (4 * length k + 2) div 3 + 2"
  by (simp add: string_text_plain [OF b64_plain] length_encode)

section \<open>Members of an encodable object\<close>

lemma encodable_shallower: "encodable b (d + 1) v \<Longrightarrow> encodable b d v"
proof (induction v arbitrary: d)
  case (Array xs)
  have "encodable b (d + 1) x" if "x \<in> set xs" for x
    using Array.prems that by - (rule Array.IH, simp_all)
  then show ?case using Array.prems by auto
next
  case (Object ms)
  have "encodable b (d + 1) (snd m)" if "m \<in> set ms" for m
    using Object.prems that by - (rule Object.IH [of m], simp_all add: snds.simps)
  then show ?case using Object.prems by auto
qed auto

text \<open>What an object holds can be encoded on its own, within the same ceilings.\<close>

lemma member_encodes:
  assumes "jcs_encode B b (Object ms) = Some t" "m \<in> set ms"
  shows "jcs_encode B b (snd m) = Some (jcs_text B (snd m))"
proof -
  note e = assms(1) [unfolded jcs_encode_Some]
  have "encodable b (1 + 1) (snd m)" using e assms(2) by simp
  then have "encodable b 1 (snd m)" by (rule encodable_shallower)
  moreover have "node_count (snd m) \<le> total_nodes b"
    using e assms(2) member_le_sum_list [of "node_count (snd m)" "map (node_count \<circ> snd) ms"] by simp
  moreover have "length (jcs_text B (snd m)) \<le> jcs_bytes b"
  proof -
    let ?size = "\<lambda>m. length (string_text (fst m)) + length (jcs_text B (snd m)) + 2"
    have "?size m \<le> (\<Sum>m \<leftarrow> ms. ?size m)" using assms(2) by (intro member_le_sum_list) simp_all
    moreover have "ms \<noteq> []" using assms(2) by auto
    ultimately show ?thesis using e length_object_text [of ms B] by auto
  qed
  ultimately show ?thesis by (simp add: jcs_encode_Some)
qed

end
