(* ===== verification/Chain_Facts.thy ===== *)
theory Chain_Facts
  imports Row_Log Canonical
begin

text \<open>
  The consumption chain of version 1: the log of theory Row_Log at the row parser of \<open>v1.rs\<close>, the rows
  that the encoder writes, and the properties of \<open>check_chain\<close>.
\<close>

section \<open>The log of version 1\<close>

abbreviation rows_of :: "backend \<Rightarrow> bounds \<Rightarrow> bytes \<Rightarrow> parsed_row option" where
  "rows_of B b row \<equiv> parse_row B row b"

lemma parse_row_hash: "parse_row B row b = Some p \<Longrightarrow> pr_hash p = row_domain_hash B row"
  by (auto simp: parse_row_def accept)

lemma parse_rows_read: "parse_rows B b rows = read_rows (rows_of B b) rows"
  by (induction rows) simp_all

interpretation chain: row_reader "rows_of B" "row_domain_hash B" "check_chain B"
  by unfold_locales (simp_all add: parse_row_hash check_chain_def rows_checked_def parse_rows_read)

lemma collision_free_rows:
  assumes "collision_free B (CHAIN_DIGEST_PREFIX @ r) (CHAIN_DIGEST_PREFIX @ q)"
  shows "row_domain_hash B r = row_domain_hash B q \<longrightarrow> r = q"
  using assms by (auto simp: collision_free_def row_domain_hash_def)

section \<open>Rows that the encoder writes\<close>

text \<open>
  A row format is a version number and the domain prefix of the row hash. The encoder and the parser of every
  version are these two functions at its format.
\<close>

definition row_value :: "int \<Rightarrow> consumption_entry \<Rightarrow> json" where
  "row_value version entry = Object
     [(''chain_id'', String (ce_chain_id entry)),
      (''commitment'', String (base64url_encode (ce_commitment entry))),
      (''previous'', String (base64url_encode (ce_previous_hash entry))),
      (''sequence'', Integer (ce_sequence entry)), (''v'', Integer version)]"

definition encode_row :: "int \<Rightarrow> bytes \<Rightarrow> backend \<Rightarrow> consumption_entry \<Rightarrow> bounds \<Rightarrow> (bytes \<times> bytes) option" where
  "encode_row version tag B entry b =
     do {
       reject_if (ce_sequence entry < 1);
       validate_identifier (ce_chain_id entry) b;
       reject_if (ce_sequence entry = 1 \<and> list_ex (\<lambda>c. byte c \<noteq> 0) (ce_previous_hash entry));
       canonical \<leftarrow> jcs_encode B b (row_value version entry);
       reject_if (length canonical > chain_row_bytes b);
       Some (canonical, sha256 B (tag @ canonical))
     }"

definition read_row :: "int \<Rightarrow> bytes \<Rightarrow> backend \<Rightarrow> bounds \<Rightarrow> bytes \<Rightarrow> parsed_row option" where
  "read_row version tag B b row =
     do {
       v \<leftarrow> json_decode b row;
       members \<leftarrow> members_of v;
       slots \<leftarrow> collect row_members members Map.empty;
       reject_if (slots ''v'' \<noteq> Some (Integer version));
       chain_id \<leftarrow> string_of (slots ''chain_id'');
       sequence \<leftarrow> take_integral_date (slots ''sequence'');
       take_b64url_32 (slots ''commitment'');
       previous \<leftarrow> take_b64url_32 (slots ''previous'');
       reencoded \<leftarrow> jcs_encode B b v;
       reject_if (reencoded \<noteq> row);
       Some \<lparr>pr_chain_id = chain_id, pr_previous = previous, pr_sequence = sequence,
         pr_hash = sha256 B (tag @ row)\<rparr>
     }"

lemma read_row_hash: "read_row version tag B b row = Some p \<Longrightarrow> pr_hash p = sha256 B (tag @ row)"
  by (auto simp: read_row_def accept)

lemma row_utf8:
  "utf8_valid ''chain_id''" "utf8_valid ''commitment''" "utf8_valid ''previous''" "utf8_valid ''sequence''"
  "utf8_valid ''v''"
  by code_simp+

lemma encoded_row_read:
  assumes enc: "encode_row version tag B entry b = Some (row, h)"
    and ty: "utf8_valid (ce_chain_id entry)" "length (ce_previous_hash entry) = 32" "length (ce_commitment entry) = 32"
    and b: "integers_fit b" "length row \<le> json_bytes b"
  shows "read_row version tag B b row = Some \<lparr>pr_chain_id = ce_chain_id entry, pr_previous = ce_previous_hash entry,
      pr_sequence = ce_sequence entry, pr_hash = h\<rparr>"
    and "h = sha256 B (tag @ row)" "validate_identifier (ce_chain_id entry) b = Some ()"
    and "length row \<le> chain_row_bytes b" "1 \<le> ce_sequence entry"
proof -
  let ?ms = "[(''chain_id'', String (ce_chain_id entry)),
      (''commitment'', String (base64url_encode (ce_commitment entry))),
      (''previous'', String (base64url_encode (ce_previous_hash entry))),
      (''sequence'', Integer (ce_sequence entry)), (''v'', Integer version)]"
  have e: "jcs_encode B b (Object ?ms) = Some row" "h = sha256 B (tag @ row)" "length row \<le> chain_row_bytes b"
      "validate_identifier (ce_chain_id entry) b = Some ()" "1 \<le> ce_sequence entry"
    using enc by (simp_all add: encode_row_def row_value_def accept split: if_splits)
  then show "h = sha256 B (tag @ row)" "validate_identifier (ce_chain_id entry) b = Some ()"
    "length row \<le> chain_row_bytes b" "1 \<le> ce_sequence entry" by simp_all
  have p: "portable (Object ?ms)" using ty(1) row_utf8 by simp
  obtain ms where ms: "json_decode b row = Some (Object ms)" "jcs_encode B b (Object ms) = Some row"
      "\<And>names. fst ` set ?ms \<subseteq> set names \<Longrightarrow>
         collect names ms Map.empty = Some (\<lambda>n. map_option canon (map_of ?ms n))"
    using object_round_trip [OF e(1) p b] by blast
  have "collect row_members ms Map.empty = Some (\<lambda>n. map_option canon (map_of ?ms n))"
    by (rule ms(3)) (simp add: row_members_def)
  then show "read_row version tag B b row = Some \<lparr>pr_chain_id = ce_chain_id entry,
      pr_previous = ce_previous_hash entry, pr_sequence = ce_sequence entry, pr_hash = h\<rparr>"
    using ms(1,2) e(2) ty
    by (simp add: read_row_def members_of_def string_of_def take_integral_date_def take_b64url_32_def decode_encode)
qed

lemma format_v1:
  "encode_consumption_entry B entry b = encode_row 1 CHAIN_DIGEST_PREFIX B entry b"
  "parse_row B row b = read_row 1 CHAIN_DIGEST_PREFIX B b row"
  by (simp_all add: encode_consumption_entry_def encode_row_def row_value_def parse_row_def read_row_def
      row_domain_hash_def b64url_to_string_def Let_def)

lemmas encoded_row_parses = encoded_row_read [of 1 CHAIN_DIGEST_PREFIX, folded format_v1 row_domain_hash_def]

section \<open>A sample log\<close>

definition genesis_hash :: bytes where
  "genesis_hash = replicate 32 (CHR 0x00)"

definition sample_entry :: "int \<Rightarrow> bytes \<Rightarrow> consumption_entry" where
  "sample_entry n h = \<lparr>ce_chain_id = ''c'', ce_commitment = genesis_hash, ce_previous_hash = h, ce_sequence = n\<rparr>"

definition sample_row :: "int \<Rightarrow> bytes \<Rightarrow> bytes" where
  "sample_row n h = fst (the (encode_consumption_entry sample_backend (sample_entry n h) maximum))"

definition sample_head :: bytes where
  "sample_head = row_domain_hash sample_backend (sample_row 1 genesis_hash)"

definition sample_end :: bytes where
  "sample_end = row_domain_hash sample_backend (sample_row 2 sample_head)"

definition sample_expected :: expected_chain where
  "sample_expected = \<lparr>ec_chain_id = ''c'', ec_first_sequence = 1, ec_last_sequence = 1, ec_row_count = 1,
     ec_previous_hash = genesis_hash, ec_head_hash = sample_head, ec_bounds = None\<rparr>"

lemma sample_texts:
  "utf8_valid ''c''" "validate_identifier ''c'' maximum = Some ()"
  "length (string_text ''chain_id'') = 10" "length (string_text ''commitment'') = 12"
  "length (string_text ''previous'') = 10" "length (string_text ''sequence'') = 10"
  "length (string_text ''v'') = 3" "length (string_text ''c'') = 3" "length (decimal_int 1) = 1"
  "length (decimal_int 2) = 1"
  by code_simp+

lemma sample_row_encodes:
  assumes "n = 1 \<and> h = genesis_hash \<or> n = 2" "length h = 32"
  shows "encode_consumption_entry sample_backend (sample_entry n h) maximum =
    Some (sample_row n h, row_domain_hash sample_backend (sample_row n h))"
    and "length (sample_row n h) \<le> 300"
proof -
  let ?ms = "[(''chain_id'', String ''c''), (''commitment'', String (base64url_encode genesis_hash)),
      (''previous'', String (base64url_encode h)), (''sequence'', Integer n), (''v'', Integer 1)]"
  let ?t = "jcs_text sample_backend (Object ?ms)"
  have z: "length genesis_hash = 32" "\<not> list_ex (\<lambda>c. byte c \<noteq> 0) genesis_hash"
    by (simp_all add: genesis_hash_def byte_def list_ex_iff)
  have t: "length ?t \<le> 300"
    using assms sample_texts z(1) by (subst length_object_text) (auto simp: jcs_text_scalar length_b64_text)
  then have enc: "jcs_encode sample_backend maximum (Object ?ms) = Some ?t"
    using assms z(1) by (auto simp: jcs_encode_Some maximum_def length_encode)
  have "encode_consumption_entry sample_backend (sample_entry n h) maximum =
      Some (?t, row_domain_hash sample_backend ?t)"
    using assms t sample_texts(2) enc z(2)
    by (auto simp: encode_consumption_entry_def sample_entry_def b64url_to_string_def Let_def maximum_def)
  then show "encode_consumption_entry sample_backend (sample_entry n h) maximum =
    Some (sample_row n h, row_domain_hash sample_backend (sample_row n h))"
    and "length (sample_row n h) \<le> 300" using t by (simp_all add: sample_row_def)
qed

lemma sample_row_step:
  assumes "n = 1 \<and> h = genesis_hash \<or> n = 2" "length h = 32"
  shows "log_step (rows_of sample_backend maximum) ''c'' (n, h) (sample_row n h) =
    Some (n + 1, row_domain_hash sample_backend (sample_row n h))"
proof -
  have "length (sample_row n h) \<le> json_bytes maximum"
    using sample_row_encodes(2) [OF assms] by (simp add: maximum_def)
  note p = encoded_row_parses(1) [OF sample_row_encodes(1) [OF assms] _ _ _ maximum_fits(1) this]
  show ?thesis using p assms(2) sample_texts(1) by (simp add: sample_entry_def genesis_hash_def log_step_def)
qed

lemma sample_head_length: "length genesis_hash = 32" "length sample_head = 32"
  by (simp_all add: genesis_hash_def sample_head_def row_domain_hash_def sample_backend_def checksum_def)

lemma sample_request: "chain_request_ok \<lparr>ci_rows = [sample_row 1 genesis_hash]\<rparr> sample_expected"
  using sample_row_encodes(2) [of 1 genesis_hash] sample_texts(2) sample_head_length(1)
  by (simp add: chain_request_ok_def sample_expected_def resolve_bounds_def maximum_def genesis_hash_def byte_def)

lemma sample_run: "expected_run (rows_of sample_backend) [sample_row 1 genesis_hash] sample_expected"
  using sample_row_step [of 1 genesis_hash] sample_head_length(1)
  by (simp add: expected_run_def sample_expected_def resolve_bounds_def sample_head_def)

lemma sample_accepted:
  "check_chain sample_backend \<lparr>ci_rows = [sample_row 1 genesis_hash]\<rparr> sample_expected = Some (chain_facts_of sample_expected)"
  using chain.check_iff [of sample_expected] sample_request sample_run
  by (simp add: sample_expected_def is_i64_def i64_min_def i64_max_def)

section \<open>Tamper evidence and extension\<close>

lemma accepted_rows_determined:
  assumes a: "check_chain B i e = Some f" "check_chain B j e' = Some f'"
    and i: "is_i64 (ec_last_sequence e)" "is_i64 (ec_last_sequence e')"
    and eq: "resolve_bounds (ec_bounds e) = resolve_bounds (ec_bounds e')" "ec_chain_id e = ec_chain_id e'"
      "ec_head_hash e = ec_head_hash e'" "ec_row_count e \<le> ec_row_count e'"
    and free: "\<forall>r \<in> set (ci_rows i). \<forall>q \<in> set (ci_rows j).
      collision_free B (CHAIN_DIGEST_PREFIX @ r) (CHAIN_DIGEST_PREFIX @ q)"
  shows "suffix (ci_rows i) (ci_rows j)"
  by (rule chain.accepted_determined [OF a i eq]) (use free collision_free_rows in blast)

lemma chain_extends:
  assumes acc: "check_chain B i e = Some f" and l: "is_i64 (ec_last_sequence e)" "is_i64 (ec_last_sequence e + 1)"
    and enc: "encode_consumption_entry B entry (resolve_bounds (ec_bounds e)) = Some (row, h)"
    and ty: "utf8_valid (ce_chain_id entry)" "length (ce_previous_hash entry) = 32" "length (ce_commitment entry) = 32"
    and ent: "ce_chain_id entry = ec_chain_id e" "ce_sequence entry = ec_last_sequence e + 1"
      "ce_previous_hash entry = ec_head_hash e"
    and b: "integers_fit (resolve_bounds (ec_bounds e))" "length row \<le> json_bytes (resolve_bounds (ec_bounds e))"
      "length (ci_rows i) < chain_rows (resolve_bounds (ec_bounds e))"
  shows "check_chain B \<lparr>ci_rows = ci_rows i @ [row]\<rparr> (extended e h) = Some (chain_facts_of (extended e h))"
proof -
  note p = encoded_row_parses [OF enc ty b(1,2)]
  show ?thesis unfolding p(2)
    by (rule chain.accepted_extends [OF acc l p(1)]) (simp_all add: ent p(4) b(3))
qed

section \<open>Properties\<close>

text \<open>C8: The passes of \<open>check_chain\<close> refine one run of the append-only log: a chain is accepted exactly
  when the request is well formed and the log machine, started at the expected first sequence number
  and previous hash, reads every row and stops at the expected last number and head.\<close>

theorem check_chain_refines_log:
  assumes "is_i64 (ec_last_sequence e)"
  shows "check_chain B input e = Some facts \<longleftrightarrow>
    chain_request_ok input e \<and> expected_run (rows_of B) (ci_rows input) e \<and> facts = chain_facts_of e"
  using assms by (rule chain.check_iff)

theorem check_chain_refines_log_witness:
  "\<exists>facts. check_chain sample_backend \<lparr>ci_rows = [sample_row 1 genesis_hash]\<rparr> sample_expected = Some facts \<and>
     cf_head_hash facts = sample_head"
  using check_chain_refines_log [of sample_expected] sample_request sample_run
  by (simp add: sample_expected_def is_i64_def i64_min_def i64_max_def chain_facts_of_def)

text \<open>C9: Tamper evidence: two accepted histories of one chain with the same head are the same rows, as far
  back as the shorter one goes, unless two of their rows are a collision of the domain-separated digest.\<close>

theorem chain_tamper_evident:
  assumes "check_chain B i e = Some f" "check_chain B j e' = Some f'"
    and "is_i64 (ec_last_sequence e)" "is_i64 (ec_last_sequence e')"
    and "resolve_bounds (ec_bounds e) = resolve_bounds (ec_bounds e')" "ec_chain_id e = ec_chain_id e'"
      "ec_head_hash e = ec_head_hash e'" "ec_row_count e \<le> ec_row_count e'"
    and "\<forall>r \<in> set (ci_rows i). \<forall>q \<in> set (ci_rows j).
      collision_free B (CHAIN_DIGEST_PREFIX @ r) (CHAIN_DIGEST_PREFIX @ q)"
  shows "suffix (ci_rows i) (ci_rows j)"
  using assms by (rule accepted_rows_determined)

theorem chain_tamper_evident_witness: "suffix [sample_row 1 genesis_hash] [sample_row 1 genesis_hash]"
  using chain_tamper_evident [OF sample_accepted sample_accepted]
  by (simp add: sample_expected_def is_i64_def i64_min_def i64_max_def collision_free_def)

text \<open>C16: Appending composes the encoder with the verifier: the row that \<open>encode_consumption_entry\<close> writes
  for the next sequence number and the current head extends an accepted chain to an accepted chain, whose
  new head is the hash the encoder returned.\<close>

theorem chain_append_accepted:
  assumes "check_chain B i e = Some f" "is_i64 (ec_last_sequence e)" "is_i64 (ec_last_sequence e + 1)"
    and "encode_consumption_entry B entry (resolve_bounds (ec_bounds e)) = Some (row, h)"
    and "utf8_valid (ce_chain_id entry)" "length (ce_previous_hash entry) = 32" "length (ce_commitment entry) = 32"
    and "ce_chain_id entry = ec_chain_id e" "ce_sequence entry = ec_last_sequence e + 1"
      "ce_previous_hash entry = ec_head_hash e"
    and "integers_fit (resolve_bounds (ec_bounds e))" "length row \<le> json_bytes (resolve_bounds (ec_bounds e))"
      "length (ci_rows i) < chain_rows (resolve_bounds (ec_bounds e))"
  shows "check_chain B \<lparr>ci_rows = ci_rows i @ [row]\<rparr> (extended e h) = Some (chain_facts_of (extended e h))"
  using assms by (rule chain_extends)

theorem chain_append_accepted_witness:
  "\<exists>facts. check_chain sample_backend \<lparr>ci_rows = [sample_row 1 genesis_hash, sample_row 2 sample_head]\<rparr>
     (extended sample_expected sample_end) = Some facts"
  using chain_append_accepted [OF sample_accepted, of "sample_entry 2 sample_head" "sample_row 2 sample_head" sample_end]
    sample_row_encodes [of 2 sample_head] sample_head_length sample_texts(1) maximum_fits
  by (simp add: sample_expected_def sample_entry_def is_i64_def i64_min_def i64_max_def resolve_bounds_def
      sample_end_def maximum_def)

end
