(* ===== verification/Producer_Facts.thy ===== *)
theory Producer_Facts
  imports Anchors Canonical Digest_Facts
begin

text \<open>
  Producers against decoders. Every artifact of the profile is made the same way: two objects are
  encoded, their segments and the signature are framed, and the decoder reads the frame back. The
  locale \<open>artifact\<close> is the contract between a producer and its decoder; its interpretations are the
  round trips of the artifacts, and that a signature over a message commits to all fields follows once.
\<close>

section \<open>Framing\<close>

definition framed :: "produced_signing_input \<Rightarrow> bytes \<Rightarrow> bytes" where
  "framed psi sg = psi_message psi @ ''.'' @ base64url_encode sg"

text \<open>The compact stays within a ceiling and the segments within theirs, encoded and decoded.\<close>

definition compact_fits :: "bounds \<Rightarrow> nat \<Rightarrow> produced_signing_input \<Rightarrow> bytes \<Rightarrow> bool" where
  "compact_fits b room psi sg \<longleftrightarrow>
     length (framed psi sg) \<le> room \<and>
     (\<forall>seg \<in> {psi_protected_segment psi, psi_payload_segment psi}.
        length seg \<le> encoded_segment_bytes b \<and> 3 * length seg div 4 \<le> decoded_segment_bytes b \<and>
        3 * length seg div 4 \<le> json_bytes b)"

lemma decoded_length: "3 * length (base64url_encode t) div 4 = length t"
  unfolding length_encode by presburger

lemma object_text_ne: "jcs_encode B b (Object ms) = Some t \<Longrightarrow> t \<noteq> []"
  by (auto simp: jcs_encode_Some jcs_text_Object)

lemma decode_segment_encode:
  "length (base64url_encode t) \<le> encoded_segment_bytes b \<Longrightarrow> length t \<le> decoded_segment_bytes b \<Longrightarrow>
   decode_segment (base64url_encode t) b = Some t"
  by (simp add: decode_segment_def decode_encode)

lemma decode_signature_encode: "length sg = 64 \<Longrightarrow> decode_signature (base64url_encode sg) = Some sg"
  by (simp add: decode_signature_def decode_encode)

lemma parse_framed:
  assumes "t \<noteq> []" "u \<noteq> []" "sg \<noteq> []"
  shows "parse_compact (base64url_encode t @ ''.'' @ base64url_encode u @ ''.'' @ base64url_encode sg) =
    Some (base64url_encode t, base64url_encode u, base64url_encode sg)"
  using assms unfolding parse_compact_Some by (simp add: validate_segment_Some encode_ne) blast

text \<open>What the decoders find in the frame of two produced objects: the segments, and in each segment
  a text that decodes to the members that were encoded.\<close>

definition frame_read :: "bounds \<Rightarrow> produced_signing_input \<Rightarrow> bytes \<Rightarrow> bytes \<Rightarrow> bytes \<Rightarrow> bool" where
  "frame_read b psi sg ht pt \<longleftrightarrow>
     parse_compact (framed psi sg) = Some (psi_protected_segment psi, psi_payload_segment psi, base64url_encode sg) \<and>
     decode_segment (psi_protected_segment psi) b = Some ht \<and> decode_segment (psi_payload_segment psi) b = Some pt \<and>
     decode_signature (base64url_encode sg) = Some sg"

definition stored :: "backend \<Rightarrow> bounds \<Rightarrow> bytes \<Rightarrow> (bytes \<times> json) list \<Rightarrow> (bytes \<times> json) list \<Rightarrow> bool" where
  "stored B b t ms ms' \<longleftrightarrow>
     json_decode b t = Some (Object ms') \<and> jcs_encode B b (Object ms') = Some t \<and>
     jcs_encode B b (Object ms) = Some t \<and>
     (\<forall>names. fst ` set ms \<subseteq> set names \<longrightarrow>
        collect names ms' Map.empty = Some (\<lambda>n. map_option canon (map_of ms n)))"

lemma stored_text: "stored B b t ms ms' \<Longrightarrow> json_decode b t = Some (Object ms') \<and> jcs_encode B b (Object ms') = Some t"
  by (simp add: stored_def)

lemma stored_collect:
  "stored B b t ms ms' \<Longrightarrow> fst ` set ms \<subseteq> set names \<Longrightarrow>
   collect names ms' Map.empty = Some (\<lambda>n. map_option canon (map_of ms n))"
  by (simp add: stored_def)

lemma encoded_stored:
  assumes "jcs_encode B b (Object ms) = Some t" "portable (Object ms)" "integers_fit b" "length t \<le> json_bytes b"
  obtains ms' where "stored B b t ms ms'"
proof -
  obtain ms' where "json_decode b t = Some (Object ms')" "jcs_encode B b (Object ms') = Some t"
    "\<And>names. fst ` set ms \<subseteq> set names \<Longrightarrow> collect names ms' Map.empty = Some (\<lambda>n. map_option canon (map_of ms n))"
    using object_round_trip [OF assms] by blast
  then have "stored B b t ms ms'" using assms(1) by (simp add: stored_def)
  then show ?thesis by (rule that)
qed

lemma produced_frame:
  assumes p: "build_produced B (Object hs) (Object ps) b = Some psi"
    and fit: "compact_fits b room psi sg" "length sg = 64"
    and ty: "portable (Object hs)" "portable (Object ps)" "integers_fit b"
  obtains ht pt hms pms where "frame_read b psi sg ht pt" "stored B b ht hs hms" "stored B b pt ps pms"
proof -
  obtain ht pt where e: "jcs_encode B b (Object hs) = Some ht" "jcs_encode B b (Object ps) = Some pt"
    and psi: "psi_protected_segment psi = base64url_encode ht" "psi_payload_segment psi = base64url_encode pt"
      "psi_message psi = base64url_encode ht @ ''.'' @ base64url_encode pt"
    using p by (auto simp: build_produced_def accept Let_def)
  have l: "length (base64url_encode ht) \<le> encoded_segment_bytes b" "length ht \<le> decoded_segment_bytes b"
      "length ht \<le> json_bytes b" "length (base64url_encode pt) \<le> encoded_segment_bytes b"
      "length pt \<le> decoded_segment_bytes b" "length pt \<le> json_bytes b"
    using fit(1) unfolding compact_fits_def psi by (simp_all add: decoded_length)
  have "sg \<noteq> []" using fit(2) by auto
  then have f: "parse_compact (framed psi sg) = Some (base64url_encode ht, base64url_encode pt, base64url_encode sg)"
    using parse_framed [OF object_text_ne [OF e(1)] object_text_ne [OF e(2)]] by (simp add: framed_def psi)
  then have "frame_read b psi sg ht pt"
    using decode_segment_encode [OF l(1,2)] decode_segment_encode [OF l(4,5)] decode_signature_encode [OF fit(2)]
    by (simp add: frame_read_def psi)
  moreover obtain hms where "stored B b ht hs hms" by (rule encoded_stored [OF e(1) ty(1,3) l(3)])
  moreover obtain pms where "stored B b pt ps pms" by (rule encoded_stored [OF e(2) ty(2,3) l(6)])
  ultimately show ?thesis by (rule that)
qed

lemma fits_room: "compact_fits b room psi sg \<Longrightarrow> length (framed psi sg) \<le> room"
  by (simp add: compact_fits_def)

section \<open>The contract of an artifact\<close>

locale artifact =
  fixes produce :: "bounds \<Rightarrow> 'i \<Rightarrow> produced_signing_input result"
    and decode :: "bounds \<Rightarrow> bytes \<Rightarrow> 'c result"
    and room :: "bounds \<Rightarrow> nat"
    and ok :: "bounds \<Rightarrow> 'i \<Rightarrow> bool"
    and view :: "'i \<Rightarrow> 'c"
  assumes decodes: "produce b i = Some psi \<Longrightarrow> ok b i \<Longrightarrow> compact_fits b (room b) psi sg \<Longrightarrow> length sg = 64 \<Longrightarrow>
      decode b (framed psi sg) = Some (view i)"
begin

text \<open>A signature over the message commits to everything that the decoder returns.\<close>

lemma message_commits:
  assumes "produce b i = Some psi" "produce b j = Some chi" "psi_message psi = psi_message chi"
    and "ok b i" "ok b j" "compact_fits b (room b) psi sg" "compact_fits b (room b) chi sg" "length sg = 64"
  shows "view i = view j"
  using decodes [OF assms(1,4,6,8)] decodes [OF assms(2,5,7,8)] assms(3) by (simp add: framed_def)

end

section \<open>Headers and scalar slots\<close>

lemma header_utf8:
  "utf8_valid ''alg''" "utf8_valid ''kid''" "utf8_valid ''typ''" "utf8_valid ''jwk''" "utf8_valid ALG_EDDSA"
  "utf8_valid TYP_GRANT" "utf8_valid TYP_PROOF" "utf8_valid TYP_LOCAL_LOOPBACK_HTTP_PROOF"
  "utf8_valid TYP_CHAIN_ANCHOR" "utf8_valid TYP_KEY_TRANSITION"
  by code_simp+

definition kid_members :: "bytes \<Rightarrow> bytes \<Rightarrow> bytes \<Rightarrow> (bytes \<times> json) list" where
  "kid_members alg key_id typ = [(''alg'', String alg), (''kid'', String key_id), (''typ'', String typ)]"

lemma kid_header_members: "kid_header key_id typ = Object (kid_members ALG_EDDSA key_id typ)"
  by (simp add: kid_header_def kid_members_def)

lemma kid_slots:
  assumes "stored B b t (kid_members alg key_id typ) ms"
  obtains slots where "collect [''alg'', ''typ'', ''kid''] ms Map.empty = Some slots"
    "slots ''alg'' = Some (String alg)" "slots ''typ'' = Some (String typ)"
    "slots ''kid'' = Some (String key_id)"
proof
  show "collect [''alg'', ''typ'', ''kid''] ms Map.empty =
      Some (\<lambda>n. map_option canon (map_of (kid_members alg key_id typ) n))"
    by (rule stored_collect [OF assms]) (simp add: kid_members_def)
qed (simp_all add: kid_members_def)

lemma take_digest_encode:
  "length raw = 32 \<Longrightarrow> length (base64url_encode raw) \<le> encoded_segment_bytes b \<Longrightarrow>
   take_digest_b64u (Some (String (base64url_encode raw))) b = Some raw"
  by (simp add: take_digest_b64u_def string_of_def decode_encode)

lemma take_string_identifier:
  "validate_identifier s b = Some () \<Longrightarrow> take_string_or_uri (Some (String s)) b = Some s"
  by (simp add: take_string_or_uri_def string_of_def)

lemma thumbprint_length: "sha256_width B \<Longrightarrow> thumbprint_raw B k = Some h \<Longrightarrow> length h = 32"
  by (auto simp: thumbprint_raw_def thumbprint_digest_unchecked_def sha256_width_def accept)

lemmas slots = members_of_def string_of_def take_integral_date_def take_digest_encode take_string_identifier

lemma thumbprint_raw_Some: "thumbprint_raw B k = Some h \<Longrightarrow> h = thumbprint_digest_unchecked B k"
  by (simp add: thumbprint_raw_def accept split: if_splits)

lemma unchecked_length: "sha256_width B \<Longrightarrow> length (thumbprint_digest_unchecked B k) = 32"
  by (simp add: thumbprint_digest_unchecked_def sha256_width_def)

section \<open>Archival names\<close>

definition archival_room :: "bounds \<Rightarrow> nat" where
  "archival_room b = min (compact_bytes b) (anchor_bytes b)"

lemma anchor_utf8:
  "utf8_valid ''anchor_id''" "utf8_valid ''anchored_at''" "utf8_valid ''chain_hash''"
  "utf8_valid ''chain_id''" "utf8_valid ''key_fingerprint''" "utf8_valid ''sequence''" "utf8_valid ''v''"
  "utf8_valid ''effective_at''" "utf8_valid ''from_key_fingerprint''" "utf8_valid ''to_key_fingerprint''"
  "utf8_valid ''to_key_id''" "utf8_valid ''transition_id''"
  by code_simp+

end
