(* ===== verification/Selector_Canon.thy ===== *)
theory Selector_Canon
  imports Canonical Selector_Facts
begin

text \<open>
  Selectors in canonical form. A verifier sees the canonical form of what the issuer wrote, so the
  selectors of a grant arrive with their members sorted; they are still valid and still mean the same.
\<close>

section \<open>Selectors in canonical form\<close>

fun canon_selector :: "selector \<Rightarrow> selector" where
  "canon_selector Any = Any"
| "canon_selector (Equals path v) = Equals path (canon v)"
| "canon_selector (One_of path vs) = One_of path (map canon vs)"
| "canon_selector (Within ord path v) = Within ord path (canon v)"

definition canon_members :: "(bytes \<times> json) list \<Rightarrow> (bytes \<times> json) list" where
  "canon_members ms = sort_by (by_name utf16_compare) (map (map_prod (\<lambda>k. k) canon) ms)"

lemma canon_Object: "canon (Object ms) = Object (canon_members ms)"
  by (simp add: canon_members_def)

lemma canon_members_facts:
  assumes "distinct (map fst ms)"
  shows "distinct (map fst (canon_members ms))" "length (canon_members ms) = length ms"
    and "map_of (canon_members ms) n = map_option canon (map_of ms n)"
    and "fst ` set (canon_members ms) = fst ` set ms"
proof -
  let ?cs = "map (map_prod (\<lambda>k. k) canon) ms"
  have "map fst ?cs = map fst ms" by simp
  then have d: "distinct (map fst ?cs)" using assms by (simp add: comp_def)
  then show d': "distinct (map fst (canon_members ms))" by (simp add: canon_members_def comp_def)
  show "length (canon_members ms) = length ms" by (simp add: canon_members_def)
  have "map_of (canon_members ms) = map_of ?cs"
    using d d' unfolding canon_members_def by (metis map_of_inject_set mset_sort_by set_mset_mset)
  then show "map_of (canon_members ms) n = map_option canon (map_of ms n)" by (simp add: map_of_members_map)
  show "fst ` set (canon_members ms) = fst ` set ms" by (simp add: canon_members_def image_image)
qed

lemma name_count_distinct:
  "distinct (map fst ms) \<Longrightarrow> name_count ms n = (if map_of ms n = None then 0 else 1)"
  unfolding name_count_def by (induction ms) (force simp: map_of_eq_None_iff filter_empty_conv)+

lemma path_segments_canon: "path_segments_of b (map canon xs) = path_segments_of b xs"
proof (induction xs)
  case (Cons x xs)
  then show ?case by (cases x) simp_all
qed simp

lemma extract_path_canon:
  assumes "distinct (map fst ms)"
  shows "extract_path (canon_members ms) n b = extract_path ms n b"
proof (cases "map_of ms n")
  case (Some v)
  then show ?thesis using canon_members_facts(3) [OF assms, of n]
    by (cases v) (simp_all add: extract_path_def member_value_def path_segments_canon)
qed (use canon_members_facts(3) [OF assms, of n] in \<open>simp add: extract_path_def member_value_def\<close>)

lemma map_of_portable: "portable (Object ms) \<Longrightarrow> map_of ms n = Some v \<Longrightarrow> portable v"
  using map_of_SomeD [of ms n v] by fastforce

lemma recognized_canon:
  assumes "distinct (map fst ms)"
  shows "recognized_member_set (canon_members ms) = recognized_member_set ms"
  unfolding recognized_member_set_def Let_def
  using canon_members_facts [OF assms] by (simp add: name_count_distinct assms)

lemma read_with_value_canon:
  assumes "distinct (map fst ms)" "portable (Object ms)" "read_with_value B b ms build = Some s"
  shows "\<exists>path v. s = build path v \<and> read_with_value B b (canon_members ms) build' = Some (build' path (canon v))"
proof -
  obtain path v where *: "extract_path ms ''path'' b = Some path" "map_of ms ''value'' = Some v"
      "jcs_encode B b v \<noteq> None" "s = build path v"
    using assms(3) by (auto simp: read_with_value_Some)
  then have "jcs_encode B b (canon v) \<noteq> None"
    using jcs_encode_canon map_of_portable [OF assms(2)] by blast
  then have "read_with_value B b (canon_members ms) build' = Some (build' path (canon v))"
    using * canon_members_facts(3) [OF assms(1)] extract_path_canon [OF assms(1)]
    by (simp add: read_with_value_def)
  with *(4) show ?thesis by blast
qed

lemma read_one_of_canon:
  assumes "distinct (map fst ms)" "portable (Object ms)" "read_one_of B b ms = Some s"
  shows "read_one_of B b (canon_members ms) = Some (canon_selector s)"
proof -
  obtain path vs where *: "extract_path ms ''path'' b = Some path" "map_of ms ''values'' = Some (Array vs)"
      "vs \<noteq> []" "length vs \<le> one_of_values b" "\<forall>v \<in> set vs. jcs_encode B b v \<noteq> None" "s = One_of path vs"
    using assms(3) by (auto simp: read_one_of_Some)
  have "portable (Array vs)" using map_of_portable [OF assms(2) *(2)] .
  then have "\<forall>v \<in> set vs. jcs_encode B b (canon v) \<noteq> None"
    using *(5) jcs_encode_canon by fastforce
  then show ?thesis
    using * canon_members_facts(3) [OF assms(1)] extract_path_canon [OF assms(1)]
    by (simp add: read_one_of_def)
qed

lemma is_numeric_canon: "is_numeric (canon v) = is_numeric v"
  by (cases v) (simp_all add: is_numeric_def)

lemma read_kind_canon:
  assumes "distinct (map fst ms)" "portable (Object ms)" "read_kind B b ms kind = Some s"
  shows "read_kind B b (canon_members ms) kind = Some (canon_selector s)"
proof -
  have num: "(\<exists>v. map_of (canon_members ms) ''value'' = Some v \<and> is_numeric v) \<longleftrightarrow>
      (\<exists>v. map_of ms ''value'' = Some v \<and> is_numeric v)"
    using canon_members_facts(3) [OF assms(1)] is_numeric_canon by auto
  consider "kind = ''all''" | "kind = ''equals''" | "kind = ''one_of''" | "kind = ''lte'' \<or> kind = ''gte''"
    using assms(3) unfolding read_kind_def by (metis option.distinct(1))
  then show ?thesis
  proof cases
    case 2
    then have "read_with_value B b ms Equals = Some s" using assms(3) by (simp add: read_kind_def)
    from read_with_value_canon [OF assms(1,2) this, of Equals]
    obtain path v where "s = Equals path v" "read_with_value B b (canon_members ms) Equals = Some (Equals path (canon v))"
      by blast
    then show ?thesis using 2 by (simp add: read_kind_def)
  next
    case 3
    then show ?thesis using assms(3) read_one_of_canon [OF assms(1,2)] by (simp add: read_kind_def)
  next
    case 4
    let ?w = "Within (if kind = ''lte'' then Lte else Gte)"
    have r: "read_with_value B b ms ?w = Some s" "\<exists>v. map_of ms ''value'' = Some v \<and> is_numeric v"
      using 4 assms(3) by (auto simp: read_kind_def split: if_splits)
    obtain path v where "s = ?w path v" "read_with_value B b (canon_members ms) ?w = Some (?w path (canon v))"
      using read_with_value_canon [OF assms(1,2) r(1), of ?w] by blast
    moreover have "read_kind B b (canon_members ms) kind = read_with_value B b (canon_members ms) ?w"
      using 4 num r(2) unfolding read_kind_def by auto
    ultimately show ?thesis by simp
  qed (use assms(3) in \<open>simp add: read_kind_def\<close>)
qed

lemma read_selector_canon:
  assumes "dup_free v" "portable v" "read_selector B b v = Some s"
  shows "read_selector B b (canon v) = Some (canon_selector s)"
proof -
  obtain ms kind where v: "v = Object ms" "recognized_member_set ms" "map_of ms ''kind'' = Some (String kind)"
      "read_kind B b ms kind = Some s"
    using assms(3) by (auto simp: read_selector_def split: json.splits if_splits option.splits)
  have d: "distinct (map fst ms)" using assms(1) by (simp add: v(1))
  show ?thesis
    using v read_kind_canon [OF d _ v(4)] recognized_canon [OF d] canon_members_facts(3) [OF d, of "''kind''"] assms(2)
    by (simp add: read_selector_def canon_Object del: canon.simps(7) portable.simps(4))
qed

lemma range_kind_canon: "dup_free v \<Longrightarrow> range_kind (canon v) = range_kind v"
proof (cases v)
  case (Object ms)
  assume "dup_free v"
  then have d: "distinct (map fst ms)" by (simp add: Object)
  have "map_of (canon_members ms) ''kind'' \<in> {Some (String ''lte''), Some (String ''gte'')} \<longleftrightarrow>
      map_of ms ''kind'' \<in> {Some (String ''lte''), Some (String ''gte'')}"
  proof (cases "map_of ms ''kind''")
    case (Some k)
    then show ?thesis using canon_members_facts(3) [OF d, of "''kind''"] by (cases k) simp_all
  qed (use canon_members_facts(3) [OF d, of "''kind''"] in simp)
  then show ?thesis unfolding Object canon_Object by (simp add: range_kind_def)
qed (simp_all add: range_kind_def)

lemma validate_canon:
  assumes "dup_free v" "portable v" "validate B v b = Some ()" shows "validate B (canon v) b = Some ()"
  using assms read_selector_canon [OF assms(1,2)]
  by (auto simp: validate_v1 range_kind_canon validate_v2_read split: if_splits)

lemma validate_v2_canon:
  assumes "dup_free v" "portable v" "validate_v2 B v b = Some ()" shows "validate_v2 B (canon v) b = Some ()"
  using assms read_selector_canon [OF assms(1,2)] by (auto simp: validate_v2_read split: if_splits)

text \<open>Evaluation does not see the difference between a selector and its canonical form.\<close>

lemma traverse_inside:
  "traverse v path = Some w \<Longrightarrow> portable v \<Longrightarrow> dup_free v \<Longrightarrow> portable w \<and> dup_free w"
proof (induction v path rule: traverse.induct)
  case (2 v seg path)
  then obtain ms u where v: "v = Object ms" "map_of ms seg = Some u" "traverse u path = Some w"
    by (auto split: json.splits option.splits)
  then have "(seg, u) \<in> set ms" by (simp add: map_of_SomeD)
  then have "portable u" "dup_free u" using "2.prems"(2,3) by (auto simp: v(1))
  then show ?case using "2.IH" v by simp
qed simp

lemma identity_with_canon:
  assumes "portable a" "dup_free a" "portable v" "jcs_encode B b v \<noteq> None"
  shows "semantic_identity a (canon v) = semantic_identity a v" "semantic_identity (canon v) a = semantic_identity v a"
proof -
  obtain t where t: "jcs_encode B b v = Some t" using assms(4) by blast
  then have e: "encodable b 1 v" by (simp add: jcs_encode_Some)
  have c: "canon (canon v) = canon v" "dup_free v" "dup_free (canon v)" "portable (canon v)"
    using canon_canon [OF e assms(3)] encodable_dup_free [OF e] encodable_dup_free [OF encodable_canon [OF e]]
      portable_canon [OF assms(3)] by simp_all
  show "semantic_identity a (canon v) = semantic_identity a v" "semantic_identity (canon v) a = semantic_identity v a"
    using identity_canon assms(1-3) c by simp_all
qed

lemma read_selector_values:
  assumes "read_selector B b v = Some s" "portable v"
  shows "case s of Any \<Rightarrow> True
    | Equals path w \<Rightarrow> portable w \<and> jcs_encode B b w \<noteq> None
    | One_of path ws \<Rightarrow> \<forall>w \<in> set ws. portable w \<and> jcs_encode B b w \<noteq> None
    | Within ord path w \<Rightarrow> portable w \<and> is_numeric w"
proof -
  obtain ms kind where v: "v = Object ms" "read_kind B b ms kind = Some s"
    using assms(1) by (auto simp: read_selector_def split: json.splits if_splits option.splits)
  have p: "map_of ms n = Some w \<Longrightarrow> portable w" for n w
    using map_of_portable [of ms n w] assms(2) by (simp only: v(1))
  have q: "map_of ms n = Some (Array ws) \<Longrightarrow> \<forall>w \<in> set ws. portable w" for n ws
    using p [of n "Array ws"] by simp
  show ?thesis using v(2)
    by (auto simp: read_kind_def read_with_value_Some read_one_of_Some p dest: q split: if_splits)
qed

lemma meaning_canon:
  assumes "read_selector B b v = Some s" "portable v" "portable args" "dup_free args"
  shows "meaning (canon_selector s) args = meaning s args"
proof (cases s)
  case (Equals path w)
  then show ?thesis
    using read_selector_values [OF assms(1,2)] traverse_inside [of args path] assms(3,4) identity_with_canon(1) [where B = B and b = b]
    by (cases "traverse args path") auto
next
  case (One_of path ws)
  then show ?thesis
    using read_selector_values [OF assms(1,2)] traverse_inside [of args path] assms(3,4) identity_with_canon(2) [where B = B and b = b]
    by (cases "traverse args path") auto
next
  case (Within ord path w)
  then have "canon w = w" using read_selector_values [OF assms(1,2)] by (cases w) (simp_all add: is_numeric_def)
  then show ?thesis using Within by simp
qed simp

lemma evaluate_v2_canon:
  assumes "evaluate_v2 B v args b = Some r" "dup_free v" "portable v" "portable args" "dup_free args"
  shows "evaluate_v2 B (canon v) args b = Some r"
proof -
  obtain s where s: "read_selector B b v = Some s" "meaning s args = Some r"
    using assms(1) by (auto simp: evaluate_v2_meaning bind_Some split: if_splits)
  then show ?thesis
    using read_selector_canon [OF assms(2,3) s(1)] meaning_canon [OF s(1) assms(3-5)]
    by (simp add: evaluate_v2_meaning)
qed

lemma evaluate_canon:
  assumes "evaluate B v args b = Some r" "dup_free v" "portable v" "portable args" "dup_free args"
  shows "evaluate B (canon v) args b = Some r"
proof -
  obtain s where s: "\<not> range_kind v" "read_selector B b v = Some s" "meaning s args = Some r"
    using assms(1) by (auto simp: evaluate_v1 evaluate_v2_meaning bind_Some split: if_splits)
  then show ?thesis
    using read_selector_canon [OF assms(2,3) s(2)] meaning_canon [OF s(2) assms(3-5)] range_kind_canon [OF assms(2)]
    by (simp add: evaluate_v1 evaluate_v2_meaning)
qed

end
