(* ===== verification/Grant_Format.thy ===== *)
theory Grant_Format
  imports Producer_Facts Selector_Canon
begin

text \<open>
  The round trip of grants, for every version. A grant format is what a version puts into a grant: its
  algorithm name, its version number and its selector validator. The producer and the decoder of a version
  interpret the locale \<open>grant_codec\<close>; from its laws the decoder reads back every field of the producer's
  input, the selectors in canonical form.
\<close>

section \<open>Formats\<close>

record grant_format =
  gr_alg :: bytes
  gr_version :: int
  gr_valid :: "bounds \<Rightarrow> json \<Rightarrow> unit option"

fun format_items :: "grant_format \<Rightarrow> bounds \<Rightarrow> bytes set \<Rightarrow> json list \<Rightarrow> unit option" where
  "format_items F b seen [] = Some ()"
| "format_items F b seen (op # ops) =
     do {
       members \<leftarrow> members_of op;
       reject_if (length members \<noteq> 2);
       slots \<leftarrow> collect [''name'', ''selectors''] members Map.empty;
       name \<leftarrow> string_of (slots ''name'');
       validate_operation_name name b;
       reject_if (name \<in> seen);
       sel \<leftarrow> slots ''selectors'';
       sel_items \<leftarrow> items_of sel;
       reject_if (sel_items = [] \<or> length sel_items > selectors b);
       validate_each (gr_valid F b) sel_items;
       format_items F b (insert name seen) ops
     }"

definition read_operations :: "grant_format \<Rightarrow> bounds \<Rightarrow> json option \<Rightarrow> unit option" where
  "read_operations F b v =
     do {
       v \<leftarrow> v;
       items \<leftarrow> items_of v;
       reject_if (items = [] \<or> length items > operations b);
       format_items F b {} items
     }"

definition read_grant_header :: "grant_format \<Rightarrow> json \<Rightarrow> bounds \<Rightarrow> bytes option" where
  "read_grant_header F header b =
     do {
       members \<leftarrow> members_of header;
       slots \<leftarrow> collect [''alg'', ''typ'', ''kid''] members Map.empty;
       reject_if (slots ''alg'' \<noteq> Some (String (gr_alg F)));
       reject_if (slots ''typ'' \<noteq> Some (String TYP_GRANT));
       kid \<leftarrow> string_of (slots ''kid'');
       validate_kid kid b;
       Some kid
     }"

definition read_grant_payload :: "grant_format \<Rightarrow> json \<Rightarrow> bounds \<Rightarrow> grant_payload option" where
  "read_grant_payload F payload b =
     do {
       members \<leftarrow> members_of payload;
       slots \<leftarrow> collect grant_claims members Map.empty;
       reject_if (slots ''v'' \<noteq> Some (Integer (gr_version F)));
       issuer \<leftarrow> take_string_or_uri (slots ''iss'') b;
       grant_id \<leftarrow> take_string_or_uri (slots ''jti'') b;
       audiences \<leftarrow> take_audiences (slots ''aud'') b;
       issued_at \<leftarrow> take_integral_date (slots ''iat'');
       not_before \<leftarrow> take_integral_date (slots ''nbf'');
       expires_at \<leftarrow> take_integral_date (slots ''exp'');
       holder_thumbprint \<leftarrow> take_cnf_jkt (slots ''cnf'') b;
       read_operations F b (slots ''operations'');
       reject_if (\<not> (issued_at < expires_at \<and> not_before < expires_at));
       Some \<lparr>gp_version = gr_version F, gp_issuer = issuer, gp_grant_id = grant_id, gp_audiences = audiences,
         gp_holder_thumbprint = holder_thumbprint, gp_issued_at = issued_at,
         gp_not_before = not_before, gp_expires_at = expires_at\<rparr>
     }"

definition read_grant :: "grant_format \<Rightarrow> bounds \<Rightarrow> bytes \<Rightarrow> decoded_grant option" where
  "read_grant F b compact =
     do {
       reject_if (length compact > compact_bytes b);
       (protected_seg, payload_seg, signature_seg) \<leftarrow> parse_compact compact;
       header_bytes \<leftarrow> decode_segment protected_seg b;
       payload_bytes \<leftarrow> decode_segment payload_seg b;
       decode_signature signature_seg;
       header \<leftarrow> json_decode b header_bytes;
       payload_json \<leftarrow> json_decode b payload_bytes;
       key_id \<leftarrow> read_grant_header F header b;
       payload \<leftarrow> read_grant_payload F payload_json b;
       Some \<lparr>dg_protected_seg = protected_seg, dg_payload_seg = payload_seg,
         dg_signature_seg = signature_seg, dg_key_id = key_id, dg_payload = payload,
         dg_payload_json = payload_json\<rparr>
     }"

section \<open>What a producer has checked and written\<close>

fun checked_items :: "grant_format \<Rightarrow> bounds \<Rightarrow> bytes set \<Rightarrow> grant_operation list \<Rightarrow> unit option" where
  "checked_items F b seen [] = Some ()"
| "checked_items F b seen (op # ops) =
     do {
       validate_operation_name (go_name op) b;
       reject_if (go_name op \<in> seen);
       reject_if (go_selectors op = [] \<or> length (go_selectors op) > selectors b);
       validate_each (gr_valid F b) (go_selectors op);
       checked_items F b (insert (go_name op) seen) ops
     }"

definition grant_checked :: "grant_format \<Rightarrow> bounds \<Rightarrow> grant_input \<Rightarrow> bool" where
  "grant_checked F b g \<longleftrightarrow>
     validate_kid (gi_key_id g) b = Some () \<and> validate_identifier (gi_issuer g) b = Some () \<and>
     validate_identifier (gi_grant_id g) b = Some () \<and> gi_audiences g \<noteq> [] \<and>
     length (gi_audiences g) \<le> audiences b \<and> distinct_identifiers b {} (gi_audiences g) = Some () \<and>
     gi_operations g \<noteq> [] \<and> length (gi_operations g) \<le> operations b \<and>
     checked_items F b {} (gi_operations g) = Some ()"

definition grant_members :: "int \<Rightarrow> grant_input \<Rightarrow> (bytes \<times> json) list" where
  "grant_members version g =
     [(''aud'', Array (map String (gi_audiences g))),
      (''cnf'', Object [(''jkt'', String (base64url_encode (gi_holder_thumbprint g)))]),
      (''exp'', Integer (gi_expires_at g)), (''iat'', Integer (gi_issued_at g)),
      (''iss'', String (gi_issuer g)), (''jti'', String (gi_grant_id g)),
      (''nbf'', Integer (gi_not_before g)),
      (''operations'', Array (map operation_json (gi_operations g))), (''v'', Integer version)]"

definition grant_ok :: "bounds \<Rightarrow> grant_input \<Rightarrow> bool" where
  "grant_ok b g \<longleftrightarrow>
     integers_fit b \<and> 43 \<le> encoded_segment_bytes b \<and> length (gi_holder_thumbprint g) = 32 \<and>
     utf8_valid (gi_key_id g) \<and> utf8_valid (gi_issuer g) \<and> utf8_valid (gi_grant_id g) \<and>
     (\<forall>a \<in> set (gi_audiences g). utf8_valid a) \<and>
     (\<forall>op \<in> set (gi_operations g). utf8_valid (go_name op) \<and> (\<forall>v \<in> set (go_selectors op). portable v)) \<and>
     gi_issued_at g < gi_expires_at g \<and> gi_not_before g < gi_expires_at g"

definition payload_view :: "int \<Rightarrow> grant_input \<Rightarrow> grant_payload" where
  "payload_view version g =
     \<lparr>gp_version = version, gp_issuer = gi_issuer g, gp_grant_id = gi_grant_id g, gp_audiences = gi_audiences g,
      gp_holder_thumbprint = gi_holder_thumbprint g, gp_issued_at = gi_issued_at g,
      gp_not_before = gi_not_before g, gp_expires_at = gi_expires_at g\<rparr>"

definition operations_view :: "grant_input \<Rightarrow> (bytes \<times> json list) list" where
  "operations_view g = map (\<lambda>op. (go_name op, map canon (go_selectors op))) (gi_operations g)"

definition grant_view :: "int \<Rightarrow> grant_input \<Rightarrow> bytes \<times> grant_payload \<times> (bytes \<times> json list) list option" where
  "grant_view version g = (gi_key_id g, payload_view version g, Some (operations_view g))"

lemma grant_utf8:
  "utf8_valid ''aud''" "utf8_valid ''cnf''" "utf8_valid ''exp''" "utf8_valid ''iat''" "utf8_valid ''iss''"
  "utf8_valid ''jti''" "utf8_valid ''nbf''" "utf8_valid ''operations''" "utf8_valid ''jkt''"
  "utf8_valid ''name''" "utf8_valid ''selectors''" "utf8_valid ''v''"
  by code_simp+

lemma grant_selectors_dup_free:
  assumes "jcs_encode B b (Object (grant_members version g)) = Some t"
  shows "\<forall>op \<in> set (gi_operations g). \<forall>v \<in> set (go_selectors op). dup_free v"
proof -
  have "dup_free (Object (grant_members version g))" using assms by (auto simp: jcs_encode_Some dest: encodable_dup_free)
  then have "dup_free (Array (map operation_json (gi_operations g)))" by (simp add: grant_members_def)
  then show ?thesis by (simp add: operation_json_def)
qed

lemma audience_items_strings:
  "distinct_identifiers b seen auds = Some () \<Longrightarrow> audience_items b seen (map String auds) = Some auds"
  by (induction b seen auds rule: distinct_identifiers.induct) (auto simp: bind_Some string_of_def split: if_splits)

lemma operation_canon:
  "canon (operation_json op) =
     Object [(''name'', String (go_name op)), (''selectors'', Array (map canon (go_selectors op)))]"
proof -
  have "utf16_compare ''name'' ''selectors'' = Less" by code_simp
  then show ?thesis by (simp add: operation_json_def by_name_def)
qed

lemma operation_pairs_canon:
  "operation_pairs (map (\<lambda>op. canon (operation_json op)) ops) =
     Some (map (\<lambda>op. (go_name op, map canon (go_selectors op))) ops)"
  by (induction ops) (simp_all add: operation_canon members_of_def string_of_def)

lemma checked_items_distinct:
  "checked_items F b seen ops = Some () \<Longrightarrow> distinct (map go_name ops) \<and> go_name ` set ops \<inter> seen = {}"
  by (induction F b seen ops rule: checked_items.induct) (auto simp: bind_Some split: if_splits)

lemma granted_selectors:
  assumes "grant_checked F b g" "op \<in> set (gi_operations g)"
  shows "map_of (operations_view g) (go_name op) = Some (map canon (go_selectors op))"
proof -
  have "distinct (map fst (operations_view g))"
    using checked_items_distinct [of F b "{}" "gi_operations g"] assms(1)
    by (simp add: grant_checked_def operations_view_def comp_def)
  then show ?thesis using assms(2) by (intro map_of_is_SomeI) (auto simp: operations_view_def)
qed

section \<open>The contract of a producer and its decoder\<close>

locale grant_codec =
  fixes B :: backend and F :: grant_format
    and produce :: "bounds \<Rightarrow> grant_input \<Rightarrow> produced_signing_input option"
    and decode :: "bounds \<Rightarrow> bytes \<Rightarrow> decoded_grant option"
  assumes produced: "produce b g = Some psi \<Longrightarrow> grant_checked F b g \<and>
      build_produced B (Object (kid_members (gr_alg F) (gi_key_id g) TYP_GRANT))
        (Object (grant_members (gr_version F) g)) b = Some psi"
    and decoded: "decode b t = read_grant F b t"
    and valid_canon: "dup_free v \<Longrightarrow> portable v \<Longrightarrow> gr_valid F b v = Some () \<Longrightarrow> gr_valid F b (canon v) = Some ()"
    and alg_utf8: "utf8_valid (gr_alg F)"
begin

lemma items_canon:
  assumes "checked_items F b seen ops = Some ()"
    and "\<forall>op \<in> set ops. \<forall>v \<in> set (go_selectors op). dup_free v \<and> portable v"
  shows "format_items F b seen (map (\<lambda>op. canon (operation_json op)) ops) = Some ()"
  using assms
proof (induction ops arbitrary: seen)
  case (Cons op ops)
  have v: "validate_operation_name (go_name op) b = Some ()" "go_name op \<notin> seen" "go_selectors op \<noteq> []"
      "length (go_selectors op) \<le> selectors b" "validate_each (gr_valid F b) (go_selectors op) = Some ()"
      "checked_items F b (insert (go_name op) seen) ops = Some ()"
    using Cons.prems(1) by (auto simp: bind_Some split: if_splits)
  have "validate_each (gr_valid F b) (map canon (go_selectors op)) = Some ()"
    using v(5) Cons.prems(2) valid_canon by (auto simp: validate_each_iff)
  moreover have "format_items F b (insert (go_name op) seen) (map (\<lambda>op. canon (operation_json op)) ops) = Some ()"
    using v Cons.prems(2) by (intro Cons.IH) simp_all
  ultimately show ?case using v
    by (simp add: operation_canon members_of_def items_of_def string_of_def)
qed simp

lemma payload_decodes:
  assumes q: "stored B b t (grant_members (gr_version F) g) ms" and c: "grant_checked F b g" and ok: "grant_ok b g"
  shows "read_grant_payload F (Object ms) b = Some (payload_view (gr_version F) g)"
    and "distinct (map fst ms) \<Longrightarrow> extract_operations (Object ms) = Some (operations_view g)"
proof -
  let ?gms = "grant_members (gr_version F) g"
  let ?slots = "\<lambda>n. map_option canon (map_of ?gms n)"
  have s: "collect grant_claims ms Map.empty = Some ?slots"
    by (rule stored_collect [OF q]) (simp add: grant_claims_def grant_members_def)
  have aud: "?slots ''aud'' = Some (Array (map String (gi_audiences g)))"
    by (simp add: grant_members_def comp_def)
  have ops: "?slots ''operations'' = Some (Array (map (\<lambda>op. canon (operation_json op)) (gi_operations g)))"
    by (simp add: grant_members_def comp_def)
  have "take_audiences (?slots ''aud'') b = Some (gi_audiences g)"
    using c audience_items_strings unfolding aud by (simp add: take_audiences_def grant_checked_def)
  moreover have "read_operations F b (?slots ''operations'') = Some ()"
  proof -
    have "\<forall>op \<in> set (gi_operations g). \<forall>v \<in> set (go_selectors op). dup_free v \<and> portable v"
      using ok q grant_selectors_dup_free [of B b _ g t] by (auto simp: grant_ok_def stored_def)
    then show ?thesis using c items_canon unfolding ops
      by (simp add: read_operations_def items_of_def grant_checked_def)
  qed
  moreover have "take_cnf_jkt (?slots ''cnf'') b = Some (gi_holder_thumbprint g)"
    using ok by (simp add: grant_members_def grant_ok_def take_cnf_jkt_def members_of_def string_of_def
        length_encode decode_encode)
  ultimately show "read_grant_payload F (Object ms) b = Some (payload_view (gr_version F) g)"
    using s c ok
    by (simp add: read_grant_payload_def slots payload_view_def)
      (simp add: grant_members_def slots grant_ok_def grant_checked_def)
  show "extract_operations (Object ms) = Some (operations_view g)" if "distinct (map fst ms)"
  proof -
    have "map_of ms = ?slots" using s that by (simp add: collect_distinct split: if_splits)
    then have "map_of ms ''operations'' = Some (Array (map (\<lambda>op. canon (operation_json op)) (gi_operations g)))"
      using ops by simp
    then show ?thesis
      by (simp add: extract_operations_def members_of_def items_of_def operation_pairs_canon operations_view_def)
  qed
qed

lemma round_trip:
  assumes p: "produce b g = Some psi" and ok: "grant_ok b g"
    and fit: "compact_fits b (compact_bytes b) psi sg" "length sg = 64"
  shows "\<exists>d. decode b (framed psi sg) = Some d \<and>
    (dg_key_id d, dg_payload d, extract_operations (dg_payload_json d)) = grant_view (gr_version F) g \<and>
    dg_protected_seg d = psi_protected_segment psi \<and> dg_payload_seg d = psi_payload_segment psi \<and>
    dg_signature_seg d = base64url_encode sg"
proof -
  have c: "grant_checked F b g" "build_produced B (Object (kid_members (gr_alg F) (gi_key_id g) TYP_GRANT))
        (Object (grant_members (gr_version F) g)) b = Some psi"
    using produced [OF p] by blast+
  have "portable (Object (kid_members (gr_alg F) (gi_key_id g) TYP_GRANT))"
    using ok alg_utf8 by (simp add: grant_ok_def kid_members_def header_utf8)
  moreover have "portable (Object (grant_members (gr_version F) g))"
    using ok grant_utf8 by (simp add: grant_ok_def grant_members_def operation_json_def)
  moreover have "integers_fit b" using ok by (simp add: grant_ok_def)
  ultimately obtain ht pt hms pms where f: "frame_read b psi sg ht pt"
    and h: "stored B b ht (kid_members (gr_alg F) (gi_key_id g) TYP_GRANT) hms"
    and q: "stored B b pt (grant_members (gr_version F) g) pms"
    by (rule produced_frame [OF c(2) fit])
  have head: "read_grant_header F (Object hms) b = Some (gi_key_id g)"
    using c(1) by (rule_tac kid_slots [OF h]) (simp add: read_grant_header_def slots grant_checked_def)
  have "distinct (map fst pms)" using stored_text [OF q] by (simp add: jcs_encode_Some)
  then show ?thesis
    using f fits_room [OF fit(1)] stored_text [OF h] stored_text [OF q] head payload_decodes [OF q c(1) ok]
    by (simp add: decoded read_grant_def frame_read_def grant_view_def)
qed

lemma written_selectors:
  assumes "produce b g = Some psi"
  shows "\<forall>op \<in> set (gi_operations g). \<forall>v \<in> set (go_selectors op). dup_free v"
proof -
  have "build_produced B (Object (kid_members (gr_alg F) (gi_key_id g) TYP_GRANT))
        (Object (grant_members (gr_version F) g)) b = Some psi"
    using produced [OF assms] by blast
  then obtain t where "jcs_encode B b (Object (grant_members (gr_version F) g)) = Some t"
    by (auto simp: build_produced_def bind_Some)
  then show ?thesis by (rule grant_selectors_dup_free)
qed

end

sublocale grant_codec \<subseteq> wire: artifact produce
    "\<lambda>b t. map_option (\<lambda>d. (dg_key_id d, dg_payload d, extract_operations (dg_payload_json d))) (decode b t)"
    compact_bytes grant_ok "grant_view (gr_version F)"
  by unfold_locales (use round_trip in fastforce)

end
