(* ===== verification/Proof_Format.thy ===== *)
theory Proof_Format
  imports Producer_Facts
begin

text \<open>
  The round trip of proofs, for every version and proof profile. A proof format is what a version puts into
  a proof: algorithm and type names, version number, key codec, digest prefix, normalizer, and whether a nonce
  belongs to it. The producer and the decoder interpret the locale \<open>proof_codec\<close>; from its laws the decoder
  reads back the holder key and every claim of the producer's input.
\<close>

section \<open>Formats\<close>

record proof_format =
  pf_alg :: bytes
  pf_typ :: bytes
  pf_version :: int
  pf_tag :: bytes
  pf_jwk :: "bytes \<Rightarrow> json"
  pf_key :: "bytes \<Rightarrow> bytes option"
  pf_key_ok :: "bytes \<Rightarrow> bool"
  pf_normalize :: "bounds \<Rightarrow> bytes \<Rightarrow> bytes option"
  pf_nonce :: bool

definition read_proof_header :: "backend \<Rightarrow> proof_format \<Rightarrow> json \<Rightarrow> bounds \<Rightarrow> bytes option" where
  "read_proof_header B F header b =
     do {
       members \<leftarrow> members_of header;
       slots \<leftarrow> collect [''alg'', ''typ'', ''jwk''] members Map.empty;
       reject_if (slots ''alg'' \<noteq> Some (String (pf_alg F)));
       reject_if (slots ''typ'' \<noteq> Some (String (pf_typ F)));
       jwk_val \<leftarrow> slots ''jwk'';
       jwk_bytes \<leftarrow> jcs_encode B b jwk_val;
       pf_key F jwk_bytes
     }"

definition read_proof_payload :: "proof_format \<Rightarrow> json \<Rightarrow> bounds \<Rightarrow> proof_payload option" where
  "read_proof_payload F payload b =
     do {
       members \<leftarrow> members_of payload;
       slots \<leftarrow> collect proof_claims members Map.empty;
       reject_if (slots ''v'' \<noteq> Some (Integer (pf_version F)));
       proof_id \<leftarrow> take_string_or_uri (slots ''jti'') b;
       method \<leftarrow> take_method_token (slots ''htm'') b;
       invocation_id \<leftarrow> take_uuid (slots ''ba_inv'');
       operation \<leftarrow> take_operation_name (slots ''ba_op'') b;
       grant_hash \<leftarrow> take_digest_b64u (slots ''ath'') b;
       request_hash \<leftarrow> take_digest_b64u (slots ''ba_req'') b;
       issued_at \<leftarrow> take_integral_date (slots ''iat'');
       target_uri_input \<leftarrow> string_of (slots ''htu'');
       nonce \<leftarrow> take_nonce (slots ''nonce'') b;
       reject_if (pf_nonce F \<and> nonce = None);
       target_uri \<leftarrow> pf_normalize F b target_uri_input;
       reject_if (target_uri \<noteq> target_uri_input);
       Some \<lparr>pp_proof_id = proof_id, pp_method = method, pp_target_uri = target_uri,
         pp_invocation_id = invocation_id, pp_operation = operation, pp_grant_hash = grant_hash,
         pp_request_hash = request_hash, pp_issued_at = issued_at, pp_nonce = nonce\<rparr>
     }"

definition read_proof :: "backend \<Rightarrow> proof_format \<Rightarrow> bounds \<Rightarrow> bytes \<Rightarrow> decoded_proof option" where
  "read_proof B F b compact =
     do {
       reject_if (length compact > compact_bytes b);
       (protected_seg, payload_seg, signature_seg) \<leftarrow> parse_compact compact;
       header_bytes \<leftarrow> decode_segment protected_seg b;
       payload_bytes \<leftarrow> decode_segment payload_seg b;
       decode_signature signature_seg;
       header \<leftarrow> json_decode b header_bytes;
       payload_json \<leftarrow> json_decode b payload_bytes;
       holder_public_key \<leftarrow> read_proof_header B F header b;
       payload \<leftarrow> read_proof_payload F payload_json b;
       Some \<lparr>dp_protected_seg = protected_seg, dp_payload_seg = payload_seg,
         dp_signature_seg = signature_seg, dp_holder_public_key = holder_public_key,
         dp_payload = payload\<rparr>
     }"

section \<open>What a producer has checked and written\<close>

definition request_print :: "backend \<Rightarrow> proof_format \<Rightarrow> proof_input \<Rightarrow> bytes" where
  "request_print B F p = sha256 B (digest_preimage B (pf_tag F) (pi_operation p) (pi_cast_arguments p))"

definition proof_ok :: "backend \<Rightarrow> bounds \<Rightarrow> bytes option \<Rightarrow> proof_input \<Rightarrow> bool" where
  "proof_ok B b nonce p \<longleftrightarrow>
     sha256_width B \<and> integers_fit b \<and> 43 \<le> encoded_segment_bytes b \<and> utf8_valid (pi_proof_id p) \<and>
     utf8_valid (pi_method p) \<and> utf8_valid (pi_target_uri p) \<and> utf8_valid (pi_invocation_id p) \<and>
     utf8_valid (pi_operation p) \<and> (\<forall>n. nonce = Some n \<longrightarrow> utf8_valid n)"

definition proof_view :: "backend \<Rightarrow> proof_format \<Rightarrow> bytes option \<Rightarrow> proof_input \<Rightarrow> bytes \<times> proof_payload" where
  "proof_view B F nonce p = (pi_holder_public_key p,
     \<lparr>pp_proof_id = pi_proof_id p, pp_method = pi_method p, pp_target_uri = pi_target_uri p,
      pp_invocation_id = pi_invocation_id p, pp_operation = pi_operation p,
      pp_grant_hash = sha256 B (pi_grant_compact p), pp_request_hash = request_print B F p,
      pp_issued_at = pi_issued_at p, pp_nonce = nonce\<rparr>)"

definition proof_header_members :: "proof_format \<Rightarrow> bytes \<Rightarrow> (bytes \<times> json) list" where
  "proof_header_members F k =
     [(''alg'', String (pf_alg F)), (''jwk'', pf_jwk F k), (''typ'', String (pf_typ F))]"

definition proof_members :: "backend \<Rightarrow> proof_format \<Rightarrow> proof_input \<Rightarrow> bytes option \<Rightarrow> (bytes \<times> json) list" where
  "proof_members B F p nonce =
     [(''ath'', String (base64url_encode (sha256 B (pi_grant_compact p)))),
      (''ba_inv'', String (pi_invocation_id p)), (''ba_op'', String (pi_operation p)),
      (''ba_req'', String (base64url_encode (request_print B F p))),
      (''htm'', String (pi_method p)), (''htu'', String (pi_target_uri p)),
      (''iat'', Integer (pi_issued_at p)), (''jti'', String (pi_proof_id p)),
      (''v'', Integer (pf_version F))] @
     (case nonce of None \<Rightarrow> [] | Some n \<Rightarrow> [(''nonce'', String n)])"

definition proof_checked :: "proof_format \<Rightarrow> bounds \<Rightarrow> bytes option \<Rightarrow> proof_input \<Rightarrow> bool" where
  "proof_checked F b nonce p \<longleftrightarrow>
     validate_identifier (pi_proof_id p) b = Some () \<and> validate_method_token (pi_method p) b = Some () \<and>
     validate_operation_name (pi_operation p) b = Some () \<and> validate_uuid (pi_invocation_id p) = Some () \<and>
     pf_normalize F b (pi_target_uri p) = Some (pi_target_uri p) \<and>
     pf_key_ok F (pi_holder_public_key p) \<and> (pf_nonce F \<longleftrightarrow> nonce \<noteq> None) \<and>
     (\<forall>n. nonce = Some n \<longrightarrow> n \<noteq> [] \<and> length n \<le> nonce_bytes b)"

lemma proof_utf8:
  "utf8_valid ''ath''" "utf8_valid ''ba_inv''" "utf8_valid ''ba_op''" "utf8_valid ''ba_req''" "utf8_valid ''htm''"
  "utf8_valid ''htu''" "utf8_valid ''iat''" "utf8_valid ''jti''" "utf8_valid ''nonce''"
  by code_simp+

section \<open>The contract of a producer and its decoder\<close>

locale proof_codec =
  fixes B :: backend and F :: proof_format and nonce :: "bytes option"
    and produce :: "bounds \<Rightarrow> proof_input \<Rightarrow> produced_signing_input option"
    and decode :: "bounds \<Rightarrow> bytes \<Rightarrow> decoded_proof option"
  assumes produced: "produce b p = Some psi \<Longrightarrow> proof_checked F b nonce p \<and>
      build_produced B (Object (proof_header_members F (pi_holder_public_key p)))
        (Object (proof_members B F p nonce)) b = Some psi \<and>
      request_digest_with B (pf_tag F) (pi_operation p) (pi_cast_arguments p) b =
        Some (base64url_encode (request_print B F p))"
    and decoded: "decode b t = read_proof B F b t"
    and names_utf8: "utf8_valid (pf_alg F)" "utf8_valid (pf_typ F)"
    and jwk_portable: "portable (pf_jwk F k)"
    and jwk_canonical: "canon (pf_jwk F k) = pf_jwk F k"
    and jwk_key: "pf_key_ok F k \<Longrightarrow> jcs_encode B b (pf_jwk F k) = Some t \<Longrightarrow> pf_key F t = Some k"
begin

lemma header_decodes:
  assumes h: "stored B b t (proof_header_members F k) ms" and k: "pf_key_ok F k"
  shows "read_proof_header B F (Object ms) b = Some k"
proof -
  let ?hs = "proof_header_members F k"
  have "collect [''alg'', ''typ'', ''jwk''] ms Map.empty = Some (\<lambda>n. map_option canon (map_of ?hs n))"
    by (rule stored_collect [OF h]) (simp add: proof_header_members_def)
  moreover obtain t where "jcs_encode B b (pf_jwk F k) = Some t"
    using h member_encodes [of B b ?hs t "(''jwk'', pf_jwk F k)"]
    by (simp add: stored_def proof_header_members_def)
  ultimately show ?thesis using jwk_key [OF k]
    by (simp add: read_proof_header_def members_of_def proof_header_members_def jwk_canonical)
qed

lemma payload_decodes:
  assumes q: "stored B b t (proof_members B F p nonce) ms" and c: "proof_checked F b nonce p"
    and ok: "proof_ok B b nonce p"
  shows "read_proof_payload F (Object ms) b = Some (snd (proof_view B F nonce p))"
proof -
  have "collect proof_claims ms Map.empty = Some (\<lambda>n. map_option canon (map_of (proof_members B F p nonce) n))"
    by (rule stored_collect [OF q]) (cases nonce; simp add: proof_claims_def proof_members_def)
  moreover have "take_nonce (map_option canon (map_of (proof_members B F p nonce) ''nonce'')) b = Some nonce"
    using c by (cases nonce) (simp_all add: take_nonce_def proof_members_def proof_checked_def)
  ultimately show ?thesis
    using c ok by (cases nonce)
      (simp_all add: read_proof_payload_def slots proof_view_def proof_ok_def proof_checked_def length_encode
        proof_members_def sha256_width_def request_print_def take_method_token_def take_operation_name_def take_uuid_def)
qed

lemma round_trip:
  assumes p: "produce b p = Some psi"
    and ok: "proof_ok B b nonce p" and fit: "compact_fits b (compact_bytes b) psi sg" "length sg = 64"
  shows "\<exists>d. decode b (framed psi sg) = Some d \<and>
    (dp_holder_public_key d, dp_payload d) = proof_view B F nonce p \<and>
    dp_protected_seg d = psi_protected_segment psi \<and> dp_payload_seg d = psi_payload_segment psi \<and>
    dp_signature_seg d = base64url_encode sg"
proof -
  let ?k = "pi_holder_public_key p"
  have c: "proof_checked F b nonce p" "build_produced B (Object (proof_header_members F ?k))
        (Object (proof_members B F p nonce)) b = Some psi"
    using produced [OF p] by blast+
  have "portable (Object (proof_header_members F ?k))"
    using jwk_portable names_utf8 by (simp add: proof_header_members_def header_utf8)
  moreover have "portable (Object (proof_members B F p nonce))"
    using ok by (cases nonce) (simp_all add: proof_ok_def proof_members_def proof_utf8 anchor_utf8(7))
  moreover have "integers_fit b" using ok by (simp add: proof_ok_def)
  ultimately obtain ht pt hms pms where f: "frame_read b psi sg ht pt"
    and h: "stored B b ht (proof_header_members F ?k) hms"
    and q: "stored B b pt (proof_members B F p nonce) pms"
    by (rule produced_frame [OF c(2) fit])
  have "pf_key_ok F ?k" using c(1) by (simp add: proof_checked_def)
  then show ?thesis
    using f fits_room [OF fit(1)] stored_text [OF h] stored_text [OF q] header_decodes [OF h]
      payload_decodes [OF q c(1) ok]
    by (simp add: decoded read_proof_def frame_read_def proof_view_def)
qed

end

sublocale proof_codec \<subseteq> wire: artifact produce
    "\<lambda>b t. map_option (\<lambda>d. (dp_holder_public_key d, dp_payload d)) (decode b t)"
    compact_bytes "\<lambda>b p. proof_ok B b nonce p" "proof_view B F nonce"
  by unfold_locales (use round_trip in fastforce)

end
