(* ===== verification/Grant_Facts.thy ===== *)
theory Grant_Facts
  imports Grant_Format Proof_Format
begin

text \<open>
  Version 1 of the grant and proof formats: its producers and decoders interpret the contracts
  \<open>grant_codec\<close> and \<open>proof_codec\<close>, the proofs once for each profile.
\<close>

section \<open>Grants\<close>

definition grant_format_v1 :: "backend \<Rightarrow> grant_format" where
  "grant_format_v1 B = \<lparr>gr_alg = ALG_EDDSA, gr_version = 1, gr_valid = (\<lambda>b s. validate B s b)\<rparr>"

lemma grant_format_v1_simps [simp]:
  "gr_alg (grant_format_v1 B) = ALG_EDDSA" "gr_version (grant_format_v1 B) = 1"
  "gr_valid (grant_format_v1 B) = (\<lambda>b s. validate B s b)"
  by (simp_all add: grant_format_v1_def)

lemma operation_items_v1: "operation_items B b seen ops = format_items (grant_format_v1 B) b seen ops"
  by (induction ops arbitrary: seen) simp_all

lemma check_operations_v1: "check_operations B b seen ops = checked_items (grant_format_v1 B) b seen ops"
  by (induction ops arbitrary: seen) simp_all

lemma grant_produced:
  assumes "grant_signing_input B g b = Some psi"
  shows "grant_checked (grant_format_v1 B) b g"
    and "build_produced B (Object (kid_members ALG_EDDSA (gi_key_id g) TYP_GRANT)) (Object (grant_members 1 g)) b = Some psi"
  using assms
  by (simp_all add: grant_signing_input_def grant_members_def grant_checked_def kid_header_members [symmetric]
      b64url_to_string_def bind_Some not_less check_operations_v1 split: if_splits)

lemma decode_grant_v1: "decode_grant_parts B t b = read_grant (grant_format_v1 B) b t"
  by (simp add: decode_grant_parts_def read_grant_def validate_grant_header_def read_grant_header_def
      validate_grant_payload_def read_grant_payload_def validate_operations_def read_operations_def operation_items_v1)

interpretation grant: grant_codec B "grant_format_v1 B" "\<lambda>b g. grant_signing_input B g b" "\<lambda>b t. decode_grant_parts B t b"
  by unfold_locales (simp_all add: grant_produced decode_grant_v1 validate_canon header_utf8)

section \<open>Proofs\<close>

definition proof_format_v1 :: "backend \<Rightarrow> proof_profile \<Rightarrow> proof_format" where
  "proof_format_v1 B profile =
     \<lparr>pf_alg = ALG_EDDSA, pf_typ = proof_typ profile, pf_version = 1, pf_tag = REQUEST_DIGEST_PREFIX,
      pf_jwk = jwk_value, pf_key = jwk_decode_public B, pf_key_ok = acceptable_public_key B,
      pf_normalize = profile_uri_normalize profile, pf_nonce = (profile = LocalLoopbackHttp)\<rparr>"

lemma proof_format_v1_simps [simp]:
  "pf_alg (proof_format_v1 B profile) = ALG_EDDSA" "pf_typ (proof_format_v1 B profile) = proof_typ profile"
  "pf_version (proof_format_v1 B profile) = 1" "pf_tag (proof_format_v1 B profile) = REQUEST_DIGEST_PREFIX"
  "pf_jwk (proof_format_v1 B profile) = jwk_value" "pf_key (proof_format_v1 B profile) = jwk_decode_public B"
  "pf_key_ok (proof_format_v1 B profile) = acceptable_public_key B"
  "pf_normalize (proof_format_v1 B profile) = profile_uri_normalize profile"
  "pf_nonce (proof_format_v1 B profile) \<longleftrightarrow> profile = LocalLoopbackHttp"
  by (simp_all add: proof_format_v1_def)

lemma jwk_portable: "portable (jwk_value k)"
  using jwk_words(6-) by (simp add: jwk_value_def CRV_ED25519_def KTY_OKP_def)

lemma proof_typ_utf8: "utf8_valid (proof_typ profile)"
  by (cases profile) (simp_all add: header_utf8)

lemma proof_produced:
  assumes p: "proof_signing_input_for B p b profile nonce = Some psi" and n: "profile = Standard \<longrightarrow> nonce = None"
  shows "proof_checked (proof_format_v1 B profile) b nonce p"
    and "build_produced B (Object (proof_header_members (proof_format_v1 B profile) (pi_holder_public_key p)))
      (Object (proof_members B (proof_format_v1 B profile) p nonce)) b = Some psi"
    and "request_digest_with B REQUEST_DIGEST_PREFIX (pi_operation p) (pi_cast_arguments p) b =
      Some (base64url_encode (request_print B (proof_format_v1 B profile) p))"
proof -
  obtain d where d: "request_digest B (pi_operation p) (pi_cast_arguments p) b = Some d"
    using p by (auto simp: proof_signing_input_for_def bind_Some split: if_splits)
  then have d': "d = base64url_encode (request_print B (proof_format_v1 B profile) p)"
    unfolding request_digest_def request_print_def proof_format_v1_simps by (rule request_digest_Some)
  show "request_digest_with B REQUEST_DIGEST_PREFIX (pi_operation p) (pi_cast_arguments p) b =
      Some (base64url_encode (request_print B (proof_format_v1 B profile) p))"
    using d unfolding d' request_digest_def .
  show "proof_checked (proof_format_v1 B profile) b nonce p"
    using p n d d' by (cases profile)
      (auto simp: proof_signing_input_for_def proof_checked_def b64url_to_string_def bind_Some Let_def
        split: if_splits)
  show "build_produced B (Object (proof_header_members (proof_format_v1 B profile) (pi_holder_public_key p)))
      (Object (proof_members B (proof_format_v1 B profile) p nonce)) b = Some psi"
    using p n d d' by (cases profile)
      (auto simp: proof_signing_input_for_def proof_header_members_def proof_members_def jwk_value_def
        b64url_to_string_def bind_Some Let_def split: if_splits)
qed

lemma decode_proof_v1: "decode_proof_parts_for B t b profile = read_proof B (proof_format_v1 B profile) b t"
  by (simp add: decode_proof_parts_for_def read_proof_def validate_proof_header_for_def read_proof_header_def
      validate_proof_payload_for_def read_proof_payload_def)

lemma jwk_of_key: "acceptable_public_key B k \<Longrightarrow> jcs_encode B b (jwk_value k) = Some t \<Longrightarrow> jwk_decode_public B t = Some k"
  using jwk_round(2) by (auto simp: jcs_encode_Some jwk_text)

interpretation possession: proof_codec B "proof_format_v1 B Standard" None "\<lambda>b p. proof_signing_input B p b"
    "\<lambda>b t. decode_proof_parts_for B t b Standard"
  by unfold_locales
    (use proof_produced [of B _ _ Standard None] in \<open>simp_all add: proof_signing_input_def decode_proof_v1
      header_utf8 proof_typ_utf8 jwk_portable jwk_canon jwk_of_key del: proof_typ.simps\<close>)

interpretation loopback: proof_codec B "proof_format_v1 B LocalLoopbackHttp" "Some n"
    "\<lambda>b p. proof_signing_input_for B p b LocalLoopbackHttp (Some n)"
    "\<lambda>b t. decode_proof_parts_for B t b LocalLoopbackHttp"
  by unfold_locales
    (use proof_produced [of B _ _ LocalLoopbackHttp "Some n"] in \<open>simp_all add: decode_proof_v1
      header_utf8 proof_typ_utf8 jwk_portable jwk_canon jwk_of_key del: proof_typ.simps\<close>)

section \<open>Assembly\<close>

lemma assembled:
  assumes p: "build_produced B h q (resolve_bounds nested) = Some psi" and c: "parse_compact (framed psi sg) \<noteq> None"
    and fit: "compact_fits (resolve_bounds nested) room psi sg" "room \<le> compact_bytes (resolve_bounds nested)"
    and sg: "signature_gate sg"
    and dec: "parse_assembled B (framed psi sg) (resolve_bounds nested) profile kind = Some ()"
      "profile = LocalLoopbackHttp \<longrightarrow> kind = LocalLoopbackHttpProofKind"
  shows "assemble_compact_for B \<lparr>si_kind = kind, protected_segment = psi_protected_segment psi,
      payload_segment = psi_payload_segment psi\<rparr> sg nested profile = Some (framed psi sg)"
proof -
  have m: "psi_message psi = psi_protected_segment psi @ ''.'' @ psi_payload_segment psi"
    using p by (auto simp: build_produced_def accept Let_def)
  then have "compose_compact \<lparr>si_kind = kind, protected_segment = psi_protected_segment psi,
      payload_segment = psi_payload_segment psi\<rparr> sg = Some (framed psi sg)"
    using c by (auto simp: compose_compact_def framed_def Let_def)
  then show ?thesis using fit sg dec
    by (auto simp: assemble_compact_for_def compact_fits_def Let_def)
qed

end
