(* ===== verification/Credential_Check.thy ===== *)
theory Credential_Check
  imports Grant_Facts
begin

text \<open>
  What acceptance of an envelope means, for every version of the profile. A \<open>scheme\<close> is what a version
  plugs into the check: its decoders, its signature scheme and key prints, its request digest, its normalizer
  and its selectors. The abstract specification is a conjunction of independent statements about the decoded
  grant and proof, with plain integer time windows. The two step functions are the bodies of
  \<open>verify_grant\<close> and \<open>check_envelope\<close> over a scheme, with their early exits, re-decoding and
  saturating arithmetic; in the locale \<open>envelope_scheme\<close> they accept exactly what the specification allows,
  and one proof serves one request. Each version interprets the locale.
\<close>

section \<open>Time windows\<close>

text \<open>Times that the JSON decoder lets through are far from the ends of \<open>i64\<close>.\<close>

definition clock_value :: "int \<Rightarrow> bool" where
  "clock_value n \<longleftrightarrow> \<bar>n\<bar> < 2 ^ 53"

definition within_window :: "grant_payload \<Rightarrow> int \<Rightarrow> int \<Rightarrow> bool" where
  "within_window p t s \<longleftrightarrow> gp_issued_at p \<le> t + s \<and> gp_not_before p \<le> t + s \<and> t - s < gp_expires_at p"

definition fresh :: "int \<Rightarrow> int \<Rightarrow> int \<Rightarrow> int \<Rightarrow> bool" where
  "fresh iat t s age \<longleftrightarrow> t - age - s \<le> iat \<and> iat \<le> t + s"

lemma saturating_upper:
  assumes "clock_value n" "is_i64 t" "0 \<le> s"
  shows "n > unwrap_or (checked_add_i64 t s) i64_max \<longleftrightarrow> n > t + s"
  using assms by (auto simp: clock_value_def checked_add_i64_def is_i64_def i64_min_def i64_max_def)

lemma saturating_lower:
  assumes "clock_value n" "is_i64 t" "0 \<le> s"
  shows "n \<le> unwrap_or (checked_sub_i64 t s) i64_min \<longleftrightarrow> n \<le> t - s"
  using assms by (auto simp: clock_value_def checked_sub_i64_def is_i64_def i64_min_def i64_max_def)

lemma saturating_lower_2:
  assumes "clock_value n" "is_i64 t" "0 \<le> a" "0 \<le> s"
  shows "n < unwrap_or (checked_sub_i64 (unwrap_or (checked_sub_i64 t a) i64_min) s) i64_min \<longleftrightarrow> n < t - a - s"
  using assms by (auto simp: clock_value_def checked_sub_i64_def is_i64_def i64_min_def i64_max_def)

lemma tightened_limits:
  assumes "tightened b"
  shows "clock_skew b \<le> 60" "proof_max_age b \<le> 300" "0 < integer_magnitude b" "integer_magnitude b < 2 ^ 53"
  using assms by (auto simp: tightened_def tightening_arms_def maximum_def)

lemma decoded_clock:
  assumes "json_decode b t = Some v" "members_of v = Some ms" "collect names ms Map.empty = Some slots"
    and "take_integral_date (slots n) = Some k" "tightened b"
  shows "clock_value k"
proof -
  note mag = tightened_limits(3,4) [OF assms(5)]
  have v: "v = Object ms" using assms(2) by (cases v) (simp_all add: members_of_def)
  have "slots n = map_of (rev ms) n" using assms(3) by (auto simp: collect_eq split: if_splits)
  moreover have "slots n = Some (Integer k)"
    using assms(4) by (auto simp: take_integral_date_def split: option.splits json.splits)
  ultimately have "map_of (rev ms) n = Some (Integer k)" by simp
  then have "(n, Integer k) \<in> set ms" by (auto dest: map_of_SomeD)
  then have "json_ok b (1 + 1) (Integer k)" using json_decode_ok [OF assms(1) mag(1)] by (auto simp: v)
  then show ?thesis using mag by (simp add: clock_value_def)
qed

section \<open>Schemes\<close>

record scheme =
  grant_decoder :: "bytes \<Rightarrow> bounds \<Rightarrow> decoded_grant option"
  proof_decoder :: "bytes \<Rightarrow> bounds \<Rightarrow> decoded_proof option"
  key_verifier :: "bytes \<Rightarrow> bytes \<Rightarrow> bytes \<Rightarrow> unit option"
  key_print :: "bytes \<Rightarrow> bytes option"
  token_hash :: "bytes \<Rightarrow> bytes"
  request_hash :: "bytes \<Rightarrow> json \<Rightarrow> bounds \<Rightarrow> bytes option"
  target_normalizer :: "bounds \<Rightarrow> bytes \<Rightarrow> bytes option"
  selector_value :: "json \<Rightarrow> json \<Rightarrow> bounds \<Rightarrow> bool option"
  nonce_demanded :: bool

section \<open>The specification\<close>

text \<open>A signature segment carries a valid signature of the key over the two segments.\<close>

definition signed :: "scheme \<Rightarrow> bytes \<Rightarrow> bytes \<Rightarrow> bytes \<Rightarrow> bytes \<Rightarrow> bool" where
  "signed V key prot pay sig \<longleftrightarrow>
     (\<exists>s. base64url_decode sig = Some s \<and> length s = 64 \<and> key_verifier V key (prot @ ''.'' @ pay) s = Some ())"

definition grant_holds :: "scheme \<Rightarrow> bytes \<Rightarrow> trusted_issuer \<Rightarrow> expected_grant \<Rightarrow> decoded_grant \<Rightarrow> bool" where
  "grant_holds V compact issuer e g \<longleftrightarrow>
     grant_decoder V compact (eg_bounds e) = Some g \<and> dg_key_id g = ti_key_id issuer \<and>
     gp_issuer (dg_payload g) = eg_issuer e \<and> eg_audience e \<in> set (gp_audiences (dg_payload g)) \<and>
     signed V (ti_public_key issuer) (dg_protected_seg g) (dg_payload_seg g) (dg_signature_seg g) \<and>
     within_window (dg_payload g) (eg_evaluation_time e) (int (eg_skew e))"

definition grant_facts_of :: "scheme \<Rightarrow> trusted_issuer \<Rightarrow> expected_grant \<Rightarrow> decoded_grant \<Rightarrow> grant_facts" where
  "grant_facts_of V issuer e g =
     \<lparr>gf_version = gp_version (dg_payload g), gf_issuer = gp_issuer (dg_payload g),
      gf_grant_id = gp_grant_id (dg_payload g),
      gf_issuer_key_fingerprint = the (key_print V (ti_public_key issuer)),
      gf_holder_thumbprint = gp_holder_thumbprint (dg_payload g), gf_matched_audience = eg_audience e,
      gf_iat = gp_issued_at (dg_payload g), gf_nbf = gp_not_before (dg_payload g),
      gf_exp = gp_expires_at (dg_payload g), gf_authorization = NotEvaluated\<rparr>"

definition limits_ok :: "scheme \<Rightarrow> expected_request \<Rightarrow> bool" where
  "limits_ok V e \<longleftrightarrow>
     1 \<le> er_proof_max_age e \<and> er_proof_max_age e \<le> proof_max_age (er_bounds e) \<and>
     er_skew e \<le> clock_skew (er_bounds e) \<and> (nonce_demanded V \<longrightarrow> er_nonce_mode e \<noteq> NotRequired)"

fun nonce_matches :: "nonce_mode \<Rightarrow> bytes option \<Rightarrow> bool" where
  "nonce_matches NotRequired n = (n = None)"
| "nonce_matches (Required expected) n = (n = Some expected)"

text \<open>The proof is possession of the granted key, over this grant and this request, now.\<close>

definition possession_holds ::
  "scheme \<Rightarrow> credentials \<Rightarrow> expected_request \<Rightarrow> decoded_grant \<Rightarrow> decoded_proof \<Rightarrow> bool" where
  "possession_holds V c e g p \<longleftrightarrow>
     proof_decoder V (cr_proof c) (er_bounds e) = Some p \<and>
     key_print V (dp_holder_public_key p) = Some (gp_holder_thumbprint (dg_payload g)) \<and>
     signed V (dp_holder_public_key p) (dp_protected_seg p) (dp_payload_seg p) (dp_signature_seg p) \<and>
     pp_grant_hash (dp_payload p) = token_hash V (cr_grant c) \<and>
     request_hash V (er_operation e) (er_cast_arguments e) (er_bounds e) =
       Some (base64url_encode (pp_request_hash (dp_payload p))) \<and> length (pp_request_hash (dp_payload p)) = 32 \<and>
     pp_method (dp_payload p) = er_method e \<and> pp_target_uri (dp_payload p) = er_target_uri e \<and>
     target_normalizer V (er_bounds e) (er_target_uri e) = Some (er_target_uri e) \<and>
     pp_invocation_id (dp_payload p) = er_invocation_id e \<and> pp_operation (dp_payload p) = er_operation e \<and>
     fresh (pp_issued_at (dp_payload p)) (er_evaluation_time e) (int (er_skew e)) (int (er_proof_max_age e)) \<and>
     nonce_matches (er_nonce_mode e) (pp_nonce (dp_payload p))"

text \<open>The operation is granted and every selector on its arguments evaluates to true.\<close>

definition operation_granted :: "scheme \<Rightarrow> expected_request \<Rightarrow> decoded_grant \<Rightarrow> bool" where
  "operation_granted V e g \<longleftrightarrow>
     (\<exists>ops sels. extract_operations (dg_payload_json g) = Some ops \<and> map_of ops (er_operation e) = Some sels \<and>
        (\<forall>s \<in> set sels. selector_value V s (er_cast_arguments e) (er_bounds e) = Some True))"

definition envelope_facts_of :: "scheme \<Rightarrow> credentials \<Rightarrow> expected_request \<Rightarrow> decoded_grant \<Rightarrow> decoded_proof \<Rightarrow> envelope_facts" where
  "envelope_facts_of V c e g p =
     \<lparr>ef_grant = grant_facts_of V (er_trusted_issuer e) (grant_of_request e) g,
      ef_proof_id = pp_proof_id (dp_payload p), ef_invocation_id = pp_invocation_id (dp_payload p),
      ef_operation = pp_operation (dp_payload p), ef_normalized_uri = er_target_uri e,
      ef_grant_hash = token_hash V (cr_grant c), ef_request_hash = pp_request_hash (dp_payload p),
      ef_proof_iat = pp_issued_at (dp_payload p), ef_authorization = NotEvaluated\<rparr>"

definition envelope_holds ::
  "scheme \<Rightarrow> credentials \<Rightarrow> expected_request \<Rightarrow> decoded_grant \<Rightarrow> decoded_proof \<Rightarrow> bool" where
  "envelope_holds V c e g p \<longleftrightarrow>
     limits_ok V e \<and> grant_holds V (cr_grant c) (er_trusted_issuer e) (grant_of_request e) g \<and>
     possession_holds V c e g p \<and> operation_granted V e g"

section \<open>The steps of the verifiers\<close>

definition grant_steps :: "scheme \<Rightarrow> bytes \<Rightarrow> trusted_issuer \<Rightarrow> expected_grant \<Rightarrow> grant_facts option" where
  "grant_steps V compact issuer expected =
     do {
       reject_if (eg_skew expected > clock_skew (eg_bounds expected));
       g \<leftarrow> grant_decoder V compact (eg_bounds expected);
       reject_if (dg_key_id g \<noteq> ti_key_id issuer);
       reject_if (gp_issuer (dg_payload g) \<noteq> eg_issuer expected);
       reject_if (\<not> audience_matches (gp_audiences (dg_payload g)) (eg_audience expected));
       signature \<leftarrow> decode_signature (dg_signature_seg g);
       let signing_input = signing_input_bytes (dg_protected_seg g) (dg_payload_seg g);
       key_verifier V (ti_public_key issuer) signing_input signature;
       let eval = eg_evaluation_time expected;
       let skew = u64_as_i64 (eg_skew expected);
       let upper = unwrap_or (checked_add_i64 eval skew) i64_max;
       reject_if (gp_issued_at (dg_payload g) > upper \<or> gp_not_before (dg_payload g) > upper);
       let lower = unwrap_or (checked_sub_i64 eval skew) i64_min;
       reject_if (gp_expires_at (dg_payload g) \<le> lower);
       fingerprint \<leftarrow> key_print V (ti_public_key issuer);
       Some \<lparr>gf_version = gp_version (dg_payload g), gf_issuer = gp_issuer (dg_payload g),
         gf_grant_id = gp_grant_id (dg_payload g), gf_issuer_key_fingerprint = fingerprint,
         gf_holder_thumbprint = gp_holder_thumbprint (dg_payload g),
         gf_matched_audience = eg_audience expected, gf_iat = gp_issued_at (dg_payload g),
         gf_nbf = gp_not_before (dg_payload g), gf_exp = gp_expires_at (dg_payload g),
         gf_authorization = NotEvaluated\<rparr>
     }"

definition holding :: "scheme \<Rightarrow> json \<Rightarrow> bounds \<Rightarrow> json \<Rightarrow> unit option" where
  "holding V args b s = do { ok \<leftarrow> selector_value V s args b; reject_if (\<not> ok); Some () }"

definition envelope_steps :: "scheme \<Rightarrow> credentials \<Rightarrow> expected_request \<Rightarrow> envelope_facts option" where
  "envelope_steps V credentials expected =
     (let b = er_bounds expected in
      do {
        reject_if (er_proof_max_age expected < 1 \<or> er_proof_max_age expected > proof_max_age b);
        reject_if (nonce_demanded V \<and> er_nonce_mode expected = NotRequired);
        grant_facts \<leftarrow> grant_steps V (cr_grant credentials) (er_trusted_issuer expected) (grant_of_request expected);
        grant_parts \<leftarrow> grant_decoder V (cr_grant credentials) b;
        operations \<leftarrow> extract_operations (dg_payload_json grant_parts);
        proof \<leftarrow> proof_decoder V (cr_proof credentials) b;
        holder_thumb \<leftarrow> key_print V (dp_holder_public_key proof);
        reject_if (holder_thumb \<noteq> gf_holder_thumbprint grant_facts);
        proof_signature \<leftarrow> decode_signature (dp_signature_seg proof);
        let proof_signing_input = signing_input_bytes (dp_protected_seg proof) (dp_payload_seg proof);
        key_verifier V (dp_holder_public_key proof) proof_signing_input proof_signature;
        let recomputed_ath = token_hash V (cr_grant credentials);
        reject_if (pp_grant_hash (dp_payload proof) \<noteq> recomputed_ath);
        ba_req_b64u \<leftarrow> request_hash V (er_operation expected) (er_cast_arguments expected) b;
        ba_req_raw \<leftarrow> base64url_decode ba_req_b64u;
        reject_if (length ba_req_raw \<noteq> 32);
        reject_if (pp_request_hash (dp_payload proof) \<noteq> ba_req_raw);
        reject_if (pp_method (dp_payload proof) \<noteq> er_method expected);
        normalized_uri \<leftarrow> target_normalizer V b (er_target_uri expected);
        reject_if (normalized_uri \<noteq> er_target_uri expected);
        reject_if (pp_target_uri (dp_payload proof) \<noteq> normalized_uri);
        reject_if (pp_invocation_id (dp_payload proof) \<noteq> er_invocation_id expected);
        reject_if (pp_operation (dp_payload proof) \<noteq> er_operation expected);
        matched_selectors \<leftarrow> map_of operations (er_operation expected);
        validate_each (holding V (er_cast_arguments expected) b) matched_selectors;
        let eval = er_evaluation_time expected;
        let skew = u64_as_i64 (er_skew expected);
        let max_age = u64_as_i64 (er_proof_max_age expected);
        let lower = unwrap_or (checked_sub_i64 (unwrap_or (checked_sub_i64 eval max_age) i64_min) skew) i64_min;
        let upper = unwrap_or (checked_add_i64 eval skew) i64_max;
        reject_if (pp_issued_at (dp_payload proof) < lower \<or> pp_issued_at (dp_payload proof) > upper);
        nonce_check (er_nonce_mode expected) (pp_nonce (dp_payload proof));
        Some \<lparr>ef_grant = grant_facts, ef_proof_id = pp_proof_id (dp_payload proof),
          ef_invocation_id = pp_invocation_id (dp_payload proof),
          ef_operation = pp_operation (dp_payload proof), ef_normalized_uri = normalized_uri,
          ef_grant_hash = recomputed_ath, ef_request_hash = ba_req_raw,
          ef_proof_iat = pp_issued_at (dp_payload proof), ef_authorization = NotEvaluated\<rparr>
      })"

text \<open>The steps of the check, peeled off one by one.\<close>

lemma signed_steps:
  "(do { s \<leftarrow> decode_signature sig; key_verifier V key (signing_input_bytes prot pay) s; x }) = Some y \<longleftrightarrow>
   signed V key prot pay sig \<and> x = Some y"
  by (auto simp: signed_def decode_signature_def signing_input_bytes_def bind_Some split: if_splits)

lemma small_skew: "tightened b \<Longrightarrow> n \<le> clock_skew b \<Longrightarrow> u64_as_i64 n = int n"
  using tightened_limits(1) [of b] by (intro u64_as_i64_small) simp

lemma small_age: "tightened b \<Longrightarrow> n \<le> proof_max_age b \<Longrightarrow> u64_as_i64 n = int n"
  using tightened_limits(2) [of b] by (intro u64_as_i64_small) simp

lemma reject_step: "(do { reject_if q; x }) = Some y \<longleftrightarrow> \<not> q \<and> x = Some y"
  by simp

lemma equal_step: "(do { t \<leftarrow> x; reject_if (t \<noteq> h); z }) = Some y \<longleftrightarrow> x = Some h \<and> z = Some y"
  by (auto simp: bind_Some split: if_splits)

lemma uri_step:
  "(do { n \<leftarrow> x; reject_if (n \<noteq> u); reject_if (v \<noteq> n); f n }) = Some y \<longleftrightarrow> x = Some u \<and> v = u \<and> f u = Some y"
  by (auto simp: bind_Some split: if_splits)

lemma holding_iff: "holding V args b s = Some () \<longleftrightarrow> selector_value V s args b = Some True"
  by (auto simp: holding_def bind_Some split: if_splits)

lemma selected_step:
  "(do { ss \<leftarrow> map_of ops op; validate_each (holding V args b) ss; x }) = Some y \<longleftrightarrow>
   (\<exists>ss. map_of ops op = Some ss \<and> (\<forall>s \<in> set ss. selector_value V s args b = Some True)) \<and> x = Some y"
  by (auto simp: bind_Some validate_each_iff holding_iff)

lemma request_step:
  "(do { d \<leftarrow> request_hash V op args b; r \<leftarrow> base64url_decode d; reject_if (length r \<noteq> 32); reject_if (h \<noteq> r); f r }) = Some y \<longleftrightarrow>
   request_hash V op args b = Some (base64url_encode h) \<and> length h = 32 \<and> f h = Some y"
  by (auto simp: bind_Some b64.dec_iff split: if_splits)

lemma nonce_step: "(do { nonce_check mode n; x }) = Some y \<longleftrightarrow> nonce_matches mode n \<and> x = Some y"
  by (cases mode) (auto simp: nonce_check_def)

lemma operations_step:
  "(do { ops \<leftarrow> extract_operations v; f ops }) = Some y \<longleftrightarrow> (\<exists>ops. extract_operations v = Some ops \<and> f ops = Some y)"
  by (auto simp: bind_Some)

lemma grant_request_simps [simp]:
  "eg_issuer (grant_of_request e) = er_issuer e" "eg_audience (grant_of_request e) = er_audience e"
  "eg_evaluation_time (grant_of_request e) = er_evaluation_time e" "eg_skew (grant_of_request e) = er_skew e"
  "eg_bounds (grant_of_request e) = er_bounds e"
  by (simp_all add: grant_of_request_def)

lemma nonce_matches_same: "nonce_matches m n \<Longrightarrow> nonce_matches m' n \<Longrightarrow> m = m'"
  by (cases m; cases m') auto

section \<open>The interface of a version\<close>

text \<open>
  \<open>width\<close> is the length of a public key and \<open>prefix\<close> the domain prefix of the request digest; the laws say
  that decoded times are clock values, that a key which verifies something has a print, and that the verifiers
  are the steps above.
\<close>

locale envelope_scheme =
  fixes B :: backend and V :: scheme and width :: nat and prefix :: bytes
    and vgrant :: "bytes \<Rightarrow> trusted_issuer \<Rightarrow> expected_grant \<Rightarrow> grant_facts option"
    and venvelope :: "credentials \<Rightarrow> expected_request \<Rightarrow> envelope_facts option"
  assumes grant_clock: "grant_decoder V t b = Some g \<Longrightarrow> tightened b \<Longrightarrow>
      clock_value (gp_issued_at (dg_payload g)) \<and> clock_value (gp_not_before (dg_payload g)) \<and>
      clock_value (gp_expires_at (dg_payload g))"
    and proof_clock: "proof_decoder V t b = Some p \<Longrightarrow> tightened b \<Longrightarrow> clock_value (pp_issued_at (dp_payload p))"
    and verified_print: "key_verifier V k m s = Some () \<Longrightarrow> length k = width \<Longrightarrow> key_print V k \<noteq> None"
    and token_digest: "token_hash V t = sha256 B t"
    and request_digested: "request_hash V op args b = request_digest_with B prefix op args b"
    and prefix_known: "prefix \<in> set request_prefixes"
    and vgrant_steps: "vgrant t i x = grant_steps V t i x"
    and venvelope_steps: "venvelope c e = envelope_steps V c e"
begin

lemma grant_steps_iff:
  assumes b: "tightened (eg_bounds e)" and t: "is_i64 (eg_evaluation_time e)" and k: "length (ti_public_key issuer) = width"
  shows "grant_steps V compact issuer e = Some f \<longleftrightarrow>
    eg_skew e \<le> clock_skew (eg_bounds e) \<and> (\<exists>g. grant_holds V compact issuer e g \<and> f = grant_facts_of V issuer e g)"
proof (cases "eg_skew e \<le> clock_skew (eg_bounds e) \<and> grant_decoder V compact (eg_bounds e) \<noteq> None")
  case True
  then obtain g where g: "grant_decoder V compact (eg_bounds e) = Some g" by blast
  have clocks: "clock_value (gp_issued_at (dg_payload g))" "clock_value (gp_not_before (dg_payload g))"
      "clock_value (gp_expires_at (dg_payload g))"
    using grant_clock [OF g b] by simp_all
  have s: "u64_as_i64 (eg_skew e) = int (eg_skew e)" using small_skew [OF b] True by simp
  have w: "\<not> (gp_issued_at (dg_payload g) > unwrap_or (checked_add_i64 (eg_evaluation_time e) (int (eg_skew e))) i64_max \<or>
          gp_not_before (dg_payload g) > unwrap_or (checked_add_i64 (eg_evaluation_time e) (int (eg_skew e))) i64_max) \<and>
        \<not> gp_expires_at (dg_payload g) \<le> unwrap_or (checked_sub_i64 (eg_evaluation_time e) (int (eg_skew e))) i64_min \<longleftrightarrow>
      within_window (dg_payload g) (eg_evaluation_time e) (int (eg_skew e))"
    using saturating_upper [OF clocks(1) t] saturating_upper [OF clocks(2) t] saturating_lower [OF clocks(3) t]
    by (auto simp: within_window_def not_less not_le)
  have fp: "key_print V (ti_public_key issuer) = None \<Longrightarrow> \<not> signed V (ti_public_key issuer) p q r" for p q r
    using verified_print [OF _ k] by (auto simp: signed_def)
  show ?thesis
    unfolding grant_steps_def grant_holds_def g s Let_def
    using True w fp
    by (cases "key_print V (ti_public_key issuer)")
      (auto simp: signed_steps grant_facts_of_def audience_matches_def list_ex_iff split: if_splits)
next
  case False
  then show ?thesis by (auto simp: grant_steps_def grant_holds_def)
qed

lemma accepts_iff:
  assumes b: "tightened (er_bounds e)" and t: "is_i64 (er_evaluation_time e)"
    and k: "length (ti_public_key (er_trusted_issuer e)) = width"
  shows "venvelope c e = Some f \<longleftrightarrow> (\<exists>g p. envelope_holds V c e g p \<and> f = envelope_facts_of V c e g p)"
proof (cases "limits_ok V e \<and> proof_decoder V (cr_proof c) (er_bounds e) \<noteq> None \<and>
    grant_decoder V (cr_grant c) (er_bounds e) \<noteq> None")
  case True
  then obtain g p where g: "grant_decoder V (cr_grant c) (er_bounds e) = Some g"
    and p: "proof_decoder V (cr_proof c) (er_bounds e) = Some p" by blast
  have s: "u64_as_i64 (er_skew e) = int (er_skew e)" "u64_as_i64 (er_proof_max_age e) = int (er_proof_max_age e)"
    using small_skew [OF b, of "er_skew e"] small_age [OF b, of "er_proof_max_age e"] True by (simp_all add: limits_ok_def)
  note clock = proof_clock [OF p b]
  have w: "\<not> (pp_issued_at (dp_payload p) < unwrap_or (checked_sub_i64 (unwrap_or (checked_sub_i64 (er_evaluation_time e)
          (int (er_proof_max_age e))) i64_min) (int (er_skew e))) i64_min \<or>
        pp_issued_at (dp_payload p) > unwrap_or (checked_add_i64 (er_evaluation_time e) (int (er_skew e))) i64_max) \<longleftrightarrow>
      fresh (pp_issued_at (dp_payload p)) (er_evaluation_time e) (int (er_skew e)) (int (er_proof_max_age e))"
    using saturating_lower_2 [OF clock t] saturating_upper [OF clock t] by (auto simp: fresh_def not_less)
  have gr: "grant_steps V (cr_grant c) (er_trusted_issuer e) (grant_of_request e) = Some gf \<longleftrightarrow>
      grant_holds V (cr_grant c) (er_trusted_issuer e) (grant_of_request e) g \<and>
      gf = grant_facts_of V (er_trusted_issuer e) (grant_of_request e) g" for gf
    using grant_steps_iff [of "grant_of_request e"] b t k True g by (auto simp: limits_ok_def grant_holds_def)
  have lim: "\<not> (nonce_demanded V \<and> er_nonce_mode e = NotRequired)"
      "\<not> (er_proof_max_age e < 1 \<or> er_proof_max_age e > proof_max_age (er_bounds e))"
    using True by (auto simp: limits_ok_def)
  have "(\<exists>g p. envelope_holds V c e g p \<and> f = envelope_facts_of V c e g p) \<longleftrightarrow>
      envelope_holds V c e g p \<and> f = envelope_facts_of V c e g p"
    using g p by (auto simp: envelope_holds_def grant_holds_def possession_holds_def)
  moreover have "venvelope c e = Some f \<longleftrightarrow>
      grant_holds V (cr_grant c) (er_trusted_issuer e) (grant_of_request e) g \<and>
      possession_holds V c e g p \<and> operation_granted V e g \<and> f = envelope_facts_of V c e g p"
    unfolding venvelope_steps envelope_steps_def Let_def reject_step bind_Some [of "grant_steps _ _ _ _"] gr g p s
      Option.bind.bind_lunit operations_step equal_step signed_steps request_step uri_step selected_step nonce_step w
    using lim
    by (auto simp: possession_holds_def operation_granted_def envelope_facts_of_def grant_facts_of_def p)
  ultimately show ?thesis using True by (simp add: envelope_holds_def)
next
  case False
  then have "venvelope c e \<noteq> Some f"
    unfolding venvelope_steps envelope_steps_def Let_def reject_step
    by (auto simp: limits_ok_def bind_Some grant_steps_def not_less split: if_splits)
  with False show ?thesis by (auto simp: envelope_holds_def grant_holds_def possession_holds_def)
qed

text \<open>Two envelopes that hold for one decoded proof are the same request over the same grant.\<close>

lemma one_request:
  assumes h: "possession_holds V c e g p" "possession_holds V c' e' g' p"
    and same: "er_bounds e = er_bounds e'"
    and ty: "portable (er_cast_arguments e)" "utf8_valid (er_operation e)"
      "portable (er_cast_arguments e')" "utf8_valid (er_operation e')"
    and b: "integers_fit (er_bounds e)" "jcs_bytes (er_bounds e) \<le> json_bytes (er_bounds e)"
    and free: "collision_free B (cr_grant c) (cr_grant c')"
      "collision_free B (digest_preimage B prefix (er_operation e) (er_cast_arguments e))
        (digest_preimage B prefix (er_operation e') (er_cast_arguments e'))"
  shows "cr_grant c = cr_grant c' \<and> er_operation e = er_operation e' \<and>
    canon (er_cast_arguments e) = canon (er_cast_arguments e') \<and> er_method e = er_method e' \<and>
    er_target_uri e = er_target_uri e' \<and> er_invocation_id e = er_invocation_id e' \<and> er_nonce_mode e = er_nonce_mode e'"
proof -
  have grants: "cr_grant c = cr_grant c'"
    using h free(1) by (simp add: possession_holds_def collision_free_def token_digest)
  have d: "request_digest_with B prefix (er_operation e) (er_cast_arguments e) (er_bounds e) =
        Some (base64url_encode (pp_request_hash (dp_payload p)))"
      "request_digest_with B prefix (er_operation e') (er_cast_arguments e') (er_bounds e) =
        Some (base64url_encode (pp_request_hash (dp_payload p)))"
    using h same by (simp_all add: possession_holds_def request_digested)
  have "er_operation e = er_operation e' \<and> canon (er_cast_arguments e) = canon (er_cast_arguments e')"
    using request_digest_commits [OF d] prefix_known ty b free(2) by simp
  moreover have "er_nonce_mode e = er_nonce_mode e'"
    by (rule nonce_matches_same [of _ "pp_nonce (dp_payload p)"]) (use h in \<open>simp_all add: possession_holds_def\<close>)
  ultimately show ?thesis using h grants by (simp add: possession_holds_def)
qed

end

section \<open>Honest parties are accepted\<close>

text \<open>The Rust types of a request with keys of the given width, and a context that \<open>bounds_new\<close> made.\<close>

definition request_ok :: "nat \<Rightarrow> expected_request \<Rightarrow> bool" where
  "request_ok width e \<longleftrightarrow>
     tightened (er_bounds e) \<and> is_i64 (er_evaluation_time e) \<and>
     length (ti_public_key (er_trusted_issuer e)) = width \<and> portable (er_cast_arguments e) \<and> utf8_valid (er_operation e)"

text \<open>The issuer makes and signs a grant for the key of a holder.\<close>

definition honest_grant ::
  "scheme \<Rightarrow> (bounds \<Rightarrow> grant_input \<Rightarrow> produced_signing_input option) \<Rightarrow> expected_request \<Rightarrow> grant_input \<Rightarrow>
   produced_signing_input \<Rightarrow> bytes \<Rightarrow> bool" where
  "honest_grant V produce e g psi sg \<longleftrightarrow>
     (let b = er_bounds e in
      produce b g = Some psi \<and> grant_ok b g \<and> length sg = 64 \<and> compact_fits b (compact_bytes b) psi sg \<and>
      key_verifier V (ti_public_key (er_trusted_issuer e)) (psi_message psi) sg = Some () \<and>
      gi_key_id g = ti_key_id (er_trusted_issuer e) \<and> gi_issuer g = er_issuer e \<and>
      er_audience e \<in> set (gi_audiences g) \<and>
      within_window (payload_view 1 g) (er_evaluation_time e) (int (er_skew e)))"

text \<open>The holder proves possession over that grant and the request.\<close>

definition honest_proof ::
  "backend \<Rightarrow> scheme \<Rightarrow> (bounds \<Rightarrow> proof_input \<Rightarrow> produced_signing_input option) \<Rightarrow> expected_request \<Rightarrow> proof_input \<Rightarrow>
   produced_signing_input \<Rightarrow> bytes \<Rightarrow> bool" where
  "honest_proof B V produce e p psi sg \<longleftrightarrow>
     (let b = er_bounds e in
      produce b p = Some psi \<and> proof_ok B b None p \<and> length sg = 64 \<and> compact_fits b (compact_bytes b) psi sg \<and>
      key_verifier V (pi_holder_public_key p) (psi_message psi) sg = Some () \<and>
      pi_method p = er_method e \<and> pi_target_uri p = er_target_uri e \<and> pi_invocation_id p = er_invocation_id e \<and>
      pi_operation p = er_operation e \<and> pi_cast_arguments p = er_cast_arguments e \<and>
      fresh (pi_issued_at p) (er_evaluation_time e) (int (er_skew e)) (int (er_proof_max_age e)))"

definition request_allowed :: "scheme \<Rightarrow> expected_request \<Rightarrow> grant_input \<Rightarrow> bool" where
  "request_allowed V e g \<longleftrightarrow>
     (\<exists>op \<in> set (gi_operations g). go_name op = er_operation e \<and>
        (\<forall>s \<in> set (go_selectors op). selector_value V s (er_cast_arguments e) (er_bounds e) = Some True))"

lemma dup_free_tagged: "dup_free (tagged v) \<Longrightarrow> dup_free v"
proof (induction v)
  case (Object ms)
  have "dup_free (snd m)" if "m \<in> set ms" for m
    using Object.prems that by - (rule Object.IH [of m], simp_all add: tag2_def snds.simps)
  then show ?case using Object.prems by (simp add: tag2_def comp_def)
qed (simp_all add: tag2_def)

lemma digested_dup_free:
  assumes "request_digest_with B tag op args b = Some d" shows "dup_free args"
proof -
  have "jcs_encode B b (signing_array op args) = Some (jcs_text B (signing_array op args))"
    using assms by (rule request_digest_Some)
  then have "dup_free (signing_array op args)" using encodable_dup_free by (auto simp: jcs_encode_Some)
  then show ?thesis using dup_free_tagged by (simp add: signing_array_def)
qed

lemma psi_parts:
  assumes "build_produced B h q b = Some psi"
  shows "psi_message psi = psi_protected_segment psi @ ''.'' @ psi_payload_segment psi"
  using assms by (auto simp: build_produced_def accept Let_def)

lemma framed_signed:
  assumes "key_verifier V key (psi_message psi) sg = Some ()" "length sg = 64"
    and "psi_message psi = psi_protected_segment psi @ ''.'' @ psi_payload_segment psi"
  shows "signed V key (psi_protected_segment psi) (psi_payload_segment psi) (base64url_encode sg)"
  using assms by (auto simp: signed_def decode_encode)

lemma window_view: "within_window (payload_view version g) t s = within_window (payload_view 1 g) t s"
  by (simp add: within_window_def payload_view_def)

locale honest_scheme =
  checks: envelope_scheme B V width prefix vgrant venvelope +
  grants: grant_codec B GF pgrant "\<lambda>b t. grant_decoder V t b" +
  proofs: proof_codec B PF None pproof "\<lambda>b t. proof_decoder V t b"
  for B V width prefix vgrant venvelope GF pgrant PF pproof +
  assumes same_tag: "pf_tag PF = prefix"
    and same_normalizer: "target_normalizer V = pf_normalize PF"
    and value_canon: "selector_value V s args b = Some True \<Longrightarrow> dup_free s \<Longrightarrow> portable s \<Longrightarrow> portable args \<Longrightarrow>
      dup_free args \<Longrightarrow> selector_value V (canon s) args b = Some True"
begin

lemma grant_accepted:
  assumes h: "honest_grant V pgrant e g psi sg"
  obtains d where "grant_holds V (framed psi sg) (er_trusted_issuer e) (grant_of_request e) d"
    "dg_payload d = payload_view (gr_version GF) g" "extract_operations (dg_payload_json d) = Some (operations_view g)"
proof -
  have p: "pgrant (er_bounds e) g = Some psi" "grant_ok (er_bounds e) g"
      "compact_fits (er_bounds e) (compact_bytes (er_bounds e)) psi sg" "length sg = 64"
    using h by (simp_all add: honest_grant_def Let_def)
  obtain d where d: "grant_decoder V (framed psi sg) (er_bounds e) = Some d"
      "(dg_key_id d, dg_payload d, extract_operations (dg_payload_json d)) = grant_view (gr_version GF) g"
      "dg_protected_seg d = psi_protected_segment psi" "dg_payload_seg d = psi_payload_segment psi"
      "dg_signature_seg d = base64url_encode sg"
    using grants.round_trip [OF p] by blast
  have "build_produced B (Object (kid_members (gr_alg GF) (gi_key_id g) TYP_GRANT))
        (Object (grant_members (gr_version GF) g)) (er_bounds e) = Some psi"
    using grants.produced [OF p(1)] by blast
  note sig = framed_signed [OF _ p(4) psi_parts [OF this]]
  have pv: "gp_issuer (payload_view n g) = gi_issuer g" "gp_audiences (payload_view n g) = gi_audiences g" for n
    by (simp_all add: payload_view_def)
  have "grant_holds V (framed psi sg) (er_trusted_issuer e) (grant_of_request e) d"
    using h d pv sig window_view [of "gr_version GF" g]
    by (simp add: grant_holds_def honest_grant_def Let_def grant_view_def)
  then show ?thesis using d(2) by (intro that [of d]) (simp_all add: grant_view_def)
qed

lemma exchange_accepted:
  assumes g: "honest_grant V pgrant e g psi sg" and p: "honest_proof B V pproof e p chi sp"
    and link: "pi_grant_compact p = framed psi sg"
      "key_print V (pi_holder_public_key p) = Some (gi_holder_thumbprint g)"
    and req: "request_ok width e" "request_allowed V e g" "limits_ok V e" "er_nonce_mode e = NotRequired"
  shows "\<exists>f. venvelope \<lparr>cr_grant = framed psi sg, cr_proof = framed chi sp\<rparr> e = Some f \<and>
    ef_proof_id f = pi_proof_id p \<and> gf_grant_id (ef_grant f) = gi_grant_id g"
proof -
  let ?c = "\<lparr>cr_grant = framed psi sg, cr_proof = framed chi sp\<rparr>"
  obtain d where d: "grant_holds V (framed psi sg) (er_trusted_issuer e) (grant_of_request e) d"
      "dg_payload d = payload_view (gr_version GF) g" "extract_operations (dg_payload_json d) = Some (operations_view g)"
    by (rule grant_accepted [OF g])
  have q: "pproof (er_bounds e) p = Some chi" "proof_ok B (er_bounds e) None p"
      "compact_fits (er_bounds e) (compact_bytes (er_bounds e)) chi sp" "length sp = 64"
    using p by (simp_all add: honest_proof_def Let_def)
  obtain r where r: "proof_decoder V (framed chi sp) (er_bounds e) = Some r"
      "(dp_holder_public_key r, dp_payload r) = proof_view B PF None p"
      "dp_protected_seg r = psi_protected_segment chi" "dp_payload_seg r = psi_payload_segment chi"
      "dp_signature_seg r = base64url_encode sp"
    using proofs.round_trip [OF q] by blast
  have c: "proof_checked PF (er_bounds e) None p"
      "build_produced B (Object (proof_header_members PF (pi_holder_public_key p)))
        (Object (proof_members B PF p None)) (er_bounds e) = Some chi"
      "request_digest_with B (pf_tag PF) (pi_operation p) (pi_cast_arguments p) (er_bounds e) =
        Some (base64url_encode (request_print B PF p))"
    using proofs.produced [OF q(1)] by blast+
  have "length (request_print B PF p) = 32" using q(2) by (simp add: proof_ok_def sha256_width_def request_print_def)
  moreover have "signed V (dp_holder_public_key r) (dp_protected_seg r) (dp_payload_seg r) (dp_signature_seg r)"
    using p r q(4) framed_signed [OF _ q(4) psi_parts [OF c(2)]] by (simp add: honest_proof_def Let_def proof_view_def)
  ultimately have "possession_holds V ?c e d r"
    using p r c(1,3) d(2) link req(4) checks.token_digest checks.request_digested same_tag same_normalizer
    by (simp add: possession_holds_def honest_proof_def Let_def proof_view_def proof_checked_def payload_view_def)
  moreover have "operation_granted V e d"
  proof -
    obtain op where op: "op \<in> set (gi_operations g)" "go_name op = er_operation e"
        "\<forall>s \<in> set (go_selectors op). selector_value V s (er_cast_arguments e) (er_bounds e) = Some True"
      using req(2) by (auto simp: request_allowed_def)
    have gp: "pgrant (er_bounds e) g = Some psi" "grant_ok (er_bounds e) g"
      using g by (simp_all add: honest_grant_def Let_def)
    have "\<forall>s \<in> set (go_selectors op). dup_free s \<and> portable s"
      using op(1) gp(2) grants.written_selectors [OF gp(1)] by (auto simp: grant_ok_def)
    moreover have "dup_free (er_cast_arguments e)" "portable (er_cast_arguments e)"
      using digested_dup_free [OF c(3)] p req(1) by (simp_all add: honest_proof_def Let_def request_ok_def)
    ultimately have "\<forall>s \<in> set (map canon (go_selectors op)). selector_value V s (er_cast_arguments e) (er_bounds e) = Some True"
      using op(3) value_canon by simp
    moreover have "grant_checked GF (er_bounds e) g" using grants.produced [OF gp(1)] by blast
    ultimately show ?thesis using d(3) granted_selectors [OF _ op(1)] op(2) by (auto simp: operation_granted_def)
  qed
  ultimately have "envelope_holds V ?c e d r"
    using d(1) req(3) by (simp add: envelope_holds_def)
  then have "venvelope ?c e = Some (envelope_facts_of V ?c e d r)"
    using checks.accepts_iff [of e ?c] req(1) by (auto simp: request_ok_def)
  then show ?thesis using d(2) r(2)
    by (simp add: envelope_facts_of_def grant_facts_of_def payload_view_def proof_view_def)
qed

end

end
