(* ===== verification/Envelope_Facts.thy ===== *)
theory Envelope_Facts
  imports Credential_Check
begin

text \<open>
  Version 1 of the envelope check: the scheme of each proof profile and its interpretation of the interface
  \<open>envelope_scheme\<close>. From the specification follow the safety of the binding (one proof, one request) and
  the completeness of the protocol (what honest producers make is accepted).
\<close>

section \<open>Decoded times\<close>

lemma grant_payload_times:
  assumes "validate_grant_payload B v b = Some p"
  obtains ms slots where "members_of v = Some ms" "collect grant_claims ms Map.empty = Some slots"
    "take_integral_date (slots ''iat'') = Some (gp_issued_at p)"
    "take_integral_date (slots ''nbf'') = Some (gp_not_before p)"
    "take_integral_date (slots ''exp'') = Some (gp_expires_at p)"
  using assms by (auto simp: validate_grant_payload_def bind_Some split: if_splits)

lemma proof_payload_time:
  assumes "validate_proof_payload_for v b profile = Some p"
  obtains ms slots where "members_of v = Some ms" "collect proof_claims ms Map.empty = Some slots"
    "take_integral_date (slots ''iat'') = Some (pp_issued_at p)"
  using assms by (auto simp: validate_proof_payload_for_def bind_Some split: if_splits)

lemma grant_clocks:
  assumes "decode_grant_parts B c b = Some g" "tightened b"
  shows "clock_value (gp_issued_at (dg_payload g))" "clock_value (gp_not_before (dg_payload g))"
    and "clock_value (gp_expires_at (dg_payload g))"
proof -
  obtain t v where v: "json_decode b t = Some v" "validate_grant_payload B v b = Some (dg_payload g)"
    using assms(1) by (auto simp: decode_grant_parts_def bind_Some split: if_splits)
  show "clock_value (gp_issued_at (dg_payload g))" "clock_value (gp_not_before (dg_payload g))"
    "clock_value (gp_expires_at (dg_payload g))"
    by (rule grant_payload_times [OF v(2)], rule decoded_clock [OF v(1) _ _ _ assms(2)], assumption+)+
qed

lemma proof_clock:
  assumes "decode_proof_parts_for B c b profile = Some p" "tightened b"
  shows "clock_value (pp_issued_at (dp_payload p))"
proof -
  obtain t v where v: "json_decode b t = Some v" "validate_proof_payload_for v b profile = Some (dp_payload p)"
    using assms(1) by (auto simp: decode_proof_parts_for_def bind_Some split: if_splits)
  show ?thesis by (rule proof_payload_time [OF v(2)]) (rule decoded_clock [OF v(1) _ _ _ assms(2)])
qed

section \<open>The scheme of version 1\<close>

definition scheme_v1 :: "backend \<Rightarrow> proof_profile \<Rightarrow> scheme" where
  "scheme_v1 B profile =
     \<lparr>grant_decoder = decode_grant_parts B, proof_decoder = (\<lambda>t b. decode_proof_parts_for B t b profile),
      key_verifier = ed25519_verify B, key_print = thumbprint_raw B, token_hash = sha256 B,
      request_hash = request_digest B, target_normalizer = profile_uri_normalize profile,
      selector_value = evaluate B, nonce_demanded = (profile = LocalLoopbackHttp)\<rparr>"

lemma scheme_v1_simps [simp]:
  "grant_decoder (scheme_v1 B profile) = decode_grant_parts B"
  "proof_decoder (scheme_v1 B profile) = (\<lambda>t b. decode_proof_parts_for B t b profile)"
  "key_verifier (scheme_v1 B profile) = ed25519_verify B" "key_print (scheme_v1 B profile) = thumbprint_raw B"
  "token_hash (scheme_v1 B profile) = sha256 B" "request_hash (scheme_v1 B profile) = request_digest B"
  "target_normalizer (scheme_v1 B profile) = profile_uri_normalize profile"
  "selector_value (scheme_v1 B profile) = evaluate B"
  "nonce_demanded (scheme_v1 B profile) \<longleftrightarrow> profile = LocalLoopbackHttp"
  by (simp_all add: scheme_v1_def)

lemma verified_key:
  assumes "ed25519_verify B k m s = Some ()" "length k = 32"
  shows "thumbprint_raw B k = Some (thumbprint_digest_unchecked B k)"
  using assms by (auto simp: ed25519_verify_def thumbprint_raw_def acceptable_public_key_def strict_gate_def
      split: if_splits)

lemma all_selectors_holding:
  "all_selectors B b args ss = validate_each (holding (scheme_v1 B profile) args b) ss"
  by (induction ss) (simp_all add: holding_def)

lemma verify_grant_steps: "verify_grant B t i x = grant_steps (scheme_v1 B profile) t i x"
  by (simp add: verify_grant_def grant_steps_def public_key_thumbprint_raw_def)

lemma nonce_unset: "\<not> (case m of NotRequired \<Rightarrow> True | Required n \<Rightarrow> False) \<longleftrightarrow> m \<noteq> NotRequired"
  "(case m of Required n \<Rightarrow> False | NotRequired \<Rightarrow> True) \<longleftrightarrow> m = NotRequired"
  by (cases m; simp)+

interpretation v1: envelope_scheme B "scheme_v1 B profile" 32 REQUEST_DIGEST_PREFIX "verify_grant B"
    "\<lambda>c e. check_envelope_for B c e profile"
  by unfold_locales
    (simp_all add: grant_clocks proof_clock verified_key request_digest_def request_prefixes_def verify_grant_steps
      check_envelope_for_def envelope_steps_def nonce_unset all_selectors_holding [of B _ _ _ profile]
      verify_grant_steps [of B _ _ _ profile])

section \<open>One proof, one request\<close>

lemma proof_profile_determined:
  assumes "decode_proof_parts_for B c b profile = Some p" "decode_proof_parts_for B c b profile' = Some p'"
  shows "profile = profile' \<and> p = p'"
proof -
  have named: "\<exists>ms slots. members_of h = Some ms \<and> collect [''alg'', ''typ'', ''jwk''] ms Map.empty = Some slots \<and>
      slots ''typ'' = Some (String (proof_typ q))"
    if "validate_proof_header_for B h b q = Some k" for h q k
    using that by (auto simp: validate_proof_header_for_def bind_Some split: if_splits)
  obtain h k k' where "validate_proof_header_for B h b profile = Some k" "validate_proof_header_for B h b profile' = Some k'"
    using assms by (auto simp: decode_proof_parts_for_def bind_Some split: if_splits)
  then have "proof_typ profile = proof_typ profile'" using named [of h profile k] named [of h profile' k'] by auto
  then have "profile = profile'"
    by (cases profile; cases profile') (simp_all add: TYP_PROOF_def TYP_LOCAL_LOOPBACK_HTTP_PROOF_def)
  with assms show ?thesis by simp
qed

definition request_preimage :: "backend \<Rightarrow> expected_request \<Rightarrow> bytes" where
  "request_preimage B e = digest_preimage B REQUEST_DIGEST_PREFIX (er_operation e) (er_cast_arguments e)"

lemma accepted_once:
  assumes a: "check_envelope_for B c e profile = Some f" "check_envelope_for B c' e' profile' = Some f'"
    and same: "cr_proof c = cr_proof c'" "er_bounds e = er_bounds e'"
    and ok: "request_ok 32 e" "request_ok 32 e'"
    and b: "integers_fit (er_bounds e)" "jcs_bytes (er_bounds e) \<le> json_bytes (er_bounds e)"
    and free: "collision_free B (cr_grant c) (cr_grant c')" "collision_free B (request_preimage B e) (request_preimage B e')"
  shows "profile = profile' \<and> cr_grant c = cr_grant c' \<and> er_operation e = er_operation e' \<and>
    canon (er_cast_arguments e) = canon (er_cast_arguments e') \<and> er_method e = er_method e' \<and>
    er_target_uri e = er_target_uri e' \<and> er_invocation_id e = er_invocation_id e' \<and> er_nonce_mode e = er_nonce_mode e'"
proof -
  obtain g p where h: "envelope_holds (scheme_v1 B profile) c e g p"
    using a(1) ok(1) v1.accepts_iff [of e B c profile f] by (auto simp: request_ok_def)
  obtain g' p' where h': "envelope_holds (scheme_v1 B profile') c' e' g' p'"
    using a(2) ok(2) v1.accepts_iff [of e' B c' profile' f'] by (auto simp: request_ok_def)
  have poss: "possession_holds (scheme_v1 B profile) c e g p" "possession_holds (scheme_v1 B profile') c' e' g' p'"
    using h h' by (simp_all add: envelope_holds_def)
  have pp: "profile = profile'" "p = p'"
    using proof_profile_determined [of B "cr_proof c" "er_bounds e" profile p profile' p'] poss same
    by (simp_all add: possession_holds_def)
  show ?thesis
    using v1.one_request [OF poss(1) poss(2) [folded pp] same(2)] ok b free pp(1)
    by (simp add: request_ok_def request_preimage_def)
qed

section \<open>Honest parties are accepted\<close>

interpretation honest_v1: honest_scheme B "scheme_v1 B Standard" 32 REQUEST_DIGEST_PREFIX "verify_grant B"
    "\<lambda>c e. check_envelope_for B c e Standard" "grant_format_v1 B" "\<lambda>b g. grant_signing_input B g b"
    "proof_format_v1 B Standard" "\<lambda>b p. proof_signing_input B p b"
  unfolding honest_scheme_def honest_scheme_axioms_def scheme_v1_simps
  using v1.envelope_scheme_axioms grant.grant_codec_axioms possession.proof_codec_axioms
  by (simp add: evaluate_canon)

end
