(* ===== verification/Sample_Exchange.thy ===== *)
theory Sample_Exchange
  imports Credential_Check
begin

text \<open>
  A concrete exchange under the sample backend, in the format of any version: a grant, its compact, a proof
  over it and the request it serves. The properties of producers and envelopes are instantiated at it.
\<close>

section \<open>A sample exchange\<close>

lemma length_array_text:
  assumes "xs \<noteq> []"
  shows "length (jcs_text B (Array xs)) = 1 + (\<Sum>x \<leftarrow> xs. length (jcs_text B x) + 1)"
proof -
  have "length (join_with CHR '','' (map (jcs_text B) xs)) + 1 = (\<Sum>t \<leftarrow> map (jcs_text B) xs. length t + 1)"
    using assms by (intro length_join_with) simp
  then show ?thesis using assms by (simp add: jcs_text_Array join_from_def comp_def)
qed

lemma length_encode_le: "length (base64url_encode x) \<le> 2 * length x + 1"
  unfolding length_encode by presburger

definition produced_from :: "bytes \<Rightarrow> bytes \<Rightarrow> produced_signing_input" where
  "produced_from ht pt =
     \<lparr>psi_protected_segment = base64url_encode ht, psi_payload_segment = base64url_encode pt,
      psi_message = base64url_encode ht @ ''.'' @ base64url_encode pt\<rparr>"

lemma small_object_encodes:
  assumes "encodable maximum 1 v" "node_count v \<le> 4096" "length (jcs_text B v) \<le> 2000"
  shows "jcs_encode B maximum v = Some (jcs_text B v)"
  using assms by (simp add: jcs_encode_Some maximum_def)

lemma small_produced:
  assumes "jcs_encode B maximum h = Some ht" "jcs_encode B maximum p = Some pt"
  shows "build_produced B h p maximum = Some (produced_from ht pt)"
  using assms by (simp add: build_produced_def produced_from_def Let_def)

lemma small_fits:
  assumes "length ht \<le> 2000" "length pt \<le> 2000" "length sg = 64"
  shows "compact_fits maximum (compact_bytes maximum) (produced_from ht pt) sg"
proof -
  have "length (base64url_encode sg) = 86" using assms(3) by (simp add: length_encode)
  then show ?thesis
    using assms length_encode_le [of ht] length_encode_le [of pt]
    by (simp add: compact_fits_def framed_def produced_from_def decoded_length maximum_def)
qed

lemma dots:
  assumes "d \<notin> set h" 
  shows "position (\<lambda>c. c = d) (h @ d # p) = Some (length h)"
proof -
  have "\<forall>c \<in> set h. c \<noteq> d" using assms by metis
  then show ?thesis by (rule position_append) simp
qed
lemma scan_parts:
  assumes "CHR ''.'' \<notin> set h" "CHR ''.'' \<notin> set p" "CHR ''.'' \<notin> set s" "h \<noteq> []" "p \<noteq> []" "s \<noteq> []"
    and "length h \<le> encoded_segment_bytes b" "length p \<le> encoded_segment_bytes b"
    and "length s \<le> encoded_segment_bytes b" "length h + length p + length s + 2 \<le> compact_bytes b"
  shows "scan_compact (h @ CHR ''.'' # p @ CHR ''.'' # s) b = Some ()"
  using assms(3-) 
  by (simp add: scan_compact_def Let_def not_less dots [OF assms(1)] dots [OF assms(2)])

lemma scan_framed:
  assumes "ht \<noteq> []" "pt \<noteq> []" "length ht \<le> 2000" "length pt \<le> 2000" "length sg = 64"
  shows "scan_compact (framed (produced_from ht pt) sg) maximum = Some ()"
proof -
  have "scan_compact (base64url_encode ht @ CHR ''.'' # base64url_encode pt @ CHR ''.'' # base64url_encode sg) maximum = Some ()"
  proof (rule scan_parts [OF encode_no_dot encode_no_dot encode_no_dot])
    have "length (base64url_encode sg) = 86" using assms(5) by (simp add: length_encode)
    moreover have "length (base64url_encode ht) \<le> 4001" "length (base64url_encode pt) \<le> 4001"
      using assms(3,4) length_encode_le [of ht] length_encode_le [of pt] by linarith+
    ultimately show "length (base64url_encode ht) \<le> encoded_segment_bytes maximum"
      "length (base64url_encode pt) \<le> encoded_segment_bytes maximum"
      "length (base64url_encode sg) \<le> encoded_segment_bytes maximum"
      "length (base64url_encode ht) + length (base64url_encode pt) + length (base64url_encode sg) + 2 \<le> compact_bytes maximum"
      by (simp_all add: maximum_def)
    show "base64url_encode ht \<noteq> []" "base64url_encode pt \<noteq> []" using assms(1,2) by (simp_all add: encode_ne)
    show "base64url_encode sg \<noteq> []" using \<open>length (base64url_encode sg) = 86\<close> by auto
  qed
  then show ?thesis by (simp add: framed_def produced_from_def)
qed

definition sample_selector :: json where
  "sample_selector = Object [(''kind'', String ''all'')]"

text \<open>The grant for a holder key with the given print, in the format of any version.\<close>

definition sample_grant :: "bytes \<Rightarrow> grant_input" where
  "sample_grant h = \<lparr>gi_issuer = ''i'', gi_grant_id = ''g'', gi_key_id = ''k'',
     gi_holder_thumbprint = h, gi_issued_at = 10, gi_not_before = 10, gi_expires_at = 100, gi_audiences = [''a''],
     gi_operations = [\<lparr>go_name = ''o'', go_selectors = [sample_selector]\<rparr>]\<rparr>"

definition sample_grant_psi :: "bytes \<Rightarrow> int \<Rightarrow> bytes \<Rightarrow> produced_signing_input" where
  "sample_grant_psi alg version h = produced_from (jcs_text sample_backend (Object (kid_members alg ''k'' TYP_GRANT)))
     (jcs_text sample_backend (Object (grant_members version (sample_grant h))))"

lemma sample_words:
  "length (string_text ''alg'') = 5" "length (string_text ''kid'') = 5" "length (string_text ''typ'') = 5"
  "length (string_text ALG_EDDSA) = 7" "length (string_text ''ES256'') = 7" "length (string_text TYP_GRANT) = 8"
  "length (string_text TYP_PROOF) = 10"
  "length (string_text ''aud'') = 5" "length (string_text ''cnf'') = 5" "length (string_text ''exp'') = 5"
  "length (string_text ''iat'') = 5" "length (string_text ''iss'') = 5" "length (string_text ''jti'') = 5"
  "length (string_text ''nbf'') = 5" "length (string_text ''operations'') = 12" "length (string_text ''v'') = 3"
  "length (string_text ''jkt'') = 5" "length (string_text ''name'') = 6" "length (string_text ''selectors'') = 11"
  "length (string_text ''kind'') = 6" "length (string_text ''all'') = 5" "length (string_text ''i'') = 3"
  "length (string_text ''g'') = 3" "length (string_text ''k'') = 3" "length (string_text ''a'') = 3"
  "length (string_text ''o'') = 3" "length (decimal_int 1) = 1" "length (decimal_int 2) = 1"
  "length (decimal_int 3) = 1" "length (decimal_int 10) = 2" "length (decimal_int 100) = 3"
  by code_simp+

lemma sample_valid:
  "validate_kid ''k'' maximum = Some ()" "validate_identifier ''i'' maximum = Some ()"
  "validate_identifier ''g'' maximum = Some ()" "validate_identifier ''a'' maximum = Some ()"
  "validate_operation_name ''o'' maximum = Some ()" "validate sample_backend sample_selector maximum = Some ()"
  "evaluate sample_backend sample_selector Null maximum = Some True"
  "utf8_valid ''i''" "utf8_valid ''g''" "utf8_valid ''k''" "utf8_valid ''a''" "utf8_valid ''o''"
  "utf8_valid ''kind''" "utf8_valid ''all''" "validate_v2 sample_backend sample_selector maximum = Some ()"
  "evaluate_v2 sample_backend sample_selector Null maximum = Some True"
  by code_simp+

text \<open>The names and numbers that the formats of the versions use.\<close>

definition known_format :: "bytes \<Rightarrow> int \<Rightarrow> bool" where
  "known_format alg version \<longleftrightarrow> alg \<in> {ALG_EDDSA, ''ES256''} \<and> version \<in> {1, 2, 3}"

lemma sample_grant_texts:
  assumes f: "known_format alg version" and l: "length h = 32"
  shows "length (jcs_text sample_backend (Object (kid_members alg ''k'' TYP_GRANT))) \<le> 2000"
    "length (jcs_text sample_backend (Object (grant_members version (sample_grant h)))) \<le> 2000"
    "jcs_encode sample_backend maximum (Object (kid_members alg ''k'' TYP_GRANT)) =
     Some (jcs_text sample_backend (Object (kid_members alg ''k'' TYP_GRANT)))"
    "jcs_encode sample_backend maximum (Object (grant_members version (sample_grant h))) =
     Some (jcs_text sample_backend (Object (grant_members version (sample_grant h))))"
proof -
  note sizes = length_object_text length_array_text jcs_text_scalar length_b64_text sample_words l
  have v: "length (decimal_int version) = 1" "1 \<le> version" "version \<le> 3" and a: "length (string_text alg) = 7" "length alg \<le> 5"
    using f sample_words by (auto simp: known_format_def ALG_EDDSA_def)
  show h: "length (jcs_text sample_backend (Object (kid_members alg ''k'' TYP_GRANT))) \<le> 2000"
    by (simp add: kid_members_def sizes a)
  show p: "length (jcs_text sample_backend (Object (grant_members version (sample_grant h)))) \<le> 2000"
    by (simp add: grant_members_def sample_grant_def operation_json_def sample_selector_def sizes v)
  show "jcs_encode sample_backend maximum (Object (kid_members alg ''k'' TYP_GRANT)) =
     Some (jcs_text sample_backend (Object (kid_members alg ''k'' TYP_GRANT)))"
    using h a by (intro small_object_encodes) (simp_all add: kid_members_def maximum_def TYP_GRANT_def)
  show "jcs_encode sample_backend maximum (Object (grant_members version (sample_grant h))) =
     Some (jcs_text sample_backend (Object (grant_members version (sample_grant h))))"
    using p v l by (intro small_object_encodes)
      (simp_all add: grant_members_def sample_grant_def operation_json_def sample_selector_def maximum_def length_encode)
qed

lemma sample_grant_built:
  assumes "known_format alg version" "length h = 32"
  shows "build_produced sample_backend (Object (kid_members alg ''k'' TYP_GRANT))
    (Object (grant_members version (sample_grant h))) maximum = Some (sample_grant_psi alg version h)"
  unfolding sample_grant_psi_def by (rule small_produced [OF sample_grant_texts(3,4) [OF assms]])

lemma sample_grant_fits:
  assumes "known_format alg version" "length h = 32" "length sg = 64"
  shows "compact_fits maximum (compact_bytes maximum) (sample_grant_psi alg version h) sg"
    and "scan_compact (framed (sample_grant_psi alg version h) sg) maximum = Some ()"
  unfolding sample_grant_psi_def
  using small_fits [OF sample_grant_texts(1,2) [OF assms(1,2)] assms(3)]
    scan_framed [OF object_text_ne [OF sample_grant_texts(3) [OF assms(1,2)]]
      object_text_ne [OF sample_grant_texts(4) [OF assms(1,2)]] sample_grant_texts(1,2) [OF assms(1,2)] assms(3)]
  by simp_all

lemma sample_grant_ok: "length h = 32 \<Longrightarrow> grant_ok maximum (sample_grant h)"
  using sample_valid(8-14) maximum_fits(1) by (simp add: grant_ok_def sample_grant_def sample_selector_def maximum_def)

definition sample_uri :: bytes where "sample_uri = ''https://h/''"
definition sample_invocation :: bytes where "sample_invocation = ''00000000-0000-0000-0000-000000000000''"

definition sample_proof :: "bytes \<Rightarrow> bytes \<Rightarrow> proof_input" where
  "sample_proof key compact = \<lparr>pi_proof_id = ''p'', pi_method = ''GET'', pi_target_uri = sample_uri,
     pi_invocation_id = sample_invocation, pi_operation = ''o'', pi_cast_arguments = Null,
     pi_grant_compact = compact, pi_holder_public_key = key, pi_issued_at = 20\<rparr>"

definition sample_proof_psi :: "proof_format \<Rightarrow> bytes \<Rightarrow> bytes \<Rightarrow> produced_signing_input" where
  "sample_proof_psi F key compact = produced_from
     (jcs_text sample_backend (Object (proof_header_members F key)))
     (jcs_text sample_backend (Object (proof_members sample_backend F (sample_proof key compact) None)))"

lemma proof_words:
  "length (string_text ''jwk'') = 5" "length (string_text ''ath'') = 5" "length (string_text ''ba_inv'') = 8"
  "length (string_text ''ba_op'') = 7" "length (string_text ''ba_req'') = 8" "length (string_text ''htm'') = 5"
  "length (string_text ''htu'') = 5" "length (string_text ''GET'') = 5" "length (string_text sample_uri) = 12"
  "length (string_text sample_invocation) = 38" "length (string_text ''p'') = 3" "length (decimal_int 20) = 2"
  by code_simp+

lemma proof_valid:
  "validate_identifier ''p'' maximum = Some ()" "validate_method_token ''GET'' maximum = Some ()"
  "validate_uuid sample_invocation = Some ()" "uri_normalize maximum sample_uri = Some sample_uri"
  "utf8_valid ''p''" "utf8_valid ''GET''" "utf8_valid sample_uri" "utf8_valid sample_invocation"
  "length sample_uri = 10" "length sample_invocation = 36"
  by code_simp+

lemma sample_digest:
  assumes "pf_tag F \<in> set request_prefixes"
  shows "request_digest_with sample_backend (pf_tag F) ''o'' Null maximum =
     Some (base64url_encode (request_print sample_backend F (sample_proof key compact)))"
proof -
  have "length ''o'' \<le> operation_bytes maximum" "finite_floats Null"
    "validate_bounds maximum (signing_array ''o'' Null) 1 0 \<noteq> None"
    "jcs_encode sample_backend maximum (signing_array ''o'' Null) \<noteq> None" by code_simp+
  then show ?thesis unfolding request_print_def sample_proof_def proof_input.simps by (rule request_digest_exists)
qed

lemma sample_hash: "length (sha256 sample_backend m) = 32"
  using sample_width by (simp add: sha256_width_def)

text \<open>A key whose JWK is small.\<close>

definition small_jwk :: "json \<Rightarrow> bool" where
  "small_jwk v \<longleftrightarrow> encodable maximum (Suc (Suc 0)) v \<and> node_count v \<le> 100 \<and> length (jcs_text sample_backend v) \<le> 300"

lemma sample_proof_texts:
  assumes f: "known_format (pf_alg F) (pf_version F)" "pf_typ F = TYP_PROOF" and j: "small_jwk (pf_jwk F key)"
  shows "length (jcs_text sample_backend (Object (proof_header_members F key))) \<le> 2000"
    "length (jcs_text sample_backend (Object (proof_members sample_backend F (sample_proof key compact) None))) \<le> 2000"
    "jcs_encode sample_backend maximum (Object (proof_header_members F key)) =
     Some (jcs_text sample_backend (Object (proof_header_members F key)))"
    "jcs_encode sample_backend maximum (Object (proof_members sample_backend F (sample_proof key compact) None)) =
     Some (jcs_text sample_backend (Object (proof_members sample_backend F (sample_proof key compact) None)))"
proof -
  have r: "length (request_print sample_backend F p) = 32" for p by (simp add: request_print_def sample_hash)
  note sizes = length_object_text jcs_text_scalar length_b64_text sample_words proof_words sample_hash r
  have v: "length (decimal_int (pf_version F)) = 1" "1 \<le> pf_version F" "pf_version F \<le> 3"
    and a: "length (string_text (pf_alg F)) = 7" "length (pf_alg F) \<le> 5"
    using f sample_words by (auto simp: known_format_def ALG_EDDSA_def)
  show h: "length (jcs_text sample_backend (Object (proof_header_members F key))) \<le> 2000"
    using j by (simp add: proof_header_members_def sizes a f(2) small_jwk_def)
  show p: "length (jcs_text sample_backend (Object (proof_members sample_backend F (sample_proof key compact) None))) \<le> 2000"
    by (simp add: proof_members_def sample_proof_def sizes v)
  show "jcs_encode sample_backend maximum (Object (proof_header_members F key)) =
     Some (jcs_text sample_backend (Object (proof_header_members F key)))"
    using h j a f(2) by (intro small_object_encodes)
      (simp_all add: proof_header_members_def small_jwk_def maximum_def TYP_PROOF_def)
  show "jcs_encode sample_backend maximum (Object (proof_members sample_backend F (sample_proof key compact) None)) =
     Some (jcs_text sample_backend (Object (proof_members sample_backend F (sample_proof key compact) None)))"
    using p v proof_valid(9,10) by (intro small_object_encodes)
      (simp_all add: proof_members_def sample_proof_def maximum_def length_encode sample_hash r)
qed

lemma sample_proof_built:
  assumes "known_format (pf_alg F) (pf_version F)" "pf_typ F = TYP_PROOF" "small_jwk (pf_jwk F key)"
  shows "build_produced sample_backend (Object (proof_header_members F key))
      (Object (proof_members sample_backend F (sample_proof key compact) None)) maximum = Some (sample_proof_psi F key compact)"
    and "length sg = 64 \<Longrightarrow> compact_fits maximum (compact_bytes maximum) (sample_proof_psi F key compact) sg"
  unfolding sample_proof_psi_def
  by (rule small_produced [OF sample_proof_texts(3,4) [OF assms]])
    (rule small_fits [OF sample_proof_texts(1,2) [OF assms]])

lemma sample_proof_ok: "proof_ok sample_backend maximum None (sample_proof key compact)"
  using sample_valid(12) proof_valid(5-8) sample_width maximum_fits(1)
  by (simp add: proof_ok_def sample_proof_def maximum_def)

definition sample_request :: "bytes \<Rightarrow> expected_request" where
  "sample_request key = \<lparr>er_issuer = ''i'', er_audience = ''a'', er_evaluation_time = 30, er_skew = 5,
     er_bounds = maximum, er_method = ''GET'', er_target_uri = sample_uri, er_invocation_id = sample_invocation,
     er_operation = ''o'', er_cast_arguments = Null, er_proof_max_age = 60, er_nonce_mode = NotRequired,
     er_trusted_issuer = \<lparr>ti_key_id = ''k'', ti_public_key = key\<rparr>\<rparr>"

lemma sample_request_ok: "request_ok (length key) (sample_request key)"
  using tightened_maximum sample_valid(12)
  by (simp add: request_ok_def sample_request_def is_i64_def i64_min_def i64_max_def)

text \<open>A scheme in which the sample key verifies makes the sample exchange honest.\<close>

lemma sample_exchange:
  assumes g: "produce maximum (sample_grant h) = Some (sample_grant_psi alg version h)"
    and p: "pmake maximum (sample_proof key compact) = Some (sample_proof_psi F key compact)"
    and f: "known_format alg version" "known_format (pf_alg F) (pf_version F)" "pf_typ F = TYP_PROOF" "small_jwk (pf_jwk F key)"
    and l: "length h = 32" "length sg = 64"
    and v: "\<And>m. key_verifier V key m sg = Some ()" "selector_value V sample_selector Null maximum = Some True"
      "\<not> nonce_demanded V"
  shows "honest_grant V produce (sample_request key) (sample_grant h) (sample_grant_psi alg version h) sg"
    and "honest_proof sample_backend V pmake (sample_request key) (sample_proof key compact) (sample_proof_psi F key compact) sg"
    and "request_allowed V (sample_request key) (sample_grant h)" "limits_ok V (sample_request key)"
    and "er_nonce_mode (sample_request key) = NotRequired"
proof -
  show "honest_grant V produce (sample_request key) (sample_grant h) (sample_grant_psi alg version h) sg"
    using g sample_grant_ok [OF l(1)] sample_grant_fits(1) [OF f(1) l] l(2) v(1)
    by (simp add: honest_grant_def sample_request_def within_window_def payload_view_def) (simp add: sample_grant_def)
  show "honest_proof sample_backend V pmake (sample_request key) (sample_proof key compact) (sample_proof_psi F key compact) sg"
    using p sample_proof_ok sample_proof_built(2) [OF f(2-4) l(2)] l(2) v(1)
    by (simp add: honest_proof_def sample_request_def fresh_def) (simp add: sample_proof_def)
  show "request_allowed V (sample_request key) (sample_grant h)"
    using v(2) by (simp add: request_allowed_def sample_request_def sample_grant_def)
qed (use v(3) in \<open>simp_all add: limits_ok_def sample_request_def maximum_def\<close>)

end
