(* ===== verification/Archival_Format.thy ===== *)
theory Archival_Format
  imports Producer_Facts
begin

text \<open>
  The round trip of boundary anchors and key transitions, for every version. An archival format is what a
  version puts into them: algorithm name, version number, key digest, and whether the decoder checks the genesis
  hash. The producers and decoders interpret the locale \<open>archival_codec\<close>.
\<close>

section \<open>Formats\<close>

record archival_format =
  ar_alg :: bytes
  ar_version :: int
  ar_digest :: "bytes \<Rightarrow> bytes"
  ar_genesis :: bool

definition read_archival_header :: "backend \<Rightarrow> archival_format \<Rightarrow> bytes \<Rightarrow> json \<Rightarrow> bytes \<Rightarrow> bounds \<Rightarrow> bytes option" where
  "read_archival_header B F typ header header_bytes b =
     do {
       members \<leftarrow> members_of header;
       slots \<leftarrow> collect [''alg'', ''typ'', ''kid''] members Map.empty;
       reject_if (slots ''alg'' \<noteq> Some (String (ar_alg F)));
       reject_if (slots ''typ'' \<noteq> Some (String typ));
       kid \<leftarrow> string_of (slots ''kid'');
       validate_kid kid b;
       encoded \<leftarrow> jcs_encode B b header;
       reject_if (encoded \<noteq> header_bytes);
       Some kid
     }"

definition read_anchor_payload :: "backend \<Rightarrow> archival_format \<Rightarrow> json \<Rightarrow> bytes \<Rightarrow> bounds \<Rightarrow> anchor_payload option" where
  "read_anchor_payload B F payload payload_bytes b =
     do {
       members \<leftarrow> members_of payload;
       slots \<leftarrow> collect anchor_claims members Map.empty;
       reject_if (slots ''v'' \<noteq> Some (Integer (ar_version F)));
       anchor_id \<leftarrow> take_string_or_uri (slots ''anchor_id'') b;
       chain_id \<leftarrow> take_string_or_uri (slots ''chain_id'') b;
       anchored_at \<leftarrow> take_integral_date (slots ''anchored_at'');
       sequence \<leftarrow> take_integral_date (slots ''sequence'');
       reject_if (sequence < 0);
       chain_hash \<leftarrow> take_digest_b64u (slots ''chain_hash'') b;
       key_fingerprint \<leftarrow> take_digest_b64u (slots ''key_fingerprint'') b;
       reject_if (ar_genesis F \<and> sequence = 0 \<and> chain_hash \<noteq> replicate 32 (CHR 0x00));
       encoded \<leftarrow> jcs_encode B b payload;
       reject_if (encoded \<noteq> payload_bytes);
       Some \<lparr>ap_anchor_id = anchor_id, ap_anchored_at = anchored_at, ap_chain_hash = chain_hash,
         ap_chain_id = chain_id, ap_key_fingerprint = key_fingerprint, ap_sequence = sequence\<rparr>
     }"

definition read_transition_payload ::
  "backend \<Rightarrow> archival_format \<Rightarrow> json \<Rightarrow> bytes \<Rightarrow> bounds \<Rightarrow> transition_payload option" where
  "read_transition_payload B F payload payload_bytes b =
     do {
       members \<leftarrow> members_of payload;
       slots \<leftarrow> collect transition_claims members Map.empty;
       reject_if (slots ''v'' \<noteq> Some (Integer (ar_version F)));
       chain_id \<leftarrow> take_string_or_uri (slots ''chain_id'') b;
       transition_id \<leftarrow> take_string_or_uri (slots ''transition_id'') b;
       to_key_id \<leftarrow> string_of (slots ''to_key_id'');
       validate_kid to_key_id b;
       effective_at \<leftarrow> take_integral_date (slots ''effective_at'');
       from_fingerprint \<leftarrow> take_digest_b64u (slots ''from_key_fingerprint'') b;
       to_fingerprint \<leftarrow> take_digest_b64u (slots ''to_key_fingerprint'') b;
       encoded \<leftarrow> jcs_encode B b payload;
       reject_if (encoded \<noteq> payload_bytes);
       Some \<lparr>tp_chain_id = chain_id, tp_effective_at = effective_at,
         tp_from_fingerprint = from_fingerprint, tp_to_fingerprint = to_fingerprint,
         tp_to_key_id = to_key_id, tp_transition_id = transition_id\<rparr>
     }"

definition read_anchor :: "backend \<Rightarrow> archival_format \<Rightarrow> bounds \<Rightarrow> bytes \<Rightarrow> decoded_anchor option" where
  "read_anchor B F b compact =
     do {
       reject_if (length compact > compact_bytes b);
       reject_if (length compact > anchor_bytes b);
       (protected_seg, payload_seg, signature_seg) \<leftarrow> parse_compact compact;
       header_bytes \<leftarrow> decode_segment protected_seg b;
       payload_bytes \<leftarrow> decode_segment payload_seg b;
       decode_signature signature_seg;
       header \<leftarrow> json_decode b header_bytes;
       payload_json \<leftarrow> json_decode b payload_bytes;
       key_id \<leftarrow> read_archival_header B F TYP_CHAIN_ANCHOR header header_bytes b;
       payload \<leftarrow> read_anchor_payload B F payload_json payload_bytes b;
       Some \<lparr>da_protected_seg = protected_seg, da_payload_seg = payload_seg,
         da_signature_seg = signature_seg, da_key_id = key_id, da_payload = payload\<rparr>
     }"

definition read_transition :: "backend \<Rightarrow> archival_format \<Rightarrow> bounds \<Rightarrow> bytes \<Rightarrow> decoded_transition option" where
  "read_transition B F b compact =
     do {
       reject_if (length compact > compact_bytes b);
       reject_if (length compact > anchor_bytes b);
       (protected_seg, payload_seg, signature_seg) \<leftarrow> parse_compact compact;
       header_bytes \<leftarrow> decode_segment protected_seg b;
       payload_bytes \<leftarrow> decode_segment payload_seg b;
       decode_signature signature_seg;
       header \<leftarrow> json_decode b header_bytes;
       payload_json \<leftarrow> json_decode b payload_bytes;
       key_id \<leftarrow> read_archival_header B F TYP_KEY_TRANSITION header header_bytes b;
       payload \<leftarrow> read_transition_payload B F payload_json payload_bytes b;
       Some \<lparr>dt_protected_seg = protected_seg, dt_payload_seg = payload_seg,
         dt_signature_seg = signature_seg, dt_key_id = key_id, dt_payload = payload\<rparr>
     }"

section \<open>What a producer has checked and written\<close>

text \<open>The widths and encodings that the Rust types of the inputs guarantee, and room for the digests.\<close>

definition anchor_ok :: "backend \<Rightarrow> bounds \<Rightarrow> boundary_anchor \<Rightarrow> bool" where
  "anchor_ok B b a \<longleftrightarrow>
     sha256_width B \<and> integers_fit b \<and> 43 \<le> encoded_segment_bytes b \<and> length (ba_chain_hash a) = 32 \<and>
     utf8_valid (ba_key_id a) \<and> utf8_valid (ba_anchor_id a) \<and> utf8_valid (ba_chain_id a)"

definition transition_ok :: "backend \<Rightarrow> bounds \<Rightarrow> key_transition \<Rightarrow> bool" where
  "transition_ok B b t \<longleftrightarrow>
     sha256_width B \<and> integers_fit b \<and> 43 \<le> encoded_segment_bytes b \<and> utf8_valid (kt_current_key_id t) \<and>
     utf8_valid (kt_next_key_id t) \<and> utf8_valid (kt_chain_id t) \<and> utf8_valid (kt_transition_id t)"

definition anchor_view :: "(bytes \<Rightarrow> bytes) \<Rightarrow> boundary_anchor \<Rightarrow> bytes \<times> anchor_payload" where
  "anchor_view digest a = (ba_key_id a,
     \<lparr>ap_anchor_id = ba_anchor_id a, ap_anchored_at = ba_anchored_at a, ap_chain_hash = ba_chain_hash a,
      ap_chain_id = ba_chain_id a, ap_key_fingerprint = digest (ba_public_key a), ap_sequence = ba_sequence a\<rparr>)"

definition transition_view :: "(bytes \<Rightarrow> bytes) \<Rightarrow> key_transition \<Rightarrow> bytes \<times> transition_payload" where
  "transition_view digest t = (kt_current_key_id t,
     \<lparr>tp_chain_id = kt_chain_id t, tp_effective_at = kt_effective_at t,
      tp_from_fingerprint = digest (kt_current_public_key t), tp_to_fingerprint = digest (kt_next_public_key t),
      tp_to_key_id = kt_next_key_id t, tp_transition_id = kt_transition_id t\<rparr>)"

definition anchor_members :: "archival_format \<Rightarrow> boundary_anchor \<Rightarrow> (bytes \<times> json) list" where
  "anchor_members F a =
     [(''anchor_id'', String (ba_anchor_id a)), (''anchored_at'', Integer (ba_anchored_at a)),
      (''chain_hash'', String (base64url_encode (ba_chain_hash a))), (''chain_id'', String (ba_chain_id a)),
      (''key_fingerprint'', String (base64url_encode (ar_digest F (ba_public_key a)))),
      (''sequence'', Integer (ba_sequence a)), (''v'', Integer (ar_version F))]"

definition transition_members :: "archival_format \<Rightarrow> key_transition \<Rightarrow> (bytes \<times> json) list" where
  "transition_members F t =
     [(''chain_id'', String (kt_chain_id t)), (''effective_at'', Integer (kt_effective_at t)),
      (''from_key_fingerprint'', String (base64url_encode (ar_digest F (kt_current_public_key t)))),
      (''to_key_fingerprint'', String (base64url_encode (ar_digest F (kt_next_public_key t)))),
      (''to_key_id'', String (kt_next_key_id t)), (''transition_id'', String (kt_transition_id t)),
      (''v'', Integer (ar_version F))]"

definition anchor_checked :: "bounds \<Rightarrow> boundary_anchor \<Rightarrow> bool" where
  "anchor_checked b a \<longleftrightarrow>
     validate_kid (ba_key_id a) b = Some () \<and> validate_identifier (ba_anchor_id a) b = Some () \<and>
     validate_identifier (ba_chain_id a) b = Some () \<and> 0 \<le> ba_sequence a \<and>
     (ba_sequence a = 0 \<longrightarrow> (\<forall>c \<in> set (ba_chain_hash a). byte c = 0))"

definition transition_checked :: "bounds \<Rightarrow> key_transition \<Rightarrow> bool" where
  "transition_checked b t \<longleftrightarrow>
     validate_kid (kt_current_key_id t) b = Some () \<and> validate_kid (kt_next_key_id t) b = Some () \<and>
     validate_identifier (kt_chain_id t) b = Some () \<and> validate_identifier (kt_transition_id t) b = Some ()"

lemma zero_bytes: "\<forall>c \<in> set s. byte c = 0 \<Longrightarrow> length s = n \<Longrightarrow> s = replicate n (CHR 0x00)"
  using byte_inject by (intro replicate_eqI) (fastforce simp: byte_def)+

section \<open>The contract of the producers and decoders\<close>

locale archival_codec =
  fixes B :: backend and F :: archival_format
    and panchor :: "bounds \<Rightarrow> boundary_anchor \<Rightarrow> produced_signing_input option"
    and danchor :: "bounds \<Rightarrow> bytes \<Rightarrow> decoded_anchor option"
    and ptransition :: "bounds \<Rightarrow> key_transition \<Rightarrow> produced_signing_input option"
    and dtransition :: "bounds \<Rightarrow> bytes \<Rightarrow> decoded_transition option"
  assumes anchor_produced: "panchor b a = Some psi \<Longrightarrow> anchor_checked b a \<and>
      build_produced B (Object (kid_members (ar_alg F) (ba_key_id a) TYP_CHAIN_ANCHOR)) (Object (anchor_members F a)) b =
        Some psi"
    and anchor_decoded: "danchor b c = read_anchor B F b c"
    and transition_produced: "ptransition b t = Some psi \<Longrightarrow> transition_checked b t \<and>
      build_produced B (Object (kid_members (ar_alg F) (kt_current_key_id t) TYP_KEY_TRANSITION))
        (Object (transition_members F t)) b = Some psi"
    and transition_decoded: "dtransition b c = read_transition B F b c"
    and digest_width: "sha256_width B \<Longrightarrow> length (ar_digest F k) = 32"
    and alg_utf8: "utf8_valid (ar_alg F)"
begin

lemma header_decodes:
  assumes "stored B b ht (kid_members (ar_alg F) key_id typ) hms" "validate_kid key_id b = Some ()"
  shows "read_archival_header B F typ (Object hms) ht b = Some key_id"
  using assms(2) stored_text [OF assms(1)]
  by (rule_tac kid_slots [OF assms(1)]) (simp add: read_archival_header_def slots)

lemma anchor_round_trip:
  assumes p: "panchor b a = Some psi" and ok: "anchor_ok B b a"
    and fit: "compact_fits b (archival_room b) psi sg" "length sg = 64"
  shows "\<exists>d. danchor b (framed psi sg) = Some d \<and> (da_key_id d, da_payload d) = anchor_view (ar_digest F) a \<and>
    da_protected_seg d = psi_protected_segment psi \<and> da_payload_seg d = psi_payload_segment psi \<and>
    da_signature_seg d = base64url_encode sg"
proof -
  have c: "anchor_checked b a" "build_produced B (Object (kid_members (ar_alg F) (ba_key_id a) TYP_CHAIN_ANCHOR))
      (Object (anchor_members F a)) b = Some psi"
    using anchor_produced [OF p] by blast+
  have ty: "portable (Object (kid_members (ar_alg F) (ba_key_id a) TYP_CHAIN_ANCHOR))" "portable (Object (anchor_members F a))"
      "integers_fit b"
    using ok alg_utf8 by (simp_all add: anchor_ok_def anchor_utf8 header_utf8 kid_members_def anchor_members_def)
  obtain ht pt hms pms where f: "frame_read b psi sg ht pt"
    and h: "stored B b ht (kid_members (ar_alg F) (ba_key_id a) TYP_CHAIN_ANCHOR) hms"
    and q: "stored B b pt (anchor_members F a) pms"
    by (rule produced_frame [OF c(2) fit ty])
  have "collect anchor_claims pms Map.empty = Some (\<lambda>n. map_option canon (map_of (anchor_members F a) n))"
    by (rule stored_collect [OF q]) (simp add: anchor_claims_def anchor_members_def)
  moreover have "ba_sequence a = 0 \<Longrightarrow> ba_chain_hash a = replicate 32 (CHR 0x00)"
    using c(1) ok zero_bytes [of "ba_chain_hash a" 32] by (simp add: anchor_checked_def anchor_ok_def)
  ultimately have "read_anchor_payload B F (Object pms) pt b = Some (snd (anchor_view (ar_digest F) a))"
    using c(1) stored_text [OF q] ok
    by (simp add: read_anchor_payload_def slots)
      (auto simp: anchor_members_def slots anchor_view_def anchor_ok_def anchor_checked_def length_encode digest_width)
  with header_decodes [OF h] f show ?thesis
    using stored_text [OF h] stored_text [OF q] fits_room [OF fit(1)] c(1)
    by (simp add: anchor_decoded read_anchor_def archival_room_def anchor_view_def frame_read_def anchor_checked_def)
qed

lemma transition_round_trip:
  assumes p: "ptransition b t = Some psi" and ok: "transition_ok B b t"
    and fit: "compact_fits b (archival_room b) psi sg" "length sg = 64"
  shows "\<exists>d. dtransition b (framed psi sg) = Some d \<and> (dt_key_id d, dt_payload d) = transition_view (ar_digest F) t \<and>
    dt_protected_seg d = psi_protected_segment psi \<and> dt_payload_seg d = psi_payload_segment psi \<and>
    dt_signature_seg d = base64url_encode sg"
proof -
  have c: "transition_checked b t" "build_produced B (Object (kid_members (ar_alg F) (kt_current_key_id t) TYP_KEY_TRANSITION))
      (Object (transition_members F t)) b = Some psi"
    using transition_produced [OF p] by blast+
  have ty: "portable (Object (kid_members (ar_alg F) (kt_current_key_id t) TYP_KEY_TRANSITION))"
      "portable (Object (transition_members F t))" "integers_fit b"
    using ok alg_utf8 by (simp_all add: transition_ok_def anchor_utf8 header_utf8 kid_members_def transition_members_def)
  obtain ht pt hms pms where f: "frame_read b psi sg ht pt"
    and h: "stored B b ht (kid_members (ar_alg F) (kt_current_key_id t) TYP_KEY_TRANSITION) hms"
    and q: "stored B b pt (transition_members F t) pms"
    by (rule produced_frame [OF c(2) fit ty])
  have "collect transition_claims pms Map.empty = Some (\<lambda>n. map_option canon (map_of (transition_members F t) n))"
    by (rule stored_collect [OF q]) (simp add: transition_claims_def transition_members_def)
  then have "read_transition_payload B F (Object pms) pt b = Some (snd (transition_view (ar_digest F) t))"
    using c(1) stored_text [OF q] ok
    by (simp add: read_transition_payload_def slots)
      (simp add: transition_members_def slots transition_view_def transition_ok_def transition_checked_def length_encode
        digest_width)
  with header_decodes [OF h] f show ?thesis
    using stored_text [OF h] stored_text [OF q] fits_room [OF fit(1)] c(1)
    by (simp add: transition_decoded read_transition_def archival_room_def transition_view_def frame_read_def
        transition_checked_def)
qed

end

sublocale archival_codec \<subseteq> anchors: artifact panchor
    "\<lambda>b c. map_option (\<lambda>d. (da_key_id d, da_payload d)) (danchor b c)"
    archival_room "anchor_ok B" "anchor_view (ar_digest F)"
  by unfold_locales (use anchor_round_trip in fastforce)

sublocale archival_codec \<subseteq> transitions: artifact ptransition
    "\<lambda>b c. map_option (\<lambda>d. (dt_key_id d, dt_payload d)) (dtransition b c)"
    archival_room "transition_ok B" "transition_view (ar_digest F)"
  by unfold_locales (use transition_round_trip in fastforce)

section \<open>Version 1\<close>

definition archival_v1 :: "backend \<Rightarrow> archival_format" where
  "archival_v1 B =
     \<lparr>ar_alg = ALG_EDDSA, ar_version = 1, ar_digest = thumbprint_digest_unchecked B, ar_genesis = False\<rparr>"

lemma archival_v1_simps [simp]:
  "ar_alg (archival_v1 B) = ALG_EDDSA" "ar_version (archival_v1 B) = 1"
  "ar_digest (archival_v1 B) = thumbprint_digest_unchecked B" "\<not> ar_genesis (archival_v1 B)"
  by (simp_all add: archival_v1_def)

lemma anchor_produced_v1:
  assumes "boundary_anchor_signing_input B a b = Some psi"
  shows "anchor_checked b a \<and> build_produced B (Object (kid_members ALG_EDDSA (ba_key_id a) TYP_CHAIN_ANCHOR))
      (Object (anchor_members (archival_v1 B) a)) b = Some psi"
  using assms
  by (auto simp: boundary_anchor_signing_input_def anchor_checked_def anchor_members_def kid_header_members [symmetric]
      public_key_thumbprint_raw_def b64url_to_string_def bind_Some list_ex_iff not_less dest!: thumbprint_raw_Some
      split: if_splits)

lemma transition_produced_v1:
  assumes "key_transition_signing_input B t b = Some psi"
  shows "transition_checked b t \<and> build_produced B (Object (kid_members ALG_EDDSA (kt_current_key_id t) TYP_KEY_TRANSITION))
      (Object (transition_members (archival_v1 B) t)) b = Some psi"
  using assms
  by (auto simp: key_transition_signing_input_def transition_checked_def transition_members_def
      kid_header_members [symmetric] public_key_thumbprint_raw_def b64url_to_string_def bind_Some
      dest!: thumbprint_raw_Some split: if_splits)

lemma archival_decoded_v1:
  "decode_anchor_parts B c b = read_anchor B (archival_v1 B) b c"
  "decode_transition_parts B c b = read_transition B (archival_v1 B) b c"
  by (simp_all add: decode_anchor_parts_def read_anchor_def validate_anchor_header_def read_archival_header_def
      validate_anchor_payload_def read_anchor_payload_def decode_transition_parts_def read_transition_def
      validate_transition_header_def validate_transition_payload_def read_transition_payload_def)

interpretation archival: archival_codec B "archival_v1 B" "\<lambda>b a. boundary_anchor_signing_input B a b"
    "\<lambda>b c. decode_anchor_parts B c b" "\<lambda>b t. key_transition_signing_input B t b" "\<lambda>b c. decode_transition_parts B c b"
  by unfold_locales
    (simp_all add: anchor_produced_v1 transition_produced_v1 archival_decoded_v1 unchecked_length header_utf8)

end
