(* ===== verification/Protocol_Properties.thy ===== *)
theory Protocol_Properties
  imports Envelope_Facts Sample_Exchange Archival_Format
begin

text \<open>
  The sample exchange of version 1, a sample key transition, and the properties of the version 1 producers
  and envelopes.
\<close>

section \<open>The sample exchange of version 1\<close>

definition sample_print :: bytes where
  "sample_print = thumbprint_digest_unchecked sample_backend sample_key"

definition sample_compact :: bytes where
  "sample_compact = framed (sample_grant_psi ALG_EDDSA 1 sample_print) sample_signature"

definition sample_credentials :: credentials where
  "sample_credentials = \<lparr>cr_grant = sample_compact,
     cr_proof = framed (sample_proof_psi (proof_format_v1 sample_backend Standard) sample_key sample_compact) sample_signature\<rparr>"

lemma sample_print_length: "length sample_print = 32"
  unfolding sample_print_def using sample_width by (rule unchecked_length)

lemma known_v1: "known_format ALG_EDDSA 1" by (simp add: known_format_def)

lemma small_jwk_v1: "small_jwk (jwk_value sample_key)"
  using sample_key_facts(1)
  by (simp add: small_jwk_def jwk_text jwk_encode_unchecked_def length_encode CRV_ED25519_def KTY_OKP_def)
    (simp add: jwk_value_def maximum_def length_encode CRV_ED25519_def KTY_OKP_def)

lemma sample_grant_made:
  "grant_signing_input sample_backend (sample_grant sample_print) maximum = Some (sample_grant_psi ALG_EDDSA 1 sample_print)"
  using sample_valid sample_grant_built [OF known_v1 sample_print_length]
  by (simp add: grant_signing_input_def grant_members_def sample_grant_def b64url_to_string_def maximum_def
      kid_header_members)

lemma sample_proof_made:
  "proof_signing_input sample_backend (sample_proof sample_key sample_compact) maximum =
     Some (sample_proof_psi (proof_format_v1 sample_backend Standard) sample_key sample_compact)"
proof -
  let ?F = "proof_format_v1 sample_backend Standard"
  have "request_digest sample_backend ''o'' Null maximum =
      Some (base64url_encode (request_print sample_backend ?F (sample_proof sample_key sample_compact)))"
    using sample_digest [of ?F] by (simp add: request_digest_def request_prefixes_def)
  moreover have "scan_compact sample_compact maximum = Some ()"
    unfolding sample_compact_def by (rule sample_grant_fits(2) [OF known_v1 sample_print_length sample_key_facts(2)])
  moreover have "build_produced sample_backend (Object (proof_header_members ?F sample_key))
      (Object (proof_members sample_backend ?F (sample_proof sample_key sample_compact) None)) maximum =
      Some (sample_proof_psi ?F sample_key sample_compact)"
    by (rule sample_proof_built(1)) (simp_all add: known_v1 small_jwk_v1)
  ultimately show ?thesis
    using sample_valid(5) proof_valid sample_key_acceptable
    by (simp add: proof_signing_input_def proof_signing_input_for_def proof_header_members_def
        proof_members_def jwk_value_def b64url_to_string_def profile_uri_normalize_def)
      (simp add: sample_proof_def)
qed

lemma sample_verifies: "ed25519_verify sample_backend sample_key m sample_signature = Some ()"
  using sample_key_facts by (simp add: ed25519_verify_def sample_backend_def)

lemma sample_honest:
  "honest_grant (scheme_v1 sample_backend Standard) (\<lambda>b g. grant_signing_input sample_backend g b)
     (sample_request sample_key) (sample_grant sample_print) (sample_grant_psi ALG_EDDSA 1 sample_print) sample_signature"
  "honest_proof sample_backend (scheme_v1 sample_backend Standard) (\<lambda>b p. proof_signing_input sample_backend p b)
     (sample_request sample_key) (sample_proof sample_key sample_compact)
     (sample_proof_psi (proof_format_v1 sample_backend Standard) sample_key sample_compact) sample_signature"
  "request_allowed (scheme_v1 sample_backend Standard) (sample_request sample_key) (sample_grant sample_print)"
  "limits_ok (scheme_v1 sample_backend Standard) (sample_request sample_key)"
  "er_nonce_mode (sample_request sample_key) = NotRequired"
  using sample_exchange [where V = "scheme_v1 sample_backend Standard" and F = "proof_format_v1 sample_backend Standard"
      and produce = "\<lambda>b g. grant_signing_input sample_backend g b" and alg = ALG_EDDSA and version = 1
      and pmake = "\<lambda>b p. proof_signing_input sample_backend p b" and key = sample_key and compact = sample_compact
      and h = sample_print and sg = sample_signature]
    sample_grant_made sample_proof_made known_v1 small_jwk_v1 sample_print_length sample_key_facts(2)
    sample_verifies sample_valid(7)
  by simp_all

lemma sample_request_v1: "request_ok 32 (sample_request sample_key)"
  using sample_request_ok [of sample_key] sample_key_facts(1) by simp

lemma sample_link:
  "pi_grant_compact (sample_proof sample_key sample_compact) = framed (sample_grant_psi ALG_EDDSA 1 sample_print) sample_signature"
  "thumbprint_raw sample_backend (pi_holder_public_key (sample_proof sample_key sample_compact)) =
     Some (gi_holder_thumbprint (sample_grant sample_print))"
  using sample_key_acceptable
  by (simp_all add: sample_proof_def sample_grant_def sample_compact_def sample_print_def thumbprint_raw_def)

lemma sample_envelope:
  obtains f where "check_envelope sample_backend sample_credentials (sample_request sample_key) = Some f"
    "ef_proof_id f = ''p''" "gf_grant_id (ef_grant f) = ''g''"
  using honest_v1.exchange_accepted [OF sample_honest(1,2) sample_link(1) _ sample_request_v1 sample_honest(3,4,5)] sample_link(2)
  by (auto simp: sample_credentials_def sample_compact_def sample_proof_def sample_grant_def check_envelope_def)

section \<open>A sample transition\<close>

definition other_key :: bytes where
  "other_key = hex32 ''3d4017c3e843895a92b70aa74d1b7ebc9c982ccf2ec4968cc0cd55f12af4660c''"

definition sample_transition :: key_transition where
  "sample_transition = \<lparr>kt_chain_id = ''i'', kt_current_key_id = ''k'', kt_current_public_key = sample_key,
     kt_effective_at = 10, kt_next_key_id = ''o'', kt_next_public_key = other_key, kt_transition_id = ''g''\<rparr>"

definition sample_transition_members :: "(bytes \<times> json) list" where
  "sample_transition_members =
     [(''chain_id'', String ''i''), (''effective_at'', Integer 10),
      (''from_key_fingerprint'', String (base64url_encode (thumbprint_digest_unchecked sample_backend sample_key))),
      (''to_key_fingerprint'', String (base64url_encode (thumbprint_digest_unchecked sample_backend other_key))),
      (''to_key_id'', String ''o''), (''transition_id'', String ''g''), (''v'', Integer 1)]"

definition sample_transition_psi :: produced_signing_input where
  "sample_transition_psi = produced_from
     (jcs_text sample_backend (Object (kid_members ALG_EDDSA ''k'' TYP_KEY_TRANSITION)))
     (jcs_text sample_backend (Object sample_transition_members))"

lemma other_key_acceptable: "acceptable_public_key sample_backend other_key" "sample_key \<noteq> other_key"
proof -
  have "length other_key = 32" "canonical other_key \<and> \<not> is_small_order other_key" by code_simp+
  then show "acceptable_public_key sample_backend other_key"
    by (simp add: acceptable_public_key_def sample_backend_def)
  show "sample_key \<noteq> other_key" by code_simp
qed

lemma transition_words:
  "length (string_text TYP_KEY_TRANSITION) = 19" "length (string_text ''chain_id'') = 10"
  "length (string_text ''effective_at'') = 14" "length (string_text ''from_key_fingerprint'') = 22"
  "length (string_text ''to_key_fingerprint'') = 20" "length (string_text ''to_key_id'') = 11"
  "length (string_text ''transition_id'') = 15" "validate_kid ''o'' maximum = Some ()"
  by code_simp+

lemma sample_transition_texts:
  "length (jcs_text sample_backend (Object (kid_members ALG_EDDSA ''k'' TYP_KEY_TRANSITION))) \<le> 2000"
  "length (jcs_text sample_backend (Object sample_transition_members)) \<le> 2000"
  "jcs_encode sample_backend maximum (Object (kid_members ALG_EDDSA ''k'' TYP_KEY_TRANSITION)) =
     Some (jcs_text sample_backend (Object (kid_members ALG_EDDSA ''k'' TYP_KEY_TRANSITION)))"
  "jcs_encode sample_backend maximum (Object sample_transition_members) =
     Some (jcs_text sample_backend (Object sample_transition_members))"
proof -
  note sizes = length_object_text jcs_text_scalar length_b64_text sample_words transition_words
    unchecked_length [OF sample_width]
  show h: "length (jcs_text sample_backend (Object (kid_members ALG_EDDSA ''k'' TYP_KEY_TRANSITION))) \<le> 2000"
    by (simp add: kid_members_def sizes)
  show p: "length (jcs_text sample_backend (Object sample_transition_members)) \<le> 2000"
    by (simp add: sample_transition_members_def sizes)
  show "jcs_encode sample_backend maximum (Object (kid_members ALG_EDDSA ''k'' TYP_KEY_TRANSITION)) =
     Some (jcs_text sample_backend (Object (kid_members ALG_EDDSA ''k'' TYP_KEY_TRANSITION)))"
    using h by (intro small_object_encodes) (simp_all add: kid_members_def maximum_def ALG_EDDSA_def TYP_KEY_TRANSITION_def)
  show "jcs_encode sample_backend maximum (Object sample_transition_members) =
     Some (jcs_text sample_backend (Object sample_transition_members))"
    using p by (intro small_object_encodes)
      (simp_all add: sample_transition_members_def maximum_def length_encode unchecked_length [OF sample_width])
qed

lemma sample_transition_made:
  "key_transition_signing_input sample_backend sample_transition maximum = Some sample_transition_psi"
proof -
  have "build_produced sample_backend (kid_header ''k'' TYP_KEY_TRANSITION) (Object sample_transition_members) maximum =
      Some sample_transition_psi"
    unfolding kid_header_members sample_transition_psi_def by (rule small_produced [OF sample_transition_texts(3,4)])
  then show ?thesis
    using sample_valid(1-3) transition_words(8) sample_key_acceptable other_key_acceptable
    by (simp add: key_transition_signing_input_def sample_transition_def sample_transition_members_def
        b64url_to_string_def public_key_thumbprint_raw_def thumbprint_raw_def)
qed

lemma sample_transition_ok:
  "transition_ok sample_backend maximum sample_transition"
  "compact_fits maximum (archival_room maximum) sample_transition_psi sample_signature"
proof -
  show "transition_ok sample_backend maximum sample_transition"
    using sample_width maximum_fits(1) sample_valid(8-12)
    by (simp add: transition_ok_def sample_transition_def maximum_def)
  note sizes = length_object_text jcs_text_scalar length_b64_text sample_words transition_words
    unchecked_length [OF sample_width]
  have "length (jcs_text sample_backend (Object (kid_members ALG_EDDSA ''k'' TYP_KEY_TRANSITION))) \<le> 100"
    "length (jcs_text sample_backend (Object sample_transition_members)) \<le> 500"
    by (simp_all add: kid_members_def sample_transition_members_def sizes)
  then have "length (framed sample_transition_psi sample_signature) \<le> 8192"
    using length_encode_le [of "jcs_text sample_backend (Object (kid_members ALG_EDDSA ''k'' TYP_KEY_TRANSITION))"]
      length_encode_le [of "jcs_text sample_backend (Object sample_transition_members)"]
      length_encode_le [of sample_signature] sample_key_facts(2)
    by (simp add: framed_def sample_transition_psi_def produced_from_def)
  then show "compact_fits maximum (archival_room maximum) sample_transition_psi sample_signature"
    using small_fits [OF sample_transition_texts(1,2) sample_key_facts(2)]
    by (simp add: compact_fits_def archival_room_def sample_transition_psi_def [symmetric] maximum_def)
qed

section \<open>Properties\<close>

text \<open>C1: The envelope check, with its early exits, repeated decoding and saturating arithmetic, accepts
  exactly the specification: limits respected, the grant authentic and in its window, the proof possession
  of the granted key over this grant and this request and fresh, and the operation granted with every
  selector true. The facts it returns are those of the grant and the proof.\<close>

theorem check_envelope_refines:
  assumes "tightened (er_bounds e)" "is_i64 (er_evaluation_time e)"
    and "length (ti_public_key (er_trusted_issuer e)) = 32"
  shows "check_envelope_for B c e profile = Some f \<longleftrightarrow>
    (\<exists>g p. envelope_holds (scheme_v1 B profile) c e g p \<and> f = envelope_facts_of (scheme_v1 B profile) c e g p)"
  using assms by (rule v1.accepts_iff)

theorem check_envelope_refines_witness:
  "\<exists>g p. envelope_holds (scheme_v1 sample_backend Standard) sample_credentials (sample_request sample_key) g p"
proof -
  obtain f where "check_envelope_for sample_backend sample_credentials (sample_request sample_key) Standard = Some f"
    by (rule sample_envelope) (simp add: check_envelope_def)
  then show ?thesis
    using check_envelope_refines [of "sample_request sample_key" sample_backend sample_credentials Standard f] sample_request_v1
    by (auto simp: request_ok_def)
qed







end
