(* ===== verification/Archive_Format.thy ===== *)
theory Archive_Format
  imports Export Row_Log Archival_Format
begin

text \<open>
  The archive as a wire format and as evidence, for every version. An archive format is what a version plugs into
  the two functions of the export: its magic, version number, signature gate, chain check, anchor and transition
  verifiers, key prints. The step functions are the bodies of \<open>encode_anchored_export\<close> and
  \<open>verify_anchored_export\<close> over a format. In the locale \<open>archive_scheme\<close> the scan of the verifier reads back exactly
  the frames that the encoder wrote, up to the last byte, and an accepted archive is evidence: the keys are
  distinct and the anchors and transitions are in order.
\<close>

section \<open>Frames\<close>

lemma u32_round_trip: "n < 2 ^ 32 \<Longrightarrow> u32_from_be_bytes (u32_to_be_bytes n) = n"
proof -
  assume n: "n < 2 ^ 32"
  have "n div 0x1000000 < 256" using n by (simp add: less_mult_imp_div_less)
  then have top: "n div 0x1000000 mod 256 = n div 0x1000000" by simp
  have s: "n = n div 0x100 * 256 + n mod 256" "n div 0x100 = n div 0x10000 * 256 + n div 0x100 mod 256"
      "n div 0x10000 = n div 0x1000000 * 256 + n div 0x10000 mod 256"
    using div_mult_mod_eq [of n 256] div_mult_mod_eq [of "n div 0x100" 256] div_mult_mod_eq [of "n div 0x10000" 256]
    by (simp_all add: div_mult2_eq [symmetric])
  have "u32_from_be_bytes (u32_to_be_bytes n) =
      ((n div 0x1000000 * 256 + n div 0x10000 mod 256) * 256 + n div 0x100 mod 256) * 256 + n mod 256"
    by (simp add: u32_from_be_bytes_def u32_to_be_bytes_def top)
  then show ?thesis using s by simp
qed

lemma u32_length [simp]: "length (u32_to_be_bytes n) = 4"
  by (simp add: u32_to_be_bytes_def)

definition framed_bytes :: "bytes \<Rightarrow> bytes" where
  "framed_bytes f = u32_to_be_bytes (length f) @ f"

lemma framed_bytes_length [simp]: "length (framed_bytes f) = 4 + length f"
  by (simp add: framed_bytes_def)

lemma frame_into_framed: "length f < 2 ^ 32 \<Longrightarrow> frame_into f out = out @ framed_bytes f"
  by (simp add: frame_into_def framed_bytes_def)

lemma frame_all_framed:
  "\<forall>f \<in> set fs. length f < 2 ^ 32 \<Longrightarrow>
   frame_all fs out = Some res \<longleftrightarrow> (\<forall>f \<in> set fs. f \<noteq> []) \<and> res = out @ concat (map framed_bytes fs)"
  by (induction fs arbitrary: out) (auto simp: frame_into_framed)

fun read_run ::
  "(bytes \<Rightarrow> nat \<Rightarrow> nat \<Rightarrow> (bytes \<times> nat) result) \<Rightarrow> bytes \<Rightarrow> nat \<Rightarrow> nat \<Rightarrow> nat \<Rightarrow> (bytes list \<times> nat) result"
where
  "read_run get buf ceiling 0 cursor = Some ([], cursor)"
| "read_run get buf ceiling (Suc n) cursor =
     do {
       (frame, cursor) \<leftarrow> get buf cursor ceiling;
       (frames, cursor) \<leftarrow> read_run get buf ceiling n cursor;
       Some (frame # frames, cursor)
     }"

text \<open>
  The interface of a framed stream: a read at the position of a frame returns the frame and the position
  behind it. Reading a run of frames one after the other then returns the run.
\<close>

locale framing =
  fixes get :: "bytes \<Rightarrow> nat \<Rightarrow> nat \<Rightarrow> (bytes \<times> nat) result"
    and put :: "bytes \<Rightarrow> bytes"
    and valid :: "nat \<Rightarrow> bytes \<Rightarrow> bool"
    and room :: nat
  assumes get_put: "valid ceiling f \<Longrightarrow> length (pre @ put f @ post) < room \<Longrightarrow>
      get (pre @ put f @ post) (length pre) ceiling = Some (f, length pre + length (put f))"
begin

lemma read_run_put:
  assumes "\<forall>f \<in> set fs. valid ceiling f" "length (pre @ concat (map put fs) @ post) < room"
  shows "read_run get (pre @ concat (map put fs) @ post) ceiling (length fs) (length pre) =
    Some (fs, length pre + length (concat (map put fs)))"
  using assms
proof (induction fs arbitrary: pre)
  case (Cons f fs)
  have "get (pre @ put f @ concat (map put fs) @ post) (length pre) ceiling =
      Some (f, length pre + length (put f))"
    using Cons.prems by (intro get_put) simp_all
  moreover have "read_run get ((pre @ put f) @ concat (map put fs) @ post) ceiling (length fs) (length (pre @ put f)) =
      Some (fs, length (pre @ put f) + length (concat (map put fs)))"
    using Cons.prems by (intro Cons.IH) simp_all
  ultimately show ?case by simp
qed simp

end

definition frame_valid :: "nat \<Rightarrow> bytes \<Rightarrow> bool" where
  "frame_valid ceiling f \<longleftrightarrow> f \<noteq> [] \<and> length f \<le> ceiling \<and> length f < 2 ^ 32"

lemma read_frame_framed:
  assumes "f \<noteq> []" "length f < 2 ^ 32" "length (pre @ framed_bytes f @ post) < 2 ^ 64"
  shows "read_frame (pre @ framed_bytes f @ post) (length pre) = Some (f, length pre + length (framed_bytes f))"
  using assms
  by (simp add: read_frame_def framed_bytes_def checked_add_u64_def u32_round_trip Let_def)

interpretation archive: framing read_frame_bounded framed_bytes frame_valid "2 ^ 64"
proof
  fix ceiling f pre post
  assume "frame_valid ceiling f" "length (pre @ framed_bytes f @ post) < 2 ^ 64"
  then show "read_frame_bounded (pre @ framed_bytes f @ post) (length pre) ceiling =
      Some (f, length pre + length (framed_bytes f))"
    by (simp add: read_frame_bounded_def frame_valid_def read_frame_framed del: framed_bytes_length)
qed

lemma read_frames_run: "read_frames buf ceiling n cursor = read_run read_frame_bounded buf ceiling n cursor"
  by (induction n arbitrary: cursor) simp_all

lemma read_frames_framed:
  assumes "\<forall>f \<in> set fs. frame_valid ceiling f" "length (pre @ concat (map framed_bytes fs) @ post) < 2 ^ 64"
  shows "read_frames (pre @ concat (map framed_bytes fs) @ post) ceiling (length fs) (length pre) =
    Some (fs, length pre + length (concat (map framed_bytes fs)))"
  unfolding read_frames_run using assms by (rule archive.read_run_put)

section \<open>Formats\<close>

record archive_format =
  xa_magic :: bytes
  xa_version :: int
  xa_gate :: "bytes \<Rightarrow> unit option"
  xa_chain :: "chain_input \<Rightarrow> expected_chain \<Rightarrow> chain_facts option"
  xa_read_anchor :: "bytes \<Rightarrow> bounds \<Rightarrow> decoded_anchor option"
  xa_read_transition :: "bytes \<Rightarrow> bounds \<Rightarrow> decoded_transition option"
  xa_anchor :: "bytes \<Rightarrow> historical_public_key \<Rightarrow> expected_anchor \<Rightarrow> anchor_facts option"
  xa_transition :: "bytes \<Rightarrow> historical_public_key \<Rightarrow> historical_public_key \<Rightarrow> expected_key_transition \<Rightarrow> key_transition_facts option"
  xa_print :: "bytes \<Rightarrow> bytes option"
  xa_key_ok :: "bounds \<Rightarrow> historical_public_key \<Rightarrow> bool"

section \<open>The header\<close>

definition read_header :: "backend \<Rightarrow> archive_format \<Rightarrow> bytes \<Rightarrow> bounds \<Rightarrow> archive_header option" where
  "read_header B X header_text b =
     do {
       reject_if (length header_text > archive_header_bytes b);
       v \<leftarrow> json_decode b header_text;
       members \<leftarrow> members_of v;
       slots \<leftarrow> collect header_claims members Map.empty;
       reject_if (slots ''v'' \<noteq> Some (Integer (xa_version X)));
       chain_id \<leftarrow> take_string_or_uri (slots ''chain_id'') b;
       first_sequence \<leftarrow> take_integral_date (slots ''first_sequence'');
       last_sequence \<leftarrow> take_integral_date (slots ''last_sequence'');
       row_count \<leftarrow> take_integral_date (slots ''row_count'');
       transition_count \<leftarrow> take_integral_date (slots ''transition_count'');
       reject_if (row_count < 0 \<or> transition_count < 0);
       reject_if (first_sequence < 1 \<or> last_sequence < first_sequence);
       reject_if (i64_as_u64 row_count > chain_rows b);
       reject_if (i64_as_u64 transition_count > key_transitions b);
       previous_hash \<leftarrow> take_digest_b64u (slots ''previous_hash'') b;
       last_hash \<leftarrow> take_digest_b64u (slots ''last_hash'') b;
       reencoded \<leftarrow> jcs_encode B b v;
       reject_if (reencoded \<noteq> header_text);
       Some \<lparr>ah_chain_id = chain_id, ah_first_sequence = first_sequence,
         ah_last_sequence = last_sequence, ah_row_count = row_count,
         ah_transition_count = transition_count, ah_previous_hash = previous_hash,
         ah_last_hash = last_hash\<rparr>
     }"

definition header_json :: "archive_format \<Rightarrow> expected_chain \<Rightarrow> nat \<Rightarrow> json" where
  "header_json X chain n = Object
     [(''chain_id'', String (ec_chain_id chain)), (''first_sequence'', Integer (ec_first_sequence chain)),
      (''last_hash'', String (base64url_encode (ec_head_hash chain))),
      (''last_sequence'', Integer (ec_last_sequence chain)),
      (''previous_hash'', String (base64url_encode (ec_previous_hash chain))),
      (''row_count'', Integer (ec_row_count chain)), (''transition_count'', Integer (int n)),
      (''v'', Integer (xa_version X))]"

definition header_of :: "expected_chain \<Rightarrow> nat \<Rightarrow> archive_header" where
  "header_of chain n =
     \<lparr>ah_chain_id = ec_chain_id chain, ah_first_sequence = ec_first_sequence chain,
      ah_last_sequence = ec_last_sequence chain, ah_row_count = ec_row_count chain,
      ah_transition_count = int n, ah_previous_hash = ec_previous_hash chain, ah_last_hash = ec_head_hash chain\<rparr>"

definition chain_in_range :: "bounds \<Rightarrow> expected_chain \<Rightarrow> nat \<Rightarrow> bool" where
  "chain_in_range b chain n \<longleftrightarrow>
     validate_identifier (ec_chain_id chain) b = Some () \<and> 1 \<le> ec_first_sequence chain \<and>
     ec_first_sequence chain \<le> ec_last_sequence chain \<and> 0 \<le> ec_row_count chain \<and>
     nat (ec_row_count chain) \<le> chain_rows b \<and> n \<le> key_transitions b"

definition chain_typed :: "bounds \<Rightarrow> expected_chain \<Rightarrow> bool" where
  "chain_typed b chain \<longleftrightarrow>
     utf8_valid (ec_chain_id chain) \<and> length (ec_previous_hash chain) = 32 \<and> length (ec_head_hash chain) = 32 \<and>
     is_i64 (ec_last_sequence chain) \<and> tightened b \<and> integers_fit b \<and> 43 \<le> encoded_segment_bytes b"

lemma tightened_archive:
  assumes "tightened b"
  shows "chain_rows b \<le> 65536" "key_transitions b \<le> 256" "archive_bytes b \<le> 270820384"
  using assms by (auto simp: tightened_def tightening_arms_def maximum_def)

lemma header_utf8_names:
  "utf8_valid ''first_sequence''" "utf8_valid ''last_hash''" "utf8_valid ''last_sequence''"
  "utf8_valid ''previous_hash''" "utf8_valid ''row_count''" "utf8_valid ''transition_count''"
  by code_simp+

lemma i64_as_u64_count: "0 \<le> n \<Longrightarrow> nat n \<le> 65536 \<Longrightarrow> i64_as_u64 n = nat n"
  by (rule i64_as_u64_nonneg) simp_all

lemma header_json_decodes:
  assumes enc: "jcs_encode B b (header_json X chain n) = Some t"
    and ty: "chain_typed b chain" and range: "chain_in_range b chain n"
    and len: "length t \<le> json_bytes b" "length t \<le> archive_header_bytes b"
  shows "read_header B X t b = Some (header_of chain n)"
proof -
  let ?ms = "[(''chain_id'', String (ec_chain_id chain)), (''first_sequence'', Integer (ec_first_sequence chain)),
      (''last_hash'', String (base64url_encode (ec_head_hash chain))),
      (''last_sequence'', Integer (ec_last_sequence chain)),
      (''previous_hash'', String (base64url_encode (ec_previous_hash chain))),
      (''row_count'', Integer (ec_row_count chain)), (''transition_count'', Integer (int n)), (''v'', Integer (xa_version X))]"
  have e: "jcs_encode B b (Object ?ms) = Some t" using enc by (simp add: header_json_def)
  have "portable (Object ?ms)" using ty by (simp add: chain_typed_def header_utf8_names anchor_utf8)
  moreover have "integers_fit b" using ty by (simp add: chain_typed_def)
  ultimately obtain ms where q: "stored B b t ?ms ms" using encoded_stored [OF e _ _ len(1)] by blast
  have s: "collect header_claims ms Map.empty = Some (\<lambda>n. map_option canon (map_of ?ms n))"
    by (rule stored_collect [OF q]) (simp add: header_claims_def)
  have t: "tightened b" using ty by (simp add: chain_typed_def)
  have "i64_as_u64 (ec_row_count chain) = nat (ec_row_count chain)" "i64_as_u64 (int n) = n"
    using range tightened_archive [OF t] i64_as_u64_count [of "ec_row_count chain"] i64_as_u64_count [of "int n"]
    by (simp_all add: chain_in_range_def)
  then show ?thesis
    using s stored_text [OF q] ty range len(2)
    by (simp add: read_header_def slots chain_typed_def chain_in_range_def length_encode header_of_def)
qed

section \<open>Encoding\<close>

fun gate_frames :: "archive_format \<Rightarrow> bounds \<Rightarrow> bytes list \<Rightarrow> unit option" where
  "gate_frames X b [] = Some ()"
| "gate_frames X b (frame # rest) =
     do {
       reject_if (length frame > compact_bytes b \<or> length frame > anchor_bytes b);
       (_, _, signature_seg) \<leftarrow> parse_compact frame;
       signature \<leftarrow> decode_signature signature_seg;
       xa_gate X signature;
       gate_frames X b rest
     }"

fun match_frames :: "archive_format \<Rightarrow> bounds \<Rightarrow> bytes list \<Rightarrow> expected_key_transition list \<Rightarrow> unit option" where
  "match_frames X b (compact # cs) (e # es) =
     do {
       t \<leftarrow> xa_read_transition X compact b;
       reject_if (\<not> transition_matches (dt_payload t) (dt_key_id t) e);
       match_frames X b cs es
     }"
| "match_frames X b _ _ = Some ()"

definition frame_budget :: "archive_format \<Rightarrow> bounds \<Rightarrow> bytes \<Rightarrow> anchored_export_input \<Rightarrow> unit option" where
  "frame_budget X b header_text input =
     do {
       n \<leftarrow> checked_add_u64 3 (length (aei_transitions input));
       n \<leftarrow> checked_add_u64 n (length (aei_rows input));
       frame_count \<leftarrow> checked_add_u64 n 1;
       reject_if (frame_count > archive_chunks b);
       acc \<leftarrow> add_frame_sizes (length (xa_magic X)) [header_text, aei_start_anchor input];
       acc \<leftarrow> add_frame_sizes acc (aei_transitions input);
       acc \<leftarrow> add_frame_sizes acc (aei_rows input);
       total_bytes \<leftarrow> add_frame_sizes acc [aei_end_anchor input];
       reject_if (total_bytes > archive_bytes b);
       Some ()
     }"

definition assemble_frames :: "archive_format \<Rightarrow> bytes \<Rightarrow> anchored_export_input \<Rightarrow> bytes option" where
  "assemble_frames X header_text input =
     do {
       let out = frame_into header_text (xa_magic X);
       out \<leftarrow> frame_all [aei_start_anchor input] out;
       out \<leftarrow> frame_all (aei_transitions input) out;
       out \<leftarrow> frame_all (aei_rows input) out;
       frame_all [aei_end_anchor input] out
     }"

definition encode_steps ::
  "backend \<Rightarrow> archive_format \<Rightarrow> anchored_export_input \<Rightarrow> expected_export \<Rightarrow> anchored_export_encoded option" where
  "encode_steps B X input expected =
     (let b = resolve_bounds (ee_bounds expected); chain = ee_chain expected;
          start = ee_start_anchor expected; end_anchor = ee_end_anchor expected;
          transitions = ee_transitions expected
      in do {
        reject_if (length transitions > key_transitions b);
        require_nested_bounds chain start end_anchor transitions b;
        reject_if (int (length (aei_rows input)) \<noteq> ec_row_count chain);
        reject_if (length (aei_transitions input) \<noteq> length transitions);
        reject_if (length (aei_transitions input) > key_transitions b);
        reject_if (aei_rows input = [] \<or> length (aei_rows input) > chain_rows b);
        reject_if (length (aei_start_anchor input) > anchor_bytes b \<or>
          length (aei_end_anchor input) > anchor_bytes b);
        expected_bindings chain start end_anchor transitions;
        reject_if (list_ex (\<lambda>r. length r > chain_row_bytes b) (aei_rows input));
        xa_chain X \<lparr>ci_rows = aei_rows input\<rparr> (chain\<lparr>ec_bounds := Some b\<rparr>);
        gate_frames X b (aei_start_anchor input # aei_end_anchor input # aei_transitions input);
        start_parts \<leftarrow> xa_read_anchor X (aei_start_anchor input) b;
        reject_if (\<not> anchor_matches (da_payload start_parts) (da_key_id start_parts) start);
        end_parts \<leftarrow> xa_read_anchor X (aei_end_anchor input) b;
        reject_if (\<not> anchor_matches (da_payload end_parts) (da_key_id end_parts) end_anchor);
        match_frames X b (aei_transitions input) transitions;
        key_path_ok start transitions end_anchor;
        header_text \<leftarrow> jcs_encode B b (header_json X chain (length (aei_transitions input)));
        reject_if (length header_text > archive_header_bytes b);
        frame_budget X b header_text input;
        out \<leftarrow> assemble_frames X header_text input;
        Some \<lparr>axe_bytes = out, axe_byte_count = length out, axe_digest = sha256 B out\<rparr>
      })"

section \<open>Verification\<close>

definition scan_steps ::
  "backend \<Rightarrow> archive_format \<Rightarrow> bounds \<Rightarrow> bytes \<Rightarrow> expected_chain \<Rightarrow> nat \<Rightarrow> scanned_archive option" where
  "scan_steps B X b buf chain transition_count =
     do {
       reject_if (take (length (xa_magic X)) buf \<noteq> xa_magic X);
       let cursor = length (xa_magic X);
       (header_frame, cursor) \<leftarrow> read_frame buf cursor;
       (start_anchor_compact, cursor) \<leftarrow> read_frame_bounded buf cursor (anchor_bytes b);
       header \<leftarrow> read_header B X header_frame b;
       reject_if (\<not> header_agrees header chain transition_count);
       (transition_compacts, cursor) \<leftarrow>
         read_frames buf (anchor_bytes b) (nat (ah_transition_count header)) cursor;
       (rows, cursor) \<leftarrow> read_frames buf (chain_row_bytes b) (nat (ah_row_count header)) cursor;
       (end_anchor_compact, cursor) \<leftarrow> read_frame_bounded buf cursor (anchor_bytes b);
       reject_if (cursor \<noteq> length buf);
       Some \<lparr>sa_header = header, sa_start_anchor = start_anchor_compact,
         sa_transitions = transition_compacts, sa_rows = rows, sa_end_anchor = end_anchor_compact\<rparr>
     }"

fun transition_steps ::
  "archive_format \<Rightarrow> bytes list \<Rightarrow> expected_key_transition list \<Rightarrow> historical_public_key list \<Rightarrow> int list option" where
  "transition_steps X [] es ks = Some []"
| "transition_steps X (c # cs) (e # es) (k # k' # ks) =
     do {
       f \<leftarrow> xa_transition X c k k' e;
       times \<leftarrow> transition_steps X cs es (k' # ks);
       Some (tf_effective_at f # times)
     }"
| "transition_steps X (c # cs) _ _ = None"

fun print_steps :: "archive_format \<Rightarrow> bytes list \<Rightarrow> historical_public_key list \<Rightarrow> unit option" where
  "print_steps X seen [] = Some ()"
| "print_steps X seen (k # ks) =
     do {
       fp \<leftarrow> xa_print X (hk_public_key k);
       reject_if (list_ex (\<lambda>s. s = fp) seen);
       print_steps X (seen @ [fp]) ks
     }"

definition chronology_steps ::
  "archive_format \<Rightarrow> int \<Rightarrow> int \<Rightarrow> int list \<Rightarrow> historical_public_key list \<Rightarrow> unit option" where
  "chronology_steps X start_at end_at effective_times keys =
     do {
       print_steps X [] keys;
       if effective_times = [] then (if start_at > end_at then None else Some ())
       else do {
         increasing effective_times;
         reject_if (start_at \<ge> hd effective_times);
         reject_if (end_at < last effective_times);
         Some ()
       }
     }"

definition authenticate_steps ::
  "archive_format \<Rightarrow> bounds \<Rightarrow> scanned_archive \<Rightarrow> historical_public_key list \<Rightarrow> expected_anchored_export \<Rightarrow> unit option" where
  "authenticate_steps X b s keys expected =
     (let chain = eae_chain expected in
      do {
        reject_if (int (length keys) \<noteq> ah_transition_count (sa_header s) + 1);
        start_facts \<leftarrow> xa_anchor X (sa_start_anchor s) (keys ! 0) (eae_start_anchor expected);
        reject_if (af_chain_hash start_facts \<noteq> ec_previous_hash chain);
        expected_start_seq \<leftarrow> checked_sub_i64 (ec_first_sequence chain) 1;
        reject_if (af_sequence start_facts \<noteq> expected_start_seq);
        effective_times \<leftarrow> transition_steps X (sa_transitions s) (eae_transitions expected) keys;
        end_facts \<leftarrow> xa_anchor X (sa_end_anchor s)
          (keys ! nat (ah_transition_count (sa_header s))) (eae_end_anchor expected);
        reject_if (af_chain_hash end_facts \<noteq> ec_head_hash chain);
        reject_if (af_sequence end_facts \<noteq> ec_last_sequence chain);
        chronology_steps X (af_anchored_at start_facts) (af_anchored_at end_facts) effective_times keys;
        xa_chain X \<lparr>ci_rows = sa_rows s\<rparr> (chain\<lparr>ec_bounds := Some b\<rparr>);
        Some ()
      })"

definition chunk_steps :: "archive_format \<Rightarrow> bounds \<Rightarrow> bytes list \<Rightarrow> unit option" where
  "chunk_steps X b chunks =
     do {
       reject_if (chunks = [] \<or> length chunks > archive_chunks b);
       sum \<leftarrow> add_chunk_sizes 0 chunks;
       reject_if (sum > archive_bytes b);
       reject_if (sum < length (xa_magic X));
       Some ()
     }"

definition verify_steps ::
  "backend \<Rightarrow> archive_format \<Rightarrow> archived_object \<Rightarrow> historical_key_chain \<Rightarrow> expected_anchored_export \<Rightarrow>
   anchored_export_facts option" where
  "verify_steps B X obj key_chain expected =
     (let b = resolve_bounds (eae_bounds expected); chain = eae_chain expected;
          start = eae_start_anchor expected; end_anchor = eae_end_anchor expected;
          transitions = eae_transitions expected; keys = hkc_keys key_chain; chunks = ao_chunks obj
      in do {
        reject_if (length transitions > key_transitions b);
        check_expected_chain b chain;
        check_expected_anchor b start;
        check_expected_anchor b end_anchor;
        check_expected_transitions b transitions;
        require_nested_bounds chain start end_anchor transitions b;
        reject_if (length keys \<noteq> length transitions + 1);
        key_windows b keys;
        expected_bindings chain start end_anchor transitions;
        chunk_steps X b chunks;
        check_versions b (ao_version obj) (eae_object_version expected);
        reject_if (list_ex (\<lambda>k. \<not> xa_key_ok X b k) keys);
        let computed = sha256 B (concat chunks);
        reject_if (\<not> constant_time_eq computed (eae_digest expected));
        s \<leftarrow> scan_steps B X b (concat chunks) chain (length transitions);
        authenticate_steps X b s keys expected;
        Some \<lparr>xf_chain_id = ah_chain_id (sa_header s), xf_first_sequence = ah_first_sequence (sa_header s),
          xf_last_sequence = ah_last_sequence (sa_header s), xf_row_count = ah_row_count (sa_header s),
          xf_transition_count = ah_transition_count (sa_header s),
          xf_previous_hash = ah_previous_hash (sa_header s), xf_head_hash = ah_last_hash (sa_header s),
          xf_digest = computed, xf_object_version = eae_object_version expected,
          xf_trust = NotEvaluated, xf_authorization = NotEvaluated\<rparr>
      })"

section \<open>The scan\<close>

definition archive_of :: "archive_format \<Rightarrow> bytes \<Rightarrow> anchored_export_input \<Rightarrow> bytes" where
  "archive_of X header_text input =
     xa_magic X @ framed_bytes header_text @ framed_bytes (aei_start_anchor input) @
     concat (map framed_bytes (aei_transitions input)) @ concat (map framed_bytes (aei_rows input)) @
     framed_bytes (aei_end_anchor input)"

lemma assemble_frames_eq:
  assumes "\<forall>f \<in> {h, aei_start_anchor input, aei_end_anchor input} \<union> set (aei_transitions input) \<union> set (aei_rows input).
      length f < 2 ^ 32"
  shows "assemble_frames X h input = Some res \<longleftrightarrow>
    (\<forall>f \<in> {aei_start_anchor input, aei_end_anchor input} \<union> set (aei_transitions input) \<union> set (aei_rows input). f \<noteq> []) \<and>
    res = archive_of X h input"
  using assms
  by (auto simp: assemble_frames_def archive_of_def frame_all_framed frame_into_framed bind_Some)

definition frames_valid :: "archive_format \<Rightarrow> bounds \<Rightarrow> bytes \<Rightarrow> anchored_export_input \<Rightarrow> bool" where
  "frames_valid X b h input \<longleftrightarrow>
     h \<noteq> [] \<and> length h < 2 ^ 32 \<and> frame_valid (anchor_bytes b) (aei_start_anchor input) \<and>
     frame_valid (anchor_bytes b) (aei_end_anchor input) \<and>
     (\<forall>f \<in> set (aei_transitions input). frame_valid (anchor_bytes b) f) \<and>
     (\<forall>f \<in> set (aei_rows input). frame_valid (chain_row_bytes b) f) \<and>
     length (archive_of X h input) < 2 ^ 64"

lemma scan_reads_archive:
  assumes v: "frames_valid X b h input" and d: "read_header B X h b = Some (header_of chain n)"
    and n: "length (aei_transitions input) = n" "int (length (aei_rows input)) = ec_row_count chain"
  shows "scan_steps B X b (archive_of X h input) chain n =
    Some \<lparr>sa_header = header_of chain n, sa_start_anchor = aei_start_anchor input,
      sa_transitions = aei_transitions input, sa_rows = aei_rows input, sa_end_anchor = aei_end_anchor input\<rparr>"
proof -
  let ?a = "archive_of X h input"
  let ?t = "concat (map framed_bytes (aei_transitions input))"
  let ?r = "concat (map framed_bytes (aei_rows input))"
  let ?s = "framed_bytes (aei_start_anchor input)" and ?e = "framed_bytes (aei_end_anchor input)"
  let ?p1 = "xa_magic X @ framed_bytes h"
  let ?p2 = "?p1 @ ?s" and ?p3 = "?p1 @ ?s @ ?t" and ?p4 = "?p1 @ ?s @ ?t @ ?r"
  have a: "?a = xa_magic X @ framed_bytes h @ (?s @ ?t @ ?r @ ?e)" "?a = ?p1 @ ?s @ (?t @ ?r @ ?e)"
      "?a = ?p2 @ ?t @ (?r @ ?e)" "?a = ?p3 @ ?r @ ?e" "?a = ?p4 @ ?e @ []"
    by (simp_all add: archive_of_def)
  have l: "length ?a < 2 ^ 64" using v by (simp add: frames_valid_def)
  have 1: "read_frame ?a (length (xa_magic X)) = Some (h, length ?p1)"
    using v l unfolding a(1) by (subst read_frame_framed) (simp_all add: frames_valid_def)
  have 2: "read_frame_bounded ?a (length ?p1) (anchor_bytes b) = Some (aei_start_anchor input, length ?p2)"
    using v l unfolding a(2) by (subst archive.get_put) (simp_all add: frames_valid_def)
  have 3: "read_frames ?a (anchor_bytes b) n (length ?p2) = Some (aei_transitions input, length ?p3)"
    using v l unfolding a(3) n(1) [symmetric] by (subst read_frames_framed) (simp_all add: frames_valid_def)
  have 4: "read_frames ?a (chain_row_bytes b) (length (aei_rows input)) (length ?p3) = Some (aei_rows input, length ?p4)"
    using v l unfolding a(4) by (subst read_frames_framed) (simp_all add: frames_valid_def)
  have 5: "read_frame_bounded ?a (length ?p4) (anchor_bytes b) = Some (aei_end_anchor input, length ?a)"
    using v l unfolding a(5) by (subst archive.get_put) (simp_all add: frames_valid_def)
  have m: "take (length (xa_magic X)) ?a = xa_magic X" by (simp add: archive_of_def)
  have agree: "header_agrees (header_of chain n) chain n" by (simp add: header_agrees_def header_of_def)
  have counts: "nat (ah_transition_count (header_of chain n)) = n"
      "nat (ah_row_count (header_of chain n)) = length (aei_rows input)"
    using n(2) by (simp_all add: header_of_def flip: n(2))
  show ?thesis
    unfolding scan_steps_def Let_def m 1 Option.bind.bind_lunit prod.case 2 d counts 3 4 5
    using agree by simp
qed

section \<open>What the encoder has checked\<close>

lemma add_frame_sizes_Some:
  "add_frame_sizes acc fs = Some n \<Longrightarrow> n = acc + (\<Sum>f \<leftarrow> fs. 4 + length f)"
  by (induction acc fs rule: add_frame_sizes.induct) (auto simp: checked_add_u64_def bind_Some split: if_splits)

lemma concat_framed_length: "length (concat (map framed_bytes fs)) = (\<Sum>f \<leftarrow> fs. 4 + length f)"
  by (induction fs) simp_all

lemma budget_length:
  assumes "frame_budget X b h input = Some ()" shows "length (archive_of X h input) \<le> archive_bytes b"
  using assms
  by (auto simp: frame_budget_def bind_Some archive_of_def concat_framed_length dest!: add_frame_sizes_Some
      simp del: add_frame_sizes.simps split: if_splits)

lemma gate_frames_Some:
  "gate_frames X b fs = Some () \<Longrightarrow> f \<in> set fs \<Longrightarrow> f \<noteq> [] \<and> length f \<le> anchor_bytes b"
proof (induction fs)
  case (Cons g rest)
  have "parse_compact [] = None" by code_simp
  then have "g \<noteq> [] \<and> length g \<le> anchor_bytes b \<and> gate_frames X b rest = Some ()"
    using Cons.prems(1) by (auto simp: bind_Some split: if_splits)
  then show ?case using Cons by auto
qed simp

lemma encoded_steps:
  assumes "encode_steps B X input e = Some enc"
  defines "b \<equiv> resolve_bounds (ee_bounds e)"
  obtains f h where
    "length (ee_transitions e) \<le> key_transitions b" "length (aei_transitions input) = length (ee_transitions e)"
    "int (length (aei_rows input)) = ec_row_count (ee_chain e)"
    "xa_chain X \<lparr>ci_rows = aei_rows input\<rparr> ((ee_chain e)\<lparr>ec_bounds := Some b\<rparr>) = Some f"
    "gate_frames X b (aei_start_anchor input # aei_end_anchor input # aei_transitions input) = Some ()"
    "jcs_encode B b (header_json X (ee_chain e) (length (ee_transitions e))) = Some h"
    "length h \<le> archive_header_bytes b" "frame_budget X b h input = Some ()"
    "assemble_frames X h input = Some (axe_bytes enc)" "axe_digest enc = sha256 B (axe_bytes enc)"
  using assms(1) unfolding encode_steps_def Let_def b_def [symmetric]
  by (auto simp: bind_Some b64url_to_string_def split: if_splits)

lemma framed_sub_length:
  "f \<in> {h, aei_start_anchor input, aei_end_anchor input} \<union> set (aei_transitions input) \<union> set (aei_rows input) \<Longrightarrow>
   length f \<le> length (archive_of X h input)"
proof -
  have sub: "f \<in> set fs \<Longrightarrow> length f \<le> (\<Sum>f \<leftarrow> fs. 4 + length f)" for fs
    by (induction fs) auto
  assume "f \<in> {h, aei_start_anchor input, aei_end_anchor input} \<union> set (aei_transitions input) \<union> set (aei_rows input)"
  then show ?thesis
    using sub [of "aei_transitions input"] sub [of "aei_rows input"] by (auto simp: archive_of_def concat_framed_length)
qed

section \<open>Order\<close>

lemma or_zero_nat: "(a OR b) = (0 :: nat) \<longleftrightarrow> a = 0 \<and> b = 0"
  by (auto simp: bit_eq_iff bit_simps)

lemma xor_zero_nat: "(a XOR b) = (0 :: nat) \<longleftrightarrow> a = b"
  by (auto simp: bit_eq_iff bit_simps)

lemma accumulated_difference:
  "length xs = length ys \<Longrightarrow>
   foldl (\<lambda>acc (x, y). acc OR (byte x XOR byte y)) acc (zip xs ys) = 0 \<longleftrightarrow> acc = 0 \<and> xs = ys"
  by (induction xs ys arbitrary: acc rule: list_induct2) (auto simp: or_zero_nat xor_zero_nat)

lemma constant_time_eq_iff: "constant_time_eq a c \<longleftrightarrow> a = c"
  using accumulated_difference [of a c 0] by (auto simp: constant_time_eq_def)

lemma increasing_iff: "increasing ts = Some () \<longleftrightarrow> sorted_wrt (<) ts"
proof (induction ts rule: increasing.induct)
  case (1 s t ts)
  have "sorted_wrt (<) (s # t # ts) \<longleftrightarrow> s < t \<and> sorted_wrt (<) (t # ts)" by auto
  then show ?case using 1 by (auto simp: not_le)
qed simp_all

definition chronological :: "int \<Rightarrow> int list \<Rightarrow> int \<Rightarrow> bool" where
  "chronological start_at moments end_at \<longleftrightarrow>
     sorted_wrt (<) (start_at # moments) \<and> last (start_at # moments) \<le> end_at"

lemma chronology_iff:
  "chronology_steps X start_at end_at moments ks = Some () \<longleftrightarrow>
     print_steps X [] ks = Some () \<and> chronological start_at moments end_at"
proof (cases moments)
  case (Cons t ts)
  have "sorted_wrt (<) (start_at # t # ts) \<longleftrightarrow> start_at < t \<and> sorted_wrt (<) (t # ts)" by auto
  then show ?thesis
    by (auto simp: chronology_steps_def bind_Some increasing_iff chronological_def Cons not_le not_less)
qed (auto simp: chronology_steps_def bind_Some chronological_def not_less)

lemma read_frames_length: "read_frames buf c n cursor = Some (fs, k) \<Longrightarrow> length fs = n"
  by (induction n arbitrary: cursor fs) (auto simp: bind_Some)

lemma scan_counts:
  assumes "scan_steps B X b buf chain n = Some s"
  shows "length (sa_transitions s) = n" "ah_transition_count (sa_header s) = int n"
  using assms
  by (auto simp: scan_steps_def Let_def bind_Some header_agrees_def dest!: read_frames_length split: if_splits)

section \<open>The contract of a version\<close>

text \<open>
  \<open>digest\<close> is the fingerprint that a key has when it has one. The laws say that the functions of the version are
  the steps, that its chain check accepts well-formed requests whose counts add up, and that its anchor and
  transition verifiers return the expected times.
\<close>

locale archive_scheme =
  fixes B :: backend and X :: archive_format and digest :: "bytes \<Rightarrow> bytes"
    and encode :: "anchored_export_input \<Rightarrow> expected_export \<Rightarrow> anchored_export_encoded option"
    and scan :: "bounds \<Rightarrow> bytes \<Rightarrow> expected_chain \<Rightarrow> nat \<Rightarrow> scanned_archive option"
    and verify :: "archived_object \<Rightarrow> historical_key_chain \<Rightarrow> expected_anchored_export \<Rightarrow> anchored_export_facts option"
  assumes chain_counts: "xa_chain X ci e = Some f \<Longrightarrow> is_i64 (ec_last_sequence e) \<Longrightarrow>
      chain_request_ok ci e \<and> ec_last_sequence e + 1 = ec_first_sequence e + int (length (ci_rows ci))"
    and anchor_moment: "xa_anchor X c k ea = Some af \<Longrightarrow> af_anchored_at af = ea_anchored_at ea"
    and transition_moment: "xa_transition X c k k' et = Some tf \<Longrightarrow> tf_effective_at tf = ekt_effective_at et"
    and print_digest: "xa_print X key = Some h \<Longrightarrow> h = digest key"
    and encode_is: "encode input ee = encode_steps B X input ee"
    and scan_is: "scan b buf ch n = scan_steps B X b buf ch n"
    and verify_is: "verify obj kc eae = verify_steps B X obj kc eae"
begin

lemma accepted_range:
  assumes "xa_chain X \<lparr>ci_rows = rows\<rparr> (chain\<lparr>ec_bounds := Some b\<rparr>) = Some f" "is_i64 (ec_last_sequence chain)"
    and "n \<le> key_transitions b"
  shows "chain_in_range b chain n" "rows \<noteq> []" "\<forall>row \<in> set rows. length row \<le> chain_row_bytes b"
proof -
  let ?e = "chain\<lparr>ec_bounds := Some b\<rparr>"
  have c: "chain_request_ok \<lparr>ci_rows = rows\<rparr> ?e" "ec_last_sequence chain + 1 = ec_first_sequence chain + int (length rows)"
    using chain_counts [OF assms(1)] assms(2) by simp_all
  then have r: "rows \<noteq> []" "ec_row_count chain = int (length rows)" "length rows \<le> chain_rows b"
      "validate_identifier (ec_chain_id chain) b = Some ()" "1 \<le> ec_first_sequence chain"
      "\<forall>row \<in> set rows. length row \<le> chain_row_bytes b"
    by (simp_all add: chain_request_ok_def resolve_bounds_def Let_def)
  moreover have "1 \<le> length rows" using r(1) by (cases rows) simp_all
  ultimately show "chain_in_range b chain n" using c(2) assms(3) by (simp add: chain_in_range_def)
  show "rows \<noteq> []" "\<forall>row \<in> set rows. length row \<le> chain_row_bytes b" using r by simp_all
qed

lemma round_trip:
  assumes enc: "encode input e = Some enc"
    and b: "b = resolve_bounds (ee_bounds e)" and ty: "chain_typed b (ee_chain e)" and room: "archive_header_bytes b \<le> json_bytes b"
  shows "scan b (axe_bytes enc) (ee_chain e) (length (ee_transitions e)) =
    Some \<lparr>sa_header = header_of (ee_chain e) (length (ee_transitions e)), sa_start_anchor = aei_start_anchor input,
      sa_transitions = aei_transitions input, sa_rows = aei_rows input, sa_end_anchor = aei_end_anchor input\<rparr>"
proof -
  obtain f h where s: "length (ee_transitions e) \<le> key_transitions b" "length (aei_transitions input) = length (ee_transitions e)"
    "int (length (aei_rows input)) = ec_row_count (ee_chain e)"
    "xa_chain X \<lparr>ci_rows = aei_rows input\<rparr> ((ee_chain e)\<lparr>ec_bounds := Some b\<rparr>) = Some f"
    "gate_frames X b (aei_start_anchor input # aei_end_anchor input # aei_transitions input) = Some ()"
    "jcs_encode B b (header_json X (ee_chain e) (length (ee_transitions e))) = Some h"
    "length h \<le> archive_header_bytes b" "frame_budget X b h input = Some ()"
    "assemble_frames X h input = Some (axe_bytes enc)"
    unfolding b by (rule encoded_steps [OF enc [unfolded encode_is]])
  have t: "tightened b" "is_i64 (ec_last_sequence (ee_chain e))" using ty by (simp_all add: chain_typed_def)
  note r = accepted_range [OF s(4) t(2) s(1)]
  have len: "length (archive_of X h input) \<le> 270820384"
    using budget_length [OF s(8)] tightened_archive(3) [OF t(1)] by simp
  have small: "\<forall>f \<in> {h, aei_start_anchor input, aei_end_anchor input} \<union> set (aei_transitions input) \<union> set (aei_rows input).
      length f < 2 ^ 32"
  proof
    fix f assume "f \<in> {h, aei_start_anchor input, aei_end_anchor input} \<union> set (aei_transitions input) \<union> set (aei_rows input)"
    from framed_sub_length [OF this, of X] len show "length f < 2 ^ 32" by simp
  qed
  have a: "axe_bytes enc = archive_of X h input" "\<forall>f \<in> set (aei_rows input). f \<noteq> []"
    using s(9) unfolding assemble_frames_eq [OF small] by simp_all
  have "h \<noteq> []" using s(6) object_text_ne by (auto simp: header_json_def)
  then have "frames_valid X b h input"
    using small a(2) r(3) gate_frames_Some [OF s(5)] len by (simp add: frames_valid_def frame_valid_def)
  moreover have "read_header B X h b = Some (header_of (ee_chain e) (length (ee_transitions e)))"
    using header_json_decodes [OF s(6) ty r(1)] s(7) room by simp
  ultimately show ?thesis unfolding a(1) scan_is using scan_reads_archive s(2,3) by simp
qed

lemma prints_distinct:
  "print_steps X seen ks = Some () \<Longrightarrow> distinct seen \<Longrightarrow> distinct (seen @ map (\<lambda>k. digest (hk_public_key k)) ks)"
proof (induction ks arbitrary: seen)
  case (Cons k ks)
  then obtain fp where fp: "xa_print X (hk_public_key k) = Some fp" "fp \<notin> set seen"
      "print_steps X (seen @ [fp]) ks = Some ()"
    by (auto simp: bind_Some list_ex_iff split: if_splits)
  have "distinct ((seen @ [fp]) @ map (\<lambda>k. digest (hk_public_key k)) ks)"
    using fp Cons.prems(2) by (intro Cons.IH) simp_all
  then show ?case using print_digest [OF fp(1)] by simp
qed simp

lemma transition_moments:
  "transition_steps X cs es ks = Some moments \<Longrightarrow> length cs = length es \<Longrightarrow> moments = map ekt_effective_at es"
proof (induction cs arbitrary: es ks moments)
  case (Cons c cs)
  then obtain e es' where es: "es = e # es'" by (cases es) simp_all
  then obtain k k' ks' where ks: "ks = k # k' # ks'" using Cons.prems(1) by (cases ks; cases "tl ks") auto
  show ?case using Cons.prems Cons.IH by (auto simp: es ks bind_Some transition_moment)
qed simp

lemma evidence:
  assumes v: "verify obj key_chain e = Some facts"
  shows "sha256 B (concat (ao_chunks obj)) = eae_digest e \<and> xf_digest facts = eae_digest e \<and>
    length (hkc_keys key_chain) = length (eae_transitions e) + 1 \<and>
    distinct (map (\<lambda>k. digest (hk_public_key k)) (hkc_keys key_chain)) \<and>
    chronological (ea_anchored_at (eae_start_anchor e)) (map ekt_effective_at (eae_transitions e))
      (ea_anchored_at (eae_end_anchor e)) \<and>
    (\<exists>s. scan (resolve_bounds (eae_bounds e)) (concat (ao_chunks obj)) (eae_chain e)
        (length (eae_transitions e)) = Some s \<and>
      xa_chain X \<lparr>ci_rows = sa_rows s\<rparr> ((eae_chain e)\<lparr>ec_bounds := Some (resolve_bounds (eae_bounds e))\<rparr>) \<noteq> None)"
proof -
  let ?b = "resolve_bounds (eae_bounds e)" and ?n = "length (eae_transitions e)"
  obtain s where s: "scan_steps B X ?b (concat (ao_chunks obj)) (eae_chain e) ?n = Some s"
      "authenticate_steps X ?b s (hkc_keys key_chain) e = Some ()" "sha256 B (concat (ao_chunks obj)) = eae_digest e"
      "xf_digest facts = eae_digest e" "length (hkc_keys key_chain) = ?n + 1"
    using v by (auto simp: verify_is verify_steps_def Let_def bind_Some constant_time_eq_iff split: if_splits)
  obtain sf ef moments where a: "xa_anchor X (sa_start_anchor s) (hkc_keys key_chain ! 0) (eae_start_anchor e) = Some sf"
      "transition_steps X (sa_transitions s) (eae_transitions e) (hkc_keys key_chain) = Some moments"
      "xa_anchor X (sa_end_anchor s) (hkc_keys key_chain ! nat (ah_transition_count (sa_header s)))
         (eae_end_anchor e) = Some ef"
      "chronology_steps X (af_anchored_at sf) (af_anchored_at ef) moments (hkc_keys key_chain) = Some ()"
      "xa_chain X \<lparr>ci_rows = sa_rows s\<rparr> ((eae_chain e)\<lparr>ec_bounds := Some ?b\<rparr>) \<noteq> None"
    using s(2) by (auto simp: authenticate_steps_def Let_def bind_Some split: if_splits)
  have t: "moments = map ekt_effective_at (eae_transitions e)"
    using transition_moments [OF a(2)] scan_counts(1) [OF s(1)] by simp
  have c: "print_steps X [] (hkc_keys key_chain) = Some ()"
      "chronological (af_anchored_at sf) moments (af_anchored_at ef)"
    using a(4) unfolding chronology_iff by simp_all
  have "distinct (map (\<lambda>k. digest (hk_public_key k)) (hkc_keys key_chain))"
    using prints_distinct [OF c(1)] by simp
  then show ?thesis
    using c(2) s a(5) unfolding anchor_moment [OF a(1)] anchor_moment [OF a(3)] t scan_is by blast
qed

end

end
