(* ===== verification/Export_Facts.thy ===== *)
theory Export_Facts
  imports Archive_Format Chain_Facts
begin

text \<open>
  Version 1 of the archive format: its encoder, scan and verifier interpret the contract \<open>archive_scheme\<close>.
\<close>

definition archive_v1 :: "backend \<Rightarrow> archive_format" where
  "archive_v1 B =
     \<lparr>xa_magic = ARCHIVE_MAGIC, xa_version = 1, xa_gate = (\<lambda>s. if signature_gate s then Some () else None),
      xa_chain = check_chain B, xa_read_anchor = decode_anchor_parts B, xa_read_transition = decode_transition_parts B,
      xa_anchor = verify_historical_anchor B, xa_transition = verify_key_transition B,
      xa_print = public_key_thumbprint_raw B, xa_key_ok = key_shape_ok\<rparr>"

lemma archive_v1_simps [simp]:
  "xa_magic (archive_v1 B) = ARCHIVE_MAGIC" "xa_version (archive_v1 B) = 1"
  "xa_gate (archive_v1 B) = (\<lambda>s. if signature_gate s then Some () else None)"
  "xa_chain (archive_v1 B) = check_chain B" "xa_read_anchor (archive_v1 B) = decode_anchor_parts B"
  "xa_read_transition (archive_v1 B) = decode_transition_parts B" "xa_anchor (archive_v1 B) = verify_historical_anchor B"
  "xa_transition (archive_v1 B) = verify_key_transition B" "xa_print (archive_v1 B) = public_key_thumbprint_raw B"
  "xa_key_ok (archive_v1 B) = key_shape_ok"
  by (simp_all add: archive_v1_def)

lemma gate_branch: "((if c then Some () else None) \<bind> (\<lambda>_. r)) = (if \<not> c then None else r)"
  by simp

lemma gate_v1: "gate_framed b fs = gate_frames (archive_v1 B) b fs"
  by (induction fs) (simp_all add: gate_branch)

lemma match_v1: "match_transitions B b cs es = match_frames (archive_v1 B) b cs es"
  by (induction cs arbitrary: es; case_tac es) simp_all

lemma transitions_v1: "verify_transitions B cs es ks = transition_steps (archive_v1 B) cs es ks"
  by (induction B cs es ks rule: verify_transitions.induct) (simp_all cong: Option.bind_cong)

lemma prints_v1: "distinct_fingerprints B seen ks = print_steps (archive_v1 B) seen ks"
  by (induction ks arbitrary: seen) simp_all

lemma frames_v1:
  "archive_budget b h input = frame_budget (archive_v1 B) b h input"
  "assemble_archive h input = assemble_frames (archive_v1 B) h input"
  "check_chunks b chunks = chunk_steps (archive_v1 B) b chunks"
  "decode_archive_header B t b = read_header B (archive_v1 B) t b"
  "archive_header_value chain n (base64url_encode (ec_head_hash chain)) (base64url_encode (ec_previous_hash chain)) =
     header_json (archive_v1 B) chain n"
  by (simp_all add: archive_budget_def frame_budget_def assemble_archive_def assemble_frames_def check_chunks_def
      chunk_steps_def decode_archive_header_def read_header_def archive_header_value_def header_json_def)

lemma scan_v1: "scan_archive B b buf chain n = scan_steps B (archive_v1 B) b buf chain n"
  by (simp add: scan_archive_def scan_steps_def frames_v1)

lemma encode_v1: "encode_anchored_export B input e = encode_steps B (archive_v1 B) input e"
  by (simp add: encode_anchored_export_def encode_steps_def b64url_to_string_def gate_v1 [where B = B] match_v1
      frames_v1(1-2) [where B = B] frames_v1(5) [where B = B])

lemma verify_v1: "verify_anchored_export B obj kc e = verify_steps B (archive_v1 B) obj kc e"
  by (simp add: verify_anchored_export_def verify_steps_def scan_v1 frames_v1(3) [where B = B] authenticate_archive_def
      authenticate_steps_def transitions_v1 check_export_chronology_def chronology_steps_def prints_v1)

lemma anchor_time:
  "verify_historical_anchor B c k e = Some f \<Longrightarrow> af_anchored_at f = ea_anchored_at e"
  by (auto simp: verify_historical_anchor_def Let_def bind_Some split: if_splits)

lemma transition_time:
  "verify_key_transition B c k k' e = Some f \<Longrightarrow> tf_effective_at f = ekt_effective_at e"
  by (auto simp: verify_key_transition_def Let_def bind_Some split: if_splits)

interpretation archives: archive_scheme B "archive_v1 B" "thumbprint_digest_unchecked B" "encode_anchored_export B"
    "scan_archive B" "verify_anchored_export B"
  by unfold_locales
    (simp_all add: chain.counts anchor_time transition_time public_key_thumbprint_raw_def thumbprint_raw_Some
      encode_v1 scan_v1 verify_v1)

lemmas export_scans = archives.round_trip
lemmas budget_v1 = budget_length [where X = "archive_v1 B" for B, folded frames_v1(1)]
lemmas assembled_v1 = assemble_frames_eq [where X = "archive_v1 B" for B, folded frames_v1(2)]

end
