(* ===== verification/Export_Properties.thy ===== *)
theory Export_Properties
  imports Export_Facts Protocol_Properties
begin

text \<open>
  A sample export (one row between two anchors, no key transition), made by the producers and accepted by
  the verifier.
\<close>

section \<open>Sample anchors\<close>

definition sample_anchor :: "int \<Rightarrow> bytes \<Rightarrow> boundary_anchor" where
  "sample_anchor n h = \<lparr>ba_anchor_id = ''g'', ba_anchored_at = 10, ba_chain_hash = h, ba_chain_id = ''c'',
     ba_key_id = ''k'', ba_public_key = sample_key, ba_sequence = n\<rparr>"

definition sample_anchor_members :: "int \<Rightarrow> bytes \<Rightarrow> (bytes \<times> json) list" where
  "sample_anchor_members n h =
     [(''anchor_id'', String ''g''), (''anchored_at'', Integer 10), (''chain_hash'', String (base64url_encode h)),
      (''chain_id'', String ''c''), (''key_fingerprint'', String (base64url_encode sample_print)),
      (''sequence'', Integer n), (''v'', Integer 1)]"

definition sample_anchor_psi :: "int \<Rightarrow> bytes \<Rightarrow> produced_signing_input" where
  "sample_anchor_psi n h = produced_from
     (jcs_text sample_backend (Object (kid_members ALG_EDDSA ''k'' TYP_CHAIN_ANCHOR)))
     (jcs_text sample_backend (Object (sample_anchor_members n h)))"

definition anchor_compact :: "int \<Rightarrow> bytes \<Rightarrow> bytes" where
  "anchor_compact n h = framed (sample_anchor_psi n h) sample_signature"

lemma anchor_words:
  "length (string_text TYP_CHAIN_ANCHOR) = 17" "length (string_text ''anchor_id'') = 11"
  "length (string_text ''anchored_at'') = 13" "length (string_text ''chain_hash'') = 12"
  "length (string_text ''key_fingerprint'') = 17" "length (string_text ''c'') = 3"
  "length (string_text ''sequence'') = 10" "length (decimal_int 0) = 1"
  by code_simp+

lemma anchor_texts:
  assumes "n = 0 \<or> n = 1" "length h = 32"
  shows "length (jcs_text sample_backend (Object (kid_members ALG_EDDSA ''k'' TYP_CHAIN_ANCHOR))) \<le> 100"
    and "length (jcs_text sample_backend (Object (sample_anchor_members n h))) \<le> 500"
    and "jcs_encode sample_backend maximum (Object (kid_members ALG_EDDSA ''k'' TYP_CHAIN_ANCHOR)) =
      Some (jcs_text sample_backend (Object (kid_members ALG_EDDSA ''k'' TYP_CHAIN_ANCHOR)))"
    and "jcs_encode sample_backend maximum (Object (sample_anchor_members n h)) =
      Some (jcs_text sample_backend (Object (sample_anchor_members n h)))"
proof -
  note sizes = length_object_text jcs_text_scalar length_b64_text sample_words transition_words anchor_words
    sample_print_length assms(2)
  show h: "length (jcs_text sample_backend (Object (kid_members ALG_EDDSA ''k'' TYP_CHAIN_ANCHOR))) \<le> 100"
    by (simp add: kid_members_def sizes)
  show p: "length (jcs_text sample_backend (Object (sample_anchor_members n h))) \<le> 500"
    using assms(1) by (auto simp: sample_anchor_members_def sizes)
  show "jcs_encode sample_backend maximum (Object (kid_members ALG_EDDSA ''k'' TYP_CHAIN_ANCHOR)) =
      Some (jcs_text sample_backend (Object (kid_members ALG_EDDSA ''k'' TYP_CHAIN_ANCHOR)))"
    using h by (intro small_object_encodes) (simp_all add: kid_members_def maximum_def ALG_EDDSA_def TYP_CHAIN_ANCHOR_def)
  show "jcs_encode sample_backend maximum (Object (sample_anchor_members n h)) =
      Some (jcs_text sample_backend (Object (sample_anchor_members n h)))"
    using p assms by (intro small_object_encodes) (auto simp: sample_anchor_members_def maximum_def length_encode sample_print_length)
qed

lemma anchor_made:
  assumes "n = 0 \<and> h = genesis_hash \<or> n = 1" "length h = 32"
  shows "boundary_anchor_signing_input sample_backend (sample_anchor n h) maximum = Some (sample_anchor_psi n h)"
proof -
  have n: "n = 0 \<or> n = 1" using assms(1) by blast
  have "build_produced sample_backend (kid_header ''k'' TYP_CHAIN_ANCHOR) (Object (sample_anchor_members n h)) maximum =
      Some (sample_anchor_psi n h)"
    unfolding kid_header_members sample_anchor_psi_def
    by (rule small_produced [OF anchor_texts(3,4) [OF n assms(2)]])
  moreover have "\<not> list_ex (\<lambda>c. byte c \<noteq> 0) genesis_hash" by (simp add: genesis_hash_def byte_def list_ex_iff)
  ultimately show ?thesis
    using assms sample_valid(1,3) sample_texts(2) sample_key_acceptable
    by (auto simp: boundary_anchor_signing_input_def sample_anchor_def sample_anchor_members_def b64url_to_string_def
        public_key_thumbprint_raw_def thumbprint_raw_def sample_print_def)
qed

lemma anchor_fits:
  assumes "n = 0 \<or> n = 1" "length h = 32"
  shows "compact_fits maximum (archival_room maximum) (sample_anchor_psi n h) sample_signature"
    and "length (anchor_compact n h) \<le> 8192"
proof -
  note t = anchor_texts(1,2) [OF assms]
  show l: "length (anchor_compact n h) \<le> 8192"
    using t length_encode_le [of "jcs_text sample_backend (Object (kid_members ALG_EDDSA ''k'' TYP_CHAIN_ANCHOR))"]
      length_encode_le [of "jcs_text sample_backend (Object (sample_anchor_members n h))"]
      length_encode_le [of sample_signature] sample_key_facts(2)
    by (simp add: anchor_compact_def framed_def sample_anchor_psi_def produced_from_def)
  have "compact_fits maximum (compact_bytes maximum) (sample_anchor_psi n h) sample_signature"
    unfolding sample_anchor_psi_def using t sample_key_facts(2) by (intro small_fits) simp_all
  then show "compact_fits maximum (archival_room maximum) (sample_anchor_psi n h) sample_signature"
    using l by (simp add: compact_fits_def archival_room_def anchor_compact_def maximum_def)
qed

lemma anchor_read:
  assumes "n = 0 \<and> h = genesis_hash \<or> n = 1" "length h = 32"
  obtains d where "decode_anchor_parts sample_backend (anchor_compact n h) maximum = Some d"
    "da_key_id d = ''k''" "da_payload d = \<lparr>ap_anchor_id = ''g'', ap_anchored_at = 10, ap_chain_hash = h,
      ap_chain_id = ''c'', ap_key_fingerprint = sample_print, ap_sequence = n\<rparr>"
    "da_signature_seg d = base64url_encode sample_signature"
proof -
  have n: "n = 0 \<or> n = 1" using assms(1) by blast
  have "anchor_ok sample_backend maximum (sample_anchor n h)"
    using assms(2) sample_width maximum_fits(1) sample_valid(9,10) sample_texts(1)
    by (simp add: anchor_ok_def sample_anchor_def maximum_def)
  from archival.anchor_round_trip [OF anchor_made [OF assms] this anchor_fits(1) [OF n assms(2)] sample_key_facts(2)]
  show ?thesis
    by (auto simp: anchor_compact_def anchor_view_def sample_anchor_def sample_print_def intro: that)
qed

section \<open>The sample export\<close>

definition sample_export_input :: anchored_export_input where
  "sample_export_input = \<lparr>aei_start_anchor = anchor_compact 0 genesis_hash, aei_end_anchor = anchor_compact 1 sample_head,
     aei_transitions = [], aei_rows = [sample_row 1 genesis_hash]\<rparr>"

definition expected_at :: "int \<Rightarrow> bytes \<Rightarrow> expected_anchor" where
  "expected_at n h = \<lparr>ea_anchor_id = ''g'', ea_anchored_at = 10, ea_chain_hash = h, ea_chain_id = ''c'',
     ea_key_fingerprint = sample_print, ea_key_id = ''k'', ea_sequence = n, ea_bounds = None\<rparr>"

definition sample_export :: expected_export where
  "sample_export = \<lparr>ee_chain = sample_expected, ee_digest = [], ee_start_anchor = expected_at 0 genesis_hash,
     ee_end_anchor = expected_at 1 sample_head, ee_transitions = [], ee_object_version = ''v'', ee_bounds = None\<rparr>"

definition sample_header :: json where
  "sample_header = archive_header_value sample_expected 0 (base64url_encode sample_head) (base64url_encode genesis_hash)"

lemma export_words:
  "length (string_text ''first_sequence'') = 16" "length (string_text ''last_hash'') = 11"
  "length (string_text ''last_sequence'') = 15" "length (string_text ''previous_hash'') = 15"
  "length (string_text ''row_count'') = 11" "length (string_text ''transition_count'') = 18"
  by code_simp+

lemma sample_header_text:
  "length (jcs_text sample_backend sample_header) \<le> 500"
  "jcs_encode sample_backend maximum sample_header = Some (jcs_text sample_backend sample_header)"
proof -
  show l: "length (jcs_text sample_backend sample_header) \<le> 500"
    by (simp add: sample_header_def archive_header_value_def sample_expected_def length_object_text jcs_text_scalar
        length_b64_text sample_texts anchor_words export_words sample_head_length)
  show "jcs_encode sample_backend maximum sample_header = Some (jcs_text sample_backend sample_header)"
    using l by (intro small_object_encodes)
      (simp_all add: sample_header_def archive_header_value_def sample_expected_def maximum_def length_encode
        sample_head_length)
qed

lemma gate_step:
  assumes "decode_anchor_parts B c b = Some d" "da_signature_seg d = base64url_encode sg" "length sg = 64" "signature_gate sg"
  shows "gate_framed b (c # rest) = gate_framed b rest"
proof -
  obtain p q r where "parse_compact c = Some (p, q, r)" "r = da_signature_seg d"
      "length c \<le> compact_bytes b" "length c \<le> anchor_bytes b"
    using assms(1) by (auto simp: decode_anchor_parts_def bind_Some split: if_splits)
  then show ?thesis using assms(2-4) by (simp add: decode_signature_encode)
qed

lemma sample_gate: "signature_gate sample_signature"
  using sample_key_facts(4) by (simp add: strict_gate_def)

lemma sample_chain_accepted:
  "check_chain sample_backend \<lparr>ci_rows = [sample_row 1 genesis_hash]\<rparr> (sample_expected\<lparr>ec_bounds := Some maximum\<rparr>) =
     Some (chain_facts_of sample_expected)"
  using sample_accepted by (simp add: check_chain_def sample_expected_def resolve_bounds_def)

lemma sample_budget: "archive_budget maximum (jcs_text sample_backend sample_header) sample_export_input = Some ()"
  using anchor_fits(2) [of 0 genesis_hash] anchor_fits(2) [of 1 sample_head] sample_head_length
    sample_row_encodes(2) [of 1 genesis_hash] sample_header_text(1)
  by (simp add: archive_budget_def sample_export_input_def checked_add_u64_def maximum_def ARCHIVE_MAGIC_def)

lemma compact_not_empty: "decode_anchor_parts B [] b = None"
proof -
  have "parse_compact [] = None" by code_simp
  then show ?thesis by (simp add: decode_anchor_parts_def)
qed

lemma sample_archive_assembled:
  "assemble_archive (jcs_text sample_backend sample_header) sample_export_input =
     Some (archive_of (archive_v1 sample_backend) (jcs_text sample_backend sample_header) sample_export_input)"
proof -
  have small: "\<forall>f \<in> {jcs_text sample_backend sample_header, aei_start_anchor sample_export_input,
        aei_end_anchor sample_export_input} \<union> set (aei_transitions sample_export_input) \<union> set (aei_rows sample_export_input).
      length f < 2 ^ 32"
    using anchor_fits(2) [of 0 genesis_hash] anchor_fits(2) [of 1 sample_head] sample_head_length
      sample_row_encodes(2) [of 1 genesis_hash] sample_header_text(1) by (auto simp: sample_export_input_def)
  obtain d d' where "decode_anchor_parts sample_backend (anchor_compact 0 genesis_hash) maximum = Some d"
      "decode_anchor_parts sample_backend (anchor_compact 1 sample_head) maximum = Some d'"
    using anchor_read [of 0 genesis_hash] anchor_read [of 1 sample_head] sample_head_length by metis
  then have "anchor_compact 0 genesis_hash \<noteq> []" "anchor_compact 1 sample_head \<noteq> []"
    using compact_not_empty by (metis option.distinct(1))+
  moreover have "sample_row 1 genesis_hash \<noteq> []"
  proof
    assume "sample_row 1 genesis_hash = []"
    then have "log_step (rows_of sample_backend maximum) ''c'' (1, genesis_hash) [] \<noteq> None"
      using sample_row_step [of 1 genesis_hash] sample_head_length by simp
    moreover have "json_decode maximum [] = None" by code_simp
    ultimately show False by (simp add: log_step_def parse_row_def)
  qed
  ultimately show ?thesis unfolding assembled_v1 [OF small, where B = sample_backend] by (simp add: sample_export_input_def)
qed

definition sample_archive :: bytes where
  "sample_archive = archive_of (archive_v1 sample_backend) (jcs_text sample_backend sample_header) sample_export_input"

lemma sample_export_encodes:
  "encode_anchored_export sample_backend sample_export_input sample_export =
     Some \<lparr>axe_bytes = sample_archive, axe_byte_count = length sample_archive,
       axe_digest = sha256 sample_backend sample_archive\<rparr>"
proof -
  obtain d where d: "decode_anchor_parts sample_backend (anchor_compact 0 genesis_hash) maximum = Some d"
      "da_key_id d = ''k''" "da_payload d = \<lparr>ap_anchor_id = ''g'', ap_anchored_at = 10, ap_chain_hash = genesis_hash,
      ap_chain_id = ''c'', ap_key_fingerprint = sample_print, ap_sequence = 0\<rparr>"
      "da_signature_seg d = base64url_encode sample_signature"
    using anchor_read [of 0 genesis_hash] sample_head_length by blast
  obtain d' where d': "decode_anchor_parts sample_backend (anchor_compact 1 sample_head) maximum = Some d'"
      "da_key_id d' = ''k''" "da_payload d' = \<lparr>ap_anchor_id = ''g'', ap_anchored_at = 10, ap_chain_hash = sample_head,
      ap_chain_id = ''c'', ap_key_fingerprint = sample_print, ap_sequence = 1\<rparr>"
      "da_signature_seg d' = base64url_encode sample_signature"
    using anchor_read [of 1 sample_head] sample_head_length by blast
  have gate: "gate_framed maximum [anchor_compact 0 genesis_hash, anchor_compact 1 sample_head] = Some ()"
    unfolding gate_step [OF d(1,4) sample_key_facts(2) sample_gate] gate_step [OF d'(1,4) sample_key_facts(2) sample_gate]
    by simp
  have h: "jcs_encode sample_backend maximum (archive_header_value sample_expected 0
        (base64url_encode sample_head) (base64url_encode genesis_hash)) = Some (jcs_text sample_backend sample_header)"
    using sample_header_text(2) by (simp add: sample_header_def)
  have b: "expected_bindings sample_expected (expected_at 0 genesis_hash) (expected_at 1 sample_head) [] = Some ()"
    by (simp add: expected_bindings_def expected_at_def sample_expected_def checked_sub_i64_def is_i64_def
        i64_min_def i64_max_def)
  have n: "require_nested_bounds sample_expected (expected_at 0 genesis_hash) (expected_at 1 sample_head) [] maximum = Some ()"
    by (simp add: require_nested_bounds_def require_bounds_equal_def expected_at_def sample_expected_def)
  have k: "key_path_ok (expected_at 0 genesis_hash) [] (expected_at 1 sample_head) = Some ()"
    by (simp add: key_path_ok_def expected_at_def)
  have l: "length (anchor_compact 0 genesis_hash) \<le> 8192" "length (anchor_compact 1 sample_head) \<le> 8192"
      "length (sample_row 1 genesis_hash) \<le> 300"
    using anchor_fits(2) [of 0 genesis_hash] anchor_fits(2) [of 1 sample_head] sample_head_length
      sample_row_encodes(2) [of 1 genesis_hash] by simp_all
  have e: "ee_bounds sample_export = None" "ee_chain sample_export = sample_expected"
      "ee_start_anchor sample_export = expected_at 0 genesis_hash" "ee_end_anchor sample_export = expected_at 1 sample_head"
      "ee_transitions sample_export = []" "aei_start_anchor sample_export_input = anchor_compact 0 genesis_hash"
      "aei_end_anchor sample_export_input = anchor_compact 1 sample_head" "aei_transitions sample_export_input = []"
      "aei_rows sample_export_input = [sample_row 1 genesis_hash]" "ec_row_count sample_expected = 1"
      "ec_previous_hash sample_expected = genesis_hash" "ec_head_hash sample_expected = sample_head"
    by (simp_all add: sample_export_def sample_export_input_def sample_expected_def)
  show ?thesis
    unfolding encode_anchored_export_def Let_def e resolve_bounds_def option.case n b gate d(1) d'(1) k
      sample_chain_accepted Option.bind.bind_lunit list.size h sample_budget b64url_to_string_def b64_utf8(2)
      sample_archive_assembled sample_archive_def [symmetric]
    using d(2,3) d'(2,3) l sample_header_text(1)
    by (simp add: anchor_matches_def expected_at_def maximum_def)
qed

section \<open>The sample export is accepted\<close>

definition sample_history :: historical_key_chain where
  "sample_history = \<lparr>hkc_keys = [\<lparr>hk_key_id = ''k'', hk_public_key = sample_key, hk_valid_from = 0,
     hk_valid_before = Unbounded\<rparr>]\<rparr>"

definition sample_object :: archived_object where
  "sample_object = \<lparr>ao_chunks = [sample_archive], ao_version = ''v''\<rparr>"

definition sample_expectation :: expected_anchored_export where
  "sample_expectation = \<lparr>eae_chain = sample_expected, eae_digest = sha256 sample_backend sample_archive,
     eae_start_anchor = expected_at 0 genesis_hash, eae_end_anchor = expected_at 1 sample_head,
     eae_transitions = [], eae_object_version = ''v'', eae_bounds = None\<rparr>"

lemma sample_typed: "chain_typed maximum sample_expected"
  using sample_texts(1) sample_head_length tightened_maximum maximum_fits(1)
  by (simp add: chain_typed_def sample_expected_def is_i64_def i64_min_def i64_max_def maximum_def)

lemma sample_scan:
  "scan_archive sample_backend maximum sample_archive sample_expected 0 =
     Some \<lparr>sa_header = header_of sample_expected 0, sa_start_anchor = anchor_compact 0 genesis_hash,
       sa_transitions = [], sa_rows = [sample_row 1 genesis_hash], sa_end_anchor = anchor_compact 1 sample_head\<rparr>"
  using export_scans [OF sample_export_encodes, of maximum] sample_typed
  by (simp add: sample_export_def sample_export_input_def resolve_bounds_def maximum_def)

lemma sample_anchor_verifies:
  assumes "n = 0 \<and> h = genesis_hash \<or> n = 1" "length h = 32"
  shows "verify_historical_anchor sample_backend (anchor_compact n h)
      \<lparr>hk_key_id = ''k'', hk_public_key = sample_key, hk_valid_from = 0, hk_valid_before = Unbounded\<rparr> (expected_at n h) =
    Some \<lparr>af_anchor_id = ''g'', af_anchored_at = 10, af_chain_id = ''c'', af_sequence = n, af_chain_hash = h,
      af_key_fingerprint = sample_print, af_key_id = ''k'', af_trust = NotEvaluated\<rparr>"
proof -
  obtain d where d: "decode_anchor_parts sample_backend (anchor_compact n h) maximum = Some d"
    "da_key_id d = ''k''" "da_payload d = \<lparr>ap_anchor_id = ''g'', ap_anchored_at = 10, ap_chain_hash = h,
      ap_chain_id = ''c'', ap_key_fingerprint = sample_print, ap_sequence = n\<rparr>"
    "da_signature_seg d = base64url_encode sample_signature"
    by (rule anchor_read [OF assms])
  have fp: "public_key_thumbprint_raw sample_backend sample_key = Some sample_print"
    using sample_key_acceptable by (simp add: public_key_thumbprint_raw_def thumbprint_raw_def sample_print_def)
  have z: "\<not> list_ex (\<lambda>c. byte c \<noteq> 0) genesis_hash" by (simp add: genesis_hash_def byte_def list_ex_iff)
  have e: "ea_bounds (expected_at n h) = None" by (simp add: expected_at_def)
  show ?thesis
    unfolding verify_historical_anchor_def Let_def e resolve_bounds_def option.case d(1)
    using assms d(2-4) fp z sample_verifies sample_key_facts(2)
    by (auto simp: key_window_def unsigned_abs_def expected_at_def decode_signature_encode in_interval_def)
qed

lemma sample_export_verifies:
  obtains facts where "verify_anchored_export sample_backend sample_object sample_history sample_expectation = Some facts"
proof -
  let ?start = "expected_at 0 genesis_hash" and ?stop = "expected_at 1 sample_head"
  let ?key = "\<lparr>hk_key_id = ''k'', hk_public_key = sample_key, hk_valid_from = 0, hk_valid_before = Unbounded\<rparr>"
  have e: "eae_bounds sample_expectation = None" "eae_chain sample_expectation = sample_expected"
      "eae_start_anchor sample_expectation = ?start" "eae_end_anchor sample_expectation = ?stop"
      "eae_transitions sample_expectation = []" "eae_object_version sample_expectation = ''v''"
      "eae_digest sample_expectation = sha256 sample_backend sample_archive" "hkc_keys sample_history = [?key]"
      "ao_chunks sample_object = [sample_archive]" "ao_version sample_object = ''v''" "concat [sample_archive] = sample_archive"
    by (simp_all add: sample_expectation_def sample_history_def sample_object_def)
  have kid: "\<not> bad_kid maximum ''k''" by code_simp
  have "check_expected_chain maximum sample_expected = Some ()"
    using sample_texts(2)
    by (simp add: check_expected_chain_def sample_expected_def unsigned_abs_def maximum_def Let_def genesis_hash_def zero_hash_def)
  moreover have "check_expected_anchor maximum ?start = Some ()" "check_expected_anchor maximum ?stop = Some ()"
    using sample_valid(3) sample_texts(2) kid
    by (simp_all add: check_expected_anchor_def expected_at_def unsigned_abs_def genesis_hash_def zero_hash_def
        maximum_def [THEN arg_cong, of integer_magnitude])
  moreover have "require_nested_bounds sample_expected ?start ?stop [] maximum = Some ()"
    by (simp add: require_nested_bounds_def require_bounds_equal_def expected_at_def sample_expected_def)
  moreover have "key_windows maximum [?key] = Some ()" by (simp add: key_window_def unsigned_abs_def)
  moreover have "expected_bindings sample_expected ?start ?stop [] = Some ()"
    by (simp add: expected_bindings_def expected_at_def sample_expected_def checked_sub_i64_def is_i64_def
        i64_min_def i64_max_def)
  moreover have "check_chunks maximum [sample_archive] = Some ()"
  proof -
    have "length sample_archive \<le> archive_bytes maximum" unfolding sample_archive_def
      by (rule budget_v1 [OF sample_budget])
    moreover have "length ARCHIVE_MAGIC \<le> length sample_archive" "sample_archive \<noteq> []"
      by (simp_all add: sample_archive_def archive_of_def ARCHIVE_MAGIC_def)
    ultimately show ?thesis
      by (simp add: check_chunks_def checked_add_u64_def maximum_def not_less)
  qed
  moreover have "check_versions maximum ''v'' ''v'' = Some ()" by code_simp
  moreover have "key_shape_ok maximum ?key" using kid sample_key_facts(1) by (simp add: key_shape_ok_def)
  moreover have "authenticate_archive sample_backend maximum \<lparr>sa_header = header_of sample_expected 0,
      sa_start_anchor = anchor_compact 0 genesis_hash, sa_transitions = [], sa_rows = [sample_row 1 genesis_hash],
      sa_end_anchor = anchor_compact 1 sample_head\<rparr> [?key] sample_expectation = Some ()"
    using sample_anchor_verifies [of 0 genesis_hash] sample_anchor_verifies [of 1 sample_head] sample_head_length
      sample_chain_accepted sample_key_acceptable
    by (simp add: authenticate_archive_def e header_of_def Let_def)
      (simp add: sample_expected_def checked_sub_i64_def is_i64_def i64_min_def i64_max_def check_export_chronology_def
        public_key_thumbprint_raw_def thumbprint_raw_def)
  ultimately show ?thesis
    using that sample_scan
    by (auto simp: verify_anchored_export_def Let_def e resolve_bounds_def constant_time_eq_iff
        simp del: key_windows.simps)
qed

end
