(* ===== verification/Rust_Std.thy ===== *)
theory Rust_Std
  imports Prelude
begin

text \<open>
  Operations of the Rust standard library that only the attestation profiles use: checked arithmetic on
  \<open>usize\<close> (64 bits) and \<open>str::parse::<core::net::Ipv6Addr>\<close>.

  The address parser of \<open>core::net\<close> is a cursor over the bytes whose readers restore the cursor when they
  fail. Here a reader is a function from the remaining bytes to the bytes that remain after it, \<open>None\<close>
  being failure; the value of the address is dropped, because the library only asks whether it parses.
\<close>

section \<open>Checked arithmetic\<close>

definition checked_add_usize :: "nat \<Rightarrow> nat \<Rightarrow> nat option" where
  "checked_add_usize a b = (if a + b < 2 ^ 64 then Some (a + b) else None)"

definition checked_mul_usize :: "nat \<Rightarrow> nat \<Rightarrow> nat option" where
  "checked_mul_usize a b = (if a * b < 2 ^ 64 then Some (a * b) else None)"

section \<open>Readers\<close>

definition read_given_char :: "u8 \<Rightarrow> bytes \<Rightarrow> bytes option" where
  "read_given_char c s = (case s of [] \<Rightarrow> None | x # r \<Rightarrow> if x = c then Some r else None)"

text \<open>The separator is only read between groups, not before the first one.\<close>

definition read_separator :: "u8 \<Rightarrow> nat \<Rightarrow> (bytes \<Rightarrow> bytes option) \<Rightarrow> bytes \<Rightarrow> bytes option" where
  "read_separator sep index inner s =
     (if index > 0 then do { s \<leftarrow> read_given_char sep s; inner s } else inner s)"

definition radix_digit :: "nat \<Rightarrow> u8 \<Rightarrow> bool" where
  "radix_digit radix c = (if radix = 16 then is_ascii_hexdigit c else is_ascii_digit c)"

definition decimal_value :: "bytes \<Rightarrow> nat" where
  "decimal_value ds = foldl (\<lambda>n c. n * 10 + (byte c - 48)) 0 ds"

text \<open>A hextet has at most four digits and always fits 16 bits.\<close>

definition read_hextet :: "bytes \<Rightarrow> bytes option" where
  "read_hextet s =
     (let ds = takeWhile (radix_digit 16) s
      in if length ds > 4 \<or> ds = [] then None else Some (drop (length ds) s))"

text \<open>An octet has at most three digits, no leading zero, and must fit 8 bits.\<close>

definition read_octet :: "bytes \<Rightarrow> bytes option" where
  "read_octet s =
     (let ds = takeWhile (radix_digit 10) s
      in if length ds > 3 \<or> ds = [] then None
         else if hd ds = CHR ''0'' \<and> length ds > 1 then None
         else if decimal_value ds > 255 then None
         else Some (drop (length ds) s))"

fun read_octets :: "nat \<Rightarrow> nat \<Rightarrow> bytes \<Rightarrow> bytes option" where
  "read_octets i 0 s = Some s"
| "read_octets i (Suc n) s =
     do { s \<leftarrow> read_separator CHR ''.'' i read_octet s; read_octets (i + 1) n s }"

definition read_ipv4_addr :: "bytes \<Rightarrow> bytes option" where
  "read_ipv4_addr s = read_octets 0 4 s"

text \<open>
  The groups from index \<open>i\<close> on, \<open>n\<close> of them below \<open>limit\<close>: how many were read, whether the last two are an
  embedded IPv4 address, and the rest.
\<close>

fun read_groups :: "nat \<Rightarrow> nat \<Rightarrow> nat \<Rightarrow> bytes \<Rightarrow> nat \<times> bool \<times> bytes" where
  "read_groups limit i 0 s = (limit, False, s)"
| "read_groups limit i (Suc n) s =
     (case (if i < limit - 1 then read_separator CHR '':'' i read_ipv4_addr s else None) of
        Some r \<Rightarrow> (i + 2, True, r)
      | None \<Rightarrow>
          (case read_separator CHR '':'' i read_hextet s of
             Some r \<Rightarrow> read_groups limit (i + 1) n r
           | None \<Rightarrow> (i, False, s)))"

definition read_ipv6_addr :: "bytes \<Rightarrow> bytes option" where
  "read_ipv6_addr s =
     (let (head_size, head_ipv4, s) = read_groups 8 0 8 s
      in if head_size = 8 then Some s
         else if head_ipv4 then None
         else do {
           s \<leftarrow> read_given_char CHR '':'' s;
           s \<leftarrow> read_given_char CHR '':'' s;
           let limit = 8 - (head_size + 1);
           let (tail_size, tail_ipv4, s) = read_groups limit 0 limit s;
           Some s
         })"

definition parses_ipv6 :: "bytes \<Rightarrow> bool" where
  "parses_ipv6 s \<longleftrightarrow> read_ipv6_addr s = Some []"

end
