(* ===== verification/Attestation.thy ===== *)
theory Attestation
  imports Chain Rust_Std
begin

text \<open>
  The standalone role-attestation profile (\<open>sdks/rust/src/role_attestation.rs\<close>): producer, assembly,
  decoder and verifier. The profile carries its own copies of the shared helpers, here with the
  suffix \<open>_ra\<close>; they differ from those of version 1 in the identifier rules, in the segment decoder, which
  projects the decoded size before it decodes, and in the producer, which parses what it made.
\<close>

section \<open>Types\<close>

datatype role = Issuer | Holder

fun role_as_str :: "role \<Rightarrow> bytes" where
  "role_as_str Issuer = ''issuer''"
| "role_as_str Holder = ''holder''"

record attestation_input =
  ai_attestor_key_id :: bytes
  ai_jti :: bytes
  ai_key_id :: bytes
  ai_public_key :: bytes
  ai_role :: role
  ai_nbf :: int
  ai_exp :: int

record expected_attestation =
  ex_attestor :: historical_public_key
  ex_subject_key_id :: bytes
  ex_subject_public_key :: bytes
  ex_now :: int
  ex_bounds :: bounds

record attestation_decoded =
  ad_attestor_key_id :: bytes
  ad_jti :: bytes
  ad_key_id :: bytes
  ad_public_key :: bytes
  ad_role :: role
  ad_nbf :: int
  ad_exp :: int
  ad_verification :: not_evaluated

datatype signature_and_window = SignatureAndWindow

record attestation_facts =
  atf_attestor_key_id :: bytes
  atf_attestor_key_fingerprint :: bytes
  atf_subject_key_id :: bytes
  atf_subject_key_fingerprint :: bytes
  atf_role :: role
  atf_jti :: bytes
  atf_nbf :: int
  atf_exp :: int
  atf_verification :: signature_and_window
  atf_trust :: not_evaluated

section \<open>Scalars and identifiers\<close>

definition TYP_ROLE_ATTESTATION :: bytes where "TYP_ROLE_ATTESTATION = ''ba+role-attestation''"
definition ED25519_SIGNATURE_SEGMENT_BYTES :: nat where "ED25519_SIGNATURE_SEGMENT_BYTES = 86"

definition is_kid_byte_ra :: "u8 \<Rightarrow> bool" where
  "is_kid_byte_ra c \<longleftrightarrow> is_ascii_alphanumeric c \<or> c \<in> set ''-._~''"

definition validate_kid_ra :: "bytes \<Rightarrow> bounds \<Rightarrow> unit result" where
  "validate_kid_ra s b =
     do { reject_if (s = [] \<or> length s > kid_bytes b); reject_if (\<not> list_all is_kid_byte_ra s); Some () }"

definition is_hex_ra :: "u8 \<Rightarrow> bool" where
  "is_hex_ra c \<longleftrightarrow> is_ascii_digit c \<or> (0x41 \<le> byte c \<and> byte c \<le> 0x46) \<or> (0x61 \<le> byte c \<and> byte c \<le> 0x66)"

definition validate_scheme_ra :: "bytes \<Rightarrow> unit result" where
  "validate_scheme_ra scheme =
     do {
       reject_if (scheme = [] \<or> \<not> is_ascii_alphabetic (hd scheme));
       reject_if (\<not> list_all (\<lambda>c. is_ascii_alphanumeric c \<or> c \<in> set ''+-.'') scheme);
       Some ()
     }"

fun validate_uri_bytes_ra :: "bytes \<Rightarrow> unit result" where
  "validate_uri_bytes_ra [] = Some ()"
| "validate_uri_bytes_ra (c # cs) =
     (if is_ascii_alphanumeric c \<or> c \<in> set URI_PUNCT then validate_uri_bytes_ra cs
      else if c = CHR ''%'' then
        (case cs of
           h1 # h2 # r \<Rightarrow> if is_hex_ra h1 \<and> is_hex_ra h2 then validate_uri_bytes_ra r else None
         | _ \<Rightarrow> None)
      else None)"

definition has_bracket :: "bytes \<Rightarrow> bool" where
  "has_bracket s \<longleftrightarrow> list_ex (\<lambda>c. c = CHR ''['' \<or> c = CHR '']'') s"

text \<open>The host and port of an authority, without the one userinfo prefix it may have.\<close>

definition strip_userinfo :: "bytes \<Rightarrow> bytes result" where
  "strip_userinfo authority =
     (case position (\<lambda>c. c = CHR ''@'') authority of
        None \<Rightarrow> Some authority
      | Some at \<Rightarrow>
          (if has_bracket (take at authority) then None
           else
             let remainder = drop (at + 1) authority
             in if CHR ''@'' \<in> set remainder then None else Some remainder))"

definition validate_host_port :: "bytes \<Rightarrow> unit result" where
  "validate_host_port host_port =
     (if starts_with ''['' host_port then
        do {
          close \<leftarrow> position (\<lambda>c. c = CHR '']'') host_port;
          let literal = drop 1 (take close host_port);
          reject_if (\<not> parses_ipv6 literal);
          let suffix = drop (close + 1) host_port;
          if suffix = [] then Some ()
          else do {
            port \<leftarrow> strip_prefix '':'' suffix;
            reject_if (\<not> list_all is_ascii_digit port);
            Some ()
          }
        }
      else
        do {
          reject_if (has_bracket host_port \<or> count_list host_port CHR '':'' > 1);
          case rposition (\<lambda>c. c = CHR '':'') host_port of
            None \<Rightarrow> Some ()
          | Some c \<Rightarrow> do { reject_if (\<not> list_all is_ascii_digit (drop (c + 1) host_port)); Some () }
        })"

definition validate_authority_port_ra :: "bytes \<Rightarrow> unit result" where
  "validate_authority_port_ra s =
     do {
       scheme_end \<leftarrow> position (\<lambda>c. c = CHR '':'') s;
       let after_scheme = drop (scheme_end + 1) s;
       case strip_prefix ''//'' after_scheme of
         None \<Rightarrow> (if has_bracket after_scheme then None else Some ())
       | Some after_scheme_host \<Rightarrow>
           (let inside = (\<lambda>c. c \<notin> {CHR ''/'', CHR ''?'', CHR 0x23});
                authority = takeWhile inside after_scheme_host
            in do {
              reject_if (has_bracket (dropWhile inside after_scheme_host));
              host_port \<leftarrow> strip_userinfo authority;
              validate_host_port host_port
            })
     }"

definition validate_identifier_ra :: "bytes \<Rightarrow> bounds \<Rightarrow> unit result" where
  "validate_identifier_ra s b =
     do {
       reject_if (s = [] \<or> length s > identifier_bytes b);
       case position (\<lambda>c. c = CHR '':'') s of
         None \<Rightarrow> Some ()
       | Some colon \<Rightarrow>
           do {
             validate_scheme_ra (take colon s);
             validate_uri_bytes_ra s;
             reject_if (count_list s CHR 0x23 > 1);
             validate_authority_port_ra s;
             Some ()
           }
     }"

section \<open>Segments and sizes\<close>

definition projected_base64url_decoded_len :: "nat \<Rightarrow> nat result" where
  "projected_base64url_decoded_len encoded_len =
     do {
       trailing_bytes \<leftarrow>
         (case encoded_len mod 4 of 0 \<Rightarrow> Some 0 | Suc 0 \<Rightarrow> None | Suc (Suc 0) \<Rightarrow> Some 1 | _ \<Rightarrow> Some 2);
       n \<leftarrow> checked_mul_usize (encoded_len div 4) 3;
       checked_add_usize n trailing_bytes
     }"

definition decode_segment_ra :: "bytes \<Rightarrow> bounds \<Rightarrow> bytes result" where
  "decode_segment_ra segment b =
     do {
       reject_if (length segment > encoded_segment_bytes b);
       projected_len \<leftarrow> projected_base64url_decoded_len (length segment);
       reject_if (projected_len > decoded_segment_bytes b);
       decoded \<leftarrow> base64url_decode segment;
       reject_if (length decoded \<noteq> projected_len);
       Some decoded
     }"

definition projected_compact_len :: "nat \<Rightarrow> nat \<Rightarrow> nat result" where
  "projected_compact_len protected_len payload_len =
     do {
       n \<leftarrow> checked_add_usize protected_len payload_len;
       checked_add_usize n (ED25519_SIGNATURE_SEGMENT_BYTES + 2)
     }"

definition validate_compact_size :: "nat \<Rightarrow> bounds \<Rightarrow> unit result" where
  "validate_compact_size compact_len b =
     do { reject_if (compact_len > compact_bytes b \<or> compact_len > anchor_bytes b); Some () }"

definition split_compact_bounded :: "bytes \<Rightarrow> bounds \<Rightarrow> (bytes \<times> bytes \<times> bytes) result" where
  "split_compact_bounded compact b =
     (case split_on CHR ''.'' compact of
        [protected, payload, signature] \<Rightarrow>
          (if protected = [] \<or> payload = [] \<or> signature = [] \<or>
             list_ex (\<lambda>segment. length segment > encoded_segment_bytes b) [protected, payload, signature]
           then None else Some (protected, payload, signature))
      | _ \<Rightarrow> None)"

definition resolve_bounds_ra :: "bounds option \<Rightarrow> bounds" where
  "resolve_bounds_ra nested = (case nested of None \<Rightarrow> maximum | Some b \<Rightarrow> b)"

definition b64url_to_string_ra :: "bytes \<Rightarrow> bytes result" where
  "b64url_to_string_ra s = from_utf8 s"

definition signing_input_bytes_ra :: "bytes \<Rightarrow> bytes \<Rightarrow> bytes" where
  "signing_input_bytes_ra protected_seg payload_seg = protected_seg @ ''.'' @ payload_seg"

section \<open>Claim types\<close>

definition take_string_or_uri_ra :: "json option \<Rightarrow> bounds \<Rightarrow> bytes result" where
  "take_string_or_uri_ra v b = do { s \<leftarrow> string_of v; validate_identifier_ra s b; Some s }"

definition take_kid :: "json option \<Rightarrow> bounds \<Rightarrow> bytes result" where
  "take_kid v b = do { s \<leftarrow> string_of v; validate_kid_ra s b; Some s }"

definition take_public_key :: "backend \<Rightarrow> json option \<Rightarrow> bounds \<Rightarrow> bytes result" where
  "take_public_key B v b =
     do {
       s \<leftarrow> string_of v;
       reject_if (length s > encoded_segment_bytes b);
       raw \<leftarrow> base64url_decode s;
       reject_if (length raw \<noteq> 32 \<or> \<not> acceptable_public_key B raw);
       Some raw
     }"

definition take_role :: "json option \<Rightarrow> role result" where
  "take_role v =
     (if v = Some (String ''issuer'') then Some Issuer
      else if v = Some (String ''holder'') then Some Holder
      else None)"

definition take_integral_date_ra :: "json option \<Rightarrow> int result" where
  "take_integral_date_ra v = (case v of Some (Integer n) \<Rightarrow> Some n | _ \<Rightarrow> None)"

section \<open>Decoding\<close>

record attestation_payload =
  atp_jti :: bytes
  atp_key_id :: bytes
  atp_public_key :: bytes
  atp_role :: role
  atp_not_before :: int
  atp_expires_at :: int

record decoded_attestation =
  dat_protected_seg :: bytes
  dat_payload_seg :: bytes
  dat_signature :: bytes
  dat_key_id :: bytes
  dat_payload :: attestation_payload

definition validate_attestation_header :: "backend \<Rightarrow> json \<Rightarrow> bytes \<Rightarrow> bounds \<Rightarrow> bytes result" where
  "validate_attestation_header B header header_bytes b =
     do {
       members \<leftarrow> members_of header;
       slots \<leftarrow> collect [''alg'', ''typ'', ''kid''] members Map.empty;
       reject_if (slots ''alg'' \<noteq> Some (String ALG_EDDSA));
       reject_if (slots ''typ'' \<noteq> Some (String TYP_ROLE_ATTESTATION));
       kid_str \<leftarrow> string_of (slots ''kid'');
       validate_kid_ra kid_str b;
       reencoded \<leftarrow> jcs_encode B b header;
       reject_if (reencoded \<noteq> header_bytes);
       Some kid_str
     }"

definition attestation_claims :: "bytes list" where
  "attestation_claims = [''v'', ''jti'', ''key_id'', ''public_key'', ''role'', ''nbf'', ''exp'']"

definition validate_attestation_payload ::
  "backend \<Rightarrow> json \<Rightarrow> bytes \<Rightarrow> bounds \<Rightarrow> attestation_payload result" where
  "validate_attestation_payload B payload payload_bytes b =
     do {
       members \<leftarrow> members_of payload;
       slots \<leftarrow> collect attestation_claims members Map.empty;
       reject_if (slots ''v'' \<noteq> Some (Integer 1));
       jti \<leftarrow> take_string_or_uri_ra (slots ''jti'') b;
       key_id \<leftarrow> take_kid (slots ''key_id'') b;
       public_key \<leftarrow> take_public_key B (slots ''public_key'') b;
       role \<leftarrow> take_role (slots ''role'');
       not_before \<leftarrow> take_integral_date_ra (slots ''nbf'');
       expires_at \<leftarrow> take_integral_date_ra (slots ''exp'');
       reject_if (not_before \<ge> expires_at);
       reencoded \<leftarrow> jcs_encode B b payload;
       reject_if (reencoded \<noteq> payload_bytes);
       Some \<lparr>atp_jti = jti, atp_key_id = key_id, atp_public_key = public_key, atp_role = role,
         atp_not_before = not_before, atp_expires_at = expires_at\<rparr>
     }"

definition decode_attestation_parts :: "backend \<Rightarrow> bytes \<Rightarrow> bounds \<Rightarrow> decoded_attestation result" where
  "decode_attestation_parts B compact b =
     do {
       validate_compact_size (length compact) b;
       (protected_seg, payload_seg, signature_seg) \<leftarrow> split_compact_bounded compact b;
       header_bytes \<leftarrow> decode_segment_ra protected_seg b;
       payload_bytes \<leftarrow> decode_segment_ra payload_seg b;
       sig_raw \<leftarrow> decode_segment_ra signature_seg b;
       reject_if (length sig_raw \<noteq> 64);
       header \<leftarrow> json_decode b header_bytes;
       payload_json \<leftarrow> json_decode b payload_bytes;
       key_id \<leftarrow> validate_attestation_header B header header_bytes b;
       payload \<leftarrow> validate_attestation_payload B payload_json payload_bytes b;
       Some \<lparr>dat_protected_seg = protected_seg, dat_payload_seg = payload_seg, dat_signature = sig_raw,
         dat_key_id = key_id, dat_payload = payload\<rparr>
     }"

definition decode_attestation :: "backend \<Rightarrow> bytes \<Rightarrow> bounds \<Rightarrow> attestation_decoded result" where
  "decode_attestation B compact b =
     do {
       a \<leftarrow> decode_attestation_parts B compact b;
       Some \<lparr>ad_attestor_key_id = dat_key_id a, ad_jti = atp_jti (dat_payload a),
         ad_key_id = atp_key_id (dat_payload a), ad_public_key = atp_public_key (dat_payload a),
         ad_role = atp_role (dat_payload a), ad_nbf = atp_not_before (dat_payload a),
         ad_exp = atp_expires_at (dat_payload a), ad_verification = NotEvaluated\<rparr>
     }"

section \<open>Production and assembly\<close>

definition validate_produced_json :: "bytes \<Rightarrow> bounds \<Rightarrow> unit result" where
  "validate_produced_json s b =
     do { reject_if (length s > decoded_segment_bytes b); json_decode b s; Some () }"

definition build_produced_ra :: "backend \<Rightarrow> json \<Rightarrow> json \<Rightarrow> bounds \<Rightarrow> produced_signing_input result" where
  "build_produced_ra B header payload b =
     do {
       header_jcs \<leftarrow> jcs_encode B b header;
       payload_jcs \<leftarrow> jcs_encode B b payload;
       validate_produced_json header_jcs b;
       validate_produced_json payload_jcs b;
       let protected_seg = base64url_encode header_jcs;
       let payload_seg = base64url_encode payload_jcs;
       reject_if (length protected_seg > encoded_segment_bytes b \<or> length payload_seg > encoded_segment_bytes b \<or>
         ED25519_SIGNATURE_SEGMENT_BYTES > encoded_segment_bytes b);
       n \<leftarrow> projected_compact_len (length protected_seg) (length payload_seg);
       validate_compact_size n b;
       Some \<lparr>psi_protected_segment = protected_seg, psi_payload_segment = payload_seg,
         psi_message = protected_seg @ ''.'' @ payload_seg\<rparr>
     }"

definition attestation_signing_input ::
  "backend \<Rightarrow> attestation_input \<Rightarrow> bounds \<Rightarrow> produced_signing_input result" where
  "attestation_signing_input B a b =
     do {
       validate_kid_ra (ai_attestor_key_id a) b;
       validate_identifier_ra (ai_jti a) b;
       validate_kid_ra (ai_key_id a) b;
       reject_if (ai_nbf a \<ge> ai_exp a);
       let header = Object [(''alg'', String ALG_EDDSA), (''kid'', String (ai_attestor_key_id a)),
         (''typ'', String TYP_ROLE_ATTESTATION)];
       reject_if (\<not> acceptable_public_key B (ai_public_key a));
       public_key \<leftarrow> b64url_to_string_ra (base64url_encode (ai_public_key a));
       let payload = Object
         [(''exp'', Integer (ai_exp a)), (''jti'', String (ai_jti a)), (''key_id'', String (ai_key_id a)),
          (''nbf'', Integer (ai_nbf a)), (''public_key'', String public_key),
          (''role'', String (role_as_str (ai_role a))), (''v'', Integer 1)];
       build_produced_ra B header payload b
     }"

definition assemble_attestation_compact ::
  "backend \<Rightarrow> signing_input \<Rightarrow> bytes \<Rightarrow> bounds option \<Rightarrow> bytes result" where
  "assemble_attestation_compact B si signature nested =
     do {
       reject_if (si_kind si \<noteq> RoleAttestationKind);
       let b = resolve_bounds_ra nested;
       reject_if (length (protected_segment si) > encoded_segment_bytes b \<or>
         length (payload_segment si) > encoded_segment_bytes b \<or>
         ED25519_SIGNATURE_SEGMENT_BYTES > encoded_segment_bytes b);
       reject_if (\<not> signature_gate signature);
       compact_len \<leftarrow> projected_compact_len (length (protected_segment si)) (length (payload_segment si));
       validate_compact_size compact_len b;
       let compact = protected_segment si @ ''.'' @ payload_segment si @ ''.'' @ base64url_encode signature;
       decode_attestation_parts B compact b;
       Some compact
     }"

section \<open>Verification\<close>

definition check_attestor_window :: "bounds \<Rightarrow> historical_public_key \<Rightarrow> unit result" where
  "check_attestor_window b k =
     do {
       reject_if (unsigned_abs (hk_valid_from k) > integer_magnitude b);
       case hk_valid_before k of
         Bounded v \<Rightarrow>
           do {
             reject_if (unsigned_abs v > integer_magnitude b);
             reject_if (v \<le> hk_valid_from k);
             Some ()
           }
       | Unbounded \<Rightarrow> Some ()
     }"

definition verify_attestation :: "backend \<Rightarrow> bytes \<Rightarrow> expected_attestation \<Rightarrow> attestation_facts result" where
  "verify_attestation B compact expected =
     (let b = ex_bounds expected; attestor = ex_attestor expected in
      do {
        check_attestor_window b attestor;
        a \<leftarrow> decode_attestation_parts B compact b;
        let payload = dat_payload a;
        reject_if (dat_key_id a \<noteq> hk_key_id attestor);
        let signing_input = signing_input_bytes_ra (dat_protected_seg a) (dat_payload_seg a);
        ed25519_verify B (hk_public_key attestor) signing_input (dat_signature a);
        reject_if (atp_key_id payload \<noteq> ex_subject_key_id expected);
        reject_if (atp_public_key payload \<noteq> ex_subject_public_key expected);
        attestor_thumbprint \<leftarrow> public_key_thumbprint_raw B (hk_public_key attestor);
        subject_thumbprint \<leftarrow> thumbprint_raw B (atp_public_key payload);
        reject_if (attestor_thumbprint = subject_thumbprint);
        reject_if (hk_key_id attestor = atp_key_id payload);
        reject_if (atp_not_before payload < hk_valid_from attestor);
        (case hk_valid_before attestor of
           Bounded v \<Rightarrow> reject_if (atp_expires_at payload > v)
         | Unbounded \<Rightarrow> Some ());
        reject_if (ex_now expected < atp_not_before payload \<or> ex_now expected \<ge> atp_expires_at payload);
        Some \<lparr>atf_attestor_key_id = dat_key_id a, atf_attestor_key_fingerprint = attestor_thumbprint,
          atf_subject_key_id = atp_key_id payload, atf_subject_key_fingerprint = subject_thumbprint,
          atf_role = atp_role payload, atf_jti = atp_jti payload, atf_nbf = atp_not_before payload,
          atf_exp = atp_expires_at payload, atf_verification = SignatureAndWindow, atf_trust = NotEvaluated\<rparr>
      })"

end
