(* ===== verification/Content_Assertion.thy ===== *)
theory Content_Assertion
  imports Attestation
begin

text \<open>
  The standalone content-assertion profile (\<open>sdks/rust/src/content_assertion.rs\<close>): producer, assembly,
  decoder, verifier, digests and the pairwise successor relation. Its identifier and key-id rules are
  those of the role attestation; its own copies of the other helpers have the suffix \<open>_ca\<close>.
\<close>

section \<open>Types\<close>

record content_assertion_input =
  cai_attestor_key_id :: bytes
  cai_jti :: bytes
  cai_iss :: bytes
  cai_aud :: bytes
  cai_sub :: bytes
  cai_profile :: bytes
  cai_profile_digest :: bytes
  cai_content_digest :: bytes
  cai_generation :: int
  cai_previous :: bytes
  cai_issued_at :: int
  cai_not_before :: int
  cai_expires_at :: int

record expected_content_assertion =
  eca_attestor :: historical_public_key
  eca_issuer :: bytes
  eca_audience :: bytes
  eca_subject :: bytes
  eca_profile :: bytes
  eca_profile_digest :: bytes
  eca_content_digest :: bytes
  eca_now :: int
  eca_bounds :: bounds

record assertion_claims =
  ac_jti :: bytes
  ac_iss :: bytes
  ac_aud :: bytes
  ac_sub :: bytes
  ac_profile :: bytes
  ac_profile_digest :: bytes
  ac_content_digest :: bytes
  ac_generation :: int
  ac_previous :: bytes
  ac_issued_at :: int
  ac_not_before :: int
  ac_expires_at :: int

record decoded_assertion =
  das_protected_segment :: bytes
  das_payload_segment :: bytes
  das_signature :: bytes
  das_key_id :: bytes
  das_claims :: assertion_claims

record decoded_content_assertion =
  dca_version :: int
  dca_attestor_key_id :: bytes
  dca_jti :: bytes
  dca_iss :: bytes
  dca_aud :: bytes
  dca_sub :: bytes
  dca_profile :: bytes
  dca_profile_digest :: bytes
  dca_content_digest :: bytes
  dca_generation :: int
  dca_previous :: bytes
  dca_issued_at :: int
  dca_not_before :: int
  dca_expires_at :: int
  dca_verification :: not_evaluated

record content_assertion_facts =
  caf_version :: int
  caf_attestor_key_id :: bytes
  caf_attestor_key_fingerprint :: bytes
  caf_jti :: bytes
  caf_iss :: bytes
  caf_aud :: bytes
  caf_sub :: bytes
  caf_profile :: bytes
  caf_profile_digest :: bytes
  caf_content_digest :: bytes
  caf_generation :: int
  caf_previous :: bytes
  caf_issued_at :: int
  caf_not_before :: int
  caf_expires_at :: int
  caf_digest :: bytes
  caf_verification :: signature_and_window
  caf_trust :: not_evaluated

definition TYP_CONTENT_ASSERTION :: bytes where "TYP_CONTENT_ASSERTION = ''ba+content-assertion''"
definition SIGNATURE_SEGMENT_BYTES :: nat where "SIGNATURE_SEGMENT_BYTES = 86"

definition zero_digest :: bytes where "zero_digest = replicate 32 (CHR 0x00)"

section \<open>Numbers\<close>

definition validate_magnitude :: "int \<Rightarrow> bounds \<Rightarrow> unit result" where
  "validate_magnitude v b = (if unsigned_abs v > integer_magnitude b then None else Some ())"

definition validate_numbers :: "int \<Rightarrow> int \<Rightarrow> int \<Rightarrow> int \<Rightarrow> bytes \<Rightarrow> bounds \<Rightarrow> unit result" where
  "validate_numbers generation issued_at not_before expires_at previous b =
     do {
       validate_magnitude issued_at b;
       validate_magnitude not_before b;
       validate_magnitude expires_at b;
       reject_if (generation < 1 \<or> i64_as_u64 generation > integer_magnitude b \<or> issued_at > not_before \<or>
         not_before \<ge> expires_at \<or> ((generation = 1) \<noteq> (previous = zero_digest)));
       Some ()
     }"

section \<open>Segments and sizes\<close>

definition projected_decoded_len :: "nat \<Rightarrow> nat result" where
  "projected_decoded_len encoded =
     do {
       tail \<leftarrow> (case encoded mod 4 of 0 \<Rightarrow> Some 0 | Suc 0 \<Rightarrow> None | Suc (Suc 0) \<Rightarrow> Some 1 | _ \<Rightarrow> Some 2);
       n \<leftarrow> checked_mul_usize (encoded div 4) 3;
       checked_add_usize n tail
     }"

definition decode_segment_ca :: "bytes \<Rightarrow> bounds \<Rightarrow> bytes result" where
  "decode_segment_ca segment b =
     do {
       reject_if (length segment > encoded_segment_bytes b);
       projected \<leftarrow> projected_decoded_len (length segment);
       reject_if (projected > decoded_segment_bytes b);
       decoded \<leftarrow> base64url_decode segment;
       reject_if (length decoded \<noteq> projected);
       Some decoded
     }"

definition projected_compact_len_ca :: "nat \<Rightarrow> nat \<Rightarrow> nat result" where
  "projected_compact_len_ca protected payload =
     do { n \<leftarrow> checked_add_usize protected payload; checked_add_usize n (SIGNATURE_SEGMENT_BYTES + 2) }"

definition validate_compact_size_ca :: "nat \<Rightarrow> bounds \<Rightarrow> unit result" where
  "validate_compact_size_ca n b = (if n = 0 \<or> n > compact_bytes b \<or> n > anchor_bytes b then None else Some ())"

definition split_compact :: "bytes \<Rightarrow> bounds \<Rightarrow> (bytes \<times> bytes \<times> bytes) result" where
  "split_compact compact b =
     (case split_on CHR ''.'' compact of
        [protected, payload, signature] \<Rightarrow>
          (if protected = [] \<or> payload = [] \<or> signature = [] \<or>
             list_ex (\<lambda>segment. length segment > encoded_segment_bytes b) [protected, payload, signature]
           then None else Some (protected, payload, signature))
      | _ \<Rightarrow> None)"

definition signing_input_bytes_ca :: "bytes \<Rightarrow> bytes \<Rightarrow> bytes" where
  "signing_input_bytes_ca protected payload = protected @ ''.'' @ payload"

definition b64_string :: "bytes \<Rightarrow> bytes result" where
  "b64_string s = from_utf8 (base64url_encode s)"

section \<open>Claims\<close>

definition take_identifier :: "json option \<Rightarrow> bounds \<Rightarrow> bytes result" where
  "take_identifier v b = do { s \<leftarrow> string_of v; validate_identifier_ra s b; Some s }"

definition take_digest :: "json option \<Rightarrow> bytes result" where
  "take_digest v = do { s \<leftarrow> string_of v; raw \<leftarrow> base64url_decode s; reject_if (length raw \<noteq> 32); Some raw }"

definition take_integer :: "json option \<Rightarrow> bounds \<Rightarrow> int result" where
  "take_integer v b =
     do { n \<leftarrow> (case v of Some (Integer n) \<Rightarrow> Some n | _ \<Rightarrow> None); validate_magnitude n b; Some n }"

definition validate_header :: "backend \<Rightarrow> json \<Rightarrow> bytes \<Rightarrow> bounds \<Rightarrow> bytes result" where
  "validate_header B header raw b =
     do {
       members \<leftarrow> members_of header;
       reject_if (length members \<noteq> 3);
       slots \<leftarrow> collect [''alg'', ''kid'', ''typ''] members Map.empty;
       reject_if (slots ''alg'' \<noteq> Some (String ''EdDSA'') \<or> slots ''typ'' \<noteq> Some (String TYP_CONTENT_ASSERTION));
       kid \<leftarrow> string_of (slots ''kid'');
       validate_kid_ra kid b;
       reencoded \<leftarrow> jcs_encode B b header;
       reject_if (reencoded \<noteq> raw);
       Some kid
     }"

definition assertion_members :: "bytes list" where
  "assertion_members = [''v'', ''jti'', ''iss'', ''aud'', ''sub'', ''profile'', ''profile_digest'',
     ''content_digest'', ''gen'', ''prev'', ''iat'', ''nbf'', ''exp'']"

definition validate_payload :: "backend \<Rightarrow> json \<Rightarrow> bytes \<Rightarrow> bounds \<Rightarrow> assertion_claims result" where
  "validate_payload B payload raw b =
     do {
       members \<leftarrow> members_of payload;
       reject_if (length members \<noteq> 13);
       slots \<leftarrow> collect assertion_members members Map.empty;
       reject_if (slots ''v'' \<noteq> Some (Integer 1));
       jti \<leftarrow> take_identifier (slots ''jti'') b;
       iss \<leftarrow> take_identifier (slots ''iss'') b;
       aud \<leftarrow> take_identifier (slots ''aud'') b;
       sub \<leftarrow> take_identifier (slots ''sub'') b;
       profile \<leftarrow> take_identifier (slots ''profile'') b;
       profile_digest \<leftarrow> take_digest (slots ''profile_digest'');
       content_digest \<leftarrow> take_digest (slots ''content_digest'');
       generation \<leftarrow> take_integer (slots ''gen'') b;
       previous \<leftarrow> take_digest (slots ''prev'');
       issued_at \<leftarrow> take_integer (slots ''iat'') b;
       not_before \<leftarrow> take_integer (slots ''nbf'') b;
       expires_at \<leftarrow> take_integer (slots ''exp'') b;
       validate_numbers generation issued_at not_before expires_at previous b;
       reencoded \<leftarrow> jcs_encode B b payload;
       reject_if (reencoded \<noteq> raw);
       Some \<lparr>ac_jti = jti, ac_iss = iss, ac_aud = aud, ac_sub = sub, ac_profile = profile,
         ac_profile_digest = profile_digest, ac_content_digest = content_digest, ac_generation = generation,
         ac_previous = previous, ac_issued_at = issued_at, ac_not_before = not_before,
         ac_expires_at = expires_at\<rparr>
     }"

definition decode_parts :: "backend \<Rightarrow> bytes \<Rightarrow> bounds \<Rightarrow> decoded_assertion result" where
  "decode_parts B compact b =
     do {
       validate_compact_size_ca (length compact) b;
       (protected_segment, payload_segment, signature_segment) \<leftarrow> split_compact compact b;
       protected_bytes \<leftarrow> decode_segment_ca protected_segment b;
       payload_bytes \<leftarrow> decode_segment_ca payload_segment b;
       signature_bytes \<leftarrow> decode_segment_ca signature_segment b;
       reject_if (length signature_bytes \<noteq> 64);
       header \<leftarrow> json_decode b protected_bytes;
       payload \<leftarrow> json_decode b payload_bytes;
       key_id \<leftarrow> validate_header B header protected_bytes b;
       claims \<leftarrow> validate_payload B payload payload_bytes b;
       Some \<lparr>das_protected_segment = protected_segment, das_payload_segment = payload_segment,
         das_signature = signature_bytes, das_key_id = key_id, das_claims = claims\<rparr>
     }"

definition decode_content_assertion :: "backend \<Rightarrow> bytes \<Rightarrow> bounds \<Rightarrow> decoded_content_assertion result" where
  "decode_content_assertion B compact b =
     do {
       d \<leftarrow> decode_parts B compact b;
       let claims = das_claims d;
       Some \<lparr>dca_version = 1, dca_attestor_key_id = das_key_id d, dca_jti = ac_jti claims,
         dca_iss = ac_iss claims, dca_aud = ac_aud claims, dca_sub = ac_sub claims,
         dca_profile = ac_profile claims, dca_profile_digest = ac_profile_digest claims,
         dca_content_digest = ac_content_digest claims, dca_generation = ac_generation claims,
         dca_previous = ac_previous claims, dca_issued_at = ac_issued_at claims,
         dca_not_before = ac_not_before claims, dca_expires_at = ac_expires_at claims,
         dca_verification = NotEvaluated\<rparr>
     }"

section \<open>Digests\<close>

definition CONTENT_DIGEST_PREFIX :: bytes where "CONTENT_DIGEST_PREFIX = ''BAP1-CONTENT'' @ [CHR 0x00]"

definition content_digest :: "backend \<Rightarrow> bytes \<Rightarrow> bounds \<Rightarrow> bytes result" where
  "content_digest B content b =
     do {
       reject_if (content = [] \<or> length content > content_bytes b);
       Some (sha256 B (CONTENT_DIGEST_PREFIX @ content))
     }"

definition assertion_digest :: "backend \<Rightarrow> bytes \<Rightarrow> bounds \<Rightarrow> bytes result" where
  "assertion_digest B compact b = do { decode_parts B compact b; Some (sha256 B compact) }"

section \<open>Production and assembly\<close>

definition build_produced_ca :: "backend \<Rightarrow> json \<Rightarrow> json \<Rightarrow> bounds \<Rightarrow> produced_signing_input result" where
  "build_produced_ca B header payload b =
     do {
       header_raw \<leftarrow> jcs_encode B b header;
       payload_raw \<leftarrow> jcs_encode B b payload;
       reject_if (length header_raw > decoded_segment_bytes b \<or> length payload_raw > decoded_segment_bytes b);
       json_decode b header_raw;
       json_decode b payload_raw;
       let protected_segment = base64url_encode header_raw;
       let payload_segment = base64url_encode payload_raw;
       reject_if (length protected_segment > encoded_segment_bytes b \<or>
         length payload_segment > encoded_segment_bytes b \<or> SIGNATURE_SEGMENT_BYTES > encoded_segment_bytes b);
       n \<leftarrow> projected_compact_len_ca (length protected_segment) (length payload_segment);
       validate_compact_size_ca n b;
       Some \<lparr>psi_protected_segment = protected_segment, psi_payload_segment = payload_segment,
         psi_message = signing_input_bytes_ca protected_segment payload_segment\<rparr>
     }"

definition assertion_signing_input ::
  "backend \<Rightarrow> content_assertion_input \<Rightarrow> bounds \<Rightarrow> produced_signing_input result" where
  "assertion_signing_input B a b =
     do {
       validate_kid_ra (cai_attestor_key_id a) b;
       validate_identifier_ra (cai_jti a) b;
       validate_identifier_ra (cai_iss a) b;
       validate_identifier_ra (cai_aud a) b;
       validate_identifier_ra (cai_sub a) b;
       validate_identifier_ra (cai_profile a) b;
       validate_numbers (cai_generation a) (cai_issued_at a) (cai_not_before a) (cai_expires_at a)
         (cai_previous a) b;
       let header = Object [(''alg'', String ''EdDSA''), (''kid'', String (cai_attestor_key_id a)),
         (''typ'', String TYP_CONTENT_ASSERTION)];
       content_digest_str \<leftarrow> b64_string (cai_content_digest a);
       previous_str \<leftarrow> b64_string (cai_previous a);
       profile_digest_str \<leftarrow> b64_string (cai_profile_digest a);
       let payload = Object
         [(''aud'', String (cai_aud a)), (''content_digest'', String content_digest_str),
          (''exp'', Integer (cai_expires_at a)), (''gen'', Integer (cai_generation a)),
          (''iat'', Integer (cai_issued_at a)), (''iss'', String (cai_iss a)), (''jti'', String (cai_jti a)),
          (''nbf'', Integer (cai_not_before a)), (''prev'', String previous_str),
          (''profile'', String (cai_profile a)), (''profile_digest'', String profile_digest_str),
          (''sub'', String (cai_sub a)), (''v'', Integer 1)];
       build_produced_ca B header payload b
     }"

definition assemble_content_assertion_compact ::
  "backend \<Rightarrow> signing_input \<Rightarrow> bytes \<Rightarrow> bounds option \<Rightarrow> bytes result" where
  "assemble_content_assertion_compact B si signature nested =
     do {
       reject_if (si_kind si \<noteq> ContentAssertionKind);
       let b = (case nested of None \<Rightarrow> maximum | Some b \<Rightarrow> b);
       reject_if (length (protected_segment si) > encoded_segment_bytes b \<or>
         length (payload_segment si) > encoded_segment_bytes b \<or>
         SIGNATURE_SEGMENT_BYTES > encoded_segment_bytes b);
       reject_if (\<not> signature_gate signature);
       projected_compact_len_ca (length (protected_segment si)) (length (payload_segment si));
       let compact = protected_segment si @ ''.'' @ payload_segment si @ ''.'' @ base64url_encode signature;
       decode_parts B compact b;
       Some compact
     }"

section \<open>Verification\<close>

definition validate_expected :: "expected_content_assertion \<Rightarrow> unit result" where
  "validate_expected expected =
     (let b = eca_bounds expected; attestor = eca_attestor expected in
      do {
        validate_kid_ra (hk_key_id attestor) b;
        validate_identifier_ra (eca_issuer expected) b;
        validate_identifier_ra (eca_audience expected) b;
        validate_identifier_ra (eca_subject expected) b;
        validate_identifier_ra (eca_profile expected) b;
        validate_magnitude (eca_now expected) b;
        validate_magnitude (hk_valid_from attestor) b;
        case hk_valid_before attestor of
          Bounded valid_before \<Rightarrow>
            do {
              validate_magnitude valid_before b;
              reject_if (valid_before \<le> hk_valid_from attestor);
              Some ()
            }
        | Unbounded \<Rightarrow> Some ()
      })"

definition verify_content_assertion ::
  "backend \<Rightarrow> bytes \<Rightarrow> expected_content_assertion \<Rightarrow> content_assertion_facts result" where
  "verify_content_assertion B compact expected =
     do {
       validate_expected expected;
       d \<leftarrow> decode_parts B compact (eca_bounds expected);
       let claims = das_claims d;
       let attestor = eca_attestor expected;
       reject_if (das_key_id d \<noteq> hk_key_id attestor \<or> ac_iss claims \<noteq> eca_issuer expected \<or>
         ac_aud claims \<noteq> eca_audience expected \<or> ac_sub claims \<noteq> eca_subject expected \<or>
         ac_profile claims \<noteq> eca_profile expected \<or> ac_profile_digest claims \<noteq> eca_profile_digest expected \<or>
         ac_content_digest claims \<noteq> eca_content_digest expected);
       reject_if (ac_issued_at claims < hk_valid_from attestor \<or> ac_not_before claims < hk_valid_from attestor);
       (case hk_valid_before attestor of
          Bounded valid_before \<Rightarrow> reject_if (ac_expires_at claims > valid_before)
        | Unbounded \<Rightarrow> Some ());
       reject_if (eca_now expected < ac_not_before claims \<or> eca_now expected \<ge> ac_expires_at claims);
       let message = signing_input_bytes_ca (das_protected_segment d) (das_payload_segment d);
       ed25519_verify B (hk_public_key attestor) message (das_signature d);
       fingerprint \<leftarrow> public_key_thumbprint_raw B (hk_public_key attestor);
       Some \<lparr>caf_version = 1, caf_attestor_key_id = das_key_id d, caf_attestor_key_fingerprint = fingerprint,
         caf_jti = ac_jti claims, caf_iss = ac_iss claims, caf_aud = ac_aud claims, caf_sub = ac_sub claims,
         caf_profile = ac_profile claims, caf_profile_digest = ac_profile_digest claims,
         caf_content_digest = ac_content_digest claims, caf_generation = ac_generation claims,
         caf_previous = ac_previous claims, caf_issued_at = ac_issued_at claims,
         caf_not_before = ac_not_before claims, caf_expires_at = ac_expires_at claims,
         caf_digest = sha256 B compact, caf_verification = SignatureAndWindow, caf_trust = NotEvaluated\<rparr>
     }"

section \<open>Succession\<close>

fun validate_identifiers :: "bounds \<Rightarrow> bytes list \<Rightarrow> unit result" where
  "validate_identifiers b [] = Some ()"
| "validate_identifiers b (s # ss) = do { validate_identifier_ra s b; validate_identifiers b ss }"

definition validate_facts :: "content_assertion_facts \<Rightarrow> bounds \<Rightarrow> unit result" where
  "validate_facts facts b =
     do {
       reject_if (caf_version facts \<noteq> 1 \<or> caf_verification facts \<noteq> SignatureAndWindow \<or>
         caf_trust facts \<noteq> NotEvaluated);
       validate_kid_ra (caf_attestor_key_id facts) b;
       validate_identifiers b [caf_jti facts, caf_iss facts, caf_aud facts, caf_sub facts, caf_profile facts];
       validate_numbers (caf_generation facts) (caf_issued_at facts) (caf_not_before facts)
         (caf_expires_at facts) (caf_previous facts) b
     }"

text \<open>The sum \<open>generation + 1\<close> cannot wrap: the guard before it bounds the generation by an \<open>i64\<close>.\<close>

definition verify_content_assertion_successor ::
  "content_assertion_facts \<Rightarrow> content_assertion_facts \<Rightarrow> bounds \<Rightarrow> unit result" where
  "verify_content_assertion_successor predecessor successor b =
     do {
       validate_facts predecessor b;
       validate_facts successor b;
       reject_if (caf_iss predecessor \<noteq> caf_iss successor \<or> caf_aud predecessor \<noteq> caf_aud successor \<or>
         caf_sub predecessor \<noteq> caf_sub successor \<or> caf_profile predecessor \<noteq> caf_profile successor \<or>
         caf_profile_digest predecessor \<noteq> caf_profile_digest successor \<or>
         caf_generation predecessor \<ge> u64_as_i64 (integer_magnitude b) \<or>
         caf_generation successor \<noteq> caf_generation predecessor + 1 \<or>
         caf_previous successor \<noteq> caf_digest predecessor \<or>
         caf_issued_at successor < caf_issued_at predecessor \<or> caf_jti successor = caf_jti predecessor);
       Some ()
     }"

end
