(* ===== verification/Attestation_Facts.thy ===== *)
theory Attestation_Facts
  imports Content_Assertion Envelope_Facts
begin

text \<open>
  Facts about the role-attestation profile, and the framing facts it shares with the content assertion:
  the copied helpers are those of version 1, the projecting decoder is the decoder, and what a producer
  of either profile makes always fits the ceilings that its decoder checks.
\<close>

section \<open>The copied helpers\<close>

lemma validate_uri_bytes_ra_eq: "validate_uri_bytes_ra = validate_uri_bytes"
proof
  fix s
  show "validate_uri_bytes_ra s = validate_uri_bytes s"
    by (induction s rule: validate_uri_bytes.induct) (auto simp: is_hex_def is_hex_ra_def split: list.splits)
qed

lemma copies_ra:
  "validate_kid_ra = validate_kid" "validate_scheme_ra = validate_scheme"
  "take_integral_date_ra = take_integral_date" "b64url_to_string_ra = b64url_to_string"
  "resolve_bounds_ra = resolve_bounds" "signing_input_bytes_ra = signing_input_bytes"
  by (auto simp: fun_eq_iff validate_kid_ra_def validate_kid_def is_kid_byte_ra_def [abs_def] is_kid_byte_def [abs_def]
      validate_scheme_ra_def validate_scheme_def take_integral_date_ra_def take_integral_date_def
      b64url_to_string_ra_def b64url_to_string_def resolve_bounds_ra_def resolve_bounds_def
      signing_input_bytes_ra_def signing_input_bytes_def)

lemma copies_ca:
  "decode_segment_ca = decode_segment_ra" "split_compact = split_compact_bounded"
  "signing_input_bytes_ca = signing_input_bytes" "projected_compact_len_ca = projected_compact_len"
  "take_identifier = take_string_or_uri_ra"
  by (auto simp: fun_eq_iff decode_segment_ca_def decode_segment_ra_def projected_decoded_len_def
      projected_base64url_decoded_len_def split_compact_def split_compact_bounded_def
      signing_input_bytes_ca_def signing_input_bytes_def projected_compact_len_ca_def
      projected_compact_len_def SIGNATURE_SEGMENT_BYTES_def ED25519_SIGNATURE_SEGMENT_BYTES_def
      take_identifier_def take_string_or_uri_ra_def)

section \<open>Projected sizes\<close>

lemma projected_len:
  assumes "length (base64url_encode x) < 2 ^ 63"
  shows "projected_base64url_decoded_len (length (base64url_encode x)) = Some (length x)"
proof -
  define q where "q = length x div 3"
  have q: "4 * q < 2 ^ 63" using assms unfolding length_encode q_def by linarith
  have "length x mod 3 = 0 \<or> length x mod 3 = 1 \<or> length x mod 3 = 2" by presburger
  then consider "length x = 3 * q" | "length x = 3 * q + 1" | "length x = 3 * q + 2"
    unfolding q_def by (metis add_0_right mult_div_mod_eq)
  then show ?thesis
  proof cases
    case 1
    then have "length (base64url_encode x) = 4 * q" by (simp add: length_encode)
    then show ?thesis using q 1
      by (simp add: projected_base64url_decoded_len_def checked_mul_usize_def checked_add_usize_def)
  next
    case 2
    have m: "(4 * q + 2) mod 4 = Suc (Suc 0)" "(4 * q + 2) div 4 = q" by presburger+
    from 2 have l: "length (base64url_encode x) = 4 * q + 2" unfolding length_encode by presburger
    show ?thesis unfolding projected_base64url_decoded_len_def l m(1,2) checked_mul_usize_def checked_add_usize_def
      using q 2 by (simp add: mult.commute)
  next
    case 3
    have m: "(4 * q + 3) mod 4 = Suc (Suc (Suc 0))" "(4 * q + 3) div 4 = q" by presburger+
    from 3 have l: "length (base64url_encode x) = 4 * q + 3" unfolding length_encode by presburger
    show ?thesis unfolding projected_base64url_decoded_len_def l m(1,2) checked_mul_usize_def checked_add_usize_def
      using q 3 by (simp add: mult.commute)
  qed
qed

text \<open>Projecting the size before decoding changes no verdict under the profile's bounds.\<close>

lemma segment_ceiling: "tightened b \<Longrightarrow> encoded_segment_bytes b < 2 ^ 63"
  by (auto simp: tightened_def tightening_arms_def maximum_def)

lemma decode_segment_ra_eq:
  assumes "tightened b"
  shows "decode_segment_ra seg b = decode_segment seg b"
proof (cases "base64url_decode seg")
  case None
  then show ?thesis
    by (cases "projected_base64url_decoded_len (length seg)") (simp_all add: decode_segment_ra_def decode_segment_def)
next
  case (Some x)
  then have "seg = base64url_encode x" by (simp add: b64.dec_iff)
  then show ?thesis using Some projected_len [of x] segment_ceiling [OF assms]
    by (simp add: decode_segment_ra_def decode_segment_def)
qed

section \<open>Frames\<close>

lemma produced_ra:
  assumes "build_produced_ra B h p b = Some psi"
  shows "build_produced B h p b = Some psi"
    and "length sg = 64 \<Longrightarrow> compact_fits b (archival_room b) psi sg"
    and "length sg = 64 \<Longrightarrow> length (framed psi sg) < 2 ^ 64"
    and "86 \<le> encoded_segment_bytes b"
proof -
  obtain ht pt n where e: "jcs_encode B b h = Some ht" "jcs_encode B b p = Some pt"
    and l: "length ht \<le> decoded_segment_bytes b" "length pt \<le> decoded_segment_bytes b"
      "length ht \<le> json_bytes b" "length pt \<le> json_bytes b"
      "length (base64url_encode ht) \<le> encoded_segment_bytes b"
      "length (base64url_encode pt) \<le> encoded_segment_bytes b" "86 \<le> encoded_segment_bytes b"
    and n: "projected_compact_len (length (base64url_encode ht)) (length (base64url_encode pt)) = Some n"
      "n \<le> compact_bytes b" "n \<le> anchor_bytes b"
    and psi: "psi = \<lparr>psi_protected_segment = base64url_encode ht, psi_payload_segment = base64url_encode pt,
      psi_message = base64url_encode ht @ ''.'' @ base64url_encode pt\<rparr>"
    using assms
    by (auto simp: build_produced_ra_def validate_produced_json_def validate_compact_size_def bind_Some
        ED25519_SIGNATURE_SEGMENT_BYTES_def Let_def json_decode_def not_less split: if_splits)
  show "build_produced B h p b = Some psi" by (simp add: build_produced_def e psi Let_def)
  show "86 \<le> encoded_segment_bytes b" by (rule l(7))
  have n': "n = length (base64url_encode ht) + length (base64url_encode pt) + 88" "n < 2 ^ 64"
    using n(1) by (auto simp: projected_compact_len_def checked_add_usize_def ED25519_SIGNATURE_SEGMENT_BYTES_def
        bind_Some split: if_splits)
  show "length sg = 64 \<Longrightarrow> compact_fits b (archival_room b) psi sg"
    using l n(2,3) n' by (auto simp: compact_fits_def archival_room_def framed_def psi decoded_length length_encode [of sg])
  show "length sg = 64 \<Longrightarrow> length (framed psi sg) < 2 ^ 64"
    using n' by (simp add: framed_def psi length_encode [of sg])
qed

text \<open>What the decoders of both profiles find in a frame that a producer of the profile made.\<close>

definition frame_read_ra :: "bounds \<Rightarrow> produced_signing_input \<Rightarrow> bytes \<Rightarrow> bytes \<Rightarrow> bytes \<Rightarrow> bool" where
  "frame_read_ra b psi sg ht pt \<longleftrightarrow>
     validate_compact_size (length (framed psi sg)) b = Some () \<and>
     split_compact_bounded (framed psi sg) b =
       Some (psi_protected_segment psi, psi_payload_segment psi, base64url_encode sg) \<and>
     decode_segment_ra (psi_protected_segment psi) b = Some ht \<and>
     decode_segment_ra (psi_payload_segment psi) b = Some pt \<and> decode_segment_ra (base64url_encode sg) b = Some sg"

lemma split_bounded:
  assumes "parse_compact c = Some (p, q, r)"
    and "length p \<le> encoded_segment_bytes b" "length q \<le> encoded_segment_bytes b" "length r \<le> encoded_segment_bytes b"
  shows "split_compact_bounded c b = Some (p, q, r)"
proof -
  have "split_on CHR ''.'' c = [p, q, r]" "p \<noteq> []" "q \<noteq> []" "r \<noteq> []"
    using assms(1) by (auto simp: parse_compact_def bind_Some validate_segment_def split: list.splits if_splits)
  then show ?thesis using assms(2-) by (simp add: split_compact_bounded_def)
qed

lemma frame_ra:
  assumes p: "build_produced_ra B (Object hs) (Object ps) b = Some psi" and sg: "length sg = 64"
    and b: "tightened b" "64 \<le> decoded_segment_bytes b"
    and ty: "portable (Object hs)" "portable (Object ps)" "integers_fit b"
  obtains ht pt hms pms where "frame_read_ra b psi sg ht pt" "stored B b ht hs hms" "stored B b pt ps pms"
proof -
  note q = produced_ra [OF p]
  obtain ht pt hms pms where f: "frame_read b psi sg ht pt" and s: "stored B b ht hs hms" "stored B b pt ps pms"
    by (rule produced_frame [OF q(1) q(2) [OF sg] sg ty])
  have l: "length (base64url_encode sg) = 86" using sg by (simp add: length_encode)
  have fit: "length (framed psi sg) \<le> archival_room b" "length (psi_protected_segment psi) \<le> encoded_segment_bytes b"
      "length (psi_payload_segment psi) \<le> encoded_segment_bytes b"
    using q(2) [OF sg] by (simp_all add: compact_fits_def)
  then have "split_compact_bounded (framed psi sg) b =
      Some (psi_protected_segment psi, psi_payload_segment psi, base64url_encode sg)"
    using f l q(4) by (intro split_bounded) (simp_all add: frame_read_def)
  then have "frame_read_ra b psi sg ht pt"
    using f fit(1) decode_segment_encode [of sg b] l sg q(4) b
    by (simp add: frame_read_def frame_read_ra_def decode_segment_ra_eq validate_compact_size_def archival_room_def)
  then show ?thesis using s by (rule that)
qed

section \<open>Role attestations: producer against decoder\<close>

definition attestation_ok :: "bounds \<Rightarrow> attestation_input \<Rightarrow> bool" where
  "attestation_ok b a \<longleftrightarrow>
     tightened b \<and> 64 \<le> decoded_segment_bytes b \<and> integers_fit b \<and> utf8_valid (ai_attestor_key_id a) \<and>
     utf8_valid (ai_jti a) \<and> utf8_valid (ai_key_id a)"

definition attestation_view :: "attestation_input \<Rightarrow> bytes \<times> attestation_payload" where
  "attestation_view a = (ai_attestor_key_id a,
     \<lparr>atp_jti = ai_jti a, atp_key_id = ai_key_id a, atp_public_key = ai_public_key a, atp_role = ai_role a,
      atp_not_before = ai_nbf a, atp_expires_at = ai_exp a\<rparr>)"

definition attestation_members :: "attestation_input \<Rightarrow> (bytes \<times> json) list" where
  "attestation_members a =
     [(''exp'', Integer (ai_exp a)), (''jti'', String (ai_jti a)), (''key_id'', String (ai_key_id a)),
      (''nbf'', Integer (ai_nbf a)), (''public_key'', String (base64url_encode (ai_public_key a))),
      (''role'', String (role_as_str (ai_role a))), (''v'', Integer 1)]"

lemma attestation_utf8:
  "utf8_valid ''exp''" "utf8_valid ''jti''" "utf8_valid ''key_id''" "utf8_valid ''nbf''" "utf8_valid ''public_key''"
  "utf8_valid ''role''" "utf8_valid ''v''" "utf8_valid TYP_ROLE_ATTESTATION"
  "utf8_valid (role_as_str Issuer)" "utf8_valid (role_as_str Holder)"
  by code_simp+

lemma role_utf8: "utf8_valid (role_as_str r)"
  using attestation_utf8 by (cases r) simp_all

lemma take_role_str: "take_role (Some (String (role_as_str r))) = Some r"
  by (cases r) (simp_all add: take_role_def)

lemma attestation_produced:
  assumes "attestation_signing_input B a b = Some psi"
  shows "validate_kid (ai_attestor_key_id a) b = Some ()" "validate_identifier_ra (ai_jti a) b = Some ()"
    "validate_kid (ai_key_id a) b = Some ()" "ai_nbf a < ai_exp a" "acceptable_public_key B (ai_public_key a)"
    "build_produced_ra B (Object (kid_members ALG_EDDSA (ai_attestor_key_id a) TYP_ROLE_ATTESTATION))
       (Object (attestation_members a)) b = Some psi"
  using assms by (auto simp: attestation_signing_input_def copies_ra b64url_to_string_def bind_Some Let_def
      kid_members_def attestation_members_def split: if_splits)

lemma attestation_decodes:
  assumes p: "attestation_signing_input B a b = Some psi" and ok: "attestation_ok b a" and sg: "length sg = 64"
  shows "\<exists>d. decode_attestation_parts B (framed psi sg) b = Some d \<and> (dat_key_id d, dat_payload d) = attestation_view a \<and>
    dat_protected_seg d = psi_protected_segment psi \<and> dat_payload_seg d = psi_payload_segment psi \<and> dat_signature d = sg"
proof -
  note c = attestation_produced [OF p]
  let ?hs = "kid_members ALG_EDDSA (ai_attestor_key_id a) TYP_ROLE_ATTESTATION" and ?ps = "attestation_members a"
  have ty: "portable (Object ?hs)" "portable (Object ?ps)" "integers_fit b" "tightened b" "64 \<le> decoded_segment_bytes b"
    using ok by (simp_all add: attestation_ok_def attestation_utf8 role_utf8 header_utf8 kid_members_def attestation_members_def)
  obtain ht pt hms pms where f: "frame_read_ra b psi sg ht pt" and h: "stored B b ht ?hs hms" and q: "stored B b pt ?ps pms"
    by (rule frame_ra [OF c(6) sg ty(4,5,1,2,3)])
  have head: "validate_attestation_header B (Object hms) ht b = Some (ai_attestor_key_id a)"
    using c(1) stored_text [OF h]
    by (rule_tac kid_slots [OF h]) (simp add: validate_attestation_header_def slots copies_ra)
  have k: "length (ai_public_key a) = 32" using c(5) by (simp add: acceptable_public_key_def split: if_splits)
  have e: "86 \<le> encoded_segment_bytes b" by (rule produced_ra(4) [OF c(6)])
  have "collect attestation_claims pms Map.empty = Some (\<lambda>n. map_option canon (map_of ?ps n))"
    by (rule stored_collect [OF q]) (simp add: attestation_claims_def attestation_members_def)
  then have "validate_attestation_payload B (Object pms) pt b = Some (snd (attestation_view a))"
    using c(2-5) stored_text [OF q] k e
    by (simp add: validate_attestation_payload_def slots attestation_view_def attestation_members_def length_encode
        take_string_or_uri_ra_def take_kid_def take_public_key_def decode_encode take_role_str copies_ra)
  with head f show ?thesis
    using stored_text [OF h] stored_text [OF q] sg
    by (simp add: decode_attestation_parts_def attestation_view_def frame_read_ra_def)
qed

interpretation attestation: artifact "\<lambda>b a. attestation_signing_input B a b"
    "\<lambda>b c. map_option (\<lambda>d. (dat_key_id d, dat_payload d)) (decode_attestation_parts B c b)"
    archival_room attestation_ok attestation_view
  by unfold_locales (use attestation_decodes in fastforce)

lemma attestation_assembled:
  assumes p: "attestation_signing_input B a (resolve_bounds nested) = Some psi" and ok: "attestation_ok (resolve_bounds nested) a"
    and sg: "length sg = 64" "signature_gate sg"
  shows "assemble_attestation_compact B \<lparr>si_kind = RoleAttestationKind, protected_segment = psi_protected_segment psi,
      payload_segment = psi_payload_segment psi\<rparr> sg nested = Some (framed psi sg)"
proof -
  let ?b = "resolve_bounds nested"
  note c = attestation_produced(6) [OF p]
  obtain n where n: "projected_compact_len (length (psi_protected_segment psi)) (length (psi_payload_segment psi)) = Some n"
      "validate_compact_size n ?b = Some ()"
    and m: "psi_message psi = psi_protected_segment psi @ ''.'' @ psi_payload_segment psi"
    using c by (auto simp: build_produced_ra_def bind_Some Let_def split: if_splits)
  have fit: "length (psi_protected_segment psi) \<le> encoded_segment_bytes ?b"
      "length (psi_payload_segment psi) \<le> encoded_segment_bytes ?b"
    using produced_ra(2) [OF c sg(1)] by (simp_all add: compact_fits_def)
  obtain d where "decode_attestation_parts B (framed psi sg) ?b = Some d"
    using attestation_decodes [OF p ok sg(1)] by blast
  then show ?thesis
    using fit n sg(2) produced_ra(4) [OF c]
    by (simp add: assemble_attestation_compact_def copies_ra ED25519_SIGNATURE_SEGMENT_BYTES_def framed_def m)
qed

section \<open>Accepted role attestations\<close>

text \<open>Times as sets: the window of a trusted key and the window of an attestation.\<close>

definition key_lifetime :: "historical_public_key \<Rightarrow> int set" where
  "key_lifetime k = {t. hk_valid_from k \<le> t \<and> (\<forall>v. hk_valid_before k = Bounded v \<longrightarrow> t < v)}"

definition attestor_ok :: "bounds \<Rightarrow> historical_public_key \<Rightarrow> bool" where
  "attestor_ok b k \<longleftrightarrow> unsigned_abs (hk_valid_from k) \<le> integer_magnitude b \<and>
     (\<forall>v. hk_valid_before k = Bounded v \<longrightarrow> unsigned_abs v \<le> integer_magnitude b) \<and> key_lifetime k \<noteq> {}"

definition attests :: "backend \<Rightarrow> expected_attestation \<Rightarrow> decoded_attestation \<Rightarrow> bool" where
  "attests B e d \<longleftrightarrow>
     (let k = ex_attestor e; p = dat_payload d; window = {atp_not_before p ..< atp_expires_at p} in
      dat_key_id d = hk_key_id k \<and>
      ed25519_verify B (hk_public_key k) (dat_protected_seg d @ ''.'' @ dat_payload_seg d) (dat_signature d) = Some () \<and>
      atp_key_id p = ex_subject_key_id e \<and> atp_public_key p = ex_subject_public_key e \<and>
      hk_key_id k \<noteq> ex_subject_key_id e \<and>
      thumbprint_digest_unchecked B (hk_public_key k) \<noteq> thumbprint_digest_unchecked B (ex_subject_public_key e) \<and>
      window \<subseteq> key_lifetime k \<and> ex_now e \<in> window)"

definition attestation_facts_of :: "backend \<Rightarrow> expected_attestation \<Rightarrow> decoded_attestation \<Rightarrow> attestation_facts" where
  "attestation_facts_of B e d =
     \<lparr>atf_attestor_key_id = dat_key_id d,
      atf_attestor_key_fingerprint = thumbprint_digest_unchecked B (hk_public_key (ex_attestor e)),
      atf_subject_key_id = ex_subject_key_id e,
      atf_subject_key_fingerprint = thumbprint_digest_unchecked B (ex_subject_public_key e),
      atf_role = atp_role (dat_payload d), atf_jti = atp_jti (dat_payload d),
      atf_nbf = atp_not_before (dat_payload d), atf_exp = atp_expires_at (dat_payload d),
      atf_verification = SignatureAndWindow, atf_trust = NotEvaluated\<rparr>"

lemma attestor_window: "check_attestor_window b k = Some () \<longleftrightarrow> attestor_ok b k"
proof (cases "hk_valid_before k")
  case (Bounded v)
  have "key_lifetime k \<noteq> {} \<longleftrightarrow> hk_valid_from k < v"
    using Bounded by (auto simp: key_lifetime_def intro: exI [of _ "hk_valid_from k"])
  then show ?thesis using Bounded by (auto simp: check_attestor_window_def attestor_ok_def)
next
  case Unbounded
  then have "hk_valid_from k \<in> key_lifetime k" by (simp add: key_lifetime_def)
  then show ?thesis using Unbounded by (auto simp: check_attestor_window_def attestor_ok_def)
qed

lemma window_contained:
  assumes "m < (n :: int)"
  shows "{m ..< n} \<subseteq> key_lifetime k \<longleftrightarrow>
    hk_valid_from k \<le> m \<and> (case hk_valid_before k of Bounded v \<Rightarrow> n \<le> v | Unbounded \<Rightarrow> True)"
proof
  assume s: "{m ..< n} \<subseteq> key_lifetime k"
  have "m \<in> key_lifetime k" "n - 1 \<in> key_lifetime k" using s assms by auto
  then show "hk_valid_from k \<le> m \<and> (case hk_valid_before k of Bounded v \<Rightarrow> n \<le> v | Unbounded \<Rightarrow> True)"
    by (auto simp: key_lifetime_def split: validity_upper_bound.splits)
qed (auto simp: key_lifetime_def)

lemma decoded_attestation:
  assumes "decode_attestation_parts B c b = Some d"
  shows "atp_not_before (dat_payload d) < atp_expires_at (dat_payload d)"
    "acceptable_public_key B (atp_public_key (dat_payload d))" "length (dat_signature d) = 64"
  using assms by (auto simp: decode_attestation_parts_def validate_attestation_payload_def take_public_key_def
      bind_Some split: if_splits)

lemma bound_step:
  "(do { (case hk_valid_before k of Bounded v \<Rightarrow> reject_if (n > v) | Unbounded \<Rightarrow> Some ()); x }) = Some y \<longleftrightarrow>
     (case hk_valid_before k of Bounded v \<Rightarrow> n \<le> v | Unbounded \<Rightarrow> True) \<and> x = Some y"
  by (auto split: validity_upper_bound.splits)

lemma verify_attestation_iff:
  assumes k: "length (hk_public_key (ex_attestor e)) = 32"
  shows "verify_attestation B c e = Some f \<longleftrightarrow> attestor_ok (ex_bounds e) (ex_attestor e) \<and>
    (\<exists>d. decode_attestation_parts B c (ex_bounds e) = Some d \<and> attests B e d \<and> f = attestation_facts_of B e d)"
proof (cases "check_attestor_window (ex_bounds e) (ex_attestor e) = Some () \<and>
    (\<exists>d. decode_attestation_parts B c (ex_bounds e) = Some d)")
  case True
  then obtain d where w: "check_attestor_window (ex_bounds e) (ex_attestor e) = Some ()"
    and d: "decode_attestation_parts B c (ex_bounds e) = Some d" by blast
  note p = decoded_attestation [OF d]
  have s: "thumbprint_raw B (atp_public_key (dat_payload d)) =
      Some (thumbprint_digest_unchecked B (atp_public_key (dat_payload d)))"
    using p(2) by (simp add: thumbprint_raw_def)
  show ?thesis
  proof (cases "ed25519_verify B (hk_public_key (ex_attestor e)) (dat_protected_seg d @ ''.'' @ dat_payload_seg d)
      (dat_signature d) = Some ()")
    case v: True
    note a = verified_key [OF v k] and h = attests_def [of B e d, unfolded Let_def window_contained [OF p(1)]]
    show ?thesis
      unfolding verify_attestation_def Let_def w d copies_ra signing_input_bytes_def v s a public_key_thumbprint_raw_def
        Option.bind.bind_lunit reject_step bound_step
      using w v by (auto simp: attestor_window d h attestation_facts_of_def not_less)
  next
    case v: False
    then have "verify_attestation B c e \<noteq> Some f"
      unfolding verify_attestation_def Let_def w d copies_ra signing_input_bytes_def Option.bind.bind_lunit reject_step
      by (auto simp: bind_Some)
    moreover have "\<not> attests B e d" using v by (simp add: attests_def Let_def)
    ultimately show ?thesis by (simp add: d)
  qed
next
  case False
  then have "verify_attestation B c e \<noteq> Some f"
    by (auto simp: verify_attestation_def Let_def bind_Some)
  then show ?thesis using False by (auto simp: attestor_window)
qed

lemma attestation_accepted:
  assumes p: "attestation_signing_input B a (ex_bounds e) = Some psi" and ok: "attestation_ok (ex_bounds e) a"
    and sg: "length sg = 64" "ed25519_verify B (hk_public_key (ex_attestor e)) (psi_message psi) sg = Some ()"
    and k: "length (hk_public_key (ex_attestor e)) = 32" "hk_key_id (ex_attestor e) = ai_attestor_key_id a"
      "attestor_ok (ex_bounds e) (ex_attestor e)"
    and sub: "ex_subject_key_id e = ai_key_id a" "ex_subject_public_key e = ai_public_key a"
      "ai_attestor_key_id a \<noteq> ai_key_id a"
      "thumbprint_digest_unchecked B (hk_public_key (ex_attestor e)) \<noteq> thumbprint_digest_unchecked B (ai_public_key a)"
    and t: "{ai_nbf a ..< ai_exp a} \<subseteq> key_lifetime (ex_attestor e)" "ai_nbf a \<le> ex_now e" "ex_now e < ai_exp a"
  shows "\<exists>f. verify_attestation B (framed psi sg) e = Some f \<and> atf_role f = ai_role a \<and> atf_jti f = ai_jti a \<and>
    atf_subject_key_id f = ai_key_id a"
proof -
  obtain d where d: "decode_attestation_parts B (framed psi sg) (ex_bounds e) = Some d" "dat_key_id d = ai_attestor_key_id a"
      "dat_payload d = snd (attestation_view a)" "dat_protected_seg d = psi_protected_segment psi"
      "dat_payload_seg d = psi_payload_segment psi" "dat_signature d = sg"
    using attestation_decodes [OF p ok sg(1)] by (auto simp: attestation_view_def)
  have m: "psi_message psi = psi_protected_segment psi @ ''.'' @ psi_payload_segment psi"
    by (rule psi_parts [OF produced_ra(1) [OF attestation_produced(6) [OF p]]])
  have "attests B e d" unfolding attests_def Let_def d(2-6) m [symmetric] using sg k(2) sub t by (simp add: attestation_view_def)
  then have "verify_attestation B (framed psi sg) e = Some (attestation_facts_of B e d)"
    using verify_attestation_iff [OF k(1), of B "framed psi sg"] k(3) d(1) by auto
  then show ?thesis using sub by (simp add: attestation_facts_of_def d(3) attestation_view_def)
qed

end
