(* ===== verification/Content_Facts.thy ===== *)
theory Content_Facts
  imports Attestation_Facts
begin

text \<open>
  Facts about the content-assertion profile: the round trip of the producer, what an accepted assertion
  means, and succession. A lineage is a sequence of verified assertions each of which is a checked successor
  of the one before; the last compact of a lineage determines all of it.
\<close>

section \<open>Producer against decoder\<close>

lemma stored_length:
  assumes "stored B b t ms ms'" "portable (Object ms)" "integers_fit b"
  shows "length ms' = length ms"
proof -
  have "length t \<le> json_bytes b" using assms(1) by (auto simp: stored_def json_decode_def split: if_splits)
  then have "json_decode b t = Some (canon (Object ms))"
    using assms by (intro decode_encode_canon [where B = B]) (simp_all add: stored_def)
  then show ?thesis using assms(1) by (auto simp: stored_def)
qed

lemma produced_ca: "build_produced_ca B h p b = Some psi \<Longrightarrow> build_produced_ra B h p b = Some psi"
  by (auto simp: build_produced_ca_def build_produced_ra_def validate_produced_json_def validate_compact_size_def
      validate_compact_size_ca_def copies_ca signing_input_bytes_def SIGNATURE_SEGMENT_BYTES_def
      ED25519_SIGNATURE_SEGMENT_BYTES_def bind_Some Let_def split: if_splits)

definition assertion_ok :: "bounds \<Rightarrow> content_assertion_input \<Rightarrow> bool" where
  "assertion_ok b a \<longleftrightarrow>
     tightened b \<and> 64 \<le> decoded_segment_bytes b \<and> integers_fit b \<and> is_i64 (cai_generation a) \<and>
     length (cai_profile_digest a) = 32 \<and> length (cai_content_digest a) = 32 \<and> length (cai_previous a) = 32 \<and>
     list_all utf8_valid [cai_attestor_key_id a, cai_jti a, cai_iss a, cai_aud a, cai_sub a, cai_profile a]"

definition assertion_view :: "content_assertion_input \<Rightarrow> bytes \<times> assertion_claims" where
  "assertion_view a = (cai_attestor_key_id a,
     \<lparr>ac_jti = cai_jti a, ac_iss = cai_iss a, ac_aud = cai_aud a, ac_sub = cai_sub a, ac_profile = cai_profile a,
      ac_profile_digest = cai_profile_digest a, ac_content_digest = cai_content_digest a,
      ac_generation = cai_generation a, ac_previous = cai_previous a, ac_issued_at = cai_issued_at a,
      ac_not_before = cai_not_before a, ac_expires_at = cai_expires_at a\<rparr>)"

definition assertion_payload :: "content_assertion_input \<Rightarrow> (bytes \<times> json) list" where
  "assertion_payload a =
     [(''aud'', String (cai_aud a)), (''content_digest'', String (base64url_encode (cai_content_digest a))),
      (''exp'', Integer (cai_expires_at a)), (''gen'', Integer (cai_generation a)),
      (''iat'', Integer (cai_issued_at a)), (''iss'', String (cai_iss a)), (''jti'', String (cai_jti a)),
      (''nbf'', Integer (cai_not_before a)), (''prev'', String (base64url_encode (cai_previous a))),
      (''profile'', String (cai_profile a)),
      (''profile_digest'', String (base64url_encode (cai_profile_digest a))),
      (''sub'', String (cai_sub a)), (''v'', Integer 1)]"

lemma assertion_utf8:
  "utf8_valid ''aud''" "utf8_valid ''content_digest''" "utf8_valid ''exp''" "utf8_valid ''gen''" "utf8_valid ''iat''"
  "utf8_valid ''iss''" "utf8_valid ''jti''" "utf8_valid ''nbf''" "utf8_valid ''prev''" "utf8_valid ''profile''"
  "utf8_valid ''profile_digest''" "utf8_valid ''sub''" "utf8_valid ''v''" "utf8_valid TYP_CONTENT_ASSERTION"
  by code_simp+

lemma assertion_produced:
  assumes "assertion_signing_input B a b = Some psi"
  shows "validate_kid (cai_attestor_key_id a) b = Some ()"
    "\<forall>s \<in> {cai_jti a, cai_iss a, cai_aud a, cai_sub a, cai_profile a}. validate_identifier_ra s b = Some ()"
    "validate_numbers (cai_generation a) (cai_issued_at a) (cai_not_before a) (cai_expires_at a) (cai_previous a) b = Some ()"
    "build_produced_ra B (Object (kid_members ALG_EDDSA (cai_attestor_key_id a) TYP_CONTENT_ASSERTION))
       (Object (assertion_payload a)) b = Some psi"
  using assms by (auto simp: assertion_signing_input_def copies_ra b64_string_def bind_Some Let_def
      kid_members_def assertion_payload_def ALG_EDDSA_def intro: produced_ca)

lemma numbers_magnitude:
  assumes "validate_numbers g i n x p b = Some ()" "is_i64 g"
  shows "validate_magnitude i b = Some ()" "validate_magnitude n b = Some ()" "validate_magnitude x b = Some ()"
    "validate_magnitude g b = Some ()" "1 \<le> g" "i \<le> n" "n < x" "g = 1 \<longleftrightarrow> p = zero_digest"
  using assms by (auto simp: validate_numbers_def validate_magnitude_def bind_Some unsigned_abs_def is_i64_def
      i64_min_def i64_max_def not_less split: if_splits)

lemma assertion_decodes:
  assumes p: "assertion_signing_input B a b = Some psi" and ok: "assertion_ok b a" and sg: "length sg = 64"
  shows "\<exists>d. decode_parts B (framed psi sg) b = Some d \<and> (das_key_id d, das_claims d) = assertion_view a \<and>
    das_protected_segment d = psi_protected_segment psi \<and> das_payload_segment d = psi_payload_segment psi \<and>
    das_signature d = sg"
proof -
  note c = assertion_produced [OF p]
  let ?hs = "kid_members ALG_EDDSA (cai_attestor_key_id a) TYP_CONTENT_ASSERTION" and ?ps = "assertion_payload a"
  have ty: "portable (Object ?hs)" "portable (Object ?ps)" "integers_fit b" "tightened b" "64 \<le> decoded_segment_bytes b"
      "is_i64 (cai_generation a)"
    using ok by (simp_all add: assertion_ok_def assertion_utf8 header_utf8 kid_members_def assertion_payload_def)
  obtain ht pt hms pms where f: "frame_read_ra b psi sg ht pt" and h: "stored B b ht ?hs hms" and q: "stored B b pt ?ps pms"
    by (rule frame_ra [OF c(4) sg ty(4,5,1,2,3)])
  have l: "length hms = 3" "length pms = 13"
    using stored_length [OF h ty(1,3)] stored_length [OF q ty(2,3)] by (simp_all add: kid_members_def assertion_payload_def)
  have "collect [''alg'', ''kid'', ''typ''] hms Map.empty = Some (\<lambda>n. map_option canon (map_of ?hs n))"
    by (rule stored_collect [OF h]) (simp add: kid_members_def)
  then have head: "validate_header B (Object hms) ht b = Some (cai_attestor_key_id a)"
    using c(1) stored_text [OF h] l(1) by (simp add: validate_header_def slots copies_ra kid_members_def ALG_EDDSA_def)
  note n = numbers_magnitude [OF c(3) ty(6)]
  have "collect assertion_members pms Map.empty = Some (\<lambda>n. map_option canon (map_of ?ps n))"
    by (rule stored_collect [OF q]) (simp add: assertion_members_def assertion_payload_def)
  then have "validate_payload B (Object pms) pt b = Some (snd (assertion_view a))"
    using c(2,3) n(1-4) stored_text [OF q] l(2) ok
    by (simp add: validate_payload_def slots assertion_view_def assertion_payload_def assertion_ok_def
        take_identifier_def take_digest_def take_integer_def decode_encode)
  with head f show ?thesis
    using stored_text [OF h] stored_text [OF q] sg
    by (auto simp: decode_parts_def assertion_view_def frame_read_ra_def copies_ca validate_compact_size_ca_def
        validate_compact_size_def framed_def)
qed

interpretation assertion: artifact "\<lambda>b a. assertion_signing_input B a b"
    "\<lambda>b c. map_option (\<lambda>d. (das_key_id d, das_claims d)) (decode_parts B c b)"
    archival_room assertion_ok assertion_view
  by unfold_locales (use assertion_decodes in fastforce)

section \<open>Accepted assertions\<close>

definition asserts :: "backend \<Rightarrow> expected_content_assertion \<Rightarrow> decoded_assertion \<Rightarrow> bool" where
  "asserts B e d \<longleftrightarrow>
     (let k = eca_attestor e; c = das_claims d; window = {ac_not_before c ..< ac_expires_at c} in
      das_key_id d = hk_key_id k \<and> ac_iss c = eca_issuer e \<and> ac_aud c = eca_audience e \<and> ac_sub c = eca_subject e \<and>
      ac_profile c = eca_profile e \<and> ac_profile_digest c = eca_profile_digest e \<and>
      ac_content_digest c = eca_content_digest e \<and>
      ed25519_verify B (hk_public_key k) (das_protected_segment d @ ''.'' @ das_payload_segment d) (das_signature d) = Some () \<and>
      insert (ac_issued_at c) window \<subseteq> key_lifetime k \<and> eca_now e \<in> window)"

definition assertion_facts_of ::
  "backend \<Rightarrow> bytes \<Rightarrow> expected_content_assertion \<Rightarrow> decoded_assertion \<Rightarrow> content_assertion_facts" where
  "assertion_facts_of B compact e d =
     (let c = das_claims d in
      \<lparr>caf_version = 1, caf_attestor_key_id = das_key_id d,
       caf_attestor_key_fingerprint = thumbprint_digest_unchecked B (hk_public_key (eca_attestor e)),
       caf_jti = ac_jti c, caf_iss = ac_iss c, caf_aud = ac_aud c, caf_sub = ac_sub c, caf_profile = ac_profile c,
       caf_profile_digest = ac_profile_digest c, caf_content_digest = ac_content_digest c,
       caf_generation = ac_generation c, caf_previous = ac_previous c, caf_issued_at = ac_issued_at c,
       caf_not_before = ac_not_before c, caf_expires_at = ac_expires_at c, caf_digest = sha256 B compact,
       caf_verification = SignatureAndWindow, caf_trust = NotEvaluated\<rparr>)"

lemma decoded_numbers:
  assumes "decode_parts B c b = Some d" "tightened b"
  shows "ac_issued_at (das_claims d) \<le> ac_not_before (das_claims d)"
    "ac_not_before (das_claims d) < ac_expires_at (das_claims d)" "1 \<le> ac_generation (das_claims d)"
    "ac_generation (das_claims d) = 1 \<longleftrightarrow> ac_previous (das_claims d) = zero_digest"
proof -
  let ?c = "das_claims d"
  have v: "validate_numbers (ac_generation ?c) (ac_issued_at ?c) (ac_not_before ?c) (ac_expires_at ?c) (ac_previous ?c) b =
      Some ()" "validate_magnitude (ac_generation ?c) b = Some ()"
    using assms(1) by (auto simp: decode_parts_def validate_payload_def take_integer_def bind_Some split: if_splits)
  have "is_i64 (ac_generation ?c)" using v(2) tightened_limits(4) [OF assms(2)]
    by (auto simp: validate_magnitude_def unsigned_abs_def is_i64_def i64_min_def i64_max_def split: if_splits)
  from numbers_magnitude [OF v(1) this] show "ac_issued_at ?c \<le> ac_not_before ?c"
    "ac_not_before ?c < ac_expires_at ?c" "1 \<le> ac_generation ?c" "ac_generation ?c = 1 \<longleftrightarrow> ac_previous ?c = zero_digest"
    by simp_all
qed

lemma verify_content_assertion_iff:
  assumes k: "length (hk_public_key (eca_attestor e)) = 32" and b: "tightened (eca_bounds e)"
  shows "verify_content_assertion B c e = Some f \<longleftrightarrow> validate_expected e = Some () \<and>
    (\<exists>d. decode_parts B c (eca_bounds e) = Some d \<and> asserts B e d \<and> f = assertion_facts_of B c e d)"
proof (cases "validate_expected e = Some () \<and> (\<exists>d. decode_parts B c (eca_bounds e) = Some d)")
  case True
  then obtain d where w: "validate_expected e = Some ()" and d: "decode_parts B c (eca_bounds e) = Some d" by blast
  note p = decoded_numbers [OF d b]
  let ?k = "eca_attestor e" and ?c = "das_claims d"
  have h: "insert (ac_issued_at ?c) {ac_not_before ?c ..< ac_expires_at ?c} \<subseteq> key_lifetime ?k \<longleftrightarrow>
      hk_valid_from ?k \<le> ac_issued_at ?c \<and> hk_valid_from ?k \<le> ac_not_before ?c \<and>
      (case hk_valid_before ?k of Bounded v \<Rightarrow> ac_expires_at ?c \<le> v | Unbounded \<Rightarrow> True)"
    unfolding insert_subset window_contained [OF p(2)]
    using p(1,2) by (auto simp: key_lifetime_def split: validity_upper_bound.splits)
  show ?thesis
  proof (cases "ed25519_verify B (hk_public_key ?k) (das_protected_segment d @ ''.'' @ das_payload_segment d)
      (das_signature d) = Some ()")
    case v: True
    note a = verified_key [OF v k] and h' = asserts_def [of B e d, unfolded Let_def h]
    show ?thesis
      unfolding verify_content_assertion_def Let_def w d copies_ca signing_input_bytes_def v a public_key_thumbprint_raw_def
        Option.bind.bind_lunit reject_step bound_step
      using v by (auto simp: d h' assertion_facts_of_def Let_def not_less)
  next
    case v: False
    then have "verify_content_assertion B c e \<noteq> Some f"
      unfolding verify_content_assertion_def Let_def w d copies_ca signing_input_bytes_def Option.bind.bind_lunit reject_step
      by (auto simp: bind_Some)
    moreover have "\<not> asserts B e d" using v by (simp add: asserts_def Let_def)
    ultimately show ?thesis by (simp add: d)
  qed
next
  case False
  then have "verify_content_assertion B c e \<noteq> Some f" by (auto simp: verify_content_assertion_def Let_def bind_Some)
  then show ?thesis using False by auto
qed

text \<open>The facts of an accepted compact, read off what the producer was given.\<close>

definition asserted_facts ::
  "backend \<Rightarrow> expected_content_assertion \<Rightarrow> content_assertion_input \<Rightarrow> bytes \<Rightarrow> content_assertion_facts" where
  "asserted_facts B e a compact =
     \<lparr>caf_version = 1, caf_attestor_key_id = cai_attestor_key_id a,
      caf_attestor_key_fingerprint = thumbprint_digest_unchecked B (hk_public_key (eca_attestor e)),
      caf_jti = cai_jti a, caf_iss = cai_iss a, caf_aud = cai_aud a, caf_sub = cai_sub a, caf_profile = cai_profile a,
      caf_profile_digest = cai_profile_digest a, caf_content_digest = cai_content_digest a,
      caf_generation = cai_generation a, caf_previous = cai_previous a, caf_issued_at = cai_issued_at a,
      caf_not_before = cai_not_before a, caf_expires_at = cai_expires_at a, caf_digest = sha256 B compact,
      caf_verification = SignatureAndWindow, caf_trust = NotEvaluated\<rparr>"

text \<open>An honest attestor and a verifier that expects what it asserts.\<close>

definition honest_assertion ::
  "backend \<Rightarrow> expected_content_assertion \<Rightarrow> content_assertion_input \<Rightarrow> produced_signing_input \<Rightarrow> bytes \<Rightarrow> bool" where
  "honest_assertion B e a psi sg \<longleftrightarrow>
     assertion_signing_input B a (eca_bounds e) = Some psi \<and> assertion_ok (eca_bounds e) a \<and> length sg = 64 \<and>
     ed25519_verify B (hk_public_key (eca_attestor e)) (psi_message psi) sg = Some () \<and>
     length (hk_public_key (eca_attestor e)) = 32 \<and> hk_key_id (eca_attestor e) = cai_attestor_key_id a \<and>
     validate_expected e = Some () \<and> eca_issuer e = cai_iss a \<and> eca_audience e = cai_aud a \<and>
     eca_subject e = cai_sub a \<and> eca_profile e = cai_profile a \<and> eca_profile_digest e = cai_profile_digest a \<and>
     eca_content_digest e = cai_content_digest a \<and>
     insert (cai_issued_at a) {cai_not_before a ..< cai_expires_at a} \<subseteq> key_lifetime (eca_attestor e) \<and>
     eca_now e \<in> {cai_not_before a ..< cai_expires_at a}"

lemma assertion_accepted:
  assumes h: "honest_assertion B e a psi sg"
  shows "verify_content_assertion B (framed psi sg) e = Some (asserted_facts B e a (framed psi sg))"
proof -
  have p: "assertion_signing_input B a (eca_bounds e) = Some psi" and ok: "assertion_ok (eca_bounds e) a"
    and sg: "length sg = 64" and k: "length (hk_public_key (eca_attestor e)) = 32"
    using h by (simp_all add: honest_assertion_def)
  obtain d where d: "decode_parts B (framed psi sg) (eca_bounds e) = Some d" "das_key_id d = cai_attestor_key_id a"
      "das_claims d = snd (assertion_view a)" "das_protected_segment d = psi_protected_segment psi"
      "das_payload_segment d = psi_payload_segment psi" "das_signature d = sg"
    using assertion_decodes [OF p ok sg] by (auto simp: assertion_view_def)
  have m: "psi_message psi = psi_protected_segment psi @ ''.'' @ psi_payload_segment psi"
    by (rule psi_parts [OF produced_ra(1) [OF assertion_produced(4) [OF p]]])
  have "asserts B e d" unfolding asserts_def Let_def d(2-6) m [symmetric] using h
    by (simp add: assertion_view_def honest_assertion_def)
  then have "verify_content_assertion B (framed psi sg) e = Some (assertion_facts_of B (framed psi sg) e d)"
    using verify_content_assertion_iff [OF k, of B "framed psi sg"] ok h d(1)
    by (auto simp: assertion_ok_def honest_assertion_def)
  then show ?thesis by (simp add: assertion_facts_of_def asserted_facts_def Let_def d(2,3) assertion_view_def)
qed

section \<open>Lineages\<close>

text \<open>
  A state machine over verified assertions, newest first: a lineage starts with an assertion of generation 1
  and grows by an assertion that the checker accepts as the successor of the newest one.
\<close>

definition verified_under :: "backend \<Rightarrow> bounds \<Rightarrow> bytes \<Rightarrow> content_assertion_facts \<Rightarrow> bool" where
  "verified_under B b c f \<longleftrightarrow>
     (\<exists>e. eca_bounds e = b \<and> length (hk_public_key (eca_attestor e)) = 32 \<and> verify_content_assertion B c e = Some f)"

inductive lineage :: "backend \<Rightarrow> bounds \<Rightarrow> (bytes \<times> content_assertion_facts) list \<Rightarrow> bool" for B b where
  origin: "verified_under B b c f \<Longrightarrow> caf_generation f = 1 \<Longrightarrow> lineage B b [(c, f)]"
| successor: "lineage B b ((c, f) # xs) \<Longrightarrow> verified_under B b c' f' \<Longrightarrow>
    verify_content_assertion_successor f f' b = Some () \<Longrightarrow> lineage B b ((c', f') # (c, f) # xs)"

inductive_cases lineage_cons: "lineage B b (x # y # xs)"
inductive_cases lineage_single: "lineage B b [x]"
inductive_simps lineage_Nil [simp]: "lineage B b []"

lemma successor_iff:
  "verify_content_assertion_successor f g b = Some () \<longleftrightarrow>
     validate_facts f b = Some () \<and> validate_facts g b = Some () \<and> caf_iss f = caf_iss g \<and> caf_aud f = caf_aud g \<and>
     caf_sub f = caf_sub g \<and> caf_profile f = caf_profile g \<and> caf_profile_digest f = caf_profile_digest g \<and>
     caf_generation f < u64_as_i64 (integer_magnitude b) \<and> caf_generation g = caf_generation f + 1 \<and>
     caf_previous g = caf_digest f \<and> caf_issued_at f \<le> caf_issued_at g \<and> caf_jti g \<noteq> caf_jti f"
  by (auto simp: verify_content_assertion_successor_def bind_Some)

lemma verified_digest: "verified_under B b c f \<Longrightarrow> caf_digest f = sha256 B c"
  by (auto simp: verified_under_def verify_content_assertion_def bind_Some Let_def split: if_splits)

text \<open>The bytes determine the claims, whatever key and context they were verified with.\<close>

lemma verified_claims:
  assumes "verified_under B b c f" "verified_under B b c g" "tightened b"
  shows "caf_generation f = caf_generation g" "caf_previous f = caf_previous g" "caf_jti f = caf_jti g"
  using assms by (auto simp: verified_under_def verify_content_assertion_iff assertion_facts_of_def Let_def)

lemma lineage_head: "lineage B b ((c, f) # xs) \<Longrightarrow> verified_under B b c f"
  by (auto elim: lineage.cases)

lemma lineage_generation: "lineage B b ((c, f) # xs) \<Longrightarrow> caf_generation f = int (length xs) + 1"
proof (induction xs arbitrary: c f)
  case Nil
  then show ?case by (auto elim: lineage_single)
next
  case (Cons y ys)
  from Cons.prems Cons.IH [of "fst y" "snd y"] show ?case
    by (auto elim!: lineage_cons simp: successor_iff)
qed

lemma lineage_determines:
  assumes "lineage B b ((c, f) # xs)" "lineage B b ((c, g) # ys)" "tightened b"
    and "\<forall>x \<in> set xs. \<forall>y \<in> set ys. collision_free B (fst x) (fst y)"
  shows "map fst xs = map fst ys"
  using assms
proof (induction xs arbitrary: c f g ys)
  case Nil
  have "caf_generation f = caf_generation g"
    using verified_claims(1) lineage_head Nil.prems(1-3) by blast
  then show ?case using lineage_generation [OF Nil.prems(1)] lineage_generation [OF Nil.prems(2)] by simp
next
  case (Cons x xs)
  obtain c1 f1 where x: "x = (c1, f1)" by (cases x)
  note same = verified_claims [OF lineage_head [OF Cons.prems(1)] lineage_head [OF Cons.prems(2)] Cons.prems(3)]
  have "length ys = Suc (length xs)"
    using same(1) lineage_generation [OF Cons.prems(1)] lineage_generation [OF Cons.prems(2)] by simp
  then obtain c2 f2 zs where ys: "ys = (c2, f2) # zs" by (cases ys) auto
  have l: "lineage B b ((c1, f1) # xs)" "lineage B b ((c2, f2) # zs)" "caf_previous f = caf_digest f1"
      "caf_previous g = caf_digest f2"
    using Cons.prems(1,2) by (auto simp: x ys successor_iff elim!: lineage_cons)
  then have "sha256 B c1 = sha256 B c2"
    using same(2) verified_digest [OF lineage_head] by metis
  then have "c1 = c2" using Cons.prems(4) by (auto simp: x ys collision_free_def)
  with Cons.IH [of c1 f1 f2 zs] l(1,2) Cons.prems(3,4) show ?case by (auto simp: x ys)
qed

text \<open>What every lineage keeps: one identity, ascending issue times, generations that count.\<close>

definition same_identity :: "content_assertion_facts \<Rightarrow> content_assertion_facts \<Rightarrow> bool" where
  "same_identity f g \<longleftrightarrow> caf_iss f = caf_iss g \<and> caf_aud f = caf_aud g \<and> caf_sub f = caf_sub g \<and>
     caf_profile f = caf_profile g \<and> caf_profile_digest f = caf_profile_digest g"

lemma lineage_keeps:
  assumes "lineage B b xs"
  shows "sorted_wrt (\<lambda>x y. same_identity (snd x) (snd y) \<and> caf_issued_at (snd y) \<le> caf_issued_at (snd x)) xs \<and>
    map (\<lambda>x. caf_generation (snd x)) xs = rev (map int [1 ..< length xs + 1]) \<and>
    (\<forall>x \<in> set xs. caf_digest (snd x) = sha256 B (fst x))"
  using assms
proof (induction rule: lineage.induct)
  case (origin c f)
  then show ?case by (simp add: verified_digest)
next
  case (successor c f xs c' f')
  have g: "caf_generation f' = int (length xs) + 2"
    using lineage_generation [OF successor.hyps(1)] successor.hyps(3) by (simp add: successor_iff)
  have "same_identity f' h \<and> caf_issued_at h \<le> caf_issued_at f'" if "same_identity f h" "caf_issued_at h \<le> caf_issued_at f" for h
    using successor.hyps(3) that by (auto simp: successor_iff same_identity_def)
  moreover have "same_identity f' f \<and> caf_issued_at f \<le> caf_issued_at f'"
    using successor.hyps(3) by (auto simp: successor_iff same_identity_def)
  ultimately show ?case using successor.IH g verified_digest [OF successor.hyps(2)] by auto
qed

section \<open>Lineages grow\<close>

lemma validate_identifiers_iff:
  "validate_identifiers b ss = Some () \<longleftrightarrow> (\<forall>s \<in> set ss. validate_identifier_ra s b = Some ())"
  by (induction ss) (auto simp: bind_Some)

text \<open>The facts of a verified assertion always pass the check that succession makes of them.\<close>

lemma verified_facts_valid:
  assumes "verified_under B b c f" "tightened b"
  shows "validate_facts f b = Some ()"
proof -
  obtain e d where e: "eca_bounds e = b" and d: "decode_parts B c b = Some d" and f: "f = assertion_facts_of B c e d"
    using assms by (auto simp: verified_under_def verify_content_assertion_iff)
  let ?c = "das_claims d"
  have "validate_kid_ra (das_key_id d) b = Some ()" "validate_identifier_ra (ac_jti ?c) b = Some ()"
      "validate_identifier_ra (ac_iss ?c) b = Some ()" "validate_identifier_ra (ac_aud ?c) b = Some ()"
      "validate_identifier_ra (ac_sub ?c) b = Some ()" "validate_identifier_ra (ac_profile ?c) b = Some ()"
      "validate_numbers (ac_generation ?c) (ac_issued_at ?c) (ac_not_before ?c) (ac_expires_at ?c) (ac_previous ?c) b = Some ()"
    using d by (auto simp: decode_parts_def validate_header_def validate_payload_def take_identifier_def
        bind_Some split: if_splits)
  then show ?thesis by (simp add: validate_facts_def f assertion_facts_of_def Let_def validate_identifiers_iff)
qed

lemma lineage_grows:
  assumes l: "lineage B b ((c, f) # xs)" and b: "tightened b"
    and h: "honest_assertion B e a psi sg" "eca_bounds e = b"
    and s: "cai_generation a = caf_generation f + 1" "caf_generation f < int (integer_magnitude b)"
      "cai_previous a = caf_digest f" "caf_issued_at f \<le> cai_issued_at a" "cai_jti a \<noteq> caf_jti f"
    and i: "cai_iss a = caf_iss f" "cai_aud a = caf_aud f" "cai_sub a = caf_sub f" "cai_profile a = caf_profile f"
      "cai_profile_digest a = caf_profile_digest f"
  shows "lineage B b ((framed psi sg, asserted_facts B e a (framed psi sg)) # (c, f) # xs)"
proof (rule lineage.successor [OF l])
  show v: "verified_under B b (framed psi sg) (asserted_facts B e a (framed psi sg))"
    using assertion_accepted [OF h(1)] h by (auto simp: verified_under_def honest_assertion_def)
  show "verify_content_assertion_successor f (asserted_facts B e a (framed psi sg)) b = Some ()"
    using verified_facts_valid [OF lineage_head [OF l] b] verified_facts_valid [OF v b] s i tightened_limits(4) [OF b]
    by (auto simp: successor_iff asserted_facts_def)
qed

end
