(* ===== verification/Profile_Properties.thy ===== *)
theory Profile_Properties
  imports Content_Facts Protocol_Properties
begin

text \<open>
  The properties of the two attestation profiles, with a sample attestation and a sample lineage of two
  content assertions made by the producers.
\<close>

section \<open>Sample production\<close>

lemma small_decodes:
  assumes "jcs_encode B maximum v = Some t" "portable v" "length t \<le> 2000"
  shows "json_decode maximum t = Some (canon v)"
  using assms by (intro decode_encode_canon maximum_fits(1)) (simp_all add: maximum_def)

lemma small_produced_ra:
  assumes "jcs_encode B maximum h = Some ht" "jcs_encode B maximum p = Some pt" "portable h" "portable p"
    and "length ht \<le> 2000" "length pt \<le> 1000"
  shows "build_produced_ra B h p maximum = Some (produced_from ht pt)"
    and "build_produced_ca B h p maximum = Some (produced_from ht pt)"
proof -
  have d: "json_decode maximum ht = Some (canon h)" "json_decode maximum pt = Some (canon p)"
    using small_decodes assms by auto
  have l: "length (base64url_encode ht) \<le> 4001" "length (base64url_encode pt) \<le> 2001"
    using length_encode_le [of ht] length_encode_le [of pt] assms(5,6) by linarith+
  have n: "projected_compact_len (length (base64url_encode ht)) (length (base64url_encode pt)) =
      Some (length (base64url_encode ht) + (length (base64url_encode pt) + 88))"
    using l by (simp add: projected_compact_len_def checked_add_usize_def ED25519_SIGNATURE_SEGMENT_BYTES_def)
  show "build_produced_ra B h p maximum = Some (produced_from ht pt)"
    using assms d l n by (simp add: build_produced_ra_def validate_produced_json_def ED25519_SIGNATURE_SEGMENT_BYTES_def
        validate_compact_size_def produced_from_def Let_def maximum_def)
  show "build_produced_ca B h p maximum = Some (produced_from ht pt)"
    using assms d l n by (simp add: build_produced_ca_def copies_ca SIGNATURE_SEGMENT_BYTES_def
        validate_compact_size_ca_def produced_from_def signing_input_bytes_def Let_def maximum_def)
qed

section \<open>A sample attestation\<close>

text \<open>The sample backend with a digest that tells the two sample keys apart.\<close>

definition telling_backend :: backend where
  "telling_backend = sample_backend\<lparr>sha256 := (\<lambda>m. replicate 32 (if m = jwk_encode_unchecked sample_key then CHR 0x01 else CHR 0x00))\<rparr>"

lemma telling_facts:
  "sha256_width telling_backend" "acceptable_public_key telling_backend other_key"
  "ed25519_verify telling_backend sample_key m sample_signature = Some ()"
  "thumbprint_digest_unchecked telling_backend sample_key \<noteq> thumbprint_digest_unchecked telling_backend other_key"
proof -
  show "sha256_width telling_backend" by (simp add: sha256_width_def telling_backend_def)
  show "acceptable_public_key telling_backend other_key"
    using other_key_acceptable(1) by (auto simp: acceptable_public_key_def telling_backend_def split: if_splits)
  show "ed25519_verify telling_backend sample_key m sample_signature = Some ()"
    using sample_verifies [of m] by (simp add: ed25519_verify_def telling_backend_def)
  have "jwk_encode_unchecked other_key \<noteq> jwk_encode_unchecked sample_key"
    using other_key_acceptable(2) by (auto simp: jwk_encode_unchecked_def b64.enc_inject)
  then show "thumbprint_digest_unchecked telling_backend sample_key \<noteq> thumbprint_digest_unchecked telling_backend other_key"
    by (simp add: thumbprint_digest_unchecked_def telling_backend_def)
qed

definition sample_attestation :: attestation_input where
  "sample_attestation = \<lparr>ai_attestor_key_id = ''k'', ai_jti = ''g'', ai_key_id = ''o'', ai_public_key = other_key,
     ai_role = Holder, ai_nbf = 10, ai_exp = 100\<rparr>"

definition sample_attestation_psi :: produced_signing_input where
  "sample_attestation_psi = produced_from
     (jcs_text telling_backend (Object (kid_members ALG_EDDSA ''k'' TYP_ROLE_ATTESTATION)))
     (jcs_text telling_backend (Object (attestation_members sample_attestation)))"

definition sample_attestor :: historical_public_key where
  "sample_attestor = \<lparr>hk_key_id = ''k'', hk_public_key = sample_key, hk_valid_from = 0, hk_valid_before = Bounded 100\<rparr>"

definition sample_expected_attestation :: expected_attestation where
  "sample_expected_attestation = \<lparr>ex_attestor = sample_attestor, ex_subject_key_id = ''o'',
     ex_subject_public_key = other_key, ex_now = 50, ex_bounds = maximum\<rparr>"

lemma attestation_words:
  "length (string_text TYP_ROLE_ATTESTATION) = 21" "length (string_text ''key_id'') = 8" "length (string_text ''g'') = 3"
  "length (string_text ''public_key'') = 12" "length (string_text ''role'') = 6" "length (string_text ''holder'') = 8"
  "validate_identifier_ra ''g'' maximum = Some ()" "validate_identifier_ra ''i'' maximum = Some ()" "length other_key = 32"
  "utf8_valid ''holder''"
  by code_simp+

lemma sample_attestation_texts:
  "length (jcs_text telling_backend (Object (kid_members ALG_EDDSA ''k'' TYP_ROLE_ATTESTATION))) \<le> 1000"
  "length (jcs_text telling_backend (Object (attestation_members sample_attestation))) \<le> 1000"
  "jcs_encode telling_backend maximum (Object (kid_members ALG_EDDSA ''k'' TYP_ROLE_ATTESTATION)) =
     Some (jcs_text telling_backend (Object (kid_members ALG_EDDSA ''k'' TYP_ROLE_ATTESTATION)))"
  "jcs_encode telling_backend maximum (Object (attestation_members sample_attestation)) =
     Some (jcs_text telling_backend (Object (attestation_members sample_attestation)))"
proof -
  note sizes = length_object_text jcs_text_scalar length_b64_text sample_words attestation_words
  show h: "length (jcs_text telling_backend (Object (kid_members ALG_EDDSA ''k'' TYP_ROLE_ATTESTATION))) \<le> 1000"
    by (simp add: kid_members_def sizes)
  show p: "length (jcs_text telling_backend (Object (attestation_members sample_attestation))) \<le> 1000"
    by (simp add: attestation_members_def sample_attestation_def sizes)
  show "jcs_encode telling_backend maximum (Object (kid_members ALG_EDDSA ''k'' TYP_ROLE_ATTESTATION)) =
     Some (jcs_text telling_backend (Object (kid_members ALG_EDDSA ''k'' TYP_ROLE_ATTESTATION)))"
    using h by (intro small_object_encodes) (simp_all add: kid_members_def maximum_def ALG_EDDSA_def TYP_ROLE_ATTESTATION_def)
  show "jcs_encode telling_backend maximum (Object (attestation_members sample_attestation)) =
     Some (jcs_text telling_backend (Object (attestation_members sample_attestation)))"
    using p by (intro small_object_encodes)
      (simp_all add: attestation_members_def sample_attestation_def maximum_def length_encode attestation_words)
qed

lemma sample_attestation_ok: "attestation_ok maximum sample_attestation"
  using maximum_fits(1) sample_valid(8-12) tightened_maximum
  by (simp add: attestation_ok_def sample_attestation_def maximum_def)

lemma sample_attestation_made:
  "attestation_signing_input telling_backend sample_attestation maximum = Some sample_attestation_psi"
proof -
  have "build_produced_ra telling_backend (Object (kid_members ALG_EDDSA ''k'' TYP_ROLE_ATTESTATION))
      (Object (attestation_members sample_attestation)) maximum = Some sample_attestation_psi"
    unfolding sample_attestation_psi_def using sample_attestation_texts sample_valid(8-12)
    by (intro small_produced_ra(1)) (simp_all add: kid_members_def header_utf8 attestation_members_def
        sample_attestation_def attestation_utf8 attestation_words)
  then show ?thesis
    using sample_valid(1) transition_words(8) attestation_words(7) telling_facts(2)
    by (simp add: attestation_signing_input_def copies_ra sample_attestation_def attestation_members_def kid_members_def
        b64url_to_string_def)
qed

lemma sample_attestor_facts:
  "attestor_ok maximum sample_attestor" "{10 ..< 100} \<subseteq> key_lifetime sample_attestor"
  "length (hk_public_key sample_attestor) = 32" "10 \<in> key_lifetime sample_attestor"
  using sample_key_facts(1)
  by (auto simp: attestor_ok_def sample_attestor_def key_lifetime_def unsigned_abs_def maximum_def intro: exI [of _ 0])

section \<open>A sample lineage\<close>

definition sample_assertion :: "int \<Rightarrow> bytes \<Rightarrow> content_assertion_input" where
  "sample_assertion n prev = \<lparr>cai_attestor_key_id = ''k'', cai_jti = (if n = 1 then ''g'' else ''a''), cai_iss = ''i'',
     cai_aud = ''a'', cai_sub = ''g'', cai_profile = ''i'', cai_profile_digest = zero_digest,
     cai_content_digest = zero_digest, cai_generation = n, cai_previous = prev, cai_issued_at = 10,
     cai_not_before = 10, cai_expires_at = 100\<rparr>"

definition sample_assertion_psi :: "int \<Rightarrow> bytes \<Rightarrow> produced_signing_input" where
  "sample_assertion_psi n prev = produced_from
     (jcs_text sample_backend (Object (kid_members ALG_EDDSA ''k'' TYP_CONTENT_ASSERTION)))
     (jcs_text sample_backend (Object (assertion_payload (sample_assertion n prev))))"

definition sample_expected_assertion :: expected_content_assertion where
  "sample_expected_assertion = \<lparr>eca_attestor = sample_attestor, eca_issuer = ''i'', eca_audience = ''a'',
     eca_subject = ''g'', eca_profile = ''i'', eca_profile_digest = zero_digest, eca_content_digest = zero_digest,
     eca_now = 50, eca_bounds = maximum\<rparr>"

lemma assertion_words:
  "length (string_text TYP_CONTENT_ASSERTION) = 22" "length (string_text ''content_digest'') = 16"
  "length (string_text ''gen'') = 5" "length (string_text ''prev'') = 6" "length (string_text ''profile'') = 9"
  "length (string_text ''profile_digest'') = 16" "length (string_text ''sub'') = 5"
  "length (decimal_int 2) = 1" "validate_identifier_ra ''a'' maximum = Some ()" "validate_expected sample_expected_assertion = Some ()"
  by code_simp+

lemma zero_length: "length zero_digest = 32" by (simp add: zero_digest_def)

lemma sample_assertion_texts:
  assumes "n = 1 \<or> n = 2" "length prev = 32"
  shows "length (jcs_text sample_backend (Object (kid_members ALG_EDDSA ''k'' TYP_CONTENT_ASSERTION))) \<le> 1000"
  "length (jcs_text sample_backend (Object (assertion_payload (sample_assertion n prev)))) \<le> 1000"
  "jcs_encode sample_backend maximum (Object (kid_members ALG_EDDSA ''k'' TYP_CONTENT_ASSERTION)) =
     Some (jcs_text sample_backend (Object (kid_members ALG_EDDSA ''k'' TYP_CONTENT_ASSERTION)))"
  "jcs_encode sample_backend maximum (Object (assertion_payload (sample_assertion n prev))) =
     Some (jcs_text sample_backend (Object (assertion_payload (sample_assertion n prev))))"
proof -
  note sizes = length_object_text jcs_text_scalar length_b64_text sample_words attestation_words assertion_words zero_length
    assms(2)
  show h: "length (jcs_text sample_backend (Object (kid_members ALG_EDDSA ''k'' TYP_CONTENT_ASSERTION))) \<le> 1000"
    by (simp add: kid_members_def sizes)
  show p: "length (jcs_text sample_backend (Object (assertion_payload (sample_assertion n prev)))) \<le> 1000"
    using assms(1) by (auto simp: assertion_payload_def sample_assertion_def sizes)
  show "jcs_encode sample_backend maximum (Object (kid_members ALG_EDDSA ''k'' TYP_CONTENT_ASSERTION)) =
     Some (jcs_text sample_backend (Object (kid_members ALG_EDDSA ''k'' TYP_CONTENT_ASSERTION)))"
    using h by (intro small_object_encodes) (simp_all add: kid_members_def maximum_def ALG_EDDSA_def TYP_CONTENT_ASSERTION_def)
  show "jcs_encode sample_backend maximum (Object (assertion_payload (sample_assertion n prev))) =
     Some (jcs_text sample_backend (Object (assertion_payload (sample_assertion n prev))))"
    using p assms by (intro small_object_encodes)
      (auto simp: assertion_payload_def sample_assertion_def maximum_def length_encode zero_length)
qed

lemma sample_assertion_made:
  assumes "n = 1 \<and> prev = zero_digest \<or> n = 2 \<and> prev \<noteq> zero_digest" "length prev = 32"
  shows "assertion_signing_input sample_backend (sample_assertion n prev) maximum = Some (sample_assertion_psi n prev)"
    and "assertion_ok maximum (sample_assertion n prev)"
proof -
  have n: "n = 1 \<or> n = 2" using assms(1) by blast
  have "build_produced_ca sample_backend (Object (kid_members ALG_EDDSA ''k'' TYP_CONTENT_ASSERTION))
      (Object (assertion_payload (sample_assertion n prev))) maximum = Some (sample_assertion_psi n prev)"
    unfolding sample_assertion_psi_def using sample_assertion_texts [OF n assms(2)] sample_valid(8-12)
    by (intro small_produced_ra(2)) (simp_all add: kid_members_def header_utf8 assertion_payload_def
        sample_assertion_def assertion_utf8)
  moreover have "validate_numbers n 10 10 100 prev maximum = Some ()"
    using assms(1) by (auto simp: validate_numbers_def validate_magnitude_def unsigned_abs_def maximum_def)
  ultimately show "assertion_signing_input sample_backend (sample_assertion n prev) maximum = Some (sample_assertion_psi n prev)"
    using sample_valid(1) attestation_words(7,8) assertion_words(9)
    by (simp add: assertion_signing_input_def copies_ra sample_assertion_def assertion_payload_def kid_members_def
        b64_string_def ALG_EDDSA_def)
  show "assertion_ok maximum (sample_assertion n prev)"
    using n assms(2) maximum_fits(1) sample_valid(8-12) tightened_maximum zero_length
    by (auto simp: assertion_ok_def sample_assertion_def maximum_def is_i64_def i64_min_def i64_max_def)
qed

definition sample_assertion_compact :: "int \<Rightarrow> bytes \<Rightarrow> bytes" where
  "sample_assertion_compact n prev = framed (sample_assertion_psi n prev) sample_signature"

lemma sample_assertion_honest:
  assumes "n = 1 \<and> prev = zero_digest \<or> n = 2 \<and> prev \<noteq> zero_digest" "length prev = 32"
  shows "honest_assertion sample_backend sample_expected_assertion (sample_assertion n prev)
    (sample_assertion_psi n prev) sample_signature"
  using sample_assertion_made [OF assms] sample_verifies sample_attestor_facts sample_key_facts(1,2) assertion_words(10)
  by (simp add: honest_assertion_def sample_expected_assertion_def sample_assertion_def sample_attestor_def split del: if_split)

definition sample_fact :: "int \<Rightarrow> bytes \<Rightarrow> content_assertion_facts" where
  "sample_fact n prev = asserted_facts sample_backend sample_expected_assertion (sample_assertion n prev)
     (sample_assertion_compact n prev)"

lemma digest_not_zero: "sha256 sample_backend m \<noteq> zero_digest"
proof
  let ?s = "sum_list (map byte m)"
  assume "sha256 sample_backend m = zero_digest"
  then have c: "checksum m = replicate 32 (CHR 0x00)" unfolding sample_backend_def backend.simps zero_digest_def .
  have "char_of (?s + (0 + i)) = CHR 0x00" if "i < 32 - 0" for i
    unfolding nth_map_upt [OF that, of "\<lambda>i. char_of (?s + i)", symmetric] checksum_def [symmetric] c
    by (rule nth_replicate) (use that in simp)
  from this [of 0] this [of 1] have "(char_of (?s + 0) :: char) = char_of (?s + 1)" by simp
  then have "byte (char_of (?s + 0)) = byte (char_of (?s + 1))" by (rule arg_cong)
  then show False unfolding byte_char_of by (simp add: mod_Suc split: if_splits)
qed

lemma sample_lineage:
  "lineage sample_backend maximum [(sample_assertion_compact 1 zero_digest, sample_fact 1 zero_digest)]"
proof (rule lineage.origin)
  have h: "honest_assertion sample_backend sample_expected_assertion (sample_assertion 1 zero_digest)
      (sample_assertion_psi 1 zero_digest) sample_signature"
    by (rule sample_assertion_honest) (simp_all add: zero_length)
  show "verified_under sample_backend maximum (sample_assertion_compact 1 zero_digest) (sample_fact 1 zero_digest)"
    using assertion_accepted [OF h] sample_attestor_facts(3)
    unfolding verified_under_def sample_assertion_compact_def sample_fact_def
    by (intro exI [of _ sample_expected_assertion]) (simp add: sample_expected_assertion_def)
  show "caf_generation (sample_fact 1 zero_digest) = 1"
    by (simp add: sample_fact_def asserted_facts_def sample_assertion_def)
qed

definition sample_digest_1 :: bytes where
  "sample_digest_1 = sha256 sample_backend (sample_assertion_compact 1 zero_digest)"

lemma sample_second:
  "honest_assertion sample_backend sample_expected_assertion (sample_assertion 2 sample_digest_1)
     (sample_assertion_psi 2 sample_digest_1) sample_signature"
  by (rule sample_assertion_honest) (simp_all add: sample_digest_1_def digest_not_zero sample_hash)

lemma sample_successor:
  "lineage sample_backend maximum
     [(sample_assertion_compact 2 sample_digest_1, sample_fact 2 sample_digest_1),
      (sample_assertion_compact 1 zero_digest, sample_fact 1 zero_digest)]"
  unfolding sample_assertion_compact_def [of 2] sample_fact_def [of 2]
  by (rule lineage_grows [OF sample_lineage tightened_maximum sample_second])
    (simp_all add: sample_expected_assertion_def sample_assertion_def sample_fact_def asserted_facts_def
      sample_digest_1_def maximum_def)

section \<open>Properties of role attestations\<close>

text \<open>C17: A role attestation is accepted exactly when the attestor's window is a nonempty set of representable
  times and the decoded compact attests what is expected: the attestor's key id, a valid signature of the
  attestor over the two segments, the expected subject, an attestor other than the subject, a window that
  lies within the attestor's lifetime, and a present moment inside it. The facts are those of the compact.\<close>

theorem attestation_refines:
  assumes "length (hk_public_key (ex_attestor e)) = 32"
  shows "verify_attestation B c e = Some f \<longleftrightarrow> attestor_ok (ex_bounds e) (ex_attestor e) \<and>
    (\<exists>d. decode_attestation_parts B c (ex_bounds e) = Some d \<and> attests B e d \<and> f = attestation_facts_of B e d)"
  using assms by (rule verify_attestation_iff)

theorem attestation_refines_witness:
  "\<exists>d. decode_attestation_parts telling_backend (framed sample_attestation_psi sample_signature) maximum = Some d \<and>
     attests telling_backend sample_expected_attestation d"
proof -
  obtain f where "verify_attestation telling_backend (framed sample_attestation_psi sample_signature)
      sample_expected_attestation = Some f"
    using attestation_accepted [of telling_backend sample_attestation sample_expected_attestation sample_attestation_psi
        sample_signature] sample_attestation_made sample_attestation_ok sample_key_facts(2) telling_facts
      sample_attestor_facts
    by (auto simp: sample_expected_attestation_def sample_attestation_def sample_attestor_def)
  with attestation_refines [of sample_expected_attestation telling_backend] sample_attestor_facts(3) show ?thesis
    by (auto simp: sample_expected_attestation_def)
qed

text \<open>C18: An honest attestation arrives: what \<open>attestation_signing_input\<close> makes and the attestor signs assembles
  to a compact that \<open>verify_attestation\<close> accepts for another subject inside the attested window, with
  the attested role.\<close>

theorem attestation_arrives:
  assumes "attestation_signing_input B a (resolve_bounds nested) = Some psi" "attestation_ok (resolve_bounds nested) a"
    and "length sg = 64" "signature_gate sg" "ex_bounds e = resolve_bounds nested"
    and "ed25519_verify B (hk_public_key (ex_attestor e)) (psi_message psi) sg = Some ()"
    and "length (hk_public_key (ex_attestor e)) = 32" "hk_key_id (ex_attestor e) = ai_attestor_key_id a"
      "attestor_ok (resolve_bounds nested) (ex_attestor e)"
    and "ex_subject_key_id e = ai_key_id a" "ex_subject_public_key e = ai_public_key a"
      "ai_attestor_key_id a \<noteq> ai_key_id a"
      "thumbprint_digest_unchecked B (hk_public_key (ex_attestor e)) \<noteq> thumbprint_digest_unchecked B (ai_public_key a)"
    and "{ai_nbf a ..< ai_exp a} \<subseteq> key_lifetime (ex_attestor e)" "ai_nbf a \<le> ex_now e" "ex_now e < ai_exp a"
  shows "\<exists>c f. assemble_attestation_compact B \<lparr>si_kind = RoleAttestationKind,
      protected_segment = psi_protected_segment psi, payload_segment = psi_payload_segment psi\<rparr> sg nested = Some c \<and>
    verify_attestation B c e = Some f \<and> atf_role f = ai_role a \<and> atf_jti f = ai_jti a"
proof -
  have "assemble_attestation_compact B \<lparr>si_kind = RoleAttestationKind,
      protected_segment = psi_protected_segment psi, payload_segment = psi_payload_segment psi\<rparr> sg nested =
    Some (framed psi sg)"
    using assms(1-4) by (rule attestation_assembled)
  moreover obtain f where "verify_attestation B (framed psi sg) e = Some f" "atf_role f = ai_role a" "atf_jti f = ai_jti a"
    using attestation_accepted [of B a e psi sg] assms by auto
  ultimately show ?thesis by blast
qed

theorem attestation_arrives_witness:
  "\<exists>c f. verify_attestation telling_backend c sample_expected_attestation = Some f \<and> atf_role f = Holder"
  using attestation_arrives [of telling_backend sample_attestation None sample_attestation_psi sample_signature
      sample_expected_attestation]
    sample_attestation_made sample_attestation_ok sample_key_facts telling_facts sample_attestor_facts
  by (auto simp: sample_expected_attestation_def sample_attestation_def sample_attestor_def resolve_bounds_def
      strict_gate_def)

text \<open>C34: The identifier rules of the attestation profiles are not those of version 1: they agree on identifiers
  without a colon, but one rejects what the other accepts in both directions (a bracket outside an
  authority, and an empty port).\<close>

theorem identifier_rules_differ:
  "(\<forall>s b. CHR '':'' \<notin> set s \<longrightarrow> validate_identifier_ra s b = validate_identifier s b) \<and>
   validate_identifier ''x:['' maximum = Some () \<and> validate_identifier_ra ''x:['' maximum = None \<and>
   validate_identifier ''x://h:'' maximum = None \<and> validate_identifier_ra ''x://h:'' maximum = Some ()"
proof (intro conjI allI impI)
  fix s b assume "CHR '':'' \<notin> set s"
  then have p: "position (\<lambda>c. c = CHR '':'') s = None" by auto
  show "validate_identifier_ra s b = validate_identifier s b"
    unfolding validate_identifier_ra_def validate_identifier_def p by simp
qed code_simp+

theorem identifier_rules_differ_witness: "validate_identifier_ra ''g'' maximum = validate_identifier ''g'' maximum"
  using identifier_rules_differ by simp

section \<open>Properties of content assertions\<close>

text \<open>C19: The newest compact of a lineage determines every older one: two lineages that end in the same bytes have
  the same length and the same compacts, unless two of their compacts are a SHA-256 collision.\<close>

theorem lineage_tamper_evident:
  assumes "lineage B b ((c, f) # xs)" "lineage B b ((c, g) # ys)" "tightened b"
    and "\<forall>x \<in> set xs. \<forall>y \<in> set ys. collision_free B (fst x) (fst y)"
  shows "map fst xs = map fst ys"
  using assms by (rule lineage_determines)

theorem lineage_tamper_evident_witness:
  "map fst [(sample_assertion_compact 1 zero_digest, sample_fact 1 zero_digest)] = [sample_assertion_compact 1 zero_digest]"
  using lineage_tamper_evident [OF sample_successor sample_successor tightened_maximum] by (simp add: collision_free_def)

text \<open>C20: In every lineage the identity (issuer, audience, subject, profile and profile digest) never changes, issue times
  never decrease, and the generations are exactly 1, 2, 3 and so on.\<close>

theorem lineage_invariant:
  assumes "lineage B b xs"
  shows "sorted_wrt (\<lambda>x y. same_identity (snd x) (snd y) \<and> caf_issued_at (snd y) \<le> caf_issued_at (snd x)) xs \<and>
    map (\<lambda>x. caf_generation (snd x)) xs = rev (map int [1 ..< length xs + 1])"
  using lineage_keeps [OF assms] by simp

theorem lineage_invariant_witness:
  "same_identity (sample_fact 2 sample_digest_1) (sample_fact 1 zero_digest) \<and>
   caf_generation (sample_fact 2 sample_digest_1) = 2"
  using lineage_invariant [OF sample_successor] by simp

text \<open>C21: A lineage can always be continued: an assertion that an honest attestor produces for the next
  generation, over the digest of the newest compact, with the same identity, a later or equal issue time and a
  fresh identifier, is verified and accepted as the successor.\<close>

theorem lineage_continues:
  assumes "lineage B b ((c, f) # xs)" "tightened b" "honest_assertion B e a psi sg" "eca_bounds e = b"
    and "cai_generation a = caf_generation f + 1" "caf_generation f < int (integer_magnitude b)"
      "cai_previous a = caf_digest f" "caf_issued_at f \<le> cai_issued_at a" "cai_jti a \<noteq> caf_jti f"
    and "cai_iss a = caf_iss f" "cai_aud a = caf_aud f" "cai_sub a = caf_sub f" "cai_profile a = caf_profile f"
      "cai_profile_digest a = caf_profile_digest f"
  shows "\<exists>g. verify_content_assertion B (framed psi sg) e = Some g \<and>
    verify_content_assertion_successor f g b = Some () \<and> lineage B b ((framed psi sg, g) # (c, f) # xs)"
  using lineage_grows [OF assms] assertion_accepted [OF assms(3)] by (auto elim!: lineage_cons)

theorem lineage_continues_witness:
  "\<exists>g. verify_content_assertion sample_backend (framed (sample_assertion_psi 2 sample_digest_1) sample_signature)
     sample_expected_assertion = Some g"
proof -
  have "\<exists>g. verify_content_assertion sample_backend (framed (sample_assertion_psi 2 sample_digest_1) sample_signature)
      sample_expected_assertion = Some g \<and>
    verify_content_assertion_successor (sample_fact 1 zero_digest) g maximum = Some () \<and>
    lineage sample_backend maximum ((framed (sample_assertion_psi 2 sample_digest_1) sample_signature, g) #
      [(sample_assertion_compact 1 zero_digest, sample_fact 1 zero_digest)])"
    by (rule lineage_continues [OF sample_lineage tightened_maximum sample_second])
      (simp_all add: sample_expected_assertion_def sample_assertion_def sample_fact_def asserted_facts_def
        sample_digest_1_def maximum_def)
  then show ?thesis by blast
qed

end
