(* ===== verification/Grant_V2.thy ===== *)
theory Grant_V2
  imports Claims_V2 Grant
begin

text \<open>
  Version 2 of decoding and verifying credentials: the untrusted key locator, the shared decoders
  of grants and proofs, grant verification and the combined envelope check. There is no loopback
  profile: the normalizer is always \<open>uri_normalize\<close>.
\<close>

section \<open>Segments\<close>

definition split_three_segments_v2 :: "bytes \<Rightarrow> (bytes \<times> bytes \<times> bytes) result" where
  "split_three_segments_v2 compact =
     (case split_on CHR ''.'' compact of [s0, s1, s2] \<Rightarrow> Some (s0, s1, s2) | _ \<Rightarrow> None)"

definition decode_segment_v2 :: "bytes \<Rightarrow> bounds \<Rightarrow> bytes result" where
  "decode_segment_v2 segment b =
     do {
       reject_if (length segment > encoded_segment_bytes b);
       decoded \<leftarrow> base64url_decode segment;
       reject_if (length decoded > decoded_segment_bytes b);
       Some decoded
     }"

definition signing_input_bytes_v2 :: "bytes \<Rightarrow> bytes \<Rightarrow> bytes" where
  "signing_input_bytes_v2 protected_seg payload_seg = protected_seg @ ''.'' @ payload_seg"

text \<open>The compact signature segment as the fixed-width array that verification takes.\<close>

definition decode_signature_v2 :: "bytes \<Rightarrow> bytes result" where
  "decode_signature_v2 segment =
     do { raw \<leftarrow> base64url_decode segment; reject_if (length raw \<noteq> 64); Some raw }"

definition untrusted_key_locator_v2 :: "bytes \<Rightarrow> bounds \<Rightarrow> key_locator result" where
  "untrusted_key_locator_v2 compact b =
     do {
       reject_if (length compact > compact_bytes b);
       (protected, _, _) \<leftarrow> split_three_segments_v2 compact;
       reject_if (length protected > encoded_segment_bytes b);
       protected_bytes \<leftarrow> base64url_decode protected;
       reject_if (length protected_bytes > decoded_segment_bytes b);
       header \<leftarrow> json_decode b protected_bytes;
       kid \<leftarrow> validate_grant_header_v2 header b;
       Some \<lparr>kl_key_id = kid, kl_trust = NotEvaluated\<rparr>
     }"

section \<open>Grants\<close>

definition decode_grant_parts_v2 :: "backend \<Rightarrow> bytes \<Rightarrow> bounds \<Rightarrow> decoded_grant result" where
  "decode_grant_parts_v2 B compact b =
     do {
       reject_if (length compact > compact_bytes b);
       (protected_seg, payload_seg, signature_seg) \<leftarrow> parse_compact compact;
       header_bytes \<leftarrow> decode_segment_v2 protected_seg b;
       payload_bytes \<leftarrow> decode_segment_v2 payload_seg b;
       decode_signature_v2 signature_seg;
       header \<leftarrow> json_decode b header_bytes;
       payload_json \<leftarrow> json_decode b payload_bytes;
       key_id \<leftarrow> validate_grant_header_v2 header b;
       payload \<leftarrow> validate_grant_payload_v2 B payload_json b;
       Some \<lparr>dg_protected_seg = protected_seg, dg_payload_seg = payload_seg,
         dg_signature_seg = signature_seg, dg_key_id = key_id, dg_payload = payload,
         dg_payload_json = payload_json\<rparr>
     }"

definition decode_grant_v2 :: "backend \<Rightarrow> bytes \<Rightarrow> bounds \<Rightarrow> grant_decoded result" where
  "decode_grant_v2 B compact b =
     do {
       g \<leftarrow> decode_grant_parts_v2 B compact b;
       Some \<lparr>gd_key_id = dg_key_id g, gd_version = gp_version (dg_payload g),
         gd_issuer = gp_issuer (dg_payload g), gd_grant_id = gp_grant_id (dg_payload g),
         gd_audiences = gp_audiences (dg_payload g),
         gd_holder_thumbprint = gp_holder_thumbprint (dg_payload g),
         gd_issued_at = gp_issued_at (dg_payload g), gd_not_before = gp_not_before (dg_payload g),
         gd_expires_at = gp_expires_at (dg_payload g), gd_verification = NotEvaluated\<rparr>
     }"

definition audience_matches_v2 :: "bytes list \<Rightarrow> bytes \<Rightarrow> bool" where
  "audience_matches_v2 grant_audiences expected \<longleftrightarrow> list_ex (\<lambda>a. a = expected) grant_audiences"

definition verify_grant_v2 :: "backend \<Rightarrow> bytes \<Rightarrow> trusted_issuer \<Rightarrow> expected_grant \<Rightarrow> grant_facts result" where
  "verify_grant_v2 B compact issuer expected =
     do {
       reject_if (eg_skew expected > clock_skew (eg_bounds expected));
       g \<leftarrow> decode_grant_parts_v2 B compact (eg_bounds expected);
       reject_if (dg_key_id g \<noteq> ti_key_id issuer);
       reject_if (gp_issuer (dg_payload g) \<noteq> eg_issuer expected);
       reject_if (\<not> audience_matches_v2 (gp_audiences (dg_payload g)) (eg_audience expected));
       signature \<leftarrow> decode_signature_v2 (dg_signature_seg g);
       let signing_input = signing_input_bytes_v2 (dg_protected_seg g) (dg_payload_seg g);
       ed25519_verify B (ti_public_key issuer) signing_input signature;
       let eval = eg_evaluation_time expected;
       let skew = u64_as_i64 (eg_skew expected);
       let upper = unwrap_or (checked_add_i64 eval skew) i64_max;
       reject_if (gp_issued_at (dg_payload g) > upper \<or> gp_not_before (dg_payload g) > upper);
       let lower = unwrap_or (checked_sub_i64 eval skew) i64_min;
       reject_if (gp_expires_at (dg_payload g) \<le> lower);
       fingerprint \<leftarrow> public_key_thumbprint_raw B (ti_public_key issuer);
       Some \<lparr>gf_version = gp_version (dg_payload g), gf_issuer = gp_issuer (dg_payload g),
         gf_grant_id = gp_grant_id (dg_payload g), gf_issuer_key_fingerprint = fingerprint,
         gf_holder_thumbprint = gp_holder_thumbprint (dg_payload g),
         gf_matched_audience = eg_audience expected, gf_iat = gp_issued_at (dg_payload g),
         gf_nbf = gp_not_before (dg_payload g), gf_exp = gp_expires_at (dg_payload g),
         gf_authorization = NotEvaluated\<rparr>
     }"

fun operation_pairs_v2 :: "json list \<Rightarrow> (bytes \<times> json list) list result" where
  "operation_pairs_v2 [] = Some []"
| "operation_pairs_v2 (op # ops) =
     do {
       omembers \<leftarrow> members_of op;
       name \<leftarrow> string_of (map_of omembers ''name'');
       selectors \<leftarrow> (case map_of omembers ''selectors'' of Some (Array a) \<Rightarrow> Some a | _ \<Rightarrow> None);
       rest \<leftarrow> operation_pairs_v2 ops;
       Some ((name, selectors) # rest)
     }"

definition extract_operations_v2 :: "json \<Rightarrow> (bytes \<times> json list) list result" where
  "extract_operations_v2 payload =
     do {
       members \<leftarrow> members_of payload;
       ops_value \<leftarrow> map_of members ''operations'';
       ops \<leftarrow> items_of ops_value;
       operation_pairs_v2 ops
     }"

section \<open>Proofs\<close>

definition decode_proof_parts_v2 :: "backend \<Rightarrow> bytes \<Rightarrow> bounds \<Rightarrow> decoded_proof result" where
  "decode_proof_parts_v2 B compact b =
     do {
       reject_if (length compact > compact_bytes b);
       (protected_seg, payload_seg, signature_seg) \<leftarrow> parse_compact compact;
       header_bytes \<leftarrow> decode_segment_v2 protected_seg b;
       payload_bytes \<leftarrow> decode_segment_v2 payload_seg b;
       decode_signature_v2 signature_seg;
       header \<leftarrow> json_decode b header_bytes;
       payload_json \<leftarrow> json_decode b payload_bytes;
       holder_public_key \<leftarrow> validate_proof_header_v2 B header b;
       payload \<leftarrow> validate_proof_payload_v2 payload_json b;
       Some \<lparr>dp_protected_seg = protected_seg, dp_payload_seg = payload_seg,
         dp_signature_seg = signature_seg, dp_holder_public_key = holder_public_key,
         dp_payload = payload\<rparr>
     }"

definition decode_proof_v2 :: "backend \<Rightarrow> bytes \<Rightarrow> bounds \<Rightarrow> proof_decoded result" where
  "decode_proof_v2 B compact b =
     do {
       p \<leftarrow> decode_proof_parts_v2 B compact b;
       holder_thumbprint \<leftarrow> thumbprint_raw B (dp_holder_public_key p);
       Some \<lparr>pd_key_id = [], pd_proof_id = pp_proof_id (dp_payload p),
         pd_method = pp_method (dp_payload p), pd_target_uri = pp_target_uri (dp_payload p),
         pd_invocation_id = pp_invocation_id (dp_payload p), pd_operation = pp_operation (dp_payload p),
         pd_grant_hash = pp_grant_hash (dp_payload p), pd_request_hash = pp_request_hash (dp_payload p),
         pd_issued_at = pp_issued_at (dp_payload p), pd_holder_thumbprint = holder_thumbprint,
         pd_nonce = pp_nonce (dp_payload p), pd_verification = NotEvaluated\<rparr>
     }"

section \<open>The envelope\<close>

text \<open>The loop over the selectors of the matched operation: each must evaluate to true.\<close>

fun all_selectors_v2 :: "backend \<Rightarrow> bounds \<Rightarrow> json \<Rightarrow> json list \<Rightarrow> unit result" where
  "all_selectors_v2 B b args [] = Some ()"
| "all_selectors_v2 B b args (s # ss) =
     do { ok \<leftarrow> evaluate_v2 B s args b; reject_if (\<not> ok); all_selectors_v2 B b args ss }"

definition nonce_check_v2 :: "nonce_mode \<Rightarrow> bytes option \<Rightarrow> unit result" where
  "nonce_check_v2 mode nonce =
     (case mode of
        NotRequired \<Rightarrow> (if nonce \<noteq> None then None else Some ())
      | Required expected \<Rightarrow> (if nonce = Some expected then Some () else None))"

definition grant_of_request_v2 :: "expected_request \<Rightarrow> expected_grant" where
  "grant_of_request_v2 expected =
     \<lparr>eg_issuer = er_issuer expected, eg_audience = er_audience expected,
      eg_evaluation_time = er_evaluation_time expected, eg_skew = er_skew expected,
      eg_bounds = er_bounds expected\<rparr>"

definition check_envelope_v2 ::
  "backend \<Rightarrow> credentials \<Rightarrow> expected_request \<Rightarrow> envelope_facts result" where
  "check_envelope_v2 B credentials expected =
     (let b = er_bounds expected in
      do {
        reject_if (er_proof_max_age expected < 1 \<or> er_proof_max_age expected > proof_max_age b);
        grant_facts \<leftarrow> verify_grant_v2 B (cr_grant credentials) (er_trusted_issuer expected) (grant_of_request_v2 expected);
        grant_parts \<leftarrow> decode_grant_parts_v2 B (cr_grant credentials) b;
        operations \<leftarrow> extract_operations_v2 (dg_payload_json grant_parts);
        proof \<leftarrow> decode_proof_parts_v2 B (cr_proof credentials) b;
        holder_thumb \<leftarrow> thumbprint_raw B (dp_holder_public_key proof);
        reject_if (holder_thumb \<noteq> gf_holder_thumbprint grant_facts);
        proof_signature \<leftarrow> decode_signature_v2 (dp_signature_seg proof);
        let proof_signing_input = signing_input_bytes_v2 (dp_protected_seg proof) (dp_payload_seg proof);
        ed25519_verify B (dp_holder_public_key proof) proof_signing_input proof_signature;
        let recomputed_ath = sha256 B (cr_grant credentials);
        reject_if (pp_grant_hash (dp_payload proof) \<noteq> recomputed_ath);
        ba_req_b64u \<leftarrow> request_digest_successor B (er_operation expected) (er_cast_arguments expected) b;
        ba_req_raw \<leftarrow> base64url_decode ba_req_b64u;
        reject_if (length ba_req_raw \<noteq> 32);
        reject_if (pp_request_hash (dp_payload proof) \<noteq> ba_req_raw);
        reject_if (pp_method (dp_payload proof) \<noteq> er_method expected);
        normalized_uri \<leftarrow> uri_normalize b (er_target_uri expected);
        reject_if (normalized_uri \<noteq> er_target_uri expected);
        reject_if (pp_target_uri (dp_payload proof) \<noteq> normalized_uri);
        reject_if (pp_invocation_id (dp_payload proof) \<noteq> er_invocation_id expected);
        reject_if (pp_operation (dp_payload proof) \<noteq> er_operation expected);
        matched_selectors \<leftarrow> map_of operations (er_operation expected);
        all_selectors_v2 B b (er_cast_arguments expected) matched_selectors;
        let eval = er_evaluation_time expected;
        let skew = u64_as_i64 (er_skew expected);
        let max_age = u64_as_i64 (er_proof_max_age expected);
        let lower = unwrap_or (checked_sub_i64 (unwrap_or (checked_sub_i64 eval max_age) i64_min) skew) i64_min;
        let upper = unwrap_or (checked_add_i64 eval skew) i64_max;
        reject_if (pp_issued_at (dp_payload proof) < lower \<or> pp_issued_at (dp_payload proof) > upper);
        nonce_check_v2 (er_nonce_mode expected) (pp_nonce (dp_payload proof));
        Some \<lparr>ef_grant = grant_facts, ef_proof_id = pp_proof_id (dp_payload proof),
          ef_invocation_id = pp_invocation_id (dp_payload proof),
          ef_operation = pp_operation (dp_payload proof), ef_normalized_uri = normalized_uri,
          ef_grant_hash = recomputed_ath, ef_request_hash = ba_req_raw,
          ef_proof_iat = pp_issued_at (dp_payload proof), ef_authorization = NotEvaluated\<rparr>
      })"

end
