(* ===== verification/Anchors_V2.thy ===== *)
theory Anchors_V2
  imports Chain_V2 Anchors
begin

text \<open>
  Version 2 of boundary anchors and key transitions, verification with historical keys, and
  \<open>assemble_compact\<close>. The payload decoder of anchors rejects a genesis anchor whose
  chain hash is not zero, which in version 1 only the verifier does.
\<close>

section \<open>Anchors\<close>

definition validate_anchor_header_v2 :: "backend \<Rightarrow> json \<Rightarrow> bytes \<Rightarrow> bounds \<Rightarrow> bytes result" where
  "validate_anchor_header_v2 B header header_bytes b =
     do {
       members \<leftarrow> members_of header;
       slots \<leftarrow> collect [''alg'', ''typ'', ''kid''] members Map.empty;
       reject_if (slots ''alg'' \<noteq> Some (String ALG_EDDSA_v2));
       reject_if (slots ''typ'' \<noteq> Some (String TYP_CHAIN_ANCHOR_v2));
       kid \<leftarrow> string_of (slots ''kid'');
       validate_kid_v2 kid b;
       encoded \<leftarrow> jcs_encode B b header;
       reject_if (encoded \<noteq> header_bytes);
       Some kid
     }"

definition anchor_claims_v2 :: "bytes list" where
  "anchor_claims_v2 =
     [''anchor_id'', ''anchored_at'', ''chain_hash'', ''chain_id'', ''key_fingerprint'', ''sequence'', ''v'']"

definition validate_anchor_payload_v2 :: "backend \<Rightarrow> json \<Rightarrow> bytes \<Rightarrow> bounds \<Rightarrow> anchor_payload result" where
  "validate_anchor_payload_v2 B payload payload_bytes b =
     do {
       members \<leftarrow> members_of payload;
       slots \<leftarrow> collect anchor_claims_v2 members Map.empty;
       reject_if (slots ''v'' \<noteq> Some (Integer 2));
       anchor_id \<leftarrow> take_string_or_uri_v2 (slots ''anchor_id'') b;
       chain_id \<leftarrow> take_string_or_uri_v2 (slots ''chain_id'') b;
       anchored_at \<leftarrow> take_integral_date_v2 (slots ''anchored_at'');
       sequence \<leftarrow> take_integral_date_v2 (slots ''sequence'');
       reject_if (sequence < 0);
       chain_hash \<leftarrow> take_digest_b64u_v2 (slots ''chain_hash'') b;
       key_fingerprint \<leftarrow> take_digest_b64u_v2 (slots ''key_fingerprint'') b;
       reject_if (sequence = 0 \<and> chain_hash \<noteq> replicate 32 (CHR 0x00));
       encoded \<leftarrow> jcs_encode B b payload;
       reject_if (encoded \<noteq> payload_bytes);
       Some \<lparr>ap_anchor_id = anchor_id, ap_anchored_at = anchored_at, ap_chain_hash = chain_hash,
         ap_chain_id = chain_id, ap_key_fingerprint = key_fingerprint, ap_sequence = sequence\<rparr>
     }"

definition decode_anchor_parts_v2 :: "backend \<Rightarrow> bytes \<Rightarrow> bounds \<Rightarrow> decoded_anchor result" where
  "decode_anchor_parts_v2 B compact b =
     do {
       reject_if (length compact > compact_bytes b);
       reject_if (length compact > anchor_bytes b);
       (protected_seg, payload_seg, signature_seg) \<leftarrow> parse_compact compact;
       header_bytes \<leftarrow> decode_segment_v2 protected_seg b;
       payload_bytes \<leftarrow> decode_segment_v2 payload_seg b;
       decode_signature_v2 signature_seg;
       header \<leftarrow> json_decode b header_bytes;
       payload_json \<leftarrow> json_decode b payload_bytes;
       key_id \<leftarrow> validate_anchor_header_v2 B header header_bytes b;
       payload \<leftarrow> validate_anchor_payload_v2 B payload_json payload_bytes b;
       Some \<lparr>da_protected_seg = protected_seg, da_payload_seg = payload_seg,
         da_signature_seg = signature_seg, da_key_id = key_id, da_payload = payload\<rparr>
     }"

section \<open>Key transitions\<close>

definition validate_transition_header_v2 :: "backend \<Rightarrow> json \<Rightarrow> bytes \<Rightarrow> bounds \<Rightarrow> bytes result" where
  "validate_transition_header_v2 B header header_bytes b =
     do {
       members \<leftarrow> members_of header;
       slots \<leftarrow> collect [''alg'', ''typ'', ''kid''] members Map.empty;
       reject_if (slots ''alg'' \<noteq> Some (String ALG_EDDSA_v2));
       reject_if (slots ''typ'' \<noteq> Some (String TYP_KEY_TRANSITION_v2));
       kid \<leftarrow> string_of (slots ''kid'');
       validate_kid_v2 kid b;
       encoded \<leftarrow> jcs_encode B b header;
       reject_if (encoded \<noteq> header_bytes);
       Some kid
     }"

definition transition_claims_v2 :: "bytes list" where
  "transition_claims_v2 =
     [''chain_id'', ''effective_at'', ''from_key_fingerprint'', ''to_key_fingerprint'', ''to_key_id'',
      ''transition_id'', ''v'']"

definition validate_transition_payload_v2 ::
  "backend \<Rightarrow> json \<Rightarrow> bytes \<Rightarrow> bounds \<Rightarrow> transition_payload result" where
  "validate_transition_payload_v2 B payload payload_bytes b =
     do {
       members \<leftarrow> members_of payload;
       slots \<leftarrow> collect transition_claims_v2 members Map.empty;
       reject_if (slots ''v'' \<noteq> Some (Integer 2));
       chain_id \<leftarrow> take_string_or_uri_v2 (slots ''chain_id'') b;
       transition_id \<leftarrow> take_string_or_uri_v2 (slots ''transition_id'') b;
       to_key_id \<leftarrow> string_of (slots ''to_key_id'');
       validate_kid_v2 to_key_id b;
       effective_at \<leftarrow> take_integral_date_v2 (slots ''effective_at'');
       from_fingerprint \<leftarrow> take_digest_b64u_v2 (slots ''from_key_fingerprint'') b;
       to_fingerprint \<leftarrow> take_digest_b64u_v2 (slots ''to_key_fingerprint'') b;
       encoded \<leftarrow> jcs_encode B b payload;
       reject_if (encoded \<noteq> payload_bytes);
       Some \<lparr>tp_chain_id = chain_id, tp_effective_at = effective_at,
         tp_from_fingerprint = from_fingerprint, tp_to_fingerprint = to_fingerprint,
         tp_to_key_id = to_key_id, tp_transition_id = transition_id\<rparr>
     }"

definition decode_transition_parts_v2 :: "backend \<Rightarrow> bytes \<Rightarrow> bounds \<Rightarrow> decoded_transition result" where
  "decode_transition_parts_v2 B compact b =
     do {
       reject_if (length compact > compact_bytes b);
       reject_if (length compact > anchor_bytes b);
       (protected_seg, payload_seg, signature_seg) \<leftarrow> parse_compact compact;
       header_bytes \<leftarrow> decode_segment_v2 protected_seg b;
       payload_bytes \<leftarrow> decode_segment_v2 payload_seg b;
       decode_signature_v2 signature_seg;
       header \<leftarrow> json_decode b header_bytes;
       payload_json \<leftarrow> json_decode b payload_bytes;
       key_id \<leftarrow> validate_transition_header_v2 B header header_bytes b;
       payload \<leftarrow> validate_transition_payload_v2 B payload_json payload_bytes b;
       Some \<lparr>dt_protected_seg = protected_seg, dt_payload_seg = payload_seg,
         dt_signature_seg = signature_seg, dt_key_id = key_id, dt_payload = payload\<rparr>
     }"

section \<open>Verification with historical keys\<close>

definition in_interval_v2 :: "int \<Rightarrow> int \<Rightarrow> validity_upper_bound \<Rightarrow> bool" where
  "in_interval_v2 t valid_from upper =
     (if t < valid_from then False else case upper of Bounded v \<Rightarrow> t < v | Unbounded \<Rightarrow> True)"

text \<open>The window checks that verification repeats for every historical key.\<close>

definition key_window_v2 :: "bounds \<Rightarrow> historical_public_key \<Rightarrow> unit result" where
  "key_window_v2 b key =
     do {
       reject_if (unsigned_abs (hk_valid_from key) > integer_magnitude b);
       case hk_valid_before key of
         Bounded v \<Rightarrow>
           do {
             reject_if (unsigned_abs v > integer_magnitude b);
             reject_if (v \<le> hk_valid_from key);
             Some ()
           }
       | Unbounded \<Rightarrow> Some ()
     }"

definition verify_historical_anchor_v2 ::
  "backend \<Rightarrow> bytes \<Rightarrow> historical_public_key \<Rightarrow> expected_anchor \<Rightarrow> anchor_facts result" where
  "verify_historical_anchor_v2 B compact key expected =
     (let b = resolve_bounds_v2 (ea_bounds expected) in
      do {
        key_window_v2 b key;
        a \<leftarrow> decode_anchor_parts_v2 B compact b;
        reject_if (da_key_id a \<noteq> hk_key_id key \<or> da_key_id a \<noteq> ea_key_id expected);
        derived \<leftarrow> public_key_thumbprint_raw B (hk_public_key key);
        reject_if (ap_key_fingerprint (da_payload a) \<noteq> derived \<or>
          ap_key_fingerprint (da_payload a) \<noteq> ea_key_fingerprint expected);
        reject_if (ap_anchor_id (da_payload a) \<noteq> ea_anchor_id expected \<or>
          ap_anchored_at (da_payload a) \<noteq> ea_anchored_at expected \<or>
          ap_chain_id (da_payload a) \<noteq> ea_chain_id expected \<or>
          ap_sequence (da_payload a) \<noteq> ea_sequence expected \<or>
          ap_chain_hash (da_payload a) \<noteq> ea_chain_hash expected);
        reject_if (ap_sequence (da_payload a) = 0 \<and>
          list_ex (\<lambda>c. byte c \<noteq> 0) (ap_chain_hash (da_payload a)));
        reject_if (\<not> in_interval_v2 (ap_anchored_at (da_payload a)) (hk_valid_from key) (hk_valid_before key));
        signature \<leftarrow> decode_signature_v2 (da_signature_seg a);
        let signing_input = signing_input_bytes_v2 (da_protected_seg a) (da_payload_seg a);
        ed25519_verify B (hk_public_key key) signing_input signature;
        Some \<lparr>af_anchor_id = ap_anchor_id (da_payload a), af_anchored_at = ap_anchored_at (da_payload a),
          af_chain_id = ap_chain_id (da_payload a), af_sequence = ap_sequence (da_payload a),
          af_chain_hash = ap_chain_hash (da_payload a), af_key_fingerprint = derived,
          af_key_id = da_key_id a, af_trust = NotEvaluated\<rparr>
      })"

definition verify_key_transition_v2 ::
  "backend \<Rightarrow> bytes \<Rightarrow> historical_public_key \<Rightarrow> historical_public_key \<Rightarrow> expected_key_transition \<Rightarrow>
   key_transition_facts result" where
  "verify_key_transition_v2 B compact current next_key expected =
     (let b = resolve_bounds_v2 (ekt_bounds expected) in
      do {
        key_window_v2 b current;
        key_window_v2 b next_key;
        t \<leftarrow> decode_transition_parts_v2 B compact b;
        reject_if (dt_key_id t \<noteq> hk_key_id current \<or> dt_key_id t \<noteq> ekt_current_key_id expected);
        current_derived \<leftarrow> public_key_thumbprint_raw B (hk_public_key current);
        next_derived \<leftarrow> public_key_thumbprint_raw B (hk_public_key next_key);
        reject_if (tp_from_fingerprint (dt_payload t) \<noteq> current_derived \<or>
          tp_from_fingerprint (dt_payload t) \<noteq> ekt_current_key_fingerprint expected);
        reject_if (tp_to_fingerprint (dt_payload t) \<noteq> next_derived \<or>
          tp_to_fingerprint (dt_payload t) \<noteq> ekt_next_key_fingerprint expected);
        reject_if (tp_to_key_id (dt_payload t) \<noteq> hk_key_id next_key \<or>
          tp_to_key_id (dt_payload t) \<noteq> ekt_next_key_id expected \<or>
          tp_chain_id (dt_payload t) \<noteq> ekt_chain_id expected \<or>
          tp_effective_at (dt_payload t) \<noteq> ekt_effective_at expected \<or>
          tp_transition_id (dt_payload t) \<noteq> ekt_transition_id expected);
        reject_if (current_derived = next_derived);
        reject_if (\<not> in_interval_v2 (tp_effective_at (dt_payload t)) (hk_valid_from current) (hk_valid_before current));
        reject_if (\<not> in_interval_v2 (tp_effective_at (dt_payload t)) (hk_valid_from next_key) (hk_valid_before next_key));
        signature \<leftarrow> decode_signature_v2 (dt_signature_seg t);
        let signing_input = signing_input_bytes_v2 (dt_protected_seg t) (dt_payload_seg t);
        ed25519_verify B (hk_public_key current) signing_input signature;
        Some \<lparr>tf_transition_id = tp_transition_id (dt_payload t), tf_chain_id = tp_chain_id (dt_payload t),
          tf_effective_at = tp_effective_at (dt_payload t),
          tf_current_key_fingerprint = current_derived, tf_current_key_id = dt_key_id t,
          tf_next_key_fingerprint = next_derived, tf_next_key_id = tp_to_key_id (dt_payload t),
          tf_trust = NotEvaluated\<rparr>
      })"

section \<open>Assembly\<close>

definition parse_assembled_v2 :: "backend \<Rightarrow> bytes \<Rightarrow> bounds \<Rightarrow> signing_kind \<Rightarrow> unit result" where
  "parse_assembled_v2 B compact b kind =
     (case kind of
        GrantKind \<Rightarrow> do { decode_grant_parts_v2 B compact b; Some () }
      | ProofKind \<Rightarrow> do { decode_proof_parts_v2 B compact b; Some () }
      | LocalLoopbackHttpProofKind \<Rightarrow> None
      | RoleAttestationKind \<Rightarrow> None
      | ContentAssertionKind \<Rightarrow> None
      | ChainAnchorKind \<Rightarrow> do { decode_anchor_parts_v2 B compact b; Some () }
      | KeyTransitionKind \<Rightarrow> do { decode_transition_parts_v2 B compact b; Some () })"

definition assemble_compact_v2 ::
  "backend \<Rightarrow> signing_input \<Rightarrow> bytes \<Rightarrow> bounds option \<Rightarrow> bytes result" where
  "assemble_compact_v2 B si signature nested =
     do {
       let b = resolve_bounds_v2 nested;
       reject_if (length (protected_segment si) > encoded_segment_bytes b \<or>
         length (payload_segment si) > encoded_segment_bytes b);
       reject_if (\<not> signature_gate signature);
       compact \<leftarrow> compose_compact si signature;
       reject_if (length compact > compact_bytes b);
       parse_assembled_v2 B compact b (si_kind si);
       Some compact
     }"

end
