(* ===== verification/Export_V2.thy ===== *)
theory Export_V2
  imports Anchors_V2 Export
begin

text \<open>
  Version 2 of the anchored export: archive framing, \<open>encode_anchored_export\<close> and
  \<open>verify_anchored_export\<close>.
\<close>

section \<open>Frames\<close>

definition ARCHIVE_MAGIC_v2 :: bytes where
  "ARCHIVE_MAGIC_v2 = ''BAP2-ARCHIVE'' @ [CHR 0x00] @ ''EXPORT'' @ [CHR 0x00]"

definition frame_into_v2 :: "bytes \<Rightarrow> bytes \<Rightarrow> bytes" where
  "frame_into_v2 content out = out @ u32_to_be_bytes (length content mod 2 ^ 32) @ content"

text \<open>A read returns the frame and the advanced cursor.\<close>

definition read_frame_v2 :: "bytes \<Rightarrow> nat \<Rightarrow> (bytes \<times> nat) result" where
  "read_frame_v2 buf cursor =
     do {
       prefix_end \<leftarrow> checked_add_u64 cursor 4;
       reject_if (prefix_end > length buf);
       let len = u32_from_be_bytes (take 4 (drop cursor buf));
       reject_if (len = 0);
       stop \<leftarrow> checked_add_u64 prefix_end len;
       reject_if (stop > length buf);
       Some (take len (drop prefix_end buf), stop)
     }"

definition read_frame_bounded_v2 :: "bytes \<Rightarrow> nat \<Rightarrow> nat \<Rightarrow> (bytes \<times> nat) result" where
  "read_frame_bounded_v2 buf cursor ceiling =
     do {
       (frame, cursor) \<leftarrow> read_frame_v2 buf cursor;
       reject_if (length frame > ceiling);
       Some (frame, cursor)
     }"

fun read_frames_v2 :: "bytes \<Rightarrow> nat \<Rightarrow> nat \<Rightarrow> nat \<Rightarrow> (bytes list \<times> nat) result" where
  "read_frames_v2 buf ceiling 0 cursor = Some ([], cursor)"
| "read_frames_v2 buf ceiling (Suc n) cursor =
     do {
       (frame, cursor) \<leftarrow> read_frame_bounded_v2 buf cursor ceiling;
       (frames, cursor) \<leftarrow> read_frames_v2 buf ceiling n cursor;
       Some (frame # frames, cursor)
     }"

section \<open>The archive header\<close>

definition header_claims_v2 :: "bytes list" where
  "header_claims_v2 =
     [''chain_id'', ''first_sequence'', ''last_hash'', ''last_sequence'', ''previous_hash'', ''row_count'',
      ''transition_count'', ''v'']"

definition decode_archive_header_v2 :: "backend \<Rightarrow> bytes \<Rightarrow> bounds \<Rightarrow> archive_header result" where
  "decode_archive_header_v2 B header_text b =
     do {
       reject_if (length header_text > archive_header_bytes b);
       v \<leftarrow> json_decode b header_text;
       members \<leftarrow> members_of v;
       slots \<leftarrow> collect header_claims_v2 members Map.empty;
       reject_if (slots ''v'' \<noteq> Some (Integer 2));
       chain_id \<leftarrow> take_string_or_uri_v2 (slots ''chain_id'') b;
       first_sequence \<leftarrow> take_integral_date_v2 (slots ''first_sequence'');
       last_sequence \<leftarrow> take_integral_date_v2 (slots ''last_sequence'');
       row_count \<leftarrow> take_integral_date_v2 (slots ''row_count'');
       transition_count \<leftarrow> take_integral_date_v2 (slots ''transition_count'');
       reject_if (row_count < 0 \<or> transition_count < 0);
       reject_if (first_sequence < 1 \<or> last_sequence < first_sequence);
       reject_if (i64_as_u64 row_count > chain_rows b);
       reject_if (i64_as_u64 transition_count > key_transitions b);
       previous_hash \<leftarrow> take_digest_b64u_v2 (slots ''previous_hash'') b;
       last_hash \<leftarrow> take_digest_b64u_v2 (slots ''last_hash'') b;
       reencoded \<leftarrow> jcs_encode B b v;
       reject_if (reencoded \<noteq> header_text);
       Some \<lparr>ah_chain_id = chain_id, ah_first_sequence = first_sequence,
         ah_last_sequence = last_sequence, ah_row_count = row_count,
         ah_transition_count = transition_count, ah_previous_hash = previous_hash,
         ah_last_hash = last_hash\<rparr>
     }"

section \<open>Checks on the expected context\<close>

definition anchor_matches_v2 :: "anchor_payload \<Rightarrow> bytes \<Rightarrow> expected_anchor \<Rightarrow> bool" where
  "anchor_matches_v2 payload key_id expected \<longleftrightarrow>
     ap_anchor_id payload = ea_anchor_id expected \<and> ap_anchored_at payload = ea_anchored_at expected \<and>
     ap_chain_id payload = ea_chain_id expected \<and> ap_sequence payload = ea_sequence expected \<and>
     key_id = ea_key_id expected \<and> ap_chain_hash payload = ea_chain_hash expected \<and>
     ap_key_fingerprint payload = ea_key_fingerprint expected"

definition transition_matches_v2 :: "transition_payload \<Rightarrow> bytes \<Rightarrow> expected_key_transition \<Rightarrow> bool" where
  "transition_matches_v2 payload current_kid expected \<longleftrightarrow>
     tp_transition_id payload = ekt_transition_id expected \<and> tp_chain_id payload = ekt_chain_id expected \<and>
     tp_effective_at payload = ekt_effective_at expected \<and> current_kid = ekt_current_key_id expected \<and>
     tp_from_fingerprint payload = ekt_current_key_fingerprint expected \<and>
     tp_to_key_id payload = ekt_next_key_id expected \<and>
     tp_to_fingerprint payload = ekt_next_key_fingerprint expected"

text \<open>The walk of \<open>key_path_ok\<close>: running key, running time and the fingerprints already seen.\<close>

fun key_path_walk_v2 ::
  "bytes \<Rightarrow> bytes \<Rightarrow> int \<Rightarrow> bytes list \<Rightarrow> expected_key_transition list \<Rightarrow> expected_anchor \<Rightarrow> unit result" where
  "key_path_walk_v2 key_id fingerprint time seen [] end_anchor =
     do {
       reject_if (key_id \<noteq> ea_key_id end_anchor \<or> fingerprint \<noteq> ea_key_fingerprint end_anchor);
       reject_if (ea_anchored_at end_anchor < time);
       Some ()
     }"
| "key_path_walk_v2 key_id fingerprint time seen (t # ts) end_anchor =
     do {
       reject_if (ekt_current_key_id t \<noteq> key_id \<or> ekt_current_key_fingerprint t \<noteq> fingerprint);
       reject_if (ekt_effective_at t \<le> time);
       reject_if (ekt_next_key_fingerprint t \<in> set seen);
       key_path_walk_v2 (ekt_next_key_id t) (ekt_next_key_fingerprint t) (ekt_effective_at t)
         (seen @ [ekt_next_key_fingerprint t]) ts end_anchor
     }"

definition key_path_ok_v2 ::
  "expected_anchor \<Rightarrow> expected_key_transition list \<Rightarrow> expected_anchor \<Rightarrow> unit result" where
  "key_path_ok_v2 start transitions end_anchor =
     key_path_walk_v2 (ea_key_id start) (ea_key_fingerprint start) (ea_anchored_at start)
       [ea_key_fingerprint start] transitions end_anchor"

definition require_nested_bounds_v2 ::
  "expected_chain \<Rightarrow> expected_anchor \<Rightarrow> expected_anchor \<Rightarrow> expected_key_transition list \<Rightarrow> bounds \<Rightarrow>
   unit result" where
  "require_nested_bounds_v2 chain start end_anchor transitions b =
     do {
       require_bounds_equal_v2 (ec_bounds chain) b;
       require_bounds_equal_v2 (ea_bounds start) b;
       require_bounds_equal_v2 (ea_bounds end_anchor) b;
       reject_if (list_ex (\<lambda>t. require_bounds_equal_v2 (ekt_bounds t) b = None) transitions);
       Some ()
     }"

text \<open>Both functions bind the expected anchors and transitions to the expected chain.\<close>

definition expected_bindings_v2 ::
  "expected_chain \<Rightarrow> expected_anchor \<Rightarrow> expected_anchor \<Rightarrow> expected_key_transition list \<Rightarrow> unit result" where
  "expected_bindings_v2 chain start end_anchor transitions =
     do {
       expected_start_seq \<leftarrow> checked_sub_i64 (ec_first_sequence chain) 1;
       reject_if (ea_chain_id start \<noteq> ec_chain_id chain \<or> ea_chain_id end_anchor \<noteq> ec_chain_id chain);
       reject_if (list_ex (\<lambda>t. ekt_chain_id t \<noteq> ec_chain_id chain) transitions);
       reject_if (ea_sequence start \<noteq> expected_start_seq \<or>
         ea_chain_hash start \<noteq> ec_previous_hash chain \<or>
         ea_sequence end_anchor \<noteq> ec_last_sequence chain \<or>
         ea_chain_hash end_anchor \<noteq> ec_head_hash chain);
       Some ()
     }"

section \<open>Encoding\<close>

fun gate_framed_v2 :: "bounds \<Rightarrow> bytes list \<Rightarrow> unit result" where
  "gate_framed_v2 b [] = Some ()"
| "gate_framed_v2 b (framed # rest) =
     do {
       reject_if (length framed > compact_bytes b \<or> length framed > anchor_bytes b);
       (_, _, signature_seg) \<leftarrow> parse_compact framed;
       signature \<leftarrow> decode_signature_v2 signature_seg;
       reject_if (\<not> signature_gate signature);
       gate_framed_v2 b rest
     }"

fun match_transitions_v2 ::
  "backend \<Rightarrow> bounds \<Rightarrow> bytes list \<Rightarrow> expected_key_transition list \<Rightarrow> unit result" where
  "match_transitions_v2 B b (compact # cs) (e # es) =
     do {
       t \<leftarrow> decode_transition_parts_v2 B compact b;
       reject_if (\<not> transition_matches_v2 (dt_payload t) (dt_key_id t) e);
       match_transitions_v2 B b cs es
     }"
| "match_transitions_v2 B b _ _ = Some ()"

definition archive_header_value_v2 :: "expected_chain \<Rightarrow> nat \<Rightarrow> bytes \<Rightarrow> bytes \<Rightarrow> json" where
  "archive_header_value_v2 chain transition_count last_hash_str previous_hash_str = Object
     [(''chain_id'', String (ec_chain_id chain)),
      (''first_sequence'', Integer (ec_first_sequence chain)),
      (''last_hash'', String last_hash_str),
      (''last_sequence'', Integer (ec_last_sequence chain)),
      (''previous_hash'', String previous_hash_str),
      (''row_count'', Integer (ec_row_count chain)),
      (''transition_count'', Integer (int transition_count)),
      (''v'', Integer 2)]"

fun add_frame_sizes_v2 :: "nat \<Rightarrow> bytes list \<Rightarrow> nat result" where
  "add_frame_sizes_v2 acc [] = Some acc"
| "add_frame_sizes_v2 acc (f # fs) =
     do { acc \<leftarrow> checked_add_u64 acc (4 + length f); add_frame_sizes_v2 acc fs }"

fun frame_all_v2 :: "bytes list \<Rightarrow> bytes \<Rightarrow> bytes result" where
  "frame_all_v2 [] out = Some out"
| "frame_all_v2 (f # fs) out = do { reject_if (f = []); frame_all_v2 fs (frame_into_v2 f out) }"

definition archive_budget_v2 :: "bounds \<Rightarrow> bytes \<Rightarrow> anchored_export_input \<Rightarrow> unit result" where
  "archive_budget_v2 b header_text input =
     do {
       n \<leftarrow> checked_add_u64 3 (length (aei_transitions input));
       n \<leftarrow> checked_add_u64 n (length (aei_rows input));
       frame_count \<leftarrow> checked_add_u64 n 1;
       reject_if (frame_count > archive_chunks b);
       acc \<leftarrow> add_frame_sizes_v2 (length ARCHIVE_MAGIC_v2) [header_text, aei_start_anchor input];
       acc \<leftarrow> add_frame_sizes_v2 acc (aei_transitions input);
       acc \<leftarrow> add_frame_sizes_v2 acc (aei_rows input);
       total_bytes \<leftarrow> add_frame_sizes_v2 acc [aei_end_anchor input];
       reject_if (total_bytes > archive_bytes b);
       Some ()
     }"

definition assemble_archive_v2 :: "bytes \<Rightarrow> anchored_export_input \<Rightarrow> bytes result" where
  "assemble_archive_v2 header_text input =
     do {
       let out = frame_into_v2 header_text ARCHIVE_MAGIC_v2;
       out \<leftarrow> frame_all_v2 [aei_start_anchor input] out;
       out \<leftarrow> frame_all_v2 (aei_transitions input) out;
       out \<leftarrow> frame_all_v2 (aei_rows input) out;
       frame_all_v2 [aei_end_anchor input] out
     }"

definition encode_anchored_export_v2 ::
  "backend \<Rightarrow> anchored_export_input \<Rightarrow> expected_export \<Rightarrow> anchored_export_encoded result" where
  "encode_anchored_export_v2 B input expected =
     (let b = resolve_bounds_v2 (ee_bounds expected); chain = ee_chain expected;
          start = ee_start_anchor expected; end_anchor = ee_end_anchor expected;
          transitions = ee_transitions expected
      in do {
        reject_if (length transitions > key_transitions b);
        require_nested_bounds_v2 chain start end_anchor transitions b;
        reject_if (int (length (aei_rows input)) \<noteq> ec_row_count chain);
        reject_if (length (aei_transitions input) \<noteq> length transitions);
        reject_if (length (aei_transitions input) > key_transitions b);
        reject_if (aei_rows input = [] \<or> length (aei_rows input) > chain_rows b);
        reject_if (length (aei_start_anchor input) > anchor_bytes b \<or>
          length (aei_end_anchor input) > anchor_bytes b);
        expected_bindings_v2 chain start end_anchor transitions;
        reject_if (list_ex (\<lambda>r. length r > chain_row_bytes b) (aei_rows input));
        check_chain_v2 B \<lparr>ci_rows = aei_rows input\<rparr> (chain\<lparr>ec_bounds := Some b\<rparr>);
        gate_framed_v2 b (aei_start_anchor input # aei_end_anchor input # aei_transitions input);
        start_parts \<leftarrow> decode_anchor_parts_v2 B (aei_start_anchor input) b;
        reject_if (\<not> anchor_matches_v2 (da_payload start_parts) (da_key_id start_parts) start);
        end_parts \<leftarrow> decode_anchor_parts_v2 B (aei_end_anchor input) b;
        reject_if (\<not> anchor_matches_v2 (da_payload end_parts) (da_key_id end_parts) end_anchor);
        match_transitions_v2 B b (aei_transitions input) transitions;
        key_path_ok_v2 start transitions end_anchor;
        previous_hash_str \<leftarrow> b64url_to_string_v2 (base64url_encode (ec_previous_hash chain));
        last_hash_str \<leftarrow> b64url_to_string_v2 (base64url_encode (ec_head_hash chain));
        header_text \<leftarrow> jcs_encode B b
          (archive_header_value_v2 chain (length (aei_transitions input)) last_hash_str previous_hash_str);
        reject_if (length header_text > archive_header_bytes b);
        archive_budget_v2 b header_text input;
        out \<leftarrow> assemble_archive_v2 header_text input;
        Some \<lparr>axe_bytes = out, axe_byte_count = length out, axe_digest = sha256 B out\<rparr>
      })"

section \<open>Verification\<close>

definition zero_hash_v2 :: bytes where "zero_hash_v2 = replicate 32 (CHR 0x00)"

definition bad_kid_v2 :: "bounds \<Rightarrow> bytes \<Rightarrow> bool" where
  "bad_kid_v2 b kid \<longleftrightarrow> kid = [] \<or> length kid > kid_bytes b \<or> \<not> list_all is_kid_byte_v2 kid"

definition check_expected_chain_v2 :: "bounds \<Rightarrow> expected_chain \<Rightarrow> unit result" where
  "check_expected_chain_v2 b chain =
     do {
       validate_identifier_v2 (ec_chain_id chain) b;
       let mag = integer_magnitude b;
       reject_if (ec_first_sequence chain < 1 \<or> unsigned_abs (ec_first_sequence chain) > mag \<or>
         ec_last_sequence chain < 1 \<or> unsigned_abs (ec_last_sequence chain) > mag \<or>
         ec_first_sequence chain > ec_last_sequence chain);
       reject_if (ec_row_count chain < 1 \<or> i64_as_u64 (ec_row_count chain) > chain_rows b \<or>
         ec_row_count chain \<noteq> ec_last_sequence chain - ec_first_sequence chain + 1);
       reject_if (ec_first_sequence chain = 1 \<and> ec_previous_hash chain \<noteq> zero_hash_v2);
       Some ()
     }"

definition check_expected_anchor_v2 :: "bounds \<Rightarrow> expected_anchor \<Rightarrow> unit result" where
  "check_expected_anchor_v2 b anch =
     do {
       validate_identifier_v2 (ea_anchor_id anch) b;
       validate_identifier_v2 (ea_chain_id anch) b;
       reject_if (unsigned_abs (ea_anchored_at anch) > integer_magnitude b);
       reject_if (ea_sequence anch < 0 \<or> unsigned_abs (ea_sequence anch) > integer_magnitude b);
       reject_if (bad_kid_v2 b (ea_key_id anch));
       reject_if (ea_sequence anch = 0 \<and> ea_chain_hash anch \<noteq> zero_hash_v2);
       Some ()
     }"

fun check_expected_transitions_v2 :: "bounds \<Rightarrow> expected_key_transition list \<Rightarrow> unit result" where
  "check_expected_transitions_v2 b [] = Some ()"
| "check_expected_transitions_v2 b (t # ts) =
     do {
       validate_identifier_v2 (ekt_transition_id t) b;
       validate_identifier_v2 (ekt_chain_id t) b;
       reject_if (unsigned_abs (ekt_effective_at t) > integer_magnitude b);
       reject_if (bad_kid_v2 b (ekt_current_key_id t));
       reject_if (bad_kid_v2 b (ekt_next_key_id t));
       reject_if (ekt_current_key_fingerprint t = ekt_next_key_fingerprint t);
       check_expected_transitions_v2 b ts
     }"

fun key_windows_v2 :: "bounds \<Rightarrow> historical_public_key list \<Rightarrow> unit result" where
  "key_windows_v2 b [] = Some ()"
| "key_windows_v2 b (k # ks) = do { key_window_v2 b k; key_windows_v2 b ks }"

definition key_shape_ok_v2 :: "bounds \<Rightarrow> historical_public_key \<Rightarrow> bool" where
  "key_shape_ok_v2 b k \<longleftrightarrow> \<not> bad_kid_v2 b (hk_key_id k) \<and> length (hk_public_key k) = 32"

fun add_chunk_sizes_v2 :: "nat \<Rightarrow> bytes list \<Rightarrow> nat result" where
  "add_chunk_sizes_v2 acc [] = Some acc"
| "add_chunk_sizes_v2 acc (c # cs) =
     do { reject_if (c = []); acc \<leftarrow> checked_add_u64 acc (length c); add_chunk_sizes_v2 acc cs }"

definition check_chunks_v2 :: "bounds \<Rightarrow> bytes list \<Rightarrow> unit result" where
  "check_chunks_v2 b chunks =
     do {
       reject_if (chunks = [] \<or> length chunks > archive_chunks b);
       sum \<leftarrow> add_chunk_sizes_v2 0 chunks;
       reject_if (sum > archive_bytes b);
       reject_if (sum < length ARCHIVE_MAGIC_v2);
       Some ()
     }"

definition check_versions_v2 :: "bounds \<Rightarrow> bytes \<Rightarrow> bytes \<Rightarrow> unit result" where
  "check_versions_v2 b observed expected =
     do {
       reject_if (observed = [] \<or> length observed > object_version_bytes b \<or>
         expected = [] \<or> length expected > object_version_bytes b \<or> observed \<noteq> expected);
       Some ()
     }"

definition constant_time_eq_v2 :: "bytes \<Rightarrow> bytes \<Rightarrow> bool" where
  "constant_time_eq_v2 a c =
     (if length a \<noteq> length c then False
      else foldl (\<lambda>acc (x, y). acc OR (byte x XOR byte y)) 0 (zip a c) = 0)"

definition header_agrees_v2 :: "archive_header \<Rightarrow> expected_chain \<Rightarrow> nat \<Rightarrow> bool" where
  "header_agrees_v2 header chain transition_count \<longleftrightarrow>
     ah_chain_id header = ec_chain_id chain \<and> ah_first_sequence header = ec_first_sequence chain \<and>
     ah_last_sequence header = ec_last_sequence chain \<and> ah_row_count header = ec_row_count chain \<and>
     ah_previous_hash header = ec_previous_hash chain \<and> ah_last_hash header = ec_head_hash chain \<and>
     ah_transition_count header = int transition_count"

text \<open>The scan from the magic to the exact end of the stream.\<close>

definition scan_archive_v2 ::
  "backend \<Rightarrow> bounds \<Rightarrow> bytes \<Rightarrow> expected_chain \<Rightarrow> nat \<Rightarrow> scanned_archive result" where
  "scan_archive_v2 B b buf chain transition_count =
     do {
       reject_if (take (length ARCHIVE_MAGIC_v2) buf \<noteq> ARCHIVE_MAGIC_v2);
       let cursor = length ARCHIVE_MAGIC_v2;
       (header_frame, cursor) \<leftarrow> read_frame_v2 buf cursor;
       (start_anchor_compact, cursor) \<leftarrow> read_frame_bounded_v2 buf cursor (anchor_bytes b);
       header \<leftarrow> decode_archive_header_v2 B header_frame b;
       reject_if (\<not> header_agrees_v2 header chain transition_count);
       (transition_compacts, cursor) \<leftarrow>
         read_frames_v2 buf (anchor_bytes b) (nat (ah_transition_count header)) cursor;
       (rows, cursor) \<leftarrow> read_frames_v2 buf (chain_row_bytes b) (nat (ah_row_count header)) cursor;
       (end_anchor_compact, cursor) \<leftarrow> read_frame_bounded_v2 buf cursor (anchor_bytes b);
       reject_if (cursor \<noteq> length buf);
       Some \<lparr>sa_header = header, sa_start_anchor = start_anchor_compact,
         sa_transitions = transition_compacts, sa_rows = rows, sa_end_anchor = end_anchor_compact\<rparr>
     }"

text \<open>Positional authentication: each key signs the transition to the next one.\<close>

fun verify_transitions_v2 ::
  "backend \<Rightarrow> bytes list \<Rightarrow> expected_key_transition list \<Rightarrow> historical_public_key list \<Rightarrow> int list result" where
  "verify_transitions_v2 B [] es ks = Some []"
| "verify_transitions_v2 B (c # cs) (e # es) (k # k' # ks) =
     do {
       f \<leftarrow> verify_key_transition_v2 B c k k' e;
       times \<leftarrow> verify_transitions_v2 B cs es (k' # ks);
       Some (tf_effective_at f # times)
     }"
| "verify_transitions_v2 B (c # cs) _ _ = None"

fun distinct_fingerprints_v2 :: "backend \<Rightarrow> bytes list \<Rightarrow> historical_public_key list \<Rightarrow> unit result" where
  "distinct_fingerprints_v2 B seen [] = Some ()"
| "distinct_fingerprints_v2 B seen (k # ks) =
     do {
       fp \<leftarrow> public_key_thumbprint_raw B (hk_public_key k);
       reject_if (list_ex (\<lambda>s. s = fp) seen);
       distinct_fingerprints_v2 B (seen @ [fp]) ks
     }"

fun increasing_v2 :: "int list \<Rightarrow> unit result" where
  "increasing_v2 (s # t # ts) = do { reject_if (s \<ge> t); increasing_v2 (t # ts) }"
| "increasing_v2 _ = Some ()"

definition check_export_chronology_v2 ::
  "backend \<Rightarrow> int \<Rightarrow> int \<Rightarrow> int list \<Rightarrow> historical_public_key list \<Rightarrow> unit result" where
  "check_export_chronology_v2 B start_at end_at effective_times keys =
     do {
       distinct_fingerprints_v2 B [] keys;
       if effective_times = [] then (if start_at > end_at then None else Some ())
       else do {
         increasing_v2 effective_times;
         reject_if (start_at \<ge> hd effective_times);
         reject_if (end_at < last effective_times);
         Some ()
       }
     }"

definition authenticate_archive_v2 ::
  "backend \<Rightarrow> bounds \<Rightarrow> scanned_archive \<Rightarrow> historical_public_key list \<Rightarrow> expected_anchored_export \<Rightarrow> unit result" where
  "authenticate_archive_v2 B b s keys expected =
     (let chain = eae_chain expected in
      do {
        reject_if (int (length keys) \<noteq> ah_transition_count (sa_header s) + 1);
        start_facts \<leftarrow> verify_historical_anchor_v2 B (sa_start_anchor s) (keys ! 0) (eae_start_anchor expected);
        reject_if (af_chain_hash start_facts \<noteq> ec_previous_hash chain);
        expected_start_seq \<leftarrow> checked_sub_i64 (ec_first_sequence chain) 1;
        reject_if (af_sequence start_facts \<noteq> expected_start_seq);
        effective_times \<leftarrow> verify_transitions_v2 B (sa_transitions s) (eae_transitions expected) keys;
        end_facts \<leftarrow> verify_historical_anchor_v2 B (sa_end_anchor s)
          (keys ! nat (ah_transition_count (sa_header s))) (eae_end_anchor expected);
        reject_if (af_chain_hash end_facts \<noteq> ec_head_hash chain);
        reject_if (af_sequence end_facts \<noteq> ec_last_sequence chain);
        check_export_chronology_v2 B (af_anchored_at start_facts) (af_anchored_at end_facts) effective_times keys;
        check_chain_v2 B \<lparr>ci_rows = sa_rows s\<rparr> (chain\<lparr>ec_bounds := Some b\<rparr>);
        Some ()
      })"

definition verify_anchored_export_v2 ::
  "backend \<Rightarrow> archived_object \<Rightarrow> historical_key_chain \<Rightarrow> expected_anchored_export \<Rightarrow>
   anchored_export_facts result" where
  "verify_anchored_export_v2 B obj key_chain expected =
     (let b = resolve_bounds_v2 (eae_bounds expected); chain = eae_chain expected;
          start = eae_start_anchor expected; end_anchor = eae_end_anchor expected;
          transitions = eae_transitions expected; keys = hkc_keys key_chain; chunks = ao_chunks obj
      in do {
        reject_if (length transitions > key_transitions b);
        check_expected_chain_v2 b chain;
        check_expected_anchor_v2 b start;
        check_expected_anchor_v2 b end_anchor;
        check_expected_transitions_v2 b transitions;
        require_nested_bounds_v2 chain start end_anchor transitions b;
        reject_if (length keys \<noteq> length transitions + 1);
        key_windows_v2 b keys;
        expected_bindings_v2 chain start end_anchor transitions;
        check_chunks_v2 b chunks;
        check_versions_v2 b (ao_version obj) (eae_object_version expected);
        reject_if (list_ex (\<lambda>k. \<not> key_shape_ok_v2 b k) keys);
        let computed = sha256 B (concat chunks);
        reject_if (\<not> constant_time_eq_v2 computed (eae_digest expected));
        s \<leftarrow> scan_archive_v2 B b (concat chunks) chain (length transitions);
        authenticate_archive_v2 B b s keys expected;
        Some \<lparr>xf_chain_id = ah_chain_id (sa_header s), xf_first_sequence = ah_first_sequence (sa_header s),
          xf_last_sequence = ah_last_sequence (sa_header s), xf_row_count = ah_row_count (sa_header s),
          xf_transition_count = ah_transition_count (sa_header s),
          xf_previous_hash = ah_previous_hash (sa_header s), xf_head_hash = ah_last_hash (sa_header s),
          xf_digest = computed, xf_object_version = eae_object_version expected,
          xf_trust = NotEvaluated, xf_authorization = NotEvaluated\<rparr>
      })"

end
