(* ===== verification/Jwk_V3.thy ===== *)
theory Jwk_V3
  imports Claims Es256
begin

text \<open>
  The P-256 JWK codec and the thumbprint of \<open>sdks/rust/src/v3.rs\<close>. A public key is the uncompressed
  SEC1 point of 65 bytes: the tag 4, then the coordinates x and y. \<open>v3.rs\<close> repeats the structs of
  \<open>types.rs\<close> that hold a key only to give the key this width; the model keeps the records of theory
  Types, whose keys are byte lists.
\<close>

definition CRV_NIST :: bytes where "CRV_NIST = ''P-256''"
definition KTY_EC :: bytes where "KTY_EC = ''EC''"

definition point_x :: "bytes \<Rightarrow> bytes" where "point_x public_key = take 32 (drop 1 public_key)"
definition point_y :: "bytes \<Rightarrow> bytes" where "point_y public_key = take 32 (drop 33 public_key)"

definition jwk_encode_public_v3 :: "backend \<Rightarrow> bytes \<Rightarrow> bytes result" where
  "jwk_encode_public_v3 B public_key =
     do {
       validate_point B public_key;
       let x = base64url_encode (point_x public_key);
       let y = base64url_encode (point_y public_key);
       Some (''{\"crv\":\"'' @ CRV_NIST @ ''\",\"kty\":\"'' @ KTY_EC @ ''\",\"x\":\"'' @ x @
         ''\",\"y\":\"'' @ y @ ''\"}'')
     }"

definition jwk_decode_public_v3 :: "backend \<Rightarrow> bytes \<Rightarrow> bytes result" where
  "jwk_decode_public_v3 B jwk_text =
     do {
       v \<leftarrow> json_decode maximum jwk_text;
       members \<leftarrow> members_of v;
       slots \<leftarrow> collect [''crv'', ''kty'', ''x'', ''y''] members Map.empty;
       reject_if (slots ''crv'' \<noteq> Some (String CRV_NIST));
       reject_if (slots ''kty'' \<noteq> Some (String KTY_EC));
       x_str \<leftarrow> string_of (slots ''x'');
       y_str \<leftarrow> string_of (slots ''y'');
       x_bytes \<leftarrow> base64url_decode x_str;
       reject_if (length x_bytes \<noteq> 32);
       y_bytes \<leftarrow> base64url_decode y_str;
       reject_if (length y_bytes \<noteq> 32);
       let public_key = CHR 0x04 # x_bytes @ y_bytes;
       validate_point B public_key;
       Some public_key
     }"

definition thumbprint_preimage_v3 :: "backend \<Rightarrow> bytes \<Rightarrow> bytes result" where
  "thumbprint_preimage_v3 B public_key = jwk_encode_public_v3 B public_key"

definition thumbprint_raw_v3 :: "backend \<Rightarrow> bytes \<Rightarrow> bytes result" where
  "thumbprint_raw_v3 B public_key =
     do { preimage \<leftarrow> thumbprint_preimage_v3 B public_key; Some (sha256 B preimage) }"

definition thumbprint_v3 :: "backend \<Rightarrow> bytes \<Rightarrow> bytes result" where
  "thumbprint_v3 B public_key =
     do { raw \<leftarrow> thumbprint_raw_v3 B public_key; Some (base64url_encode raw) }"

definition public_key_thumbprint_raw_v3 :: "backend \<Rightarrow> bytes \<Rightarrow> bytes result" where
  "public_key_thumbprint_raw_v3 B public_key = thumbprint_raw_v3 B public_key"

end
