(* ===== verification/Claims_V3.thy ===== *)
theory Claims_V3
  imports Claims Jwk_V3 Digest
begin

text \<open>
  Version 3 of the closed-set validators (\<open>sdks/rust/src/v3.rs\<close>): protected headers
  with algorithm ES256, grant and proof claim tables, scalar claim types. The records are those of
  version 1; a public key is 65 bytes here (theory Jwk_V3).
\<close>

section \<open>Constants and the closed member loop\<close>

definition ALG_ECDSA_P256_v3 :: bytes where "ALG_ECDSA_P256_v3 = ''ES256''"
definition TYP_GRANT_v3 :: bytes where "TYP_GRANT_v3 = ''ba+cap''"
definition TYP_PROOF_v3 :: bytes where "TYP_PROOF_v3 = ''dpop+jwt''"
definition TYP_CHAIN_ANCHOR_v3 :: bytes where "TYP_CHAIN_ANCHOR_v3 = ''ba+chain-anchor''"
definition TYP_KEY_TRANSITION_v3 :: bytes where "TYP_KEY_TRANSITION_v3 = ''ba+key-transition''"

section \<open>Scalars\<close>

definition is_kid_byte_v3 :: "u8 \<Rightarrow> bool" where
  "is_kid_byte_v3 c \<longleftrightarrow> is_ascii_alphanumeric c \<or> c \<in> set ''-._~''"

definition is_htm_byte_v3 :: "u8 \<Rightarrow> bool" where
  "is_htm_byte_v3 c \<longleftrightarrow> is_ascii_alphanumeric c \<or> c \<in> set (CHR 0x21 # CHR 0x23 # CHR 0x27 # CHR 0x60 # ''$%&*+-.^_|~'')"

definition is_printable_ascii_v3 :: "u8 \<Rightarrow> bool" where
  "is_printable_ascii_v3 c \<longleftrightarrow> 0x20 \<le> byte c \<and> byte c \<le> 0x7E"

definition validate_kid_v3 :: "bytes \<Rightarrow> bounds \<Rightarrow> unit result" where
  "validate_kid_v3 s b =
     do { reject_if (s = [] \<or> length s > kid_bytes b); reject_if (\<not> list_all is_kid_byte_v3 s); Some () }"

definition validate_method_token_v3 :: "bytes \<Rightarrow> bounds \<Rightarrow> unit result" where
  "validate_method_token_v3 s b =
     do { reject_if (s = [] \<or> length s > method_bytes b); reject_if (\<not> list_all is_htm_byte_v3 s); Some () }"

definition validate_operation_name_v3 :: "bytes \<Rightarrow> bounds \<Rightarrow> unit result" where
  "validate_operation_name_v3 s b =
     do { reject_if (s = [] \<or> length s > operation_bytes b); reject_if (\<not> list_all is_printable_ascii_v3 s); Some () }"

text \<open>The loop over \<open>enumerate\<close>: hyphens at four positions, lowercase hex elsewhere.\<close>

fun uuid_bytes_v3 :: "nat \<Rightarrow> bytes \<Rightarrow> unit result" where
  "uuid_bytes_v3 i [] = Some ()"
| "uuid_bytes_v3 i (c # cs) =
     (if i = 8 \<or> i = 13 \<or> i = 18 \<or> i = 23 then
        (if c \<noteq> CHR ''-'' then None else uuid_bytes_v3 (i + 1) cs)
      else if \<not> is_ascii_digit c \<and> \<not> in_range CHR ''a'' CHR ''f'' c then None
      else uuid_bytes_v3 (i + 1) cs)"

definition validate_uuid_v3 :: "bytes \<Rightarrow> unit result" where
  "validate_uuid_v3 s = do { reject_if (length s \<noteq> 36); uuid_bytes_v3 0 s }"

section \<open>Identifiers\<close>

definition validate_scheme_v3 :: "bytes \<Rightarrow> unit result" where
  "validate_scheme_v3 scheme =
     do {
       reject_if (scheme = [] \<or> \<not> is_ascii_alphabetic (hd scheme));
       reject_if (\<not> list_all (\<lambda>c. is_ascii_alphanumeric c \<or> c \<in> set ''+-.'') scheme);
       Some ()
     }"

definition is_hex_v3 :: "u8 \<Rightarrow> bool" where
  "is_hex_v3 c \<longleftrightarrow> is_ascii_digit c \<or> (0x41 \<le> byte c \<and> byte c \<le> 0x46) \<or> (0x61 \<le> byte c \<and> byte c \<le> 0x66)"

definition URI_PUNCT_v3 :: bytes where
  "URI_PUNCT_v3 = CHR 0x23 # CHR 0x27 # ''-._~:/?[]@!$&()*+,;=''"

fun validate_uri_bytes_v3 :: "bytes \<Rightarrow> unit result" where
  "validate_uri_bytes_v3 [] = Some ()"
| "validate_uri_bytes_v3 (c # cs) =
     (if is_ascii_alphanumeric c \<or> c \<in> set URI_PUNCT_v3 then validate_uri_bytes_v3 cs
      else if c = CHR ''%'' then
        (case cs of
           h1 # h2 # r \<Rightarrow> if is_hex_v3 h1 \<and> is_hex_v3 h2 then validate_uri_bytes_v3 r else None
         | _ \<Rightarrow> None)
      else None)"

definition validate_authority_port_v3 :: "bytes \<Rightarrow> unit result" where
  "validate_authority_port_v3 s =
     (case find_scheme_end s of
        None \<Rightarrow> Some ()
      | Some i \<Rightarrow>
          (let after_scheme_host = drop (i + 3) s;
               authority = takeWhile (\<lambda>c. c \<notin> {CHR ''/'', CHR ''?'', CHR 0x23}) after_scheme_host
           in if starts_with ''['' authority then Some ()
              else case rposition (\<lambda>c. c = CHR '':'') authority of
                None \<Rightarrow> Some ()
              | Some c \<Rightarrow>
                  (let port = drop (c + 1) authority
                   in if port = [] \<or> \<not> list_all is_ascii_digit port then None else Some ())))"

definition validate_identifier_v3 :: "bytes \<Rightarrow> bounds \<Rightarrow> unit result" where
  "validate_identifier_v3 s b =
     do {
       reject_if (s = [] \<or> length s > identifier_bytes b);
       case position (\<lambda>c. c = CHR '':'') s of
         None \<Rightarrow> Some ()
       | Some colon \<Rightarrow>
           do {
             validate_scheme_v3 (take colon s);
             validate_uri_bytes_v3 s;
             validate_authority_port_v3 s;
             Some ()
           }
     }"

section \<open>Claim types\<close>

definition take_string_or_uri_v3 :: "json option \<Rightarrow> bounds \<Rightarrow> bytes result" where
  "take_string_or_uri_v3 v b = do { s \<leftarrow> string_of v; validate_identifier_v3 s b; Some s }"

fun audience_items_v3 :: "bounds \<Rightarrow> bytes set \<Rightarrow> json list \<Rightarrow> bytes list result" where
  "audience_items_v3 b seen [] = Some []"
| "audience_items_v3 b seen (item # items) =
     do {
       s \<leftarrow> string_of (Some item);
       validate_identifier_v3 s b;
       reject_if (s \<in> seen);
       rest \<leftarrow> audience_items_v3 b (insert s seen) items;
       Some (s # rest)
     }"

definition take_audiences_v3 :: "json option \<Rightarrow> bounds \<Rightarrow> bytes list result" where
  "take_audiences_v3 v b =
     (case v of
        Some (String s) \<Rightarrow> do { validate_identifier_v3 s b; Some [s] }
      | Some (Array items) \<Rightarrow>
          do { reject_if (items = [] \<or> length items > audiences b); audience_items_v3 b {} items }
      | _ \<Rightarrow> None)"

definition take_integral_date_v3 :: "json option \<Rightarrow> int result" where
  "take_integral_date_v3 v = (case v of Some (Integer n) \<Rightarrow> Some n | _ \<Rightarrow> None)"

definition take_digest_b64u_v3 :: "json option \<Rightarrow> bounds \<Rightarrow> bytes result" where
  "take_digest_b64u_v3 v b =
     do {
       s \<leftarrow> string_of v;
       reject_if (length s > encoded_segment_bytes b);
       raw \<leftarrow> base64url_decode s;
       reject_if (length raw \<noteq> 32);
       Some raw
     }"

definition take_cnf_jkt_v3 :: "json option \<Rightarrow> bounds \<Rightarrow> bytes result" where
  "take_cnf_jkt_v3 v b =
     do {
       v \<leftarrow> v;
       members \<leftarrow> members_of v;
       reject_if (length members \<noteq> 1);
       reject_if (fst (hd members) \<noteq> ''jkt'');
       s \<leftarrow> string_of (Some (snd (hd members)));
       reject_if (length s > encoded_segment_bytes b);
       raw \<leftarrow> base64url_decode s;
       reject_if (length raw \<noteq> 32);
       Some raw
     }"

definition take_method_token_v3 :: "json option \<Rightarrow> bounds \<Rightarrow> bytes result" where
  "take_method_token_v3 v b = do { s \<leftarrow> string_of v; validate_method_token_v3 s b; Some s }"

definition take_operation_name_v3 :: "json option \<Rightarrow> bounds \<Rightarrow> bytes result" where
  "take_operation_name_v3 v b = do { s \<leftarrow> string_of v; validate_operation_name_v3 s b; Some s }"

definition take_uuid_v3 :: "json option \<Rightarrow> bytes result" where
  "take_uuid_v3 v = do { s \<leftarrow> string_of v; validate_uuid_v3 s; Some s }"

fun operation_items_v3 :: "backend \<Rightarrow> bounds \<Rightarrow> bytes set \<Rightarrow> json list \<Rightarrow> unit result" where
  "operation_items_v3 B b seen [] = Some ()"
| "operation_items_v3 B b seen (op # ops) =
     do {
       members \<leftarrow> members_of op;
       reject_if (length members \<noteq> 2);
       slots \<leftarrow> collect [''name'', ''selectors''] members Map.empty;
       name \<leftarrow> string_of (slots ''name'');
       validate_operation_name_v3 name b;
       reject_if (name \<in> seen);
       sel \<leftarrow> slots ''selectors'';
       sel_items \<leftarrow> items_of sel;
       reject_if (sel_items = [] \<or> length sel_items > selectors b);
       validate_each (\<lambda>s. validate_v2 B s b) sel_items;
       operation_items_v3 B b (insert name seen) ops
     }"

definition validate_operations_v3 :: "backend \<Rightarrow> json option \<Rightarrow> bounds \<Rightarrow> unit result" where
  "validate_operations_v3 B v b =
     do {
       v \<leftarrow> v;
       items \<leftarrow> items_of v;
       reject_if (items = [] \<or> length items > operations b);
       operation_items_v3 B b {} items
     }"

section \<open>Headers\<close>

definition validate_grant_header_v3 :: "json \<Rightarrow> bounds \<Rightarrow> bytes result" where
  "validate_grant_header_v3 header b =
     do {
       members \<leftarrow> members_of header;
       slots \<leftarrow> collect [''alg'', ''typ'', ''kid''] members Map.empty;
       reject_if (slots ''alg'' \<noteq> Some (String ALG_ECDSA_P256_v3));
       reject_if (slots ''typ'' \<noteq> Some (String TYP_GRANT_v3));
       kid \<leftarrow> string_of (slots ''kid'');
       validate_kid_v3 kid b;
       Some kid
     }"

definition validate_proof_header_v3 :: "backend \<Rightarrow> json \<Rightarrow> bounds \<Rightarrow> bytes result" where
  "validate_proof_header_v3 B header b =
     do {
       members \<leftarrow> members_of header;
       slots \<leftarrow> collect [''alg'', ''typ'', ''jwk''] members Map.empty;
       reject_if (slots ''alg'' \<noteq> Some (String ALG_ECDSA_P256_v3));
       reject_if (slots ''typ'' \<noteq> Some (String TYP_PROOF_v3));
       jwk_val \<leftarrow> slots ''jwk'';
       jwk_bytes \<leftarrow> jcs_encode B b jwk_val;
       jwk_decode_public_v3 B jwk_bytes
     }"

section \<open>Claim tables\<close>

definition grant_claims_v3 :: "bytes list" where
  "grant_claims_v3 = [''v'', ''iss'', ''jti'', ''aud'', ''iat'', ''nbf'', ''exp'', ''cnf'', ''operations'']"

definition validate_grant_payload_v3 :: "backend \<Rightarrow> json \<Rightarrow> bounds \<Rightarrow> grant_payload result" where
  "validate_grant_payload_v3 B payload b =
     do {
       members \<leftarrow> members_of payload;
       slots \<leftarrow> collect grant_claims_v3 members Map.empty;
       reject_if (slots ''v'' \<noteq> Some (Integer 3));
       issuer \<leftarrow> take_string_or_uri_v3 (slots ''iss'') b;
       grant_id \<leftarrow> take_string_or_uri_v3 (slots ''jti'') b;
       audiences \<leftarrow> take_audiences_v3 (slots ''aud'') b;
       issued_at \<leftarrow> take_integral_date_v3 (slots ''iat'');
       not_before \<leftarrow> take_integral_date_v3 (slots ''nbf'');
       expires_at \<leftarrow> take_integral_date_v3 (slots ''exp'');
       holder_thumbprint \<leftarrow> take_cnf_jkt_v3 (slots ''cnf'') b;
       validate_operations_v3 B (slots ''operations'') b;
       reject_if (\<not> (issued_at < expires_at \<and> not_before < expires_at));
       Some \<lparr>gp_version = 3, gp_issuer = issuer, gp_grant_id = grant_id, gp_audiences = audiences,
         gp_holder_thumbprint = holder_thumbprint, gp_issued_at = issued_at,
         gp_not_before = not_before, gp_expires_at = expires_at\<rparr>
     }"

definition proof_claims_v3 :: "bytes list" where
  "proof_claims_v3 =
     [''v'', ''jti'', ''htm'', ''htu'', ''iat'', ''nonce'', ''ba_inv'', ''ba_op'', ''ath'', ''ba_req'']"

definition take_nonce_v3 :: "json option \<Rightarrow> bounds \<Rightarrow> bytes option result" where
  "take_nonce_v3 v b =
     (case v of
        None \<Rightarrow> Some None
      | Some (String s) \<Rightarrow>
          (if s = [] then None else if length s > nonce_bytes b then None else Some (Some s))
      | _ \<Rightarrow> None)"

definition validate_proof_payload_v3 :: "json \<Rightarrow> bounds \<Rightarrow> proof_payload result" where
  "validate_proof_payload_v3 payload b =
     do {
       members \<leftarrow> members_of payload;
       slots \<leftarrow> collect proof_claims_v3 members Map.empty;
       reject_if (slots ''v'' \<noteq> Some (Integer 3));
       proof_id \<leftarrow> take_string_or_uri_v3 (slots ''jti'') b;
       method \<leftarrow> take_method_token_v3 (slots ''htm'') b;
       invocation_id \<leftarrow> take_uuid_v3 (slots ''ba_inv'');
       operation \<leftarrow> take_operation_name_v3 (slots ''ba_op'') b;
       grant_hash \<leftarrow> take_digest_b64u_v3 (slots ''ath'') b;
       request_hash \<leftarrow> take_digest_b64u_v3 (slots ''ba_req'') b;
       issued_at \<leftarrow> take_integral_date_v3 (slots ''iat'');
       target_uri_input \<leftarrow> string_of (slots ''htu'');
       nonce \<leftarrow> take_nonce_v3 (slots ''nonce'') b;
       target_uri \<leftarrow> uri_normalize b target_uri_input;
       reject_if (target_uri \<noteq> target_uri_input);
       Some \<lparr>pp_proof_id = proof_id, pp_method = method, pp_target_uri = target_uri,
         pp_invocation_id = invocation_id, pp_operation = operation, pp_grant_hash = grant_hash,
         pp_request_hash = request_hash, pp_issued_at = issued_at, pp_nonce = nonce\<rparr>
     }"

section \<open>The request digest of the version\<close>

definition v3_request_digest :: "backend \<Rightarrow> bytes \<Rightarrow> json \<Rightarrow> bounds \<Rightarrow> bytes result" where
  "v3_request_digest B operation cast_arguments b = request_digest_v3 B operation cast_arguments b"

end
