(* ===== verification/Producers_V3.thy ===== *)
theory Producers_V3
  imports Grant_V3 Producers
begin

text \<open>
  Version 3 of the producers of signing inputs. Every public key passes
  \<open>validate_point\<close> first.
\<close>

section \<open>Shared steps\<close>

definition build_produced_v3 :: "backend \<Rightarrow> json \<Rightarrow> json \<Rightarrow> bounds \<Rightarrow> produced_signing_input result" where
  "build_produced_v3 B header payload b =
     do {
       header_jcs \<leftarrow> jcs_encode B b header;
       payload_jcs \<leftarrow> jcs_encode B b payload;
       let protected_seg = base64url_encode header_jcs;
       let payload_seg = base64url_encode payload_jcs;
       Some \<lparr>psi_protected_segment = protected_seg, psi_payload_segment = payload_seg,
         psi_message = protected_seg @ ''.'' @ payload_seg\<rparr>
     }"

definition b64url_to_string_v3 :: "bytes \<Rightarrow> bytes result" where
  "b64url_to_string_v3 s = from_utf8 s"

text \<open>The protected header of grants, anchors and transitions: \<open>alg\<close>, \<open>kid\<close> and \<open>typ\<close>.\<close>

definition kid_header_v3 :: "bytes \<Rightarrow> bytes \<Rightarrow> json" where
  "kid_header_v3 key_id typ =
     Object [(''alg'', String ALG_ECDSA_P256_v3), (''kid'', String key_id), (''typ'', String typ)]"

section \<open>Grants\<close>

fun distinct_identifiers_v3 :: "bounds \<Rightarrow> bytes set \<Rightarrow> bytes list \<Rightarrow> unit result" where
  "distinct_identifiers_v3 b seen [] = Some ()"
| "distinct_identifiers_v3 b seen (aud # auds) =
     do {
       validate_identifier_v3 aud b;
       reject_if (aud \<in> seen);
       distinct_identifiers_v3 b (insert aud seen) auds
     }"

fun check_operations_v3 :: "backend \<Rightarrow> bounds \<Rightarrow> bytes set \<Rightarrow> grant_operation list \<Rightarrow> unit result" where
  "check_operations_v3 B b seen [] = Some ()"
| "check_operations_v3 B b seen (op # ops) =
     do {
       validate_operation_name_v3 (go_name op) b;
       reject_if (go_name op \<in> seen);
       reject_if (go_selectors op = [] \<or> length (go_selectors op) > selectors b);
       validate_each (\<lambda>s. validate_v2 B s b) (go_selectors op);
       check_operations_v3 B b (insert (go_name op) seen) ops
     }"

definition operation_json_v3 :: "grant_operation \<Rightarrow> json" where
  "operation_json_v3 op = Object [(''name'', String (go_name op)), (''selectors'', Array (go_selectors op))]"

definition grant_signing_input_v3 :: "backend \<Rightarrow> grant_input \<Rightarrow> bounds \<Rightarrow> produced_signing_input result" where
  "grant_signing_input_v3 B g b =
     do {
       validate_kid_v3 (gi_key_id g) b;
       validate_identifier_v3 (gi_issuer g) b;
       validate_identifier_v3 (gi_grant_id g) b;
       reject_if (gi_audiences g = [] \<or> length (gi_audiences g) > audiences b);
       distinct_identifiers_v3 b {} (gi_audiences g);
       reject_if (gi_operations g = [] \<or> length (gi_operations g) > operations b);
       check_operations_v3 B b {} (gi_operations g);
       jkt \<leftarrow> b64url_to_string_v3 (base64url_encode (gi_holder_thumbprint g));
       build_produced_v3 B (kid_header_v3 (gi_key_id g) TYP_GRANT_v3)
         (Object
           [(''aud'', Array (map String (gi_audiences g))),
            (''cnf'', Object [(''jkt'', String jkt)]),
            (''exp'', Integer (gi_expires_at g)),
            (''iat'', Integer (gi_issued_at g)),
            (''iss'', String (gi_issuer g)),
            (''jti'', String (gi_grant_id g)),
            (''nbf'', Integer (gi_not_before g)),
            (''operations'', Array (map operation_json_v3 (gi_operations g))),
            (''v'', Integer 3)]) b
     }"

section \<open>Proofs\<close>

definition scan_compact_v3 :: "bytes \<Rightarrow> bounds \<Rightarrow> unit result" where
  "scan_compact_v3 compact b =
     do {
       reject_if (length compact > compact_bytes b);
       dot1 \<leftarrow> position (\<lambda>c. c = CHR ''.'') compact;
       reject_if (dot1 = 0 \<or> dot1 > encoded_segment_bytes b);
       let after1 = drop (dot1 + 1) compact;
       dot2 \<leftarrow> position (\<lambda>c. c = CHR ''.'') after1;
       reject_if (dot2 = 0 \<or> dot2 > encoded_segment_bytes b);
       let signature = drop (dot2 + 1) after1;
       reject_if (signature = [] \<or> length signature > encoded_segment_bytes b);
       reject_if (CHR ''.'' \<in> set signature);
       Some ()
     }"

definition proof_signing_input_v3 ::
  "backend \<Rightarrow> proof_input \<Rightarrow> bounds \<Rightarrow> produced_signing_input result" where
  "proof_signing_input_v3 B p b =
     do {
       validate_identifier_v3 (pi_proof_id p) b;
       validate_method_token_v3 (pi_method p) b;
       validate_operation_name_v3 (pi_operation p) b;
       validate_uuid_v3 (pi_invocation_id p);
       validate_point B (pi_holder_public_key p);
       htu \<leftarrow> uri_normalize b (pi_target_uri p);
       reject_if (htu \<noteq> pi_target_uri p);
       scan_compact_v3 (pi_grant_compact p) b;
       ath \<leftarrow> b64url_to_string_v3 (base64url_encode (sha256 B (pi_grant_compact p)));
       ba_req \<leftarrow> request_digest_v3 B (pi_operation p) (pi_cast_arguments p) b;
       ba_req_str \<leftarrow> from_utf8 ba_req;
       x \<leftarrow> b64url_to_string_v3 (base64url_encode (point_x (pi_holder_public_key p)));
       y \<leftarrow> b64url_to_string_v3 (base64url_encode (point_y (pi_holder_public_key p)));
       let jwk = Object
         [(''crv'', String CRV_NIST), (''kty'', String KTY_EC), (''x'', String x), (''y'', String y)];
       let header = Object [(''alg'', String ALG_ECDSA_P256_v3), (''jwk'', jwk), (''typ'', String TYP_PROOF_v3)];
       let payload_members =
         [(''ath'', String ath), (''ba_inv'', String (pi_invocation_id p)),
          (''ba_op'', String (pi_operation p)), (''ba_req'', String ba_req_str),
          (''htm'', String (pi_method p)), (''htu'', String (pi_target_uri p)),
          (''iat'', Integer (pi_issued_at p)), (''jti'', String (pi_proof_id p)), (''v'', Integer 3)];
       build_produced_v3 B header (Object payload_members) b
     }"

section \<open>Archival signing inputs\<close>

definition boundary_anchor_signing_input_v3 ::
  "backend \<Rightarrow> boundary_anchor \<Rightarrow> bounds \<Rightarrow> produced_signing_input result" where
  "boundary_anchor_signing_input_v3 B a b =
     do {
       validate_kid_v3 (ba_key_id a) b;
       validate_identifier_v3 (ba_anchor_id a) b;
       validate_identifier_v3 (ba_chain_id a) b;
       validate_point B (ba_public_key a);
       reject_if (ba_sequence a < 0);
       reject_if (ba_sequence a = 0 \<and> list_ex (\<lambda>c. byte c \<noteq> 0) (ba_chain_hash a));
       chain_hash_str \<leftarrow> b64url_to_string_v3 (base64url_encode (ba_chain_hash a));
       fingerprint \<leftarrow> public_key_thumbprint_raw_v3 B (ba_public_key a);
       fingerprint_str \<leftarrow> b64url_to_string_v3 (base64url_encode fingerprint);
       build_produced_v3 B (kid_header_v3 (ba_key_id a) TYP_CHAIN_ANCHOR_v3)
         (Object
           [(''anchor_id'', String (ba_anchor_id a)), (''anchored_at'', Integer (ba_anchored_at a)),
            (''chain_hash'', String chain_hash_str), (''chain_id'', String (ba_chain_id a)),
            (''key_fingerprint'', String fingerprint_str), (''sequence'', Integer (ba_sequence a)),
            (''v'', Integer 3)]) b
     }"

definition key_transition_signing_input_v3 ::
  "backend \<Rightarrow> key_transition \<Rightarrow> bounds \<Rightarrow> produced_signing_input result" where
  "key_transition_signing_input_v3 B t b =
     do {
       validate_kid_v3 (kt_current_key_id t) b;
       validate_kid_v3 (kt_next_key_id t) b;
       validate_identifier_v3 (kt_chain_id t) b;
       validate_identifier_v3 (kt_transition_id t) b;
       validate_point B (kt_current_public_key t);
       validate_point B (kt_next_public_key t);
       reject_if (kt_current_public_key t = kt_next_public_key t);
       from_fp \<leftarrow> public_key_thumbprint_raw_v3 B (kt_current_public_key t);
       to_fp \<leftarrow> public_key_thumbprint_raw_v3 B (kt_next_public_key t);
       from_str \<leftarrow> b64url_to_string_v3 (base64url_encode from_fp);
       to_str \<leftarrow> b64url_to_string_v3 (base64url_encode to_fp);
       build_produced_v3 B (kid_header_v3 (kt_current_key_id t) TYP_KEY_TRANSITION_v3)
         (Object
           [(''chain_id'', String (kt_chain_id t)), (''effective_at'', Integer (kt_effective_at t)),
            (''from_key_fingerprint'', String from_str), (''to_key_fingerprint'', String to_str),
            (''to_key_id'', String (kt_next_key_id t)), (''transition_id'', String (kt_transition_id t)),
            (''v'', Integer 3)]) b
     }"

end
