(* ===== verification/Chain_V3.thy ===== *)
theory Chain_V3
  imports Producers_V3 Chain
begin

text \<open>
  Version 3 of the consumption chain: the row encoder, the row parser and
  \<open>check_chain\<close>.
\<close>

section \<open>Bounds of a context\<close>

definition resolve_bounds_v3 :: "bounds option \<Rightarrow> bounds" where
  "resolve_bounds_v3 nested = (case nested of None \<Rightarrow> maximum | Some b \<Rightarrow> b)"

definition require_bounds_equal_v3 :: "bounds option \<Rightarrow> bounds \<Rightarrow> unit result" where
  "require_bounds_equal_v3 nested outer =
     (case nested of
        Some b \<Rightarrow> (if b \<noteq> outer then None else Some ())
      | None \<Rightarrow> (if outer \<noteq> maximum then None else Some ()))"

section \<open>Rows\<close>

definition CHAIN_DIGEST_PREFIX_v3 :: bytes where
  "CHAIN_DIGEST_PREFIX_v3 = ''BAP3-CHAIN'' @ [CHR 0x00]"

definition row_domain_hash_v3 :: "backend \<Rightarrow> bytes \<Rightarrow> bytes" where
  "row_domain_hash_v3 B canonical_row = sha256 B (CHAIN_DIGEST_PREFIX_v3 @ canonical_row)"

definition encode_consumption_entry_v3 ::
  "backend \<Rightarrow> consumption_entry \<Rightarrow> bounds \<Rightarrow> (bytes \<times> bytes) result" where
  "encode_consumption_entry_v3 B entry b =
     do {
       reject_if (ce_sequence entry < 1);
       validate_identifier_v3 (ce_chain_id entry) b;
       reject_if (ce_sequence entry = 1 \<and> list_ex (\<lambda>c. byte c \<noteq> 0) (ce_previous_hash entry));
       previous_str \<leftarrow> b64url_to_string_v3 (base64url_encode (ce_previous_hash entry));
       commitment_str \<leftarrow> b64url_to_string_v3 (base64url_encode (ce_commitment entry));
       let row = Object
         [(''chain_id'', String (ce_chain_id entry)), (''commitment'', String commitment_str),
          (''previous'', String previous_str), (''sequence'', Integer (ce_sequence entry)),
          (''v'', Integer 3)];
       canonical \<leftarrow> jcs_encode B b row;
       reject_if (length canonical > chain_row_bytes b);
       Some (canonical, row_domain_hash_v3 B canonical)
     }"

definition take_b64url_32_v3 :: "json option \<Rightarrow> bytes result" where
  "take_b64url_32_v3 v =
     do {
       s \<leftarrow> string_of v;
       raw \<leftarrow> base64url_decode s;
       reject_if (length raw \<noteq> 32);
       Some raw
     }"

definition row_members_v3 :: "bytes list" where
  "row_members_v3 = [''chain_id'', ''commitment'', ''previous'', ''sequence'', ''v'']"

definition parse_row_v3 :: "backend \<Rightarrow> bytes \<Rightarrow> bounds \<Rightarrow> parsed_row result" where
  "parse_row_v3 B row b =
     do {
       v \<leftarrow> json_decode b row;
       members \<leftarrow> members_of v;
       slots \<leftarrow> collect row_members_v3 members Map.empty;
       reject_if (slots ''v'' \<noteq> Some (Integer 3));
       chain_id \<leftarrow> string_of (slots ''chain_id'');
       sequence \<leftarrow> take_integral_date_v3 (slots ''sequence'');
       take_b64url_32_v3 (slots ''commitment'');
       previous \<leftarrow> take_b64url_32_v3 (slots ''previous'');
       reencoded \<leftarrow> jcs_encode B b v;
       reject_if (reencoded \<noteq> row);
       Some \<lparr>pr_chain_id = chain_id, pr_previous = previous, pr_sequence = sequence,
         pr_hash = row_domain_hash_v3 B row\<rparr>
     }"

section \<open>Ranges of rows\<close>

fun parse_rows_v3 :: "backend \<Rightarrow> bounds \<Rightarrow> bytes list \<Rightarrow> parsed_row list result" where
  "parse_rows_v3 B b [] = Some []"
| "parse_rows_v3 B b (row # rows) =
     do { p \<leftarrow> parse_row_v3 B row b; ps \<leftarrow> parse_rows_v3 B b rows; Some (p # ps) }"

fun check_identities_v3 :: "bounds \<Rightarrow> bytes \<Rightarrow> parsed_row list \<Rightarrow> unit result" where
  "check_identities_v3 b chain_id [] = Some ()"
| "check_identities_v3 b chain_id (p # ps) =
     do {
       validate_identifier_v3 (pr_chain_id p) b;
       reject_if (pr_chain_id p \<noteq> chain_id);
       check_identities_v3 b chain_id ps
     }"

fun check_sequences_v3 :: "int \<Rightarrow> nat \<Rightarrow> parsed_row list \<Rightarrow> unit result" where
  "check_sequences_v3 first i [] = Some ()"
| "check_sequences_v3 first i (p # ps) =
     do {
       want \<leftarrow> checked_add_i64 first (int i);
       reject_if (pr_sequence p \<noteq> want);
       check_sequences_v3 first (i + 1) ps
     }"

fun check_links_v3 :: "parsed_row list \<Rightarrow> unit result" where
  "check_links_v3 (p # q # ps) =
     do { reject_if (pr_previous q \<noteq> pr_hash p); check_links_v3 (q # ps) }"
| "check_links_v3 _ = Some ()"

definition check_chain_v3 :: "backend \<Rightarrow> chain_input \<Rightarrow> expected_chain \<Rightarrow> chain_facts result" where
  "check_chain_v3 B input expected =
     (let b = resolve_bounds_v3 (ec_bounds expected); rows = ci_rows input in
      do {
        reject_if (rows = [] \<or> length rows > chain_rows b);
        reject_if (list_ex (\<lambda>row. length row > chain_row_bytes b) rows);
        parsed \<leftarrow> parse_rows_v3 B b rows;
        validate_identifier_v3 (ec_chain_id expected) b;
        check_identities_v3 b (ec_chain_id expected) parsed;
        check_sequences_v3 (ec_first_sequence expected) 0 parsed;
        reject_if (ec_first_sequence expected < 1);
        reject_if (ec_first_sequence expected = 1 \<and> list_ex (\<lambda>c. byte c \<noteq> 0) (ec_previous_hash expected));
        reject_if (pr_previous (hd parsed) \<noteq> ec_previous_hash expected);
        check_links_v3 parsed;
        reject_if (int (length parsed) \<noteq> ec_row_count expected);
        reject_if (pr_sequence (last parsed) \<noteq> ec_last_sequence expected);
        reject_if (pr_hash (last parsed) \<noteq> ec_head_hash expected);
        Some \<lparr>cf_chain_id = ec_chain_id expected, cf_row_count = int (length parsed),
          cf_first_sequence = ec_first_sequence expected, cf_last_sequence = ec_last_sequence expected,
          cf_previous_hash = ec_previous_hash expected, cf_head_hash = ec_head_hash expected,
          cf_trust = NotEvaluated\<rparr>
      })"

end
