(* ===== verification/Version_Facts.thy ===== *)
theory Version_Facts
  imports Export_V2 Export_V3
begin

text \<open>
  \<open>v2.rs\<close> and \<open>v3.rs\<close> repeat the helpers of \<open>v1.rs\<close>. This theory proves that the repeated definitions
  are the same functions, as rewrite rules from each later version to version 1, so that the lemmas about
  version 1 apply to them. What is left after the rewriting is what a version changes: the version number,
  the domain prefixes, the selectors, the keys and the signature scheme.
\<close>

section \<open>Scalars and claims\<close>

lemma claim_bytes_copies [simp]:
  "is_kid_byte_v2 = is_kid_byte" "is_kid_byte_v3 = is_kid_byte"
  "is_htm_byte_v2 = is_htm_byte" "is_htm_byte_v3 = is_htm_byte"
  "is_printable_ascii_v2 = is_printable_ascii" "is_printable_ascii_v3 = is_printable_ascii"
  "is_hex_v2 = is_hex" "is_hex_v3 = is_hex" "URI_PUNCT_v2 = URI_PUNCT" "URI_PUNCT_v3 = URI_PUNCT"
  by (simp_all add: fun_eq_iff is_kid_byte_v2_def is_kid_byte_v3_def is_kid_byte_def is_htm_byte_v2_def
      is_htm_byte_v3_def is_htm_byte_def is_printable_ascii_v2_def is_printable_ascii_v3_def
      is_printable_ascii_def is_hex_v2_def is_hex_v3_def is_hex_def URI_PUNCT_v2_def URI_PUNCT_v3_def URI_PUNCT_def)

lemma uuid_bytes_copies [simp]: "uuid_bytes_v2 i s = uuid_bytes i s" "uuid_bytes_v3 i s = uuid_bytes i s"
  by (induction s arbitrary: i) simp_all

lemma uri_bytes_copies [simp]: "validate_uri_bytes_v2 s = validate_uri_bytes s" "validate_uri_bytes_v3 s = validate_uri_bytes s"
  by (induction s rule: validate_uri_bytes.induct) (auto split: list.splits)

lemma scalar_copies [simp]:
  "validate_kid_v2 = validate_kid" "validate_kid_v3 = validate_kid"
  "validate_method_token_v2 = validate_method_token" "validate_method_token_v3 = validate_method_token"
  "validate_operation_name_v2 = validate_operation_name" "validate_operation_name_v3 = validate_operation_name"
  "validate_uuid_v2 = validate_uuid" "validate_uuid_v3 = validate_uuid"
  "validate_scheme_v2 = validate_scheme" "validate_scheme_v3 = validate_scheme"
  "validate_authority_port_v2 = validate_authority_port" "validate_authority_port_v3 = validate_authority_port"
  by (simp_all add: fun_eq_iff validate_kid_v2_def validate_kid_v3_def validate_kid_def
      validate_method_token_v2_def validate_method_token_v3_def validate_method_token_def
      validate_operation_name_v2_def validate_operation_name_v3_def validate_operation_name_def
      validate_uuid_v2_def validate_uuid_v3_def validate_uuid_def validate_scheme_v2_def
      validate_scheme_v3_def validate_scheme_def validate_authority_port_v2_def
      validate_authority_port_v3_def validate_authority_port_def)

lemma identifier_copies [simp]:
  "validate_identifier_v2 = validate_identifier" "validate_identifier_v3 = validate_identifier"
  by (simp_all add: fun_eq_iff validate_identifier_v2_def validate_identifier_v3_def validate_identifier_def
      cong: option.case_cong)

lemma audience_items_copies [simp]:
  "audience_items_v2 b seen vs = audience_items b seen vs" "audience_items_v3 b seen vs = audience_items b seen vs"
  by (induction vs arbitrary: seen) simp_all

lemma claim_copies [simp]:
  "take_string_or_uri_v2 = take_string_or_uri" "take_string_or_uri_v3 = take_string_or_uri"
  "take_audiences_v2 = take_audiences" "take_audiences_v3 = take_audiences"
  "take_integral_date_v2 = take_integral_date" "take_integral_date_v3 = take_integral_date"
  "take_digest_b64u_v2 = take_digest_b64u" "take_digest_b64u_v3 = take_digest_b64u"
  "take_cnf_jkt_v2 = take_cnf_jkt" "take_cnf_jkt_v3 = take_cnf_jkt"
  "take_method_token_v2 = take_method_token" "take_method_token_v3 = take_method_token"
  "take_operation_name_v2 = take_operation_name" "take_operation_name_v3 = take_operation_name"
  "take_uuid_v2 = take_uuid" "take_uuid_v3 = take_uuid" "take_nonce_v2 = take_nonce" "take_nonce_v3 = take_nonce"
  by (simp_all add: fun_eq_iff take_string_or_uri_v2_def take_string_or_uri_v3_def take_string_or_uri_def
      take_audiences_v2_def take_audiences_v3_def take_audiences_def take_integral_date_v2_def
      take_integral_date_v3_def take_integral_date_def take_digest_b64u_v2_def take_digest_b64u_v3_def
      take_digest_b64u_def take_cnf_jkt_v2_def take_cnf_jkt_v3_def take_cnf_jkt_def
      take_method_token_v2_def take_method_token_v3_def take_method_token_def
      take_operation_name_v2_def take_operation_name_v3_def take_operation_name_def take_uuid_v2_def
      take_uuid_v3_def take_uuid_def take_nonce_v2_def take_nonce_v3_def take_nonce_def
      cong: option.case_cong json.case_cong)

lemma constant_copies [simp]:
  "ALG_EDDSA_v2 = ALG_EDDSA" "TYP_GRANT_v2 = TYP_GRANT" "TYP_GRANT_v3 = TYP_GRANT" "TYP_PROOF_v2 = TYP_PROOF"
  "TYP_PROOF_v3 = TYP_PROOF" "TYP_CHAIN_ANCHOR_v2 = TYP_CHAIN_ANCHOR" "TYP_CHAIN_ANCHOR_v3 = TYP_CHAIN_ANCHOR"
  "TYP_KEY_TRANSITION_v2 = TYP_KEY_TRANSITION" "TYP_KEY_TRANSITION_v3 = TYP_KEY_TRANSITION"
  "grant_claims_v2 = grant_claims" "grant_claims_v3 = grant_claims" "proof_claims_v2 = proof_claims"
  "proof_claims_v3 = proof_claims" "anchor_claims_v2 = anchor_claims" "anchor_claims_v3 = anchor_claims"
  "transition_claims_v2 = transition_claims" "transition_claims_v3 = transition_claims"
  "row_members_v2 = row_members" "row_members_v3 = row_members" "header_claims_v2 = header_claims"
  "header_claims_v3 = header_claims" "zero_hash_v2 = zero_hash" "zero_hash_v3 = zero_hash"
  by (simp_all add: ALG_EDDSA_v2_def ALG_EDDSA_def TYP_GRANT_v2_def TYP_GRANT_v3_def TYP_GRANT_def
      TYP_PROOF_v2_def TYP_PROOF_v3_def TYP_PROOF_def TYP_CHAIN_ANCHOR_v2_def TYP_CHAIN_ANCHOR_v3_def
      TYP_CHAIN_ANCHOR_def TYP_KEY_TRANSITION_v2_def TYP_KEY_TRANSITION_v3_def TYP_KEY_TRANSITION_def
      grant_claims_v2_def grant_claims_v3_def grant_claims_def proof_claims_v2_def proof_claims_v3_def
      proof_claims_def anchor_claims_v2_def anchor_claims_v3_def anchor_claims_def
      transition_claims_v2_def transition_claims_v3_def transition_claims_def row_members_v2_def
      row_members_v3_def row_members_def header_claims_v2_def header_claims_v3_def header_claims_def
      zero_hash_v2_def zero_hash_v3_def zero_hash_def)

section \<open>Segments and envelopes\<close>

lemma operation_pairs_copies [simp]:
  "operation_pairs_v2 ops = operation_pairs ops" "operation_pairs_v3 ops = operation_pairs ops"
  by (induction ops) simp_all

lemma segment_copies [simp]:
  "split_three_segments_v2 = split_three_segments" "split_three_segments_v3 = split_three_segments"
  "decode_segment_v2 = decode_segment" "decode_segment_v3 = decode_segment"
  "signing_input_bytes_v2 = signing_input_bytes" "signing_input_bytes_v3 = signing_input_bytes"
  "decode_signature_v2 = decode_signature" "decode_signature_v3 = decode_signature"
  "audience_matches_v2 = audience_matches" "audience_matches_v3 = audience_matches"
  "extract_operations_v2 = extract_operations" "extract_operations_v3 = extract_operations"
  "nonce_check_v2 = nonce_check" "nonce_check_v3 = nonce_check"
  "grant_of_request_v2 = grant_of_request" "grant_of_request_v3 = grant_of_request"
  "validate_grant_header_v2 = validate_grant_header"
  by (simp_all add: fun_eq_iff split_three_segments_v2_def split_three_segments_v3_def split_three_segments_def
      decode_segment_v2_def decode_segment_v3_def decode_segment_def signing_input_bytes_v2_def
      signing_input_bytes_v3_def signing_input_bytes_def decode_signature_v2_def decode_signature_v3_def
      decode_signature_def audience_matches_v2_def audience_matches_v3_def audience_matches_def
      extract_operations_v2_def extract_operations_v3_def extract_operations_def nonce_check_v2_def
      nonce_check_v3_def nonce_check_def grant_of_request_v2_def grant_of_request_v3_def
      grant_of_request_def validate_grant_header_v2_def validate_grant_header_def)

lemma produced_copies [simp]:
  "build_produced_v2 = build_produced" "build_produced_v3 = build_produced"
  "b64url_to_string_v2 = b64url_to_string" "b64url_to_string_v3 = b64url_to_string"
  "scan_compact_v2 = scan_compact" "scan_compact_v3 = scan_compact"
  "operation_json_v2 = operation_json" "operation_json_v3 = operation_json" "kid_header_v2 = kid_header"
  by (simp_all add: fun_eq_iff build_produced_v2_def build_produced_v3_def build_produced_def
      b64url_to_string_v2_def b64url_to_string_v3_def b64url_to_string_def scan_compact_v2_def
      scan_compact_v3_def scan_compact_def operation_json_v2_def operation_json_v3_def operation_json_def
      kid_header_v2_def kid_header_def)

section \<open>Chains and archives\<close>

lemma identity_copies [simp]:
  "check_identities_v2 b i ps = check_identities b i ps" "check_identities_v3 b i ps = check_identities b i ps"
  by (induction ps) simp_all

lemma sequence_copies [simp]:
  "check_sequences_v2 n i ps = check_sequences n i ps" "check_sequences_v3 n i ps = check_sequences n i ps"
  by (induction ps arbitrary: i) simp_all

lemma link_copies [simp]: "check_links_v2 ps = check_links ps" "check_links_v3 ps = check_links ps"
  by (induction ps rule: check_links.induct) simp_all

lemma range_copies [simp]:
  "resolve_bounds_v2 = resolve_bounds" "resolve_bounds_v3 = resolve_bounds"
  "require_bounds_equal_v2 = require_bounds_equal" "require_bounds_equal_v3 = require_bounds_equal"
  "take_b64url_32_v2 = take_b64url_32" "take_b64url_32_v3 = take_b64url_32"
  "in_interval_v2 = in_interval" "in_interval_v3 = in_interval" "key_window_v2 = key_window" "key_window_v3 = key_window"
  by (simp_all add: fun_eq_iff resolve_bounds_v2_def resolve_bounds_v3_def resolve_bounds_def
      require_bounds_equal_v2_def require_bounds_equal_v3_def require_bounds_equal_def
      take_b64url_32_v2_def take_b64url_32_v3_def take_b64url_32_def in_interval_v2_def
      in_interval_v3_def in_interval_def key_window_v2_def key_window_v3_def key_window_def)

end
