(* ===== verification/Version_Envelopes.thy ===== *)
theory Version_Envelopes
  imports Version_Facts Envelope_Facts
begin

text \<open>
  The envelope checks of versions 2 and 3: their schemes and their interpretations of the interface
  \<open>envelope_scheme\<close>, so that the specification of version 1, with the decoders, signatures, key prints,
  digests and selectors of the version, is what they accept.
\<close>

section \<open>Decoded times\<close>

lemma payload_times_v2:
  assumes "validate_grant_payload_v2 B v b = Some p"
  obtains ms slots where "members_of v = Some ms" "collect grant_claims ms Map.empty = Some slots"
    "take_integral_date (slots ''iat'') = Some (gp_issued_at p)"
    "take_integral_date (slots ''nbf'') = Some (gp_not_before p)"
    "take_integral_date (slots ''exp'') = Some (gp_expires_at p)"
  using assms by (auto simp: validate_grant_payload_v2_def bind_Some split: if_splits)

lemma grant_clocks_v2:
  assumes "decode_grant_parts_v2 B c b = Some g" "tightened b"
  shows "clock_value (gp_issued_at (dg_payload g))" "clock_value (gp_not_before (dg_payload g))"
    and "clock_value (gp_expires_at (dg_payload g))"
proof -
  obtain t v where v: "json_decode b t = Some v" "validate_grant_payload_v2 B v b = Some (dg_payload g)"
    using assms(1) by (auto simp: decode_grant_parts_v2_def bind_Some split: if_splits)
  show "clock_value (gp_issued_at (dg_payload g))" "clock_value (gp_not_before (dg_payload g))"
    "clock_value (gp_expires_at (dg_payload g))"
    by (rule payload_times_v2 [OF v(2)], rule decoded_clock [OF v(1) _ _ _ assms(2)], assumption+)+
qed

lemma payload_time_v2:
  assumes "validate_proof_payload_v2 v b = Some p"
  obtains ms slots where "members_of v = Some ms" "collect proof_claims ms Map.empty = Some slots"
    "take_integral_date (slots ''iat'') = Some (pp_issued_at p)"
  using assms by (auto simp: validate_proof_payload_v2_def bind_Some split: if_splits)

lemma proof_clock_v2:
  assumes "decode_proof_parts_v2 B c b = Some p" "tightened b"
  shows "clock_value (pp_issued_at (dp_payload p))"
proof -
  obtain t v where v: "json_decode b t = Some v" "validate_proof_payload_v2 v b = Some (dp_payload p)"
    using assms(1) by (auto simp: decode_proof_parts_v2_def bind_Some split: if_splits)
  show ?thesis by (rule payload_time_v2 [OF v(2)]) (rule decoded_clock [OF v(1) _ _ _ assms(2)])
qed

lemma payload_times_v3:
  assumes "validate_grant_payload_v3 B v b = Some p"
  obtains ms slots where "members_of v = Some ms" "collect grant_claims ms Map.empty = Some slots"
    "take_integral_date (slots ''iat'') = Some (gp_issued_at p)"
    "take_integral_date (slots ''nbf'') = Some (gp_not_before p)"
    "take_integral_date (slots ''exp'') = Some (gp_expires_at p)"
  using assms by (auto simp: validate_grant_payload_v3_def bind_Some split: if_splits)

lemma grant_clocks_v3:
  assumes "decode_grant_parts_v3 B c b = Some g" "tightened b"
  shows "clock_value (gp_issued_at (dg_payload g))" "clock_value (gp_not_before (dg_payload g))"
    and "clock_value (gp_expires_at (dg_payload g))"
proof -
  obtain t v where v: "json_decode b t = Some v" "validate_grant_payload_v3 B v b = Some (dg_payload g)"
    using assms(1) by (auto simp: decode_grant_parts_v3_def bind_Some split: if_splits)
  show "clock_value (gp_issued_at (dg_payload g))" "clock_value (gp_not_before (dg_payload g))"
    "clock_value (gp_expires_at (dg_payload g))"
    by (rule payload_times_v3 [OF v(2)], rule decoded_clock [OF v(1) _ _ _ assms(2)], assumption+)+
qed

lemma payload_time_v3:
  assumes "validate_proof_payload_v3 v b = Some p"
  obtains ms slots where "members_of v = Some ms" "collect proof_claims ms Map.empty = Some slots"
    "take_integral_date (slots ''iat'') = Some (pp_issued_at p)"
  using assms by (auto simp: validate_proof_payload_v3_def bind_Some split: if_splits)

lemma proof_clock_v3:
  assumes "decode_proof_parts_v3 B c b = Some p" "tightened b"
  shows "clock_value (pp_issued_at (dp_payload p))"
proof -
  obtain t v where v: "json_decode b t = Some v" "validate_proof_payload_v3 v b = Some (dp_payload p)"
    using assms(1) by (auto simp: decode_proof_parts_v3_def bind_Some split: if_splits)
  show ?thesis by (rule payload_time_v3 [OF v(2)]) (rule decoded_clock [OF v(1) _ _ _ assms(2)])
qed

section \<open>The scheme of version 2\<close>

definition scheme_v2 :: "backend \<Rightarrow> scheme" where
  "scheme_v2 B =
     \<lparr>grant_decoder = decode_grant_parts_v2 B, proof_decoder = decode_proof_parts_v2 B,
      key_verifier = ed25519_verify B, key_print = thumbprint_raw B, token_hash = sha256 B,
      request_hash = request_digest_successor B, target_normalizer = uri_normalize,
      selector_value = evaluate_v2 B, nonce_demanded = False\<rparr>"

lemma scheme_v2_simps [simp]:
  "grant_decoder (scheme_v2 B) = decode_grant_parts_v2 B" "proof_decoder (scheme_v2 B) = decode_proof_parts_v2 B"
  "key_verifier (scheme_v2 B) = ed25519_verify B" "key_print (scheme_v2 B) = thumbprint_raw B"
  "token_hash (scheme_v2 B) = sha256 B" "request_hash (scheme_v2 B) = request_digest_successor B"
  "target_normalizer (scheme_v2 B) = uri_normalize" "selector_value (scheme_v2 B) = evaluate_v2 B"
  "\<not> nonce_demanded (scheme_v2 B)"
  by (simp_all add: scheme_v2_def)

lemma all_selectors_v2_holding: "all_selectors_v2 B b args ss = validate_each (holding (scheme_v2 B) args b) ss"
  by (induction ss) (simp_all add: holding_def)

lemma verify_grant_v2_steps: "verify_grant_v2 B t i x = grant_steps (scheme_v2 B) t i x"
  by (simp add: verify_grant_v2_def grant_steps_def public_key_thumbprint_raw_def)

interpretation v2: envelope_scheme B "scheme_v2 B" 32 SUCCESSOR_REQUEST_DIGEST_PREFIX "verify_grant_v2 B" "check_envelope_v2 B"
  by unfold_locales
    (simp_all add: grant_clocks_v2 proof_clock_v2 verified_key request_digest_successor_def request_prefixes_def
      verify_grant_v2_steps check_envelope_v2_def envelope_steps_def all_selectors_v2_holding)

section \<open>The scheme of version 3\<close>

definition scheme_v3 :: "backend \<Rightarrow> scheme" where
  "scheme_v3 B =
     \<lparr>grant_decoder = decode_grant_parts_v3 B, proof_decoder = decode_proof_parts_v3 B,
      key_verifier = es256_verify B, key_print = thumbprint_raw_v3 B, token_hash = sha256 B,
      request_hash = request_digest_v3 B, target_normalizer = uri_normalize,
      selector_value = evaluate_v2 B, nonce_demanded = False\<rparr>"

lemma scheme_v3_simps [simp]:
  "grant_decoder (scheme_v3 B) = decode_grant_parts_v3 B" "proof_decoder (scheme_v3 B) = decode_proof_parts_v3 B"
  "key_verifier (scheme_v3 B) = es256_verify B" "key_print (scheme_v3 B) = thumbprint_raw_v3 B"
  "token_hash (scheme_v3 B) = sha256 B" "request_hash (scheme_v3 B) = request_digest_v3 B"
  "target_normalizer (scheme_v3 B) = uri_normalize" "selector_value (scheme_v3 B) = evaluate_v2 B"
  "\<not> nonce_demanded (scheme_v3 B)"
  by (simp_all add: scheme_v3_def)

lemma verified_point: "es256_verify B k m s = Some () \<Longrightarrow> thumbprint_raw_v3 B k \<noteq> None"
  by (auto simp: es256_verify_def thumbprint_raw_v3_def thumbprint_preimage_v3_def jwk_encode_public_v3_def
      bind_Some Let_def split: if_splits)

lemma all_selectors_v3_holding: "all_selectors_v3 B b args ss = validate_each (holding (scheme_v3 B) args b) ss"
  by (induction ss) (simp_all add: holding_def)

lemma verify_grant_v3_steps: "verify_grant_v3 B t i x = grant_steps (scheme_v3 B) t i x"
  by (simp add: verify_grant_v3_def grant_steps_def public_key_thumbprint_raw_v3_def)

interpretation v3: envelope_scheme B "scheme_v3 B" 65 ECDSA_REQUEST_DIGEST_PREFIX "verify_grant_v3 B" "check_envelope_v3 B"
  by unfold_locales
    (simp_all only: scheme_v3_simps request_digest_v3_def grant_clocks_v3 proof_clock_v3 verified_point
      verify_grant_v3_steps, simp_all add: request_prefixes_def check_envelope_v3_def envelope_steps_def
      all_selectors_v3_holding verify_grant_v3_steps)

end
