(* ===== verification/Jwk_V3_Facts.thy ===== *)
theory Jwk_V3_Facts
  imports Jwk_V3 Jwk_Facts
begin

text \<open>
  The JWK of version 3: its text is the canonical encoding of the four members, and the decoder reads back
  every key of 65 bytes that the point parser accepts. A sample point and signature for the witnesses.
\<close>

section \<open>The text is canonical\<close>

definition jwk_value_v3 :: "bytes \<Rightarrow> json" where
  "jwk_value_v3 k = Object [(''crv'', String CRV_NIST), (''kty'', String KTY_EC),
     (''x'', String (base64url_encode (point_x k))), (''y'', String (base64url_encode (point_y k)))]"

lemma jwk_words_v3:
  "string_text ''y'' = [CHR 0x22, CHR ''y'', CHR 0x22]"
  "string_text ''P-256'' = CHR 0x22 # ''P-256'' @ [CHR 0x22]"
  "string_text ''EC'' = CHR 0x22 # ''EC'' @ [CHR 0x22]"
  "utf8_valid ''y''" "utf8_valid ''P-256''" "utf8_valid ''EC''"
  "utf16_compare ''crv'' ''y'' = Less" "utf16_compare ''kty'' ''y'' = Less" "utf16_compare ''x'' ''y'' = Less"
  by code_simp+

lemma jwk_canon_v3: "canon (jwk_value_v3 k) = jwk_value_v3 k"
proof -
  have "sort_by (by_name utf16_compare) [(''crv'', t), (''kty'', u), (''x'', v), (''y'', w)] =
      [(''crv'', t), (''kty'', u), (''x'', v), (''y'', w)]" for t u v w :: json
    by (simp add: by_name_def jwk_order jwk_words_v3)
  then show ?thesis by (simp add: jwk_value_v3_def del: sort_by.simps)
qed

lemma jwk_portable_v3: "portable (jwk_value_v3 k)"
  using ascii_valid [OF b64_plain(1)] jwk_words(6-8) jwk_words_v3(4-6)
  by (simp add: jwk_value_v3_def CRV_NIST_def KTY_EC_def)

lemma jwk_text_v3: "jwk_encode_public_v3 B k = (if validate_point B k = Some () then Some (jcs_text B (jwk_value_v3 k)) else None)"
proof -
  have "string_text (base64url_encode s) = CHR 0x22 # base64url_encode s @ [CHR 0x22]" for s
    using b64_plain by (rule string_text_plain)
  then show ?thesis unfolding jcs_text_def jwk_canon_v3
    by (cases "validate_point B k") (simp_all add: jwk_value_v3_def member_text_def jwk_words jwk_words_v3
        jwk_encode_public_v3_def CRV_NIST_def KTY_EC_def Let_def)
qed

section \<open>The round trip\<close>

lemma point_parts:
  assumes "length k = 65" "validate_point B k = Some ()"
  shows "CHR 0x04 # point_x k @ point_y k = k" "length (point_x k) = 32" "length (point_y k) = 32"
proof -
  obtain c s where k: "k = c # s" "length s = 64" using assms(1) by (cases k) auto
  have "c = CHR 0x04" using assms(2) by (simp add: validate_point_def k split: if_splits)
  moreover have "take 32 s @ take 32 (drop 32 s) = s"
    using k(2) append_take_drop_id [of 32 s] by simp
  ultimately show "CHR 0x04 # point_x k @ point_y k = k" "length (point_x k) = 32" "length (point_y k) = 32"
    using k by (simp_all add: point_x_def point_y_def)
qed

lemma jwk_members_v3:
  assumes "length k = 65" "validate_point B k = Some ()" "json_decode maximum t = Some (jwk_value_v3 k)"
  shows "jwk_decode_public_v3 B t = Some k"
  using assms point_parts [OF assms(1,2)]
  by (simp add: jwk_decode_public_v3_def jwk_value_v3_def members_of_def string_of_def decode_encode Let_def)

lemma jwk_length_v3:
  assumes "length k = 65" "validate_point B k = Some ()" shows "length (jcs_text B (jwk_value_v3 k)) \<le> 200"
proof -
  have "jwk_encode_public_v3 B k = Some (jcs_text B (jwk_value_v3 k))" using assms by (simp add: jwk_text_v3)
  then show ?thesis using point_parts(2,3) [OF assms]
    by (auto simp: jwk_encode_public_v3_def Let_def length_encode CRV_NIST_def KTY_EC_def bind_Some
        dest!: arg_cong [where f = length])
qed

lemma jwk_encodes_v3:
  assumes "length k = 65" "validate_point B k = Some ()"
  shows "jcs_encode B maximum (jwk_value_v3 k) = Some (jcs_text B (jwk_value_v3 k))"
  using jwk_length_v3 [OF assms] point_parts(2,3) [OF assms] unfolding jcs_encode_Some
  by (simp add: jwk_value_v3_def maximum_def length_encode CRV_NIST_def KTY_EC_def)

lemma jwk_of_point:
  assumes "length k = 65" "validate_point B k = Some ()"
  shows "jwk_decode_public_v3 B (jcs_text B (jwk_value_v3 k)) = Some k"
proof (rule jwk_members_v3 [OF assms])
  have "length (jcs_text B (jwk_value_v3 k)) \<le> json_bytes maximum"
    using jwk_length_v3 [OF assms] by (simp add: maximum_def)
  then show "json_decode maximum (jcs_text B (jwk_value_v3 k)) = Some (jwk_value_v3 k)"
    using decode_encode_canon [OF jwk_encodes_v3 [OF assms] jwk_portable_v3] maximum_fits(1) by (simp add: jwk_canon_v3)
qed

section \<open>A sample point\<close>

definition sample_point :: bytes where "sample_point = CHR 0x04 # replicate 64 (CHR 0x01)"

definition es256_signature :: bytes where
  "es256_signature = replicate 31 (CHR 0x00) @ [CHR 0x01] @ replicate 31 (CHR 0x00) @ [CHR 0x01]"

lemma sample_point_facts:
  "length sample_point = 65" "length es256_signature = 64" "validate_rs_range es256_signature = Some ()"
  "validate_point sample_backend sample_point = Some ()"
proof -
  show "length sample_point = 65" "length es256_signature = 64" "validate_rs_range es256_signature = Some ()" by code_simp+
  then show "validate_point sample_backend sample_point = Some ()"
    by (simp add: validate_point_def sample_backend_def) (simp add: sample_point_def)
qed

end
