(* ===== verification/Version_Exchange.thy ===== *)
theory Version_Exchange
  imports Version_Envelopes Jwk_V3_Facts Sample_Exchange
begin

text \<open>
  The producers of versions 2 and 3: their grant and proof formats, the interpretations of the contracts
  \<open>grant_codec\<close> and \<open>proof_codec\<close>, and with the envelope checks those of \<open>honest_scheme\<close>.
\<close>

section \<open>Version 2\<close>

definition grant_format_v2 :: "backend \<Rightarrow> grant_format" where
  "grant_format_v2 B = \<lparr>gr_alg = ALG_EDDSA, gr_version = 2, gr_valid = (\<lambda>b s. validate_v2 B s b)\<rparr>"

lemma grant_format_v2_simps [simp]:
  "gr_alg (grant_format_v2 B) = ALG_EDDSA" "gr_version (grant_format_v2 B) = 2"
  "gr_valid (grant_format_v2 B) = (\<lambda>b s. validate_v2 B s b)"
  by (simp_all add: grant_format_v2_def)

lemma operation_items_v2: "operation_items_v2 B b seen ops = format_items (grant_format_v2 B) b seen ops"
  by (induction ops arbitrary: seen) simp_all

lemma check_operations_v2: "check_operations_v2 B b seen ops = checked_items (grant_format_v2 B) b seen ops"
  by (induction ops arbitrary: seen) simp_all

lemma distinct_identifiers_copies [simp]:
  "distinct_identifiers_v2 b seen auds = distinct_identifiers b seen auds"
  "distinct_identifiers_v3 b seen auds = distinct_identifiers b seen auds"
  by (induction auds arbitrary: seen) simp_all

lemma grant_produced_v2:
  assumes "grant_signing_input_v2 B g b = Some psi"
  shows "grant_checked (grant_format_v2 B) b g"
    and "build_produced B (Object (kid_members ALG_EDDSA (gi_key_id g) TYP_GRANT)) (Object (grant_members 2 g)) b = Some psi"
  using assms
  by (simp_all add: grant_signing_input_v2_def grant_members_def grant_checked_def kid_header_members [symmetric]
      b64url_to_string_def bind_Some not_less check_operations_v2 split: if_splits)

lemma decode_grant_v2: "decode_grant_parts_v2 B t b = read_grant (grant_format_v2 B) b t"
  by (simp add: decode_grant_parts_v2_def read_grant_def validate_grant_header_def read_grant_header_def
      validate_grant_payload_v2_def read_grant_payload_def validate_operations_v2_def read_operations_def
      operation_items_v2)

interpretation grant_v2: grant_codec B "grant_format_v2 B" "\<lambda>b g. grant_signing_input_v2 B g b"
    "\<lambda>b t. decode_grant_parts_v2 B t b"
  by unfold_locales (simp_all add: grant_produced_v2 decode_grant_v2 validate_v2_canon header_utf8)

definition proof_format_v2 :: "backend \<Rightarrow> proof_format" where
  "proof_format_v2 B =
     \<lparr>pf_alg = ALG_EDDSA, pf_typ = TYP_PROOF, pf_version = 2, pf_tag = SUCCESSOR_REQUEST_DIGEST_PREFIX,
      pf_jwk = jwk_value, pf_key = jwk_decode_public B, pf_key_ok = acceptable_public_key B,
      pf_normalize = uri_normalize, pf_nonce = False\<rparr>"

lemma proof_format_v2_simps [simp]:
  "pf_alg (proof_format_v2 B) = ALG_EDDSA" "pf_typ (proof_format_v2 B) = TYP_PROOF"
  "pf_version (proof_format_v2 B) = 2" "pf_tag (proof_format_v2 B) = SUCCESSOR_REQUEST_DIGEST_PREFIX"
  "pf_jwk (proof_format_v2 B) = jwk_value" "pf_key (proof_format_v2 B) = jwk_decode_public B"
  "pf_key_ok (proof_format_v2 B) = acceptable_public_key B" "pf_normalize (proof_format_v2 B) = uri_normalize"
  "\<not> pf_nonce (proof_format_v2 B)"
  by (simp_all add: proof_format_v2_def)

lemma proof_produced_v2:
  assumes "proof_signing_input_v2 B p b = Some psi"
  shows "proof_checked (proof_format_v2 B) b None p"
    and "build_produced B (Object (proof_header_members (proof_format_v2 B) (pi_holder_public_key p)))
      (Object (proof_members B (proof_format_v2 B) p None)) b = Some psi"
    and "request_digest_with B SUCCESSOR_REQUEST_DIGEST_PREFIX (pi_operation p) (pi_cast_arguments p) b =
      Some (base64url_encode (request_print B (proof_format_v2 B) p))"
proof -
  obtain d where d: "request_digest_successor B (pi_operation p) (pi_cast_arguments p) b = Some d"
    using assms by (auto simp: proof_signing_input_v2_def bind_Some split: if_splits)
  then have d': "d = base64url_encode (request_print B (proof_format_v2 B) p)"
    unfolding request_digest_successor_def request_print_def proof_format_v2_simps by (rule request_digest_Some)
  show "request_digest_with B SUCCESSOR_REQUEST_DIGEST_PREFIX (pi_operation p) (pi_cast_arguments p) b =
      Some (base64url_encode (request_print B (proof_format_v2 B) p))"
    using d unfolding d' request_digest_successor_def .
  show "proof_checked (proof_format_v2 B) b None p"
    using assms d d' by (auto simp: proof_signing_input_v2_def proof_checked_def b64url_to_string_def bind_Some
        Let_def split: if_splits)
  show "build_produced B (Object (proof_header_members (proof_format_v2 B) (pi_holder_public_key p)))
      (Object (proof_members B (proof_format_v2 B) p None)) b = Some psi"
    using assms d d' by (auto simp: proof_signing_input_v2_def proof_header_members_def proof_members_def
        jwk_value_def b64url_to_string_def bind_Some Let_def split: if_splits)
qed

lemma decode_proof_v2: "decode_proof_parts_v2 B t b = read_proof B (proof_format_v2 B) b t"
  by (simp add: decode_proof_parts_v2_def read_proof_def validate_proof_header_v2_def read_proof_header_def
      validate_proof_payload_v2_def read_proof_payload_def)

interpretation proof_v2: proof_codec B "proof_format_v2 B" None "\<lambda>b p. proof_signing_input_v2 B p b"
    "\<lambda>b t. decode_proof_parts_v2 B t b"
  by unfold_locales
    (simp_all add: proof_produced_v2 decode_proof_v2 header_utf8 jwk_portable jwk_canon jwk_of_key)

interpretation honest_v2: honest_scheme B "scheme_v2 B" 32 SUCCESSOR_REQUEST_DIGEST_PREFIX "verify_grant_v2 B"
    "check_envelope_v2 B" "grant_format_v2 B" "\<lambda>b g. grant_signing_input_v2 B g b"
    "proof_format_v2 B" "\<lambda>b p. proof_signing_input_v2 B p b"
  unfolding honest_scheme_def honest_scheme_axioms_def scheme_v2_simps
  using v2.envelope_scheme_axioms grant_v2.grant_codec_axioms proof_v2.proof_codec_axioms
  by (simp add: evaluate_v2_canon)

section \<open>Version 3\<close>

definition grant_format_v3 :: "backend \<Rightarrow> grant_format" where
  "grant_format_v3 B = \<lparr>gr_alg = ALG_ECDSA_P256_v3, gr_version = 3, gr_valid = (\<lambda>b s. validate_v2 B s b)\<rparr>"

lemma grant_format_v3_simps [simp]:
  "gr_alg (grant_format_v3 B) = ALG_ECDSA_P256_v3" "gr_version (grant_format_v3 B) = 3"
  "gr_valid (grant_format_v3 B) = (\<lambda>b s. validate_v2 B s b)"
  by (simp_all add: grant_format_v3_def)

lemma operation_items_v3: "operation_items_v3 B b seen ops = format_items (grant_format_v3 B) b seen ops"
  by (induction ops arbitrary: seen) simp_all

lemma check_operations_v3: "check_operations_v3 B b seen ops = checked_items (grant_format_v3 B) b seen ops"
  by (induction ops arbitrary: seen) simp_all

lemma kid_header_members_v3: "kid_header_v3 key_id typ = Object (kid_members ALG_ECDSA_P256_v3 key_id typ)"
  by (simp add: kid_header_v3_def kid_members_def)

lemma alg_utf8_v3: "utf8_valid ALG_ECDSA_P256_v3" by code_simp

lemma grant_produced_v3:
  assumes "grant_signing_input_v3 B g b = Some psi"
  shows "grant_checked (grant_format_v3 B) b g"
    and "build_produced B (Object (kid_members ALG_ECDSA_P256_v3 (gi_key_id g) TYP_GRANT)) (Object (grant_members 3 g)) b =
      Some psi"
  using assms
  by (simp_all add: grant_signing_input_v3_def grant_members_def grant_checked_def kid_header_members_v3 [symmetric]
      b64url_to_string_def bind_Some not_less check_operations_v3 split: if_splits)

lemma decode_grant_v3: "decode_grant_parts_v3 B t b = read_grant (grant_format_v3 B) b t"
  by (simp add: decode_grant_parts_v3_def read_grant_def validate_grant_header_v3_def read_grant_header_def
      validate_grant_payload_v3_def read_grant_payload_def validate_operations_v3_def read_operations_def
      operation_items_v3)

interpretation grant_v3: grant_codec B "grant_format_v3 B" "\<lambda>b g. grant_signing_input_v3 B g b"
    "\<lambda>b t. decode_grant_parts_v3 B t b"
  by unfold_locales (simp_all add: grant_produced_v3 decode_grant_v3 validate_v2_canon alg_utf8_v3)

definition proof_format_v3 :: "backend \<Rightarrow> proof_format" where
  "proof_format_v3 B =
     \<lparr>pf_alg = ALG_ECDSA_P256_v3, pf_typ = TYP_PROOF, pf_version = 3, pf_tag = ECDSA_REQUEST_DIGEST_PREFIX,
      pf_jwk = jwk_value_v3, pf_key = jwk_decode_public_v3 B,
      pf_key_ok = (\<lambda>k. length k = 65 \<and> validate_point B k = Some ()),
      pf_normalize = uri_normalize, pf_nonce = False\<rparr>"

lemma proof_format_v3_simps [simp]:
  "pf_alg (proof_format_v3 B) = ALG_ECDSA_P256_v3" "pf_typ (proof_format_v3 B) = TYP_PROOF"
  "pf_version (proof_format_v3 B) = 3" "pf_tag (proof_format_v3 B) = ECDSA_REQUEST_DIGEST_PREFIX"
  "pf_jwk (proof_format_v3 B) = jwk_value_v3" "pf_key (proof_format_v3 B) = jwk_decode_public_v3 B"
  "pf_key_ok (proof_format_v3 B) k \<longleftrightarrow> length k = 65 \<and> validate_point B k = Some ()"
  "pf_normalize (proof_format_v3 B) = uri_normalize" "\<not> pf_nonce (proof_format_v3 B)"
  by (simp_all add: proof_format_v3_def)

text \<open>The producer on a key that has the width of the Rust array type.\<close>

definition typed_proof_v3 :: "backend \<Rightarrow> bounds \<Rightarrow> proof_input \<Rightarrow> produced_signing_input option" where
  "typed_proof_v3 B b p = (if length (pi_holder_public_key p) = 65 then proof_signing_input_v3 B p b else None)"

lemma typed_proof_Some:
  "typed_proof_v3 B b p = Some psi \<longleftrightarrow> length (pi_holder_public_key p) = 65 \<and> proof_signing_input_v3 B p b = Some psi"
  by (simp add: typed_proof_v3_def)

lemma proof_produced_v3:
  assumes "typed_proof_v3 B b p = Some psi"
  shows "proof_checked (proof_format_v3 B) b None p"
    and "build_produced B (Object (proof_header_members (proof_format_v3 B) (pi_holder_public_key p)))
      (Object (proof_members B (proof_format_v3 B) p None)) b = Some psi"
    and "request_digest_with B ECDSA_REQUEST_DIGEST_PREFIX (pi_operation p) (pi_cast_arguments p) b =
      Some (base64url_encode (request_print B (proof_format_v3 B) p))"
proof -
  note a = assms [unfolded typed_proof_Some]
  obtain d where d: "request_digest_v3 B (pi_operation p) (pi_cast_arguments p) b = Some d"
    using a by (auto simp: proof_signing_input_v3_def bind_Some split: if_splits)
  then have d': "d = base64url_encode (request_print B (proof_format_v3 B) p)"
    unfolding request_digest_v3_def request_print_def proof_format_v3_simps by (rule request_digest_Some)
  show "request_digest_with B ECDSA_REQUEST_DIGEST_PREFIX (pi_operation p) (pi_cast_arguments p) b =
      Some (base64url_encode (request_print B (proof_format_v3 B) p))"
    using d unfolding d' request_digest_v3_def .
  show "proof_checked (proof_format_v3 B) b None p"
    using a d d' by (auto simp: proof_signing_input_v3_def proof_checked_def b64url_to_string_def bind_Some
        Let_def split: if_splits)
  show "build_produced B (Object (proof_header_members (proof_format_v3 B) (pi_holder_public_key p)))
      (Object (proof_members B (proof_format_v3 B) p None)) b = Some psi"
    using a d d' by (auto simp: proof_signing_input_v3_def proof_header_members_def proof_members_def
        jwk_value_v3_def b64url_to_string_def bind_Some Let_def split: if_splits)
qed

lemma decode_proof_v3: "decode_proof_parts_v3 B t b = read_proof B (proof_format_v3 B) b t"
  by (simp add: decode_proof_parts_v3_def read_proof_def validate_proof_header_v3_def read_proof_header_def
      validate_proof_payload_v3_def read_proof_payload_def)

lemma point_of_text:
  "length k = 65 \<and> validate_point B k = Some () \<Longrightarrow> jcs_encode B b (jwk_value_v3 k) = Some t \<Longrightarrow> jwk_decode_public_v3 B t = Some k"
  using jwk_of_point by (auto simp: jcs_encode_Some)

interpretation proof_v3: proof_codec B "proof_format_v3 B" None "typed_proof_v3 B" "\<lambda>b t. decode_proof_parts_v3 B t b"
  by unfold_locales
    (simp_all add: proof_produced_v3 decode_proof_v3 header_utf8 alg_utf8_v3 jwk_portable_v3 jwk_canon_v3 point_of_text)

interpretation honest_v3: honest_scheme B "scheme_v3 B" 65 ECDSA_REQUEST_DIGEST_PREFIX "verify_grant_v3 B"
    "check_envelope_v3 B" "grant_format_v3 B" "\<lambda>b g. grant_signing_input_v3 B g b"
    "proof_format_v3 B" "typed_proof_v3 B"
  unfolding honest_scheme_def honest_scheme_axioms_def scheme_v3_simps
  using v3.envelope_scheme_axioms grant_v3.grant_codec_axioms proof_v3.proof_codec_axioms
  by (simp add: evaluate_v2_canon)

end
