(* ===== verification/Version_Chains.thy ===== *)
theory Version_Chains
  imports Version_Facts Chain_Facts
begin

text \<open>
  The consumption chains of versions 2 and 3: their rows are the row format of theory Chain_Facts at another
  version number and domain prefix, and their \<open>check_chain\<close> refines the log of theory Row_Log over it.
\<close>

section \<open>Row formats\<close>

lemma format_v2:
  "encode_consumption_entry_v2 B entry b = encode_row 2 CHAIN_DIGEST_PREFIX_v2 B entry b"
  "parse_row_v2 B row b = read_row 2 CHAIN_DIGEST_PREFIX_v2 B b row"
  by (simp_all add: encode_consumption_entry_v2_def encode_row_def row_value_def parse_row_v2_def read_row_def
      row_domain_hash_v2_def b64url_to_string_def Let_def)

lemma format_v3:
  "encode_consumption_entry_v3 B entry b = encode_row 3 CHAIN_DIGEST_PREFIX_v3 B entry b"
  "parse_row_v3 B row b = read_row 3 CHAIN_DIGEST_PREFIX_v3 B b row"
  by (simp_all add: encode_consumption_entry_v3_def encode_row_def row_value_def parse_row_v3_def read_row_def
      row_domain_hash_v3_def b64url_to_string_def Let_def)

abbreviation rows_v2 :: "backend \<Rightarrow> bounds \<Rightarrow> bytes \<Rightarrow> parsed_row option" where
  "rows_v2 B b row \<equiv> parse_row_v2 B row b"

abbreviation rows_v3 :: "backend \<Rightarrow> bounds \<Rightarrow> bytes \<Rightarrow> parsed_row option" where
  "rows_v3 B b row \<equiv> parse_row_v3 B row b"

lemma parse_rows_read_v2: "parse_rows_v2 B b rows = read_rows (rows_v2 B b) rows"
  by (induction rows) simp_all

lemma parse_rows_read_v3: "parse_rows_v3 B b rows = read_rows (rows_v3 B b) rows"
  by (induction rows) simp_all

interpretation chain_v2: row_reader "rows_v2 B" "row_domain_hash_v2 B" "check_chain_v2 B"
  by unfold_locales (simp_all add: format_v2 read_row_hash row_domain_hash_v2_def check_chain_v2_def
      rows_checked_def parse_rows_read_v2)

interpretation chain_v3: row_reader "rows_v3 B" "row_domain_hash_v3 B" "check_chain_v3 B"
  by unfold_locales (simp_all add: format_v3 read_row_hash row_domain_hash_v3_def check_chain_v3_def
      rows_checked_def parse_rows_read_v3)

section \<open>Domain separation\<close>

text \<open>The texts that the row hashes of two versions digest are never equal.\<close>

lemma row_prefixes_separate:
  "CHAIN_DIGEST_PREFIX @ r \<noteq> CHAIN_DIGEST_PREFIX_v2 @ q" "CHAIN_DIGEST_PREFIX @ r \<noteq> CHAIN_DIGEST_PREFIX_v3 @ q"
  "CHAIN_DIGEST_PREFIX_v2 @ r \<noteq> CHAIN_DIGEST_PREFIX_v3 @ q"
  by (simp_all add: CHAIN_DIGEST_PREFIX_def CHAIN_DIGEST_PREFIX_v2_def CHAIN_DIGEST_PREFIX_v3_def)

text \<open>A text is a row of at most one version.\<close>

lemma read_row_version:
  assumes "read_row n tag B b row = Some p" "read_row m tag' B b row = Some p'"
  shows "n = m"
  using assms by (auto simp: read_row_def bind_Some split: if_splits)

section \<open>A sample row of a version\<close>

lemma sample_row_of_version:
  assumes "version \<in> {1, 2, 3}"
  obtains row where "encode_row version tag sample_backend (sample_entry 1 genesis_hash) maximum =
      Some (row, sha256 sample_backend (tag @ row))" "length row \<le> 300"
proof -
  let ?e = "sample_entry 1 genesis_hash"
  let ?ms = "[(''chain_id'', String ''c''), (''commitment'', String (base64url_encode genesis_hash)),
      (''previous'', String (base64url_encode genesis_hash)), (''sequence'', Integer 1), (''v'', Integer version)]"
  let ?t = "jcs_text sample_backend (Object ?ms)"
  have z: "length genesis_hash = 32" "\<not> list_ex (\<lambda>c. byte c \<noteq> 0) genesis_hash"
    by (simp_all add: genesis_hash_def byte_def list_ex_iff)
  have d: "length (decimal_int 3) = 1" by code_simp
  have t: "length ?t \<le> 300"
    using assms sample_texts z(1) d by (subst length_object_text) (auto simp: jcs_text_scalar length_b64_text)
  then have enc: "jcs_encode sample_backend maximum (Object ?ms) = Some ?t"
    using assms z(1) by (auto simp: jcs_encode_Some maximum_def length_encode)
  have "row_value version ?e = Object ?ms" by (simp add: row_value_def sample_entry_def)
  then show ?thesis
    using t sample_texts(2) enc z(2)
    by (intro that [of ?t]) (auto simp: encode_row_def sample_entry_def maximum_def)
qed

text \<open>The expected chain of one row of a version.\<close>

definition single_expected :: "bytes \<Rightarrow> expected_chain" where
  "single_expected head = sample_expected\<lparr>ec_head_hash := head\<rparr>"

lemma single_row_accepted:
  assumes e: "encode_row version tag sample_backend (sample_entry 1 genesis_hash) maximum = Some (row, h)"
    and l: "length row \<le> 300"
  shows "chain_request_ok \<lparr>ci_rows = [row]\<rparr> (single_expected h)"
    and "expected_run (read_row version tag sample_backend) [row] (single_expected h)"
proof -
  have "length row \<le> json_bytes maximum" using l by (simp add: maximum_def)
  note r = encoded_row_read(1) [OF e _ _ _ maximum_fits(1) this]
  show "chain_request_ok \<lparr>ci_rows = [row]\<rparr> (single_expected h)"
    using l sample_texts(2)
    by (simp add: chain_request_ok_def single_expected_def sample_expected_def resolve_bounds_def maximum_def
        genesis_hash_def byte_def)
  show "expected_run (read_row version tag sample_backend) [row] (single_expected h)"
    using r sample_texts(1) sample_head_length(1)
    by (simp add: expected_run_def single_expected_def sample_expected_def resolve_bounds_def log_step_def
        sample_entry_def)
qed

end
