(* ===== verification/Version_Separation.thy ===== *)
theory Version_Separation
  imports Version_Exchange Version_Chains Content_Facts
begin

text \<open>
  No confusion between artifacts: what a compact is, its \<open>typ\<close> and its version \<open>v\<close>, can be read off it before
  any decoder runs, and each of the decoders of the three versions and of the two attestation profiles accepts
  only its own tag. Rows are separated by their version and archives by their magic.
\<close>

section \<open>Tags\<close>

definition member_named :: "bytes \<Rightarrow> json \<Rightarrow> json option" where
  "member_named n v = do { ms \<leftarrow> members_of v; map_of (rev ms) n }"

definition segment_json :: "bounds \<Rightarrow> bytes \<Rightarrow> json option" where
  "segment_json b seg = do { t \<leftarrow> base64url_decode seg; json_decode b t }"

definition compact_tag :: "bounds \<Rightarrow> bytes \<Rightarrow> (json \<times> json) option" where
  "compact_tag b c =
     (case split_on CHR ''.'' c of
        [h, p, s] \<Rightarrow>
          do {
            header \<leftarrow> segment_json b h;
            payload \<leftarrow> segment_json b p;
            typ \<leftarrow> member_named ''typ'' header;
            version \<leftarrow> member_named ''v'' payload;
            Some (typ, version)
          }
      | _ \<Rightarrow> None)"

definition tagged_as :: "bounds \<Rightarrow> bytes \<Rightarrow> bytes \<Rightarrow> int \<Rightarrow> bool" where
  "tagged_as b c typ version \<longleftrightarrow> compact_tag b c = Some (String typ, Integer version)"

lemma tagged_once: "tagged_as b c t n \<Longrightarrow> tagged_as b c t' n' \<Longrightarrow> t = t' \<and> n = n'"
  by (simp add: tagged_as_def)

lemma slot_named:
  "members_of v = Some ms \<Longrightarrow> collect names ms Map.empty = Some slots \<Longrightarrow> slots n = Some x \<Longrightarrow> member_named n v = Some x"
  by (auto simp: member_named_def collect_eq split: if_splits)

lemma decoded_segments:
  "decode_segment seg b = Some t \<Longrightarrow> base64url_decode seg = Some t"
  "decode_segment_ra seg b = Some t \<Longrightarrow> base64url_decode seg = Some t"
  by (auto simp: decode_segment_def decode_segment_ra_def bind_Some split: if_splits)

lemma parsed_segments:
  "parse_compact c = Some (h, p, s) \<Longrightarrow> split_on CHR ''.'' c = [h, p, s]"
  "split_compact_bounded c b = Some (h, p, s) \<Longrightarrow> split_on CHR ''.'' c = [h, p, s]"
  by (auto simp: parse_compact_def split_compact_bounded_def bind_Some split: list.splits if_splits)

text \<open>A decoder that takes a compact apart this way and finds the two members has seen the tag.\<close>

lemma tagged_parts:
  assumes "split_on CHR ''.'' c = [h, p, s]" "base64url_decode h = Some ht" "base64url_decode p = Some pt"
    and "json_decode b ht = Some hv" "json_decode b pt = Some pv"
    and "member_named ''typ'' hv = Some (String typ)" "member_named ''v'' pv = Some (Integer version)"
  shows "tagged_as b c typ version"
  using assms by (simp add: tagged_as_def compact_tag_def segment_json_def)

section \<open>Headers and payloads\<close>

lemma grant_tags:
  "read_grant_header F hv b = Some k \<Longrightarrow> member_named ''typ'' hv = Some (String TYP_GRANT)"
  "read_grant_payload F pv b = Some p \<Longrightarrow> member_named ''v'' pv = Some (Integer (gr_version F))"
  by (auto simp: read_grant_header_def read_grant_payload_def bind_Some intro: slot_named split: if_splits)

lemma proof_tags:
  "read_proof_header B F hv b = Some k \<Longrightarrow> member_named ''typ'' hv = Some (String (pf_typ F))"
  "read_proof_payload F pv b = Some p' \<Longrightarrow> member_named ''v'' pv = Some (Integer (pf_version F))"
  by (auto simp: read_proof_header_def read_proof_payload_def bind_Some intro: slot_named split: if_splits)

lemma anchor_tags:
  "validate_anchor_header B hv ht b = Some k \<Longrightarrow> member_named ''typ'' hv = Some (String TYP_CHAIN_ANCHOR)"
  "validate_anchor_payload B pv pt b = Some p \<Longrightarrow> member_named ''v'' pv = Some (Integer 1)"
  "validate_anchor_header_v2 B hv ht b = Some k \<Longrightarrow> member_named ''typ'' hv = Some (String TYP_CHAIN_ANCHOR)"
  "validate_anchor_payload_v2 B pv pt b = Some p \<Longrightarrow> member_named ''v'' pv = Some (Integer 2)"
  "validate_anchor_header_v3 B hv ht b = Some k \<Longrightarrow> member_named ''typ'' hv = Some (String TYP_CHAIN_ANCHOR)"
  "validate_anchor_payload_v3 B pv pt b = Some p \<Longrightarrow> member_named ''v'' pv = Some (Integer 3)"
  by (auto simp: validate_anchor_header_def validate_anchor_payload_def validate_anchor_header_v2_def
      validate_anchor_payload_v2_def validate_anchor_header_v3_def validate_anchor_payload_v3_def bind_Some
      intro: slot_named split: if_splits)

lemma transition_tags:
  "validate_transition_header B hv ht b = Some k \<Longrightarrow> member_named ''typ'' hv = Some (String TYP_KEY_TRANSITION)"
  "validate_transition_payload B pv pt b = Some q \<Longrightarrow> member_named ''v'' pv = Some (Integer 1)"
  "validate_transition_header_v2 B hv ht b = Some k \<Longrightarrow> member_named ''typ'' hv = Some (String TYP_KEY_TRANSITION)"
  "validate_transition_payload_v2 B pv pt b = Some q \<Longrightarrow> member_named ''v'' pv = Some (Integer 2)"
  "validate_transition_header_v3 B hv ht b = Some k \<Longrightarrow> member_named ''typ'' hv = Some (String TYP_KEY_TRANSITION)"
  "validate_transition_payload_v3 B pv pt b = Some q \<Longrightarrow> member_named ''v'' pv = Some (Integer 3)"
  by (auto simp: validate_transition_header_def validate_transition_payload_def validate_transition_header_v2_def
      validate_transition_payload_v2_def validate_transition_header_v3_def validate_transition_payload_v3_def bind_Some
      intro: slot_named split: if_splits)

lemma profile_tags:
  "validate_attestation_header B hv ht b = Some k \<Longrightarrow> member_named ''typ'' hv = Some (String TYP_ROLE_ATTESTATION)"
  "validate_attestation_payload B pv pt b = Some a \<Longrightarrow> member_named ''v'' pv = Some (Integer 1)"
  "validate_header B hv ht b = Some k \<Longrightarrow> member_named ''typ'' hv = Some (String TYP_CONTENT_ASSERTION)"
  "validate_payload B pv pt b = Some c \<Longrightarrow> member_named ''v'' pv = Some (Integer 1)"
  by (auto simp: validate_attestation_header_def validate_attestation_payload_def validate_header_def
      validate_payload_def bind_Some intro: slot_named split: if_splits)

section \<open>Decoders\<close>

lemma read_grant_tagged: "read_grant F b c = Some d \<Longrightarrow> tagged_as b c TYP_GRANT (gr_version F)"
  by (auto simp: read_grant_def bind_Some intro!: tagged_parts dest: parsed_segments decoded_segments grant_tags split: if_splits)

lemma read_proof_tagged: "read_proof B F b c = Some d \<Longrightarrow> tagged_as b c (pf_typ F) (pf_version F)"
  by (auto simp: read_proof_def bind_Some intro!: tagged_parts dest: parsed_segments decoded_segments proof_tags split: if_splits)

lemma anchor_tagged:
  "decode_anchor_parts B c b = Some d \<Longrightarrow> tagged_as b c TYP_CHAIN_ANCHOR 1"
  "decode_anchor_parts_v2 B c b = Some d \<Longrightarrow> tagged_as b c TYP_CHAIN_ANCHOR 2"
  "decode_anchor_parts_v3 B c b = Some d \<Longrightarrow> tagged_as b c TYP_CHAIN_ANCHOR 3"
  by (auto simp: decode_anchor_parts_def decode_anchor_parts_v2_def decode_anchor_parts_v3_def bind_Some
      intro!: tagged_parts dest: parsed_segments decoded_segments anchor_tags split: if_splits)

lemma transition_tagged:
  "decode_transition_parts B c b = Some d \<Longrightarrow> tagged_as b c TYP_KEY_TRANSITION 1"
  "decode_transition_parts_v2 B c b = Some d \<Longrightarrow> tagged_as b c TYP_KEY_TRANSITION 2"
  "decode_transition_parts_v3 B c b = Some d \<Longrightarrow> tagged_as b c TYP_KEY_TRANSITION 3"
  by (auto simp: decode_transition_parts_def decode_transition_parts_v2_def decode_transition_parts_v3_def bind_Some
      intro!: tagged_parts dest: parsed_segments decoded_segments transition_tags split: if_splits)

lemma profile_tagged:
  "decode_attestation_parts B c b = Some a \<Longrightarrow> tagged_as b c TYP_ROLE_ATTESTATION 1"
  "decode_parts B c b = Some x \<Longrightarrow> tagged_as b c TYP_CONTENT_ASSERTION 1"
  by (auto simp: decode_attestation_parts_def decode_parts_def copies_ca bind_Some
      intro!: tagged_parts dest: parsed_segments decoded_segments profile_tags split: if_splits)

section \<open>At most one decoder\<close>

definition at_most_one :: "bool list \<Rightarrow> bool" where
  "at_most_one bs \<longleftrightarrow> length (filter (\<lambda>x. x) bs) \<le> 1"

text \<open>Every decoder of a compact, with its tag.\<close>

definition decodings :: "backend \<Rightarrow> bounds \<Rightarrow> bytes \<Rightarrow> ((bytes \<times> int) \<times> bool) list" where
  "decodings B b c =
     [((TYP_GRANT, 1), decode_grant_parts B c b \<noteq> None),
      ((TYP_GRANT, 2), decode_grant_parts_v2 B c b \<noteq> None),
      ((TYP_GRANT, 3), decode_grant_parts_v3 B c b \<noteq> None),
      ((TYP_PROOF, 1), decode_proof_parts_for B c b Standard \<noteq> None),
      ((TYP_LOCAL_LOOPBACK_HTTP_PROOF, 1), decode_proof_parts_for B c b LocalLoopbackHttp \<noteq> None),
      ((TYP_PROOF, 2), decode_proof_parts_v2 B c b \<noteq> None),
      ((TYP_PROOF, 3), decode_proof_parts_v3 B c b \<noteq> None),
      ((TYP_CHAIN_ANCHOR, 1), decode_anchor_parts B c b \<noteq> None),
      ((TYP_CHAIN_ANCHOR, 2), decode_anchor_parts_v2 B c b \<noteq> None),
      ((TYP_CHAIN_ANCHOR, 3), decode_anchor_parts_v3 B c b \<noteq> None),
      ((TYP_KEY_TRANSITION, 1), decode_transition_parts B c b \<noteq> None),
      ((TYP_KEY_TRANSITION, 2), decode_transition_parts_v2 B c b \<noteq> None),
      ((TYP_KEY_TRANSITION, 3), decode_transition_parts_v3 B c b \<noteq> None),
      ((TYP_ROLE_ATTESTATION, 1), decode_attestation_parts B c b \<noteq> None),
      ((TYP_CONTENT_ASSERTION, 1), decode_parts B c b \<noteq> None)]"

lemma once_filtered:
  assumes "distinct (map fst xs)" "\<And>t. (t, True) \<in> set xs \<Longrightarrow> P t" "\<And>t t'. P t \<Longrightarrow> P t' \<Longrightarrow> t = t'"
  shows "at_most_one (map snd xs)"
  using assms
proof (induction xs)
  case (Cons x xs)
  obtain t ok where x: "x = (t, ok)" by (cases x)
  show ?case
  proof (cases ok)
    case True
    have "\<not> snd y" if y: "y \<in> set xs" for y
    proof
      assume "snd y"
      then obtain t' where t': "y = (t', True)" by (cases y) simp
      then have "(t', True) \<in> set (x # xs)" "(t, True) \<in> set (x # xs)" using y True by (simp_all add: x)
      then have "P t'" "P t" using Cons.prems(2) by blast+
      then have "t' = t" using Cons.prems(3) by blast
      then show False using Cons.prems(1) y t' by (force simp: x)
    qed
    then have "filter (\<lambda>x. x) (map snd xs) = []" by (simp add: filter_empty_conv)
    then show ?thesis by (simp add: at_most_one_def x)
  next
    case False
    have "at_most_one (map snd xs)" by (rule Cons.IH) (use Cons.prems in auto)
    then show ?thesis using False by (simp add: at_most_one_def x)
  qed
qed (simp add: at_most_one_def)

lemma decodings_tags: "distinct (map fst (decodings B b c))"
proof -
  have "distinct [(TYP_GRANT, 1 :: int), (TYP_GRANT, 2), (TYP_GRANT, 3), (TYP_PROOF, 1),
      (TYP_LOCAL_LOOPBACK_HTTP_PROOF, 1), (TYP_PROOF, 2), (TYP_PROOF, 3), (TYP_CHAIN_ANCHOR, 1), (TYP_CHAIN_ANCHOR, 2),
      (TYP_CHAIN_ANCHOR, 3), (TYP_KEY_TRANSITION, 1), (TYP_KEY_TRANSITION, 2), (TYP_KEY_TRANSITION, 3),
      (TYP_ROLE_ATTESTATION, 1), (TYP_CONTENT_ASSERTION, 1)]"
    by code_simp
  then show ?thesis by (simp only: decodings_def list.map fst_conv)
qed

lemma decodings_tagged:
  assumes "(t, True) \<in> set (decodings B b c)" shows "tagged_as b c (fst t) (snd t)"
proof -
  have grants: "decode_grant_parts B c b = Some g \<Longrightarrow> tagged_as b c TYP_GRANT 1"
      "decode_grant_parts_v2 B c b = Some g \<Longrightarrow> tagged_as b c TYP_GRANT 2"
      "decode_grant_parts_v3 B c b = Some g \<Longrightarrow> tagged_as b c TYP_GRANT 3" for g
    using read_grant_tagged [of "grant_format_v1 B"] read_grant_tagged [of "grant_format_v2 B"]
      read_grant_tagged [of "grant_format_v3 B"] by (simp_all add: decode_grant_v1 decode_grant_v2 decode_grant_v3)
  have proofs: "decode_proof_parts_for B c b Standard = Some p \<Longrightarrow> tagged_as b c TYP_PROOF 1"
      "decode_proof_parts_for B c b LocalLoopbackHttp = Some p \<Longrightarrow> tagged_as b c TYP_LOCAL_LOOPBACK_HTTP_PROOF 1"
      "decode_proof_parts_v2 B c b = Some p \<Longrightarrow> tagged_as b c TYP_PROOF 2"
      "decode_proof_parts_v3 B c b = Some p \<Longrightarrow> tagged_as b c TYP_PROOF 3" for p
    using read_proof_tagged [of B "proof_format_v1 B Standard"] read_proof_tagged [of B "proof_format_v1 B LocalLoopbackHttp"]
      read_proof_tagged [of B "proof_format_v2 B"] read_proof_tagged [of B "proof_format_v3 B"]
    by (simp_all add: decode_proof_v1 decode_proof_v2 decode_proof_v3)
  show ?thesis
    using assms grants proofs anchor_tagged transition_tagged profile_tagged
    by (auto simp: decodings_def)
qed

lemma one_decoder: "at_most_one (map snd (decodings B b c))"
  by (rule once_filtered [OF decodings_tags decodings_tagged]) (auto dest: tagged_once intro: prod_eqI)

section \<open>Rows and archives\<close>

lemma one_row_version:
  "at_most_one [parse_row B row b \<noteq> None, parse_row_v2 B row b \<noteq> None, parse_row_v3 B row b \<noteq> None]"
  using read_row_version [of 1 _ B b row] read_row_version [of 2 _ B b row]
  by (fastforce simp: at_most_one_def format_v1 format_v2 format_v3)

lemma one_archive_version:
  "at_most_one [scan_archive B b buf ch n \<noteq> None, scan_archive_v2 B b buf ch n \<noteq> None, scan_archive_v3 B b buf ch n \<noteq> None]"
proof -
  have l: "length ARCHIVE_MAGIC = 20" "length ARCHIVE_MAGIC_v2 = 20" "length ARCHIVE_MAGIC_v3 = 20" by code_simp+
  have "scan_archive B b buf ch n \<noteq> None \<Longrightarrow> take 20 buf = ARCHIVE_MAGIC"
    "scan_archive_v2 B b buf ch n \<noteq> None \<Longrightarrow> take 20 buf = ARCHIVE_MAGIC_v2"
    "scan_archive_v3 B b buf ch n \<noteq> None \<Longrightarrow> take 20 buf = ARCHIVE_MAGIC_v3"
    by (auto simp: scan_archive_def scan_archive_v2_def scan_archive_v3_def l split: if_splits)
  moreover have "ARCHIVE_MAGIC \<noteq> ARCHIVE_MAGIC_v2" "ARCHIVE_MAGIC \<noteq> ARCHIVE_MAGIC_v3" "ARCHIVE_MAGIC_v2 \<noteq> ARCHIVE_MAGIC_v3"
    by code_simp+
  ultimately show ?thesis
    by (cases "scan_archive B b buf ch n"; cases "scan_archive_v2 B b buf ch n"; cases "scan_archive_v3 B b buf ch n")
      (simp_all add: at_most_one_def)
qed

end
