(* ===== verification/Version_Archival.thy ===== *)
theory Version_Archival
  imports Version_Exchange Archival_Format
begin

text \<open>
  The anchors and key transitions of versions 2 and 3: their archival formats and the interpretations of the
  contract \<open>archival_codec\<close>. Both decoders check the genesis hash, which version 1 leaves to its verifier.
\<close>

section \<open>Version 2\<close>

definition archival_v2 :: "backend \<Rightarrow> archival_format" where
  "archival_v2 B =
     \<lparr>ar_alg = ALG_EDDSA, ar_version = 2, ar_digest = thumbprint_digest_unchecked B, ar_genesis = True\<rparr>"

lemma archival_v2_simps [simp]:
  "ar_alg (archival_v2 B) = ALG_EDDSA" "ar_version (archival_v2 B) = 2"
  "ar_digest (archival_v2 B) = thumbprint_digest_unchecked B" "ar_genesis (archival_v2 B)"
  by (simp_all add: archival_v2_def)

lemma anchor_produced_v2:
  assumes "boundary_anchor_signing_input_v2 B a b = Some psi"
  shows "anchor_checked b a \<and> build_produced B (Object (kid_members ALG_EDDSA (ba_key_id a) TYP_CHAIN_ANCHOR))
      (Object (anchor_members (archival_v2 B) a)) b = Some psi"
  using assms
  by (auto simp: boundary_anchor_signing_input_v2_def anchor_checked_def anchor_members_def kid_header_members [symmetric]
      public_key_thumbprint_raw_def b64url_to_string_def bind_Some list_ex_iff not_less dest!: thumbprint_raw_Some
      split: if_splits)

lemma transition_produced_v2:
  assumes "key_transition_signing_input_v2 B t b = Some psi"
  shows "transition_checked b t \<and> build_produced B (Object (kid_members ALG_EDDSA (kt_current_key_id t) TYP_KEY_TRANSITION))
      (Object (transition_members (archival_v2 B) t)) b = Some psi"
  using assms
  by (auto simp: key_transition_signing_input_v2_def transition_checked_def transition_members_def
      kid_header_members [symmetric] public_key_thumbprint_raw_def b64url_to_string_def bind_Some
      dest!: thumbprint_raw_Some split: if_splits)

lemma archival_decoded_v2:
  "decode_anchor_parts_v2 B c b = read_anchor B (archival_v2 B) b c"
  "decode_transition_parts_v2 B c b = read_transition B (archival_v2 B) b c"
  by (simp_all add: decode_anchor_parts_v2_def read_anchor_def validate_anchor_header_v2_def read_archival_header_def
      validate_anchor_payload_v2_def read_anchor_payload_def decode_transition_parts_v2_def read_transition_def
      validate_transition_header_v2_def validate_transition_payload_v2_def read_transition_payload_def)

interpretation archival_v2: archival_codec B "archival_v2 B" "\<lambda>b a. boundary_anchor_signing_input_v2 B a b"
    "\<lambda>b c. decode_anchor_parts_v2 B c b" "\<lambda>b t. key_transition_signing_input_v2 B t b"
    "\<lambda>b c. decode_transition_parts_v2 B c b"
  by unfold_locales
    (simp_all add: anchor_produced_v2 transition_produced_v2 archival_decoded_v2 unchecked_length header_utf8)

section \<open>Version 3\<close>

text \<open>The thumbprint of a P-256 key is the digest of its canonical JWK.\<close>

definition point_digest :: "backend \<Rightarrow> bytes \<Rightarrow> bytes" where
  "point_digest B k = sha256 B (jcs_text B (jwk_value_v3 k))"

lemma thumbprint_v3_Some: "thumbprint_raw_v3 B k = Some h \<Longrightarrow> h = point_digest B k"
  by (auto simp: thumbprint_raw_v3_def thumbprint_preimage_v3_def jwk_text_v3 point_digest_def split: if_splits)

definition archival_v3 :: "backend \<Rightarrow> archival_format" where
  "archival_v3 B = \<lparr>ar_alg = ALG_ECDSA_P256_v3, ar_version = 3, ar_digest = point_digest B, ar_genesis = True\<rparr>"

lemma archival_v3_simps [simp]:
  "ar_alg (archival_v3 B) = ALG_ECDSA_P256_v3" "ar_version (archival_v3 B) = 3"
  "ar_digest (archival_v3 B) = point_digest B" "ar_genesis (archival_v3 B)"
  by (simp_all add: archival_v3_def)

lemma anchor_produced_v3:
  assumes "boundary_anchor_signing_input_v3 B a b = Some psi"
  shows "anchor_checked b a \<and> build_produced B (Object (kid_members ALG_ECDSA_P256_v3 (ba_key_id a) TYP_CHAIN_ANCHOR))
      (Object (anchor_members (archival_v3 B) a)) b = Some psi"
  using assms
  by (auto simp: boundary_anchor_signing_input_v3_def anchor_checked_def anchor_members_def
      kid_header_members_v3 [symmetric] public_key_thumbprint_raw_v3_def b64url_to_string_def bind_Some list_ex_iff
      not_less dest!: thumbprint_v3_Some split: if_splits)

lemma transition_produced_v3:
  assumes "key_transition_signing_input_v3 B t b = Some psi"
  shows "transition_checked b t \<and>
    build_produced B (Object (kid_members ALG_ECDSA_P256_v3 (kt_current_key_id t) TYP_KEY_TRANSITION))
      (Object (transition_members (archival_v3 B) t)) b = Some psi"
  using assms
  by (auto simp: key_transition_signing_input_v3_def transition_checked_def transition_members_def
      kid_header_members_v3 [symmetric] public_key_thumbprint_raw_v3_def b64url_to_string_def bind_Some
      dest!: thumbprint_v3_Some split: if_splits)

lemma archival_decoded_v3:
  "decode_anchor_parts_v3 B c b = read_anchor B (archival_v3 B) b c"
  "decode_transition_parts_v3 B c b = read_transition B (archival_v3 B) b c"
  by (simp_all add: decode_anchor_parts_v3_def read_anchor_def validate_anchor_header_v3_def read_archival_header_def
      validate_anchor_payload_v3_def read_anchor_payload_def decode_transition_parts_v3_def read_transition_def
      validate_transition_header_v3_def validate_transition_payload_v3_def read_transition_payload_def)

interpretation archival_v3: archival_codec B "archival_v3 B" "\<lambda>b a. boundary_anchor_signing_input_v3 B a b"
    "\<lambda>b c. decode_anchor_parts_v3 B c b" "\<lambda>b t. key_transition_signing_input_v3 B t b"
    "\<lambda>b c. decode_transition_parts_v3 B c b"
  by unfold_locales
    (simp_all add: anchor_produced_v3 transition_produced_v3 archival_decoded_v3 alg_utf8_v3 point_digest_def sha256_width_def)

section \<open>All versions\<close>

text \<open>A producer of key transitions, its decoder and its key digest, version by version.\<close>

definition transition_versions ::
  "backend \<Rightarrow> ((key_transition \<Rightarrow> bounds \<Rightarrow> produced_signing_input option) \<times>
     (bytes \<Rightarrow> bounds \<Rightarrow> decoded_transition option) \<times> (bytes \<Rightarrow> bytes)) list" where
  "transition_versions B =
     [(key_transition_signing_input B, decode_transition_parts B, thumbprint_digest_unchecked B),
      (key_transition_signing_input_v2 B, decode_transition_parts_v2 B, thumbprint_digest_unchecked B),
      (key_transition_signing_input_v3 B, decode_transition_parts_v3 B, point_digest B)]"

lemma transitions_commit:
  assumes "(produce, decode, digest) \<in> set (transition_versions B)"
    and "produce t b = Some psi" "transition_ok B b t" "compact_fits b (archival_room b) psi sg" "length sg = 64"
    and "produce u b = Some chi" "transition_ok B b u" "compact_fits b (archival_room b) chi sg"
    and "psi_message psi = psi_message chi"
  shows "(\<exists>d. decode (framed psi sg) b = Some d \<and> (dt_key_id d, dt_payload d) = transition_view digest t) \<and>
    transition_view digest t = transition_view digest u"
proof -
  consider
    "produce = key_transition_signing_input B" "decode = decode_transition_parts B" "digest = thumbprint_digest_unchecked B"
    | "produce = key_transition_signing_input_v2 B" "decode = decode_transition_parts_v2 B" "digest = thumbprint_digest_unchecked B"
    | "produce = key_transition_signing_input_v3 B" "decode = decode_transition_parts_v3 B" "digest = point_digest B"
    using assms(1) by (auto simp: transition_versions_def)
  then show ?thesis
  proof cases
    case 1
    note a = assms(2-) [unfolded 1]
    show ?thesis unfolding 1
      using archival.transition_round_trip [OF a(1-4)] archival.transitions.message_commits [OF a(1,5,8,2,6,3,7,4)]
      by (auto simp: archival_v1_def)
  next
    case 2
    note a = assms(2-) [unfolded 2]
    show ?thesis unfolding 2
      using archival_v2.transition_round_trip [OF a(1-4)] archival_v2.transitions.message_commits [OF a(1,5,8,2,6,3,7,4)]
      by (auto simp: archival_v2_def)
  next
    case 3
    note a = assms(2-) [unfolded 3]
    show ?thesis unfolding 3
      using archival_v3.transition_round_trip [OF a(1-4)] archival_v3.transitions.message_commits [OF a(1,5,8,2,6,3,7,4)]
      by (auto simp: archival_v3_def)
  qed
qed

end
