(* ===== verification/Version_Exports.thy ===== *)
theory Version_Exports
  imports Version_Archival Version_Chains Export_Facts
begin

text \<open>
  The exports of versions 2 and 3: what they repeat of version 1, their archive formats, and the
  interpretations of the contract \<open>archive_scheme\<close>.
\<close>

section \<open>What the versions repeat\<close>

lemma frame_copies [simp]:
  "frame_into_v2 = frame_into" "frame_into_v3 = frame_into" "read_frame_v2 = read_frame" "read_frame_v3 = read_frame"
  "read_frame_bounded_v2 = read_frame_bounded" "read_frame_bounded_v3 = read_frame_bounded"
  by (simp_all add: fun_eq_iff frame_into_v2_def frame_into_v3_def frame_into_def read_frame_v2_def read_frame_v3_def
      read_frame_def read_frame_bounded_v2_def read_frame_bounded_v3_def read_frame_bounded_def)

lemma frames_copies [simp]:
  "read_frames_v2 buf c n k = read_frames buf c n k" "read_frames_v3 buf c n k = read_frames buf c n k"
  by (induction n arbitrary: k) simp_all

lemma sizes_copies [simp]:
  "add_frame_sizes_v2 acc fs = add_frame_sizes acc fs" "add_frame_sizes_v3 acc fs = add_frame_sizes acc fs"
  "add_chunk_sizes_v2 acc fs = add_chunk_sizes acc fs" "add_chunk_sizes_v3 acc fs = add_chunk_sizes acc fs"
  by (induction fs arbitrary: acc) simp_all

lemma frame_all_copies [simp]: "frame_all_v2 fs out = frame_all fs out" "frame_all_v3 fs out = frame_all fs out"
  by (induction fs arbitrary: out) simp_all

lemma match_copies [simp]:
  "anchor_matches_v2 = anchor_matches" "anchor_matches_v3 = anchor_matches"
  "transition_matches_v2 = transition_matches" "transition_matches_v3 = transition_matches"
  "header_agrees_v2 = header_agrees" "header_agrees_v3 = header_agrees"
  "constant_time_eq_v2 = constant_time_eq" "constant_time_eq_v3 = constant_time_eq"
  "check_versions_v2 = check_versions" "check_versions_v3 = check_versions"
  "bad_kid_v2 = bad_kid" "bad_kid_v3 = bad_kid"
  by (simp_all add: fun_eq_iff anchor_matches_v2_def anchor_matches_v3_def anchor_matches_def transition_matches_v2_def
      transition_matches_v3_def transition_matches_def header_agrees_v2_def header_agrees_v3_def header_agrees_def
      constant_time_eq_v2_def constant_time_eq_v3_def constant_time_eq_def check_versions_v2_def check_versions_v3_def
      check_versions_def bad_kid_v2_def bad_kid_v3_def bad_kid_def)

lemma key_path_walk_copies [simp]:
  "key_path_walk_v2 k f t seen ts e = key_path_walk k f t seen ts e"
  "key_path_walk_v3 k f t seen ts e = key_path_walk k f t seen ts e"
  by (induction ts arbitrary: k f t seen) simp_all

lemma context_copies [simp]:
  "key_path_ok_v2 = key_path_ok" "key_path_ok_v3 = key_path_ok"
  "require_nested_bounds_v2 = require_nested_bounds" "require_nested_bounds_v3 = require_nested_bounds"
  "expected_bindings_v2 = expected_bindings" "expected_bindings_v3 = expected_bindings"
  "check_expected_chain_v2 = check_expected_chain" "check_expected_chain_v3 = check_expected_chain"
  "check_expected_anchor_v2 = check_expected_anchor" "check_expected_anchor_v3 = check_expected_anchor"
  by (simp_all add: fun_eq_iff key_path_ok_v2_def key_path_ok_v3_def key_path_ok_def require_nested_bounds_v2_def
      require_nested_bounds_v3_def require_nested_bounds_def expected_bindings_v2_def expected_bindings_v3_def
      expected_bindings_def check_expected_chain_v2_def check_expected_chain_v3_def check_expected_chain_def
      check_expected_anchor_v2_def check_expected_anchor_v3_def check_expected_anchor_def)

lemma expected_transition_copies [simp]:
  "check_expected_transitions_v2 b ts = check_expected_transitions b ts"
  "check_expected_transitions_v3 b ts = check_expected_transitions b ts"
  by (induction ts) simp_all

lemma key_window_copies [simp]: "key_windows_v2 b ks = key_windows b ks" "key_windows_v3 b ks = key_windows b ks"
  by (induction ks) simp_all

lemma increasing_copies [simp]: "increasing_v2 = increasing" "increasing_v3 = increasing"
proof -
  have "increasing_v2 ts = increasing ts \<and> increasing_v3 ts = increasing ts" for ts
    by (induction ts rule: increasing.induct) simp_all
  then show "increasing_v2 = increasing" "increasing_v3 = increasing" by blast+
qed

section \<open>Version 2\<close>

definition archive_v2 :: "backend \<Rightarrow> archive_format" where
  "archive_v2 B =
     \<lparr>xa_magic = ARCHIVE_MAGIC_v2, xa_version = 2, xa_gate = (\<lambda>s. if signature_gate s then Some () else None),
      xa_chain = check_chain_v2 B, xa_read_anchor = decode_anchor_parts_v2 B,
      xa_read_transition = decode_transition_parts_v2 B, xa_anchor = verify_historical_anchor_v2 B,
      xa_transition = verify_key_transition_v2 B, xa_print = public_key_thumbprint_raw B, xa_key_ok = key_shape_ok_v2\<rparr>"

lemma archive_v2_simps [simp]:
  "xa_magic (archive_v2 B) = ARCHIVE_MAGIC_v2" "xa_version (archive_v2 B) = 2"
  "xa_gate (archive_v2 B) = (\<lambda>s. if signature_gate s then Some () else None)"
  "xa_chain (archive_v2 B) = check_chain_v2 B" "xa_read_anchor (archive_v2 B) = decode_anchor_parts_v2 B"
  "xa_read_transition (archive_v2 B) = decode_transition_parts_v2 B" "xa_anchor (archive_v2 B) = verify_historical_anchor_v2 B"
  "xa_transition (archive_v2 B) = verify_key_transition_v2 B" "xa_print (archive_v2 B) = public_key_thumbprint_raw B"
  "xa_key_ok (archive_v2 B) = key_shape_ok_v2"
  by (simp_all add: archive_v2_def)

lemma gate_v2: "gate_framed_v2 b fs = gate_frames (archive_v2 B) b fs"
  by (induction fs) (simp_all add: gate_branch)

lemma match_v2: "match_transitions_v2 B b cs es = match_frames (archive_v2 B) b cs es"
  by (induction cs arbitrary: es; case_tac es) simp_all

lemma transitions_v2: "verify_transitions_v2 B cs es ks = transition_steps (archive_v2 B) cs es ks"
  by (induction B cs es ks rule: verify_transitions_v2.induct) (simp_all cong: Option.bind_cong)

lemma prints_v2: "distinct_fingerprints_v2 B seen ks = print_steps (archive_v2 B) seen ks"
  by (induction ks arbitrary: seen) simp_all

lemma frames_v2:
  "archive_budget_v2 b h input = frame_budget (archive_v2 B) b h input"
  "assemble_archive_v2 h input = assemble_frames (archive_v2 B) h input"
  "check_chunks_v2 b chunks = chunk_steps (archive_v2 B) b chunks"
  "decode_archive_header_v2 B t b = read_header B (archive_v2 B) t b"
  "archive_header_value_v2 chain n (base64url_encode (ec_head_hash chain)) (base64url_encode (ec_previous_hash chain)) =
     header_json (archive_v2 B) chain n"
  by (simp_all add: archive_budget_v2_def frame_budget_def assemble_archive_v2_def assemble_frames_def check_chunks_v2_def
      chunk_steps_def decode_archive_header_v2_def read_header_def archive_header_value_v2_def header_json_def)

lemma scan_v2: "scan_archive_v2 B b buf chain n = scan_steps B (archive_v2 B) b buf chain n"
  by (simp add: scan_archive_v2_def scan_steps_def frames_v2)

lemma encode_v2: "encode_anchored_export_v2 B input e = encode_steps B (archive_v2 B) input e"
  by (simp add: encode_anchored_export_v2_def encode_steps_def b64url_to_string_def gate_v2 [where B = B] match_v2
      frames_v2(1-2) [where B = B] frames_v2(5) [where B = B])

lemma verify_v2: "verify_anchored_export_v2 B obj kc e = verify_steps B (archive_v2 B) obj kc e"
  by (simp add: verify_anchored_export_v2_def verify_steps_def scan_v2 frames_v2(3) [where B = B] authenticate_archive_v2_def
      authenticate_steps_def transitions_v2 check_export_chronology_v2_def chronology_steps_def prints_v2
      cong: if_cong)

lemma times_v2:
  "verify_historical_anchor_v2 B c k e = Some f \<Longrightarrow> af_anchored_at f = ea_anchored_at e"
  "verify_key_transition_v2 B c k k' t = Some g \<Longrightarrow> tf_effective_at g = ekt_effective_at t"
  by (auto simp: verify_historical_anchor_v2_def verify_key_transition_v2_def Let_def bind_Some split: if_splits)

interpretation archives_v2: archive_scheme B "archive_v2 B" "thumbprint_digest_unchecked B" "encode_anchored_export_v2 B"
    "scan_archive_v2 B" "verify_anchored_export_v2 B"
  by unfold_locales
    (simp_all add: chain_v2.counts times_v2 public_key_thumbprint_raw_def thumbprint_raw_Some encode_v2 scan_v2 verify_v2)

section \<open>Version 3\<close>

definition archive_v3 :: "backend \<Rightarrow> archive_format" where
  "archive_v3 B =
     \<lparr>xa_magic = ARCHIVE_MAGIC_v3, xa_version = 3, xa_gate = validate_rs_range,
      xa_chain = check_chain_v3 B, xa_read_anchor = decode_anchor_parts_v3 B,
      xa_read_transition = decode_transition_parts_v3 B, xa_anchor = verify_historical_anchor_v3 B,
      xa_transition = verify_key_transition_v3 B, xa_print = public_key_thumbprint_raw_v3 B, xa_key_ok = key_shape_ok_v3\<rparr>"

lemma archive_v3_simps [simp]:
  "xa_magic (archive_v3 B) = ARCHIVE_MAGIC_v3" "xa_version (archive_v3 B) = 3" "xa_gate (archive_v3 B) = validate_rs_range"
  "xa_chain (archive_v3 B) = check_chain_v3 B" "xa_read_anchor (archive_v3 B) = decode_anchor_parts_v3 B"
  "xa_read_transition (archive_v3 B) = decode_transition_parts_v3 B" "xa_anchor (archive_v3 B) = verify_historical_anchor_v3 B"
  "xa_transition (archive_v3 B) = verify_key_transition_v3 B" "xa_print (archive_v3 B) = public_key_thumbprint_raw_v3 B"
  "xa_key_ok (archive_v3 B) = key_shape_ok_v3"
  by (simp_all add: archive_v3_def)

lemma gate_v3: "gate_framed_v3 b fs = gate_frames (archive_v3 B) b fs"
  by (induction fs) simp_all

lemma match_v3: "match_transitions_v3 B b cs es = match_frames (archive_v3 B) b cs es"
  by (induction cs arbitrary: es; case_tac es) simp_all

lemma transitions_v3: "verify_transitions_v3 B cs es ks = transition_steps (archive_v3 B) cs es ks"
  by (induction B cs es ks rule: verify_transitions_v3.induct) (simp_all cong: Option.bind_cong)

lemma prints_v3: "distinct_fingerprints_v3 B seen ks = print_steps (archive_v3 B) seen ks"
  by (induction ks arbitrary: seen) simp_all

lemma frames_v3:
  "archive_budget_v3 b h input = frame_budget (archive_v3 B) b h input"
  "assemble_archive_v3 h input = assemble_frames (archive_v3 B) h input"
  "check_chunks_v3 b chunks = chunk_steps (archive_v3 B) b chunks"
  "decode_archive_header_v3 B t b = read_header B (archive_v3 B) t b"
  "archive_header_value_v3 chain n (base64url_encode (ec_head_hash chain)) (base64url_encode (ec_previous_hash chain)) =
     header_json (archive_v3 B) chain n"
  by (simp_all add: archive_budget_v3_def frame_budget_def assemble_archive_v3_def assemble_frames_def check_chunks_v3_def
      chunk_steps_def decode_archive_header_v3_def read_header_def archive_header_value_v3_def header_json_def)

lemma scan_v3: "scan_archive_v3 B b buf chain n = scan_steps B (archive_v3 B) b buf chain n"
  by (simp add: scan_archive_v3_def scan_steps_def frames_v3)

lemma encode_v3: "encode_anchored_export_v3 B input e = encode_steps B (archive_v3 B) input e"
  by (simp add: encode_anchored_export_v3_def encode_steps_def b64url_to_string_def gate_v3 [where B = B] match_v3
      frames_v3(1-2) [where B = B] frames_v3(5) [where B = B])

lemma verify_v3: "verify_anchored_export_v3 B obj kc e = verify_steps B (archive_v3 B) obj kc e"
  by (simp add: verify_anchored_export_v3_def verify_steps_def scan_v3 frames_v3(3) [where B = B] authenticate_archive_v3_def
      authenticate_steps_def transitions_v3 check_export_chronology_v3_def chronology_steps_def prints_v3
      cong: if_cong)

lemma times_v3:
  "verify_historical_anchor_v3 B c k e = Some f \<Longrightarrow> af_anchored_at f = ea_anchored_at e"
  "verify_key_transition_v3 B c k k' t = Some g \<Longrightarrow> tf_effective_at g = ekt_effective_at t"
  by (auto simp: verify_historical_anchor_v3_def verify_key_transition_v3_def Let_def bind_Some split: if_splits)

interpretation archives_v3: archive_scheme B "archive_v3 B" "point_digest B" "encode_anchored_export_v3 B"
    "scan_archive_v3 B" "verify_anchored_export_v3 B"
  by unfold_locales
    (simp_all add: chain_v3.counts times_v3 public_key_thumbprint_raw_v3_def thumbprint_v3_Some encode_v3 scan_v3 verify_v3)

section \<open>All versions\<close>

text \<open>The encoder, the scan, the verifier, the chain check and the key digest of each version.\<close>

record archive_functions =
  fn_encode :: "anchored_export_input \<Rightarrow> expected_export \<Rightarrow> anchored_export_encoded option"
  fn_scan :: "bounds \<Rightarrow> bytes \<Rightarrow> expected_chain \<Rightarrow> nat \<Rightarrow> scanned_archive option"
  fn_verify :: "archived_object \<Rightarrow> historical_key_chain \<Rightarrow> expected_anchored_export \<Rightarrow> anchored_export_facts option"
  fn_chain :: "chain_input \<Rightarrow> expected_chain \<Rightarrow> chain_facts option"
  fn_digest :: "bytes \<Rightarrow> bytes"

definition functions_v1 :: "backend \<Rightarrow> archive_functions" where
  "functions_v1 B = \<lparr>fn_encode = encode_anchored_export B, fn_scan = scan_archive B, fn_verify = verify_anchored_export B,
     fn_chain = check_chain B, fn_digest = thumbprint_digest_unchecked B\<rparr>"

definition functions_v2 :: "backend \<Rightarrow> archive_functions" where
  "functions_v2 B = \<lparr>fn_encode = encode_anchored_export_v2 B, fn_scan = scan_archive_v2 B,
     fn_verify = verify_anchored_export_v2 B, fn_chain = check_chain_v2 B, fn_digest = thumbprint_digest_unchecked B\<rparr>"

definition functions_v3 :: "backend \<Rightarrow> archive_functions" where
  "functions_v3 B = \<lparr>fn_encode = encode_anchored_export_v3 B, fn_scan = scan_archive_v3 B,
     fn_verify = verify_anchored_export_v3 B, fn_chain = check_chain_v3 B, fn_digest = point_digest B\<rparr>"

lemma functions_round_trip:
  assumes "V \<in> {functions_v1 B, functions_v2 B, functions_v3 B}"
    and "fn_encode V input e = Some enc" "b = resolve_bounds (ee_bounds e)"
    and "chain_typed b (ee_chain e)" "archive_header_bytes b \<le> json_bytes b"
  shows "fn_scan V b (axe_bytes enc) (ee_chain e) (length (ee_transitions e)) =
    Some \<lparr>sa_header = header_of (ee_chain e) (length (ee_transitions e)), sa_start_anchor = aei_start_anchor input,
      sa_transitions = aei_transitions input, sa_rows = aei_rows input, sa_end_anchor = aei_end_anchor input\<rparr>"
  using assms archives.round_trip [of B input e enc b] archives_v2.round_trip [of B input e enc b]
    archives_v3.round_trip [of B input e enc b]
  by (auto simp: functions_v1_def functions_v2_def functions_v3_def)

definition export_evidence ::
  "backend \<Rightarrow> archive_functions \<Rightarrow> archived_object \<Rightarrow> historical_key_chain \<Rightarrow> expected_anchored_export \<Rightarrow>
   anchored_export_facts \<Rightarrow> bool" where
  "export_evidence B V obj key_chain e facts \<longleftrightarrow>
     sha256 B (concat (ao_chunks obj)) = eae_digest e \<and> xf_digest facts = eae_digest e \<and>
     length (hkc_keys key_chain) = length (eae_transitions e) + 1 \<and>
     distinct (map (\<lambda>k. fn_digest V (hk_public_key k)) (hkc_keys key_chain)) \<and>
     chronological (ea_anchored_at (eae_start_anchor e)) (map ekt_effective_at (eae_transitions e))
       (ea_anchored_at (eae_end_anchor e)) \<and>
     (\<exists>s. fn_scan V (resolve_bounds (eae_bounds e)) (concat (ao_chunks obj)) (eae_chain e)
         (length (eae_transitions e)) = Some s \<and>
       fn_chain V \<lparr>ci_rows = sa_rows s\<rparr> ((eae_chain e)\<lparr>ec_bounds := Some (resolve_bounds (eae_bounds e))\<rparr>) \<noteq> None)"

lemma functions_evidence:
  assumes "V \<in> {functions_v1 B, functions_v2 B, functions_v3 B}" "fn_verify V obj key_chain e = Some facts"
  shows "export_evidence B V obj key_chain e facts"
proof -
  consider "V = functions_v1 B" | "V = functions_v2 B" | "V = functions_v3 B" using assms(1) by blast
  then show ?thesis
  proof cases
    case 1
    then have "verify_anchored_export B obj key_chain e = Some facts" using assms(2) by (simp add: functions_v1_def)
    from archives.evidence [OF this, unfolded archive_v1_simps] show ?thesis
      unfolding export_evidence_def 1 functions_v1_def archive_functions.simps .
  next
    case 2
    then have "verify_anchored_export_v2 B obj key_chain e = Some facts" using assms(2) by (simp add: functions_v2_def)
    from archives_v2.evidence [OF this, unfolded archive_v2_simps] show ?thesis
      unfolding export_evidence_def 2 functions_v2_def archive_functions.simps .
  next
    case 3
    then have "verify_anchored_export_v3 B obj key_chain e = Some facts" using assms(2) by (simp add: functions_v3_def)
    from archives_v3.evidence [OF this, unfolded archive_v3_simps] show ?thesis
      unfolding export_evidence_def 3 functions_v3_def archive_functions.simps .
  qed
qed

end
