(* ===== verification/Decoded_Rules.thy ===== *)
theory Decoded_Rules
  imports Credential_Check
begin

text \<open>
  What the decoders guarantee about the records they return, for every version: the field rules of grants and
  proofs. The verifiers rely on them: after a grant decodes, its operations can always be extracted again.
\<close>

section \<open>Rules\<close>

definition audiences_typed :: "bounds \<Rightarrow> bytes list \<Rightarrow> bool" where
  "audiences_typed b as \<longleftrightarrow>
     as \<noteq> [] \<and> length as \<le> audiences b \<and> distinct as \<and> (\<forall>a \<in> set as. validate_identifier a b = Some ())"

definition operations_typed :: "(bounds \<Rightarrow> json \<Rightarrow> unit option) \<Rightarrow> bounds \<Rightarrow> (bytes \<times> json list) list \<Rightarrow> bool" where
  "operations_typed valid b ops \<longleftrightarrow>
     ops \<noteq> [] \<and> length ops \<le> operations b \<and> distinct (map fst ops) \<and>
     (\<forall>(name, sels) \<in> set ops. validate_operation_name name b = Some () \<and> sels \<noteq> [] \<and>
        length sels \<le> selectors b \<and> (\<forall>s \<in> set sels. valid b s = Some ()))"

definition grant_typed :: "(bounds \<Rightarrow> json \<Rightarrow> unit option) \<Rightarrow> bounds \<Rightarrow> decoded_grant \<Rightarrow> bool" where
  "grant_typed valid b d \<longleftrightarrow>
     (let p = dg_payload d in
      validate_kid (dg_key_id d) b = Some () \<and> validate_identifier (gp_issuer p) b = Some () \<and>
      validate_identifier (gp_grant_id p) b = Some () \<and> audiences_typed b (gp_audiences p) \<and>
      length (gp_holder_thumbprint p) = 32 \<and>
      clock_value (gp_issued_at p) \<and> clock_value (gp_not_before p) \<and> clock_value (gp_expires_at p) \<and>
      gp_issued_at p < gp_expires_at p \<and> gp_not_before p < gp_expires_at p \<and>
      (\<exists>ops. extract_operations (dg_payload_json d) = Some ops \<and> operations_typed valid b ops))"

definition proof_typed ::
  "(bytes \<Rightarrow> bool) \<Rightarrow> (bounds \<Rightarrow> bytes \<Rightarrow> bytes option) \<Rightarrow> bool \<Rightarrow> bounds \<Rightarrow> decoded_proof \<Rightarrow> bool" where
  "proof_typed key_ok norm_uri nonce_needed b d \<longleftrightarrow>
     (let p = dp_payload d in
      key_ok (dp_holder_public_key d) \<and> validate_identifier (pp_proof_id p) b = Some () \<and>
      validate_method_token (pp_method p) b = Some () \<and> validate_uuid (pp_invocation_id p) = Some () \<and>
      validate_operation_name (pp_operation p) b = Some () \<and> length (pp_grant_hash p) = 32 \<and>
      length (pp_request_hash p) = 32 \<and> clock_value (pp_issued_at p) \<and>
      norm_uri b (pp_target_uri p) = Some (pp_target_uri p) \<and>
      (nonce_needed \<longrightarrow> pp_nonce p \<noteq> None) \<and>
      (\<forall>n. pp_nonce p = Some n \<longrightarrow> n \<noteq> [] \<and> length n \<le> nonce_bytes b))"

section \<open>Claims\<close>

lemma audience_items_typed:
  "audience_items b seen vs = Some as \<Longrightarrow>
   length as = length vs \<and> distinct as \<and> set as \<inter> seen = {} \<and> (\<forall>a \<in> set as. validate_identifier a b = Some ())"
  by (induction vs arbitrary: seen as) (force simp: bind_Some split: if_splits)+

lemma taken_audiences:
  assumes "take_audiences v b = Some as" "0 < audiences b" shows "audiences_typed b as"
proof -
  consider s where "v = Some (String s)" | vs where "v = Some (Array vs)"
    using assms(1) by (auto simp: take_audiences_def split: option.splits json.splits)
  then show ?thesis
  proof cases
    case 1
    then show ?thesis using assms by (auto simp: take_audiences_def audiences_typed_def bind_Some)
  next
    case (2 vs)
    then show ?thesis using assms audience_items_typed [of b "{}" vs as]
      by (auto simp: take_audiences_def audiences_typed_def split: if_splits)
  qed
qed

lemma taken_digest: "take_digest_b64u v b = Some h \<Longrightarrow> length h = 32" "take_cnf_jkt v b = Some h \<Longrightarrow> length h = 32"
  by (auto simp: take_digest_b64u_def take_cnf_jkt_def bind_Some split: if_splits)

lemma taken_strings:
  "take_string_or_uri v b = Some s \<Longrightarrow> validate_identifier s b = Some ()"
  "take_method_token v b = Some s \<Longrightarrow> validate_method_token s b = Some ()"
  "take_operation_name v b = Some s \<Longrightarrow> validate_operation_name s b = Some ()"
  "take_uuid v = Some s \<Longrightarrow> validate_uuid s = Some ()"
  by (auto simp: take_string_or_uri_def take_method_token_def take_operation_name_def take_uuid_def bind_Some)

lemma taken_nonce: "take_nonce v b = Some (Some n) \<Longrightarrow> n \<noteq> [] \<and> length n \<le> nonce_bytes b"
  by (auto simp: take_nonce_def split: option.splits json.splits if_splits)

section \<open>Operations\<close>

text \<open>An operation object with two members that are both known names has each of them once.\<close>

lemma two_members:
  assumes "length ms = 2" "collect [''name'', ''selectors''] ms Map.empty = Some slots"
    and "slots ''name'' = Some u" "slots ''selectors'' = Some v"
  shows "map_of ms ''name'' = Some u" "map_of ms ''selectors'' = Some v"
proof -
  obtain m n where ms: "ms = [m, n]" using assms(1) by (cases ms; cases "tl ms") auto
  show "map_of ms ''name'' = Some u" "map_of ms ''selectors'' = Some v"
    using assms(2-) unfolding ms by (cases m; cases n; auto split: if_splits)+
qed

lemma format_items_typed:
  assumes "format_items F b seen vs = Some ()"
  obtains ops where "operation_pairs vs = Some ops" "length ops = length vs" "distinct (map fst ops)"
    "fst ` set ops \<inter> seen = {}"
    "\<forall>(name, sels) \<in> set ops. validate_operation_name name b = Some () \<and> sels \<noteq> [] \<and>
        length sels \<le> selectors b \<and> (\<forall>s \<in> set sels. gr_valid F b s = Some ())"
  using assms
proof (induction vs arbitrary: seen thesis)
  case (Cons op vs)
  obtain ms slots name sel sels where op: "members_of op = Some ms" "length ms = 2"
      "collect [''name'', ''selectors''] ms Map.empty = Some slots" "slots ''name'' = Some (String name)"
      "slots ''selectors'' = Some sel" "items_of sel = Some sels"
      "validate_operation_name name b = Some ()" "name \<notin> seen" "sels \<noteq> []" "length sels \<le> selectors b"
      "validate_each (gr_valid F b) sels = Some ()" "format_items F b (insert name seen) vs = Some ()"
    using Cons.prems(2) by (auto simp: bind_Some string_of_def split: if_splits option.splits json.splits)
  have sel: "sel = Array sels" using op(6) by (cases sel) (simp_all add: items_of_def)
  note names = two_members [OF op(2-5)]
  show ?case
  proof (rule Cons.IH [OF _ op(12)])
    fix ops assume ops: "operation_pairs vs = Some ops" "length ops = length vs" "distinct (map fst ops)"
      "fst ` set ops \<inter> insert name seen = {}"
      "\<forall>(name, sels) \<in> set ops. validate_operation_name name b = Some () \<and> sels \<noteq> [] \<and>
        length sels \<le> selectors b \<and> (\<forall>s \<in> set sels. gr_valid F b s = Some ())"
    show thesis
      by (rule Cons.prems(1) [of "(name, sels) # ops"])
        (use op(1,7-11) names sel ops in \<open>auto simp: string_of_def validate_each_iff\<close>)
  qed
qed simp

section \<open>Decoded credentials\<close>

lemma read_grant_typed:
  assumes d: "read_grant F b c = Some d" and b: "tightened b"
  shows "grant_typed (gr_valid F) b d"
proof -
  obtain t h where v: "json_decode b t = Some (dg_payload_json d)" "read_grant_header F h b = Some (dg_key_id d)"
      "read_grant_payload F (dg_payload_json d) b = Some (dg_payload d)"
    using d by (auto simp: read_grant_def bind_Some split: if_splits)
  obtain p where p: "dg_payload d = p" by blast
  obtain ms slots vs where s: "members_of (dg_payload_json d) = Some ms" "collect grant_claims ms Map.empty = Some slots"
      "take_string_or_uri (slots ''iss'') b = Some (gp_issuer p)" "take_string_or_uri (slots ''jti'') b = Some (gp_grant_id p)"
      "take_audiences (slots ''aud'') b = Some (gp_audiences p)" "take_integral_date (slots ''iat'') = Some (gp_issued_at p)"
      "take_integral_date (slots ''nbf'') = Some (gp_not_before p)" "take_integral_date (slots ''exp'') = Some (gp_expires_at p)"
      "take_cnf_jkt (slots ''cnf'') b = Some (gp_holder_thumbprint p)" "slots ''operations'' = Some (Array vs)"
      "vs \<noteq> []" "length vs \<le> operations b" "format_items F b {} vs = Some ()"
      "gp_issued_at p < gp_expires_at p" "gp_not_before p < gp_expires_at p"
    using v(3) unfolding p
    by (auto simp: read_grant_payload_def read_operations_def items_of_def bind_Some split: if_splits json.splits)
  have k: "validate_kid (dg_key_id d) b = Some ()"
    using v(2) by (auto simp: read_grant_header_def bind_Some split: if_splits)
  have j: "dg_payload_json d = Object ms" using s(1) by (cases "dg_payload_json d") (simp_all add: members_of_def)
  have "distinct (map fst ms)" using json_decode_ok [OF v(1) tightened_limits(3) [OF b]] by (simp add: j)
  then have "map_of ms = slots" using s(2) by (simp add: collect_distinct split: if_splits)
  then have "map_of ms ''operations'' = Some (Array vs)" using s(10) by (simp only:)
  then have e: "extract_operations (dg_payload_json d) = operation_pairs vs"
    by (simp add: extract_operations_def j members_of_def items_of_def)
  obtain ops where ops: "operation_pairs vs = Some ops" "length ops = length vs" "distinct (map fst ops)"
    "\<forall>(name, sels) \<in> set ops. validate_operation_name name b = Some () \<and> sels \<noteq> [] \<and>
        length sels \<le> selectors b \<and> (\<forall>s \<in> set sels. gr_valid F b s = Some ())"
    by (rule format_items_typed [OF s(13)])
  moreover have "ops \<noteq> []" "length ops \<le> operations b" using ops(2) s(11,12) by auto
  ultimately have "operation_pairs vs = Some ops \<and> operations_typed (gr_valid F) b ops" by (simp add: operations_typed_def)
  moreover have "0 < audiences b" using b by (auto simp: tightened_def tightening_arms_def)
  moreover have "clock_value (gp_issued_at p)" "clock_value (gp_not_before p)" "clock_value (gp_expires_at p)"
    by (rule decoded_clock [OF v(1) s(1,2) _ b], fact)+
  ultimately show ?thesis
    using s k e taken_audiences taken_digest taken_strings by (simp add: grant_typed_def p Let_def)
qed

lemma read_proof_typed:
  assumes d: "read_proof B F b c = Some d" and b: "tightened b"
    and key: "\<And>t k. pf_key F t = Some k \<Longrightarrow> key_ok k"
  shows "proof_typed key_ok (pf_normalize F) (pf_nonce F) b d"
proof -
  obtain t h v where v: "json_decode b t = Some v" "read_proof_header B F h b = Some (dp_holder_public_key d)"
      "read_proof_payload F v b = Some (dp_payload d)"
    using d by (auto simp: read_proof_def bind_Some split: if_splits)
  obtain p where p: "dp_payload d = p" by blast
  obtain ms slots where s: "members_of v = Some ms" "collect proof_claims ms Map.empty = Some slots"
      "take_string_or_uri (slots ''jti'') b = Some (pp_proof_id p)" "take_method_token (slots ''htm'') b = Some (pp_method p)"
      "take_uuid (slots ''ba_inv'') = Some (pp_invocation_id p)" "take_operation_name (slots ''ba_op'') b = Some (pp_operation p)"
      "take_digest_b64u (slots ''ath'') b = Some (pp_grant_hash p)" "take_digest_b64u (slots ''ba_req'') b = Some (pp_request_hash p)"
      "take_integral_date (slots ''iat'') = Some (pp_issued_at p)" "take_nonce (slots ''nonce'') b = Some (pp_nonce p)"
      "\<not> (pf_nonce F \<and> pp_nonce p = None)" "pf_normalize F b (pp_target_uri p) = Some (pp_target_uri p)"
    using v(3) unfolding p by (auto simp: read_proof_payload_def bind_Some split: if_splits)
  have "key_ok (dp_holder_public_key d)"
    using v(2) key by (auto simp: read_proof_header_def bind_Some split: if_splits)
  moreover have "clock_value (pp_issued_at p)" by (rule decoded_clock [OF v(1) s(1,2,9) b])
  ultimately show ?thesis
    using s(3-8,10-12) taken_digest taken_strings taken_nonce [of "slots ''nonce''" b] by (auto simp: proof_typed_def p Let_def)
qed

end
