(* ===== verification/Version_Properties.thy ===== *)
theory Version_Properties
  imports Version_Separation Version_Exports Decoded_Rules Export_Properties
begin

text \<open>
  The sample exchanges of versions 2 and 3, the field rules of decoded credentials, and the properties of the
  later versions.
\<close>

section \<open>The sample exchange of version 2\<close>

definition compact_v2 :: bytes where
  "compact_v2 = framed (sample_grant_psi ALG_EDDSA 2 sample_print) sample_signature"

definition credentials_v2 :: credentials where
  "credentials_v2 = \<lparr>cr_grant = compact_v2,
     cr_proof = framed (sample_proof_psi (proof_format_v2 sample_backend) sample_key compact_v2) sample_signature\<rparr>"

lemma known_versions: "known_format ALG_EDDSA 2" "known_format ALG_ECDSA_P256_v3 3"
  by (simp_all add: known_format_def ALG_ECDSA_P256_v3_def)

lemma grant_made_v2:
  "grant_signing_input_v2 sample_backend (sample_grant sample_print) maximum = Some (sample_grant_psi ALG_EDDSA 2 sample_print)"
  using sample_valid sample_grant_built [OF known_versions(1) sample_print_length]
  by (simp add: grant_signing_input_v2_def grant_members_def sample_grant_def b64url_to_string_def maximum_def
      kid_header_members)

lemma proof_made_v2:
  "proof_signing_input_v2 sample_backend (sample_proof sample_key compact_v2) maximum =
     Some (sample_proof_psi (proof_format_v2 sample_backend) sample_key compact_v2)"
proof -
  let ?F = "proof_format_v2 sample_backend"
  have "request_digest_successor sample_backend ''o'' Null maximum =
      Some (base64url_encode (request_print sample_backend ?F (sample_proof sample_key compact_v2)))"
    using sample_digest [of ?F] by (simp add: request_digest_successor_def request_prefixes_def)
  moreover have "scan_compact compact_v2 maximum = Some ()"
    unfolding compact_v2_def by (rule sample_grant_fits(2) [OF known_versions(1) sample_print_length sample_key_facts(2)])
  moreover have "build_produced sample_backend (Object (proof_header_members ?F sample_key))
      (Object (proof_members sample_backend ?F (sample_proof sample_key compact_v2) None)) maximum =
      Some (sample_proof_psi ?F sample_key compact_v2)"
    by (rule sample_proof_built(1)) (simp_all add: known_versions small_jwk_v1)
  ultimately show ?thesis
    using sample_valid(5) proof_valid sample_key_acceptable
    by (simp add: proof_signing_input_v2_def proof_header_members_def proof_members_def jwk_value_def
        b64url_to_string_def)
      (simp add: sample_proof_def)
qed

lemma honest_sample_v2:
  "honest_grant (scheme_v2 sample_backend) (\<lambda>b g. grant_signing_input_v2 sample_backend g b)
     (sample_request sample_key) (sample_grant sample_print) (sample_grant_psi ALG_EDDSA 2 sample_print) sample_signature"
  "honest_proof sample_backend (scheme_v2 sample_backend) (\<lambda>b p. proof_signing_input_v2 sample_backend p b)
     (sample_request sample_key) (sample_proof sample_key compact_v2)
     (sample_proof_psi (proof_format_v2 sample_backend) sample_key compact_v2) sample_signature"
  "request_allowed (scheme_v2 sample_backend) (sample_request sample_key) (sample_grant sample_print)"
  "limits_ok (scheme_v2 sample_backend) (sample_request sample_key)"
  "er_nonce_mode (sample_request sample_key) = NotRequired"
  using sample_exchange [where V = "scheme_v2 sample_backend" and F = "proof_format_v2 sample_backend"
      and produce = "\<lambda>b g. grant_signing_input_v2 sample_backend g b" and alg = ALG_EDDSA and version = 2
      and pmake = "\<lambda>b p. proof_signing_input_v2 sample_backend p b" and key = sample_key and compact = compact_v2
      and h = sample_print and sg = sample_signature]
    grant_made_v2 proof_made_v2 known_versions small_jwk_v1 sample_print_length sample_key_facts(2)
    sample_verifies sample_valid(16)
  by simp_all

lemma accepted_v2:
  obtains f where "check_envelope_v2 sample_backend credentials_v2 (sample_request sample_key) = Some f" "ef_proof_id f = ''p''"
  using honest_v2.exchange_accepted [OF honest_sample_v2(1,2) _ _ sample_request_v1 honest_sample_v2(3-5)] sample_link(2)
  by (auto simp: credentials_v2_def compact_v2_def sample_proof_def)

section \<open>The sample exchange of version 3\<close>

definition print_v3 :: bytes where
  "print_v3 = sha256 sample_backend (jcs_text sample_backend (jwk_value_v3 sample_point))"

definition grant_psi_v3 :: produced_signing_input where
  "grant_psi_v3 = sample_grant_psi ALG_ECDSA_P256_v3 3 print_v3"

definition compact_v3 :: bytes where "compact_v3 = framed grant_psi_v3 es256_signature"

definition proof_psi_v3 :: produced_signing_input where
  "proof_psi_v3 = sample_proof_psi (proof_format_v3 sample_backend) sample_point compact_v3"

definition credentials_v3 :: credentials where
  "credentials_v3 = \<lparr>cr_grant = compact_v3, cr_proof = framed proof_psi_v3 es256_signature\<rparr>"

lemma print_v3_length: "length print_v3 = 32"
  by (simp add: print_v3_def sample_hash)

lemma print_v3_key: "thumbprint_raw_v3 sample_backend sample_point = Some print_v3"
  using sample_point_facts(4) by (simp add: thumbprint_raw_v3_def thumbprint_preimage_v3_def jwk_text_v3 print_v3_def)

lemma small_jwk_v3: "small_jwk (jwk_value_v3 sample_point)"
proof -
  note p = point_parts(2,3) [OF sample_point_facts(1,4)]
  have "length (jcs_text sample_backend (jwk_value_v3 sample_point)) \<le> 300"
    using jwk_length_v3 [OF sample_point_facts(1,4)] by simp
  then show ?thesis using p
    by (simp add: small_jwk_def) (simp add: jwk_value_v3_def maximum_def length_encode CRV_NIST_def KTY_EC_def)
qed

lemma grant_made_v3:
  "grant_signing_input_v3 sample_backend (sample_grant print_v3) maximum = Some grant_psi_v3"
  using sample_valid sample_grant_built [OF known_versions(2) print_v3_length]
  by (simp add: grant_signing_input_v3_def grant_members_def sample_grant_def b64url_to_string_def maximum_def
      kid_header_members_v3 grant_psi_v3_def)

lemma proof_made_v3:
  "proof_signing_input_v3 sample_backend (sample_proof sample_point compact_v3) maximum = Some proof_psi_v3"
proof -
  let ?F = "proof_format_v3 sample_backend"
  have "request_digest_v3 sample_backend ''o'' Null maximum =
      Some (base64url_encode (request_print sample_backend ?F (sample_proof sample_point compact_v3)))"
    using sample_digest [of ?F] by (simp add: request_digest_v3_def request_prefixes_def)
  moreover have "scan_compact compact_v3 maximum = Some ()"
    unfolding compact_v3_def grant_psi_v3_def
    by (rule sample_grant_fits(2) [OF known_versions(2) print_v3_length sample_point_facts(2)])
  moreover have "build_produced sample_backend (Object (proof_header_members ?F sample_point))
      (Object (proof_members sample_backend ?F (sample_proof sample_point compact_v3) None)) maximum = Some proof_psi_v3"
    unfolding proof_psi_v3_def by (rule sample_proof_built(1)) (simp_all add: known_versions small_jwk_v3)
  ultimately show ?thesis
    using sample_valid(5) proof_valid sample_point_facts(4)
    by (simp add: proof_signing_input_v3_def proof_header_members_def proof_members_def jwk_value_v3_def
        b64url_to_string_def)
      (simp add: sample_proof_def)
qed

lemma verifies_v3: "es256_verify sample_backend sample_point m es256_signature = Some ()"
  using sample_point_facts by (simp add: es256_verify_def sample_backend_def)

lemma honest_sample_v3:
  "honest_grant (scheme_v3 sample_backend) (\<lambda>b g. grant_signing_input_v3 sample_backend g b)
     (sample_request sample_point) (sample_grant print_v3) grant_psi_v3 es256_signature"
  "honest_proof sample_backend (scheme_v3 sample_backend) (typed_proof_v3 sample_backend)
     (sample_request sample_point) (sample_proof sample_point compact_v3) proof_psi_v3 es256_signature"
  "request_allowed (scheme_v3 sample_backend) (sample_request sample_point) (sample_grant print_v3)"
  "limits_ok (scheme_v3 sample_backend) (sample_request sample_point)"
  "er_nonce_mode (sample_request sample_point) = NotRequired"
  using sample_exchange [where V = "scheme_v3 sample_backend" and F = "proof_format_v3 sample_backend"
      and produce = "\<lambda>b g. grant_signing_input_v3 sample_backend g b" and alg = ALG_ECDSA_P256_v3 and version = 3
      and pmake = "typed_proof_v3 sample_backend" and key = sample_point and compact = compact_v3
      and h = print_v3 and sg = es256_signature]
    grant_made_v3 proof_made_v3 known_versions small_jwk_v3 print_v3_length sample_point_facts(1,2)
    verifies_v3 sample_valid(16)
  by (simp_all add: grant_psi_v3_def proof_psi_v3_def typed_proof_v3_def sample_proof_def)

lemma request_v3: "request_ok 65 (sample_request sample_point)"
  using sample_request_ok [of sample_point] sample_point_facts(1) by simp

lemma link_v3:
  "pi_grant_compact (sample_proof sample_point compact_v3) = framed grant_psi_v3 es256_signature"
  "thumbprint_raw_v3 sample_backend (pi_holder_public_key (sample_proof sample_point compact_v3)) =
     Some (gi_holder_thumbprint (sample_grant print_v3))"
  by (simp_all add: sample_proof_def sample_grant_def compact_v3_def print_v3_key)

lemma accepted_v3:
  obtains f where "check_envelope_v3 sample_backend credentials_v3 (sample_request sample_point) = Some f" "ef_proof_id f = ''p''"
  using honest_v3.exchange_accepted [OF honest_sample_v3(1,2) link_v3(1) _ request_v3 honest_sample_v3(3-5)] link_v3(2)
  by (auto simp: credentials_v3_def compact_v3_def sample_proof_def)

section \<open>Decoded keys\<close>

definition point_key :: "backend \<Rightarrow> bytes \<Rightarrow> bool" where
  "point_key B k \<longleftrightarrow> length k = 65 \<and> validate_point B k = Some ()"

lemma decoded_keys:
  "jwk_decode_public B t = Some k \<Longrightarrow> acceptable_public_key B k"
  "jwk_decode_public_v3 B t = Some k \<Longrightarrow> point_key B k"
  by (simp add: jwk_accepts) (auto simp: jwk_decode_public_v3_def point_key_def bind_Some Let_def split: if_splits)

definition typed_everywhere :: "backend \<Rightarrow> bounds \<Rightarrow> bytes \<Rightarrow> bool" where
  "typed_everywhere B b c \<longleftrightarrow>
     pred_option (grant_typed (\<lambda>b s. validate B s b) b) (decode_grant_parts B c b) \<and>
     pred_option (grant_typed (\<lambda>b s. validate_v2 B s b) b) (decode_grant_parts_v2 B c b) \<and>
     pred_option (grant_typed (\<lambda>b s. validate_v2 B s b) b) (decode_grant_parts_v3 B c b) \<and>
     pred_option (proof_typed (acceptable_public_key B) uri_normalize False b) (decode_proof_parts_for B c b Standard) \<and>
     pred_option (proof_typed (acceptable_public_key B) local_loopback_http_uri_normalize True b)
       (decode_proof_parts_for B c b LocalLoopbackHttp) \<and>
     pred_option (proof_typed (acceptable_public_key B) uri_normalize False b) (decode_proof_parts_v2 B c b) \<and>
     pred_option (proof_typed (point_key B) uri_normalize False b) (decode_proof_parts_v3 B c b)"

lemma decoders_typed:
  assumes b: "tightened b" shows "typed_everywhere B b c"
proof -
  note gt = read_grant_typed [OF _ b, of _ c]
  have grants: "pred_option (grant_typed (\<lambda>b s. validate B s b) b) (decode_grant_parts B c b)"
      "pred_option (grant_typed (\<lambda>b s. validate_v2 B s b) b) (decode_grant_parts_v2 B c b)"
      "pred_option (grant_typed (\<lambda>b s. validate_v2 B s b) b) (decode_grant_parts_v3 B c b)"
    using gt [of "grant_format_v1 B"] gt [of "grant_format_v2 B"] gt [of "grant_format_v3 B"]
    by (auto simp: decode_grant_v1 decode_grant_v2 decode_grant_v3 pred_option_def elim!: option.set_cases)
  have profiles: "profile_uri_normalize Standard = uri_normalize"
      "profile_uri_normalize LocalLoopbackHttp = local_loopback_http_uri_normalize"
    by (simp_all add: fun_eq_iff profile_uri_normalize_def)
  note pt = read_proof_typed [OF _ b, of B _ c]
  have "pred_option (proof_typed (acceptable_public_key B) uri_normalize False b) (decode_proof_parts_for B c b Standard)"
      "pred_option (proof_typed (acceptable_public_key B) local_loopback_http_uri_normalize True b)
        (decode_proof_parts_for B c b LocalLoopbackHttp)"
      "pred_option (proof_typed (acceptable_public_key B) uri_normalize False b) (decode_proof_parts_v2 B c b)"
      "pred_option (proof_typed (point_key B) uri_normalize False b) (decode_proof_parts_v3 B c b)"
    using pt [of "proof_format_v1 B Standard" _ "acceptable_public_key B"]
      pt [of "proof_format_v1 B LocalLoopbackHttp" _ "acceptable_public_key B"]
      pt [of "proof_format_v2 B" _ "acceptable_public_key B"] pt [of "proof_format_v3 B" _ "point_key B"]
    by (auto simp: decode_proof_v1 decode_proof_v2 decode_proof_v3 profiles decoded_keys pred_option_def
        elim!: option.set_cases)
  with grants show ?thesis by (simp add: typed_everywhere_def)
qed

section \<open>Properties\<close>

text \<open>C4: The envelope check of version 3, with ES256 signatures, P-256 thumbprints, the version 3 request
  digest and the version 2 selectors, accepts exactly the specification of the envelope, and returns the facts
  of the grant and the proof.\<close>

theorem check_envelope_v3_refines:
  assumes "tightened (er_bounds e)" "is_i64 (er_evaluation_time e)" "length (ti_public_key (er_trusted_issuer e)) = 65"
  shows "check_envelope_v3 B c e = Some f \<longleftrightarrow>
    (\<exists>g p. envelope_holds (scheme_v3 B) c e g p \<and> f = envelope_facts_of (scheme_v3 B) c e g p)"
  using assms by (rule v3.accepts_iff)

theorem check_envelope_v3_refines_witness:
  "\<exists>g p. envelope_holds (scheme_v3 sample_backend) credentials_v3 (sample_request sample_point) g p"
proof -
  obtain f where "check_envelope_v3 sample_backend credentials_v3 (sample_request sample_point) = Some f" by (rule accepted_v3)
  then show ?thesis
    using check_envelope_v3_refines [of "sample_request sample_point" sample_backend credentials_v3 f] request_v3
    by (auto simp: request_ok_def)
qed

text \<open>C7: The envelope check of version 2, with the successor request digest and the version 2 selectors, accepts
  exactly the specification of the envelope, and returns the facts of the grant and the proof.\<close>

theorem check_envelope_v2_refines:
  assumes "tightened (er_bounds e)" "is_i64 (er_evaluation_time e)" "length (ti_public_key (er_trusted_issuer e)) = 32"
  shows "check_envelope_v2 B c e = Some f \<longleftrightarrow>
    (\<exists>g p. envelope_holds (scheme_v2 B) c e g p \<and> f = envelope_facts_of (scheme_v2 B) c e g p)"
  using assms by (rule v2.accepts_iff)

theorem check_envelope_v2_refines_witness:
  "\<exists>g p. envelope_holds (scheme_v2 sample_backend) credentials_v2 (sample_request sample_key) g p"
proof -
  obtain f where "check_envelope_v2 sample_backend credentials_v2 (sample_request sample_key) = Some f" by (rule accepted_v2)
  then show ?thesis
    using check_envelope_v2_refines [of "sample_request sample_key" sample_backend credentials_v2 f] sample_request_v1
    by (auto simp: request_ok_def)
qed



text \<open>C6: No artifact means two things: of the fifteen decoders of compacts (grants, proofs, anchors and
  transitions of the three versions, loopback proofs, role attestations, content assertions) at most one
  accepts a given compact, a row is a row of at most one version, and an archive of at most one version.\<close>

theorem artifacts_separate:
  "at_most_one (map snd (decodings B b c)) \<and>
   at_most_one [parse_row B row b \<noteq> None, parse_row_v2 B row b \<noteq> None, parse_row_v3 B row b \<noteq> None] \<and>
   at_most_one [scan_archive B b buf ch n \<noteq> None, scan_archive_v2 B b buf ch n \<noteq> None, scan_archive_v3 B b buf ch n \<noteq> None]"
  using one_decoder one_row_version one_archive_version by blast

text \<open>C14: The chain checks of versions 2 and 3 refine the same append-only log as version 1, over their own rows:
  a chain is accepted exactly when the request is well formed and the log machine reads every row from the
  expected start to the expected head.\<close>

theorem version_chains_refine_log:
  assumes "is_i64 (ec_last_sequence e)"
  shows "(check_chain_v2 B input e = Some facts \<longleftrightarrow>
      chain_request_ok input e \<and> expected_run (rows_v2 B) (ci_rows input) e \<and> facts = chain_facts_of e) \<and>
    (check_chain_v3 B input e = Some facts \<longleftrightarrow>
      chain_request_ok input e \<and> expected_run (rows_v3 B) (ci_rows input) e \<and> facts = chain_facts_of e)"
  using chain_v2.check_iff [OF assms] chain_v3.check_iff [OF assms] by blast

theorem version_chains_refine_log_witness:
  "\<exists>row h. check_chain_v3 sample_backend \<lparr>ci_rows = [row]\<rparr> (single_expected h) = Some (chain_facts_of (single_expected h))"
proof -
  obtain row where row: "encode_row 3 CHAIN_DIGEST_PREFIX_v3 sample_backend (sample_entry 1 genesis_hash) maximum =
      Some (row, sha256 sample_backend (CHAIN_DIGEST_PREFIX_v3 @ row))" "length row \<le> 300"
    by (rule sample_row_of_version [of 3]) simp_all
  have "is_i64 (ec_last_sequence (single_expected h))" for h
    by (simp add: single_expected_def sample_expected_def is_i64_def i64_min_def i64_max_def)
  from version_chains_refine_log [OF this, of sample_backend "\<lparr>ci_rows = [row]\<rparr>"] single_row_accepted [OF row]
  show ?thesis by (auto simp: format_v3)
qed

text \<open>C15: What a decoder returns is well typed, in every version: identifiers, tokens and audiences obey their
  grammars and limits, digests have 32 bytes, times are below 2 to the 53 and in order, keys are acceptable,
  targets are normalized, and the operations of a decoded grant extract to distinct names with valid selectors.\<close>

theorem decoded_credentials_typed:
  assumes "tightened b"
  shows "typed_everywhere B b c"
  using assms by (rule decoders_typed)

theorem decoded_credentials_typed_witness:
  "\<exists>g. decode_grant_parts_v3 sample_backend compact_v3 maximum = Some g \<and>
     length (gp_holder_thumbprint (dg_payload g)) = 32"
proof -
  obtain g where g: "decode_grant_parts_v3 sample_backend compact_v3 maximum = Some g"
    using grant_v3.round_trip [OF grant_made_v3 sample_grant_ok [OF print_v3_length], of es256_signature]
      sample_grant_fits(1) [OF known_versions(2) print_v3_length sample_point_facts(2)] sample_point_facts(2)
    by (auto simp: compact_v3_def grant_psi_v3_def)
  then show ?thesis
    using decoded_credentials_typed [OF tightened_maximum, of sample_backend compact_v3]
    by (simp add: typed_everywhere_def grant_typed_def Let_def)
qed

text \<open>C11: The archive is a faithful wire format in every version: scanning what \<open>encode_anchored_export\<close> wrote
  reads back the header of the expected chain, both anchors, every transition and every row, and ends at the last
  byte.\<close>

theorem archive_round_trip:
  assumes "V \<in> {functions_v1 B, functions_v2 B, functions_v3 B}"
    and "fn_encode V input e = Some enc" "b = resolve_bounds (ee_bounds e)"
    and "chain_typed b (ee_chain e)" "archive_header_bytes b \<le> json_bytes b"
  shows "fn_scan V b (axe_bytes enc) (ee_chain e) (length (ee_transitions e)) =
    Some \<lparr>sa_header = header_of (ee_chain e) (length (ee_transitions e)), sa_start_anchor = aei_start_anchor input,
      sa_transitions = aei_transitions input, sa_rows = aei_rows input, sa_end_anchor = aei_end_anchor input\<rparr>"
  using assms by (rule functions_round_trip)

theorem archive_round_trip_witness:
  "\<exists>s. scan_archive sample_backend maximum sample_archive sample_expected 0 = Some s \<and>
     sa_rows s = [sample_row 1 genesis_hash]"
proof -
  have "fn_encode (functions_v1 sample_backend) sample_export_input sample_export =
      Some \<lparr>axe_bytes = sample_archive, axe_byte_count = length sample_archive, axe_digest = sha256 sample_backend sample_archive\<rparr>"
    using sample_export_encodes by (simp add: functions_v1_def)
  from archive_round_trip [OF _ this, of sample_backend maximum] sample_typed show ?thesis
    by (simp add: functions_v1_def sample_export_def sample_export_input_def resolve_bounds_def maximum_def)
qed

text \<open>C10: An accepted export is evidence in every version: the bytes have the expected digest, the historical keys
  are as many as the transitions and one more and have distinct fingerprints, the times of the start anchor and
  the transitions increase strictly up to the end anchor, and the scanned rows are an accepted chain.\<close>

theorem verified_export_evidence:
  assumes "V \<in> {functions_v1 B, functions_v2 B, functions_v3 B}" "fn_verify V obj key_chain e = Some facts"
  shows "export_evidence B V obj key_chain e facts"
  using assms by (rule functions_evidence)

theorem verified_export_evidence_witness:
  "\<exists>facts. export_evidence sample_backend (functions_v1 sample_backend) sample_object sample_history sample_expectation facts"
proof -
  obtain facts where "verify_anchored_export sample_backend sample_object sample_history sample_expectation = Some facts"
    by (rule sample_export_verifies)
  then have "fn_verify (functions_v1 sample_backend) sample_object sample_history sample_expectation = Some facts"
    by (simp add: functions_v1_def)
  from verified_export_evidence [OF _ this, of sample_backend] show ?thesis by blast
qed

text \<open>C13: A key transition survives the wire, and its signature commits to it, in every version: the compact of a
  produced transition decodes to the identifiers, the time and the fingerprints of both keys, so two transitions
  with the same signing message agree on all of them.\<close>

theorem transition_commits:
  assumes "(produce, decode, digest) \<in> set (transition_versions B)"
    and "produce t b = Some psi" "transition_ok B b t" "compact_fits b (archival_room b) psi sg" "length sg = 64"
    and "produce u b = Some chi" "transition_ok B b u" "compact_fits b (archival_room b) chi sg"
    and "psi_message psi = psi_message chi"
  shows "(\<exists>d. decode (framed psi sg) b = Some d \<and> (dt_key_id d, dt_payload d) = transition_view digest t) \<and>
    transition_view digest t = transition_view digest u"
  using assms by (rule transitions_commit)

theorem transition_commits_witness:
  "\<exists>d. decode_transition_parts sample_backend (framed sample_transition_psi sample_signature) maximum = Some d \<and>
     dt_key_id d = ''k''"
proof -
  have "(key_transition_signing_input sample_backend, decode_transition_parts sample_backend,
      thumbprint_digest_unchecked sample_backend) \<in> set (transition_versions sample_backend)"
    by (simp add: transition_versions_def)
  from transition_commits [OF this sample_transition_made sample_transition_ok sample_key_facts(2)
      sample_transition_made sample_transition_ok]
  show ?thesis by (auto simp: transition_view_def sample_transition_def)
qed

end
