(* ===== verification/Spec2Isabelle.thy ===== *)
theory Spec2Isabelle
  imports Json_Roundtrip Compact Uri_Facts Ed25519 Es256 Jwk_Facts Digest_Facts
    Selector_Facts Chain_Facts Protocol_Properties Export_Properties Profile_Properties
    Version_Properties
begin

text \<open>
  A verification development for the Rust SDK of the Bounded Authority Protocol (\<open>sdks/rust/src\<close>).

  THE PROGRAM. An issuer signs a \<^bold>\<open>grant\<close>: a compact of three base64url segments joined by dots (protected
  header, payload, signature) that allows named operations, under selectors on their arguments, to the holder of
  a key, for some audiences and a time window. The holder signs a \<^bold>\<open>proof\<close> over the hash of the grant and the
  digest of one request. The verifier's \<open>check_envelope\<close> accepts a pair of both for the request it expects. A
  used authority leaves a \<^bold>\<open>row\<close> in a hash chain; \<open>check_chain\<close> verifies a range of rows. Signed boundary
  \<^bold>\<open>anchors\<close> and key \<^bold>\<open>transitions\<close> fix a range in time, and an \<^bold>\<open>anchored export\<close> is the archive of rows,
  anchors and transitions that \<open>verify_anchored_export\<close> checks against historical keys. Two further profiles
  attest roles of keys and assert content in lineages. Versions 1, 2 and 3 of the protocol repeat these functions
  with other version numbers, domain prefixes, selectors, keys and signature schemes. The state of every
  operation is its arguments: nothing is kept between calls, every error is the one value \<open>Invalid\<close>, and a
  function of the source is a HOL function into an option.

  THE CODE, THEORY BY THEORY. Names are those of the source; a suffix \<open>_v2\<close>, \<open>_v3\<close>, \<open>_ra\<close> or \<open>_ca\<close> is the module
  (\<open>v2.rs\<close>, \<open>v3.rs\<close>, \<open>role_attestation.rs\<close>, \<open>content_assertion.rs\<close>) where a name occurs in several.
  \<^item> Prelude: \<open>error.rs\<close>, results as options, \<open>i64\<close> and \<open>u64\<close> arithmetic with its overflow branches, bytes,
    splitting and sorting; the interfaces \<open>codec\<close> and \<open>name_order\<close>. Unicode: UTF-8 and UTF-16. Backend: the
    parameters for SHA-256, the curves and the float printer.
  \<^item> Bounds: \<open>bounds.rs\<close>. Json_Value, Decimal, Json: \<open>json.rs\<close>. Jcs: \<open>jcs.rs\<close>. Base64url, Compact, Types, Uri,
    Ed25519, Es256, Jwk, Digest, Selector: the files of the same names; Types also holds \<open>facts.rs\<close>.
  \<^item> \<open>v1.rs\<close>: Claims (member tables and field validators), Grant (decoders, \<open>verify_grant\<close>, \<open>check_envelope\<close>),
    Producers (signing inputs), Chain (rows and \<open>check_chain\<close>), Anchors (anchors, transitions,
    \<open>assemble_compact\<close>), Export (archives).
  \<^item> \<open>v2.rs\<close> and \<open>v3.rs\<close>: the same six theories with the suffix \<open>_V2\<close> and \<open>_V3\<close>, translated from their own files;
    Jwk_V3 is the P-256 key codec of \<open>v3.rs\<close>. The structs of \<open>v3.rs\<close> that only widen a key to 65 bytes share the
    records of Types, where a key is a byte list.
  \<^item> Rust_Std (checked and \<open>usize\<close> arithmetic), Attestation (\<open>role_attestation.rs\<close>), Content_Assertion
    (\<open>content_assertion.rs\<close>).

  THE LEMMAS, FROM THE BYTES UP.
  \<^item> Json_Facts: what the decoder returns obeys the bounds; number lexemes mean their decimal value. Jcs_Facts and
    Json_Roundtrip: the encoder refines the canonical text, and decoding that text is canonicalization. Canonical:
    objects with named slots through encoder and decoder.
  \<^item> Uri_Facts, Jwk_Facts, Jwk_V3_Facts, Digest_Facts, Selector_Facts, Selector_Canon: path normalization against a
    stack of segments, key round trips, request digests bind their request, selectors against their meaning and
    under canonicalization.
  \<^item> Producer_Facts: framing, and the interface \<open>artifact\<close> of a producer and its decoder. Grant_Format, Proof_Format,
    Archival_Format: what a version writes into a grant, a proof, an anchor or a transition, and the round trip,
    proved once in the interfaces \<open>grant_codec\<close>, \<open>proof_codec\<close>, \<open>archival_codec\<close>.
  \<^item> Credential_Check: the abstract specification of envelope acceptance (plain integer windows, independent
    conditions) over a \<open>scheme\<close>, the verifier's steps, and their equivalence in the interface \<open>envelope_scheme\<close>;
    \<open>honest_scheme\<close> joins it with the codecs: what honest parties produce is accepted. Decoded_Rules: the
    field rules of decoded credentials.
  \<^item> Row_Log: the append-only log as a state machine, the interfaces \<open>hash_chain\<close> (tamper evidence) and \<open>row_reader\<close>
    (the passes of \<open>check_chain\<close> are a run of the log). Archive_Format: the interface \<open>framing\<close> of frames and
    \<open>archive_scheme\<close> of an export, with the round trip of the archive and the evidence of an accepted one.
  \<^item> Grant_Facts, Envelope_Facts, Chain_Facts, Export_Facts interpret these for version 1; Version_Facts (the copied
    helpers are the same functions), Version_Envelopes, Version_Exchange, Version_Archival, Version_Chains and
    Version_Exports for versions 2 and 3. Version_Separation: a compact, row or archive is read by at most one
    decoder of all versions and profiles.
  \<^item> Attestation_Facts and Content_Facts: the two attestation profiles; content lineages as an inductive relation.
  \<^item> Sample_Exchange, Protocol_Properties, Export_Properties, Profile_Properties, Version_Properties: concrete
    exchanges, exports, attestations and lineages under the sample backend, and the properties. A property is
    stated after a text with its number; a theorem with hypotheses has a witness next to it.

  BOUNDS AND TERMINATION. Every function is total: recursion is structural or has a measure (the JSON parser and
  the URI loops consume input), so no fuel is used, and results are produced for every input. Integers are
  \<open>int\<close> and \<open>nat\<close> with the overflow branch of each checked operation written out; conversions between \<open>i64\<close> and
  \<open>u64\<close> wrap. \<open>usize\<close> has 64 bits. The widths of Rust arrays and the range of \<open>i64\<close> arguments are hypotheses
  (\<open>request_ok\<close>, \<open>grant_ok\<close>, \<open>chain_typed\<close> and the like); \<open>tightened\<close> is what \<open>bounds_new\<close> guarantees.

  PARAMETERS AND HYPOTHESES. The crates for SHA-256, Ed25519 point and signature equations, P-256 and the shortest
  float printer are the record \<open>backend\<close>. What properties assume of it is named: digests of 32 bytes
  (\<open>sha256_width\<close>), no collision between two given texts (\<open>collision_free\<close>), ASCII float text (\<open>ryu_ascii\<close>). The
  sample backend satisfies what the witnesses need.

  NOT MODELLED. \<open>lib.rs\<close> only re-exports. The unit tests and the conformance runners (\<open>sdks/rust/conformance\<close>) read
  corpus files and call the library: file access and serde, no logic of the protocol. The SDKs in other languages
  are separate programs. Allocation, and the timing of \<open>constant_time_eq\<close>, have no counterpart in the model. The
  exponent accumulator of \<open>json.rs\<close> line 463 wraps in \<open>exp_value\<close>, as in a release build; where a build with
  overflow checks panics instead is \<open>exp_value_checked\<close>.
\<close>

end
